(* ===== verification/Py_Prelude.thy ===== *)
theory Py_Prelude
  imports Complex_Main "HOL-Library.AList" "HOL-Library.Char_ord" "HOL-Library.List_Lexorder"
    "HOL-Library.Sublist" "HOL-Library.Multiset"
begin

text \<open>
  The part of Python that every component of the development uses: exceptions as values of one
  datatype, the state-and-exception type in which the stateful code is written, dynamically typed
  values (what JSON, configuration and recipe dictionaries hold), insertion-ordered dictionaries,
  and the string methods the code calls. Lemmas about them are collected in the named theorem
  lists \<open>py_simps\<close> (unfolding of the state-and-exception combinators) and \<open>str_simps\<close>
  (the string methods). A character is one of the 256 values of HOL's char, so strings hold the
  Latin-1 code points.
\<close>

named_theorems py_simps
named_theorems str_simps

section \<open>Exceptions and the state-and-exception type\<close>

text \<open>One constructor per exception class that the modelled code raises or catches. A class
  whose message nothing reads has no argument. \<open>OutOfFuel\<close> is no exception of the program: it marks
  that the fuel of a loop with no bound of its own is used up, and no modelled handler catches it.\<close>

datatype exc =
    KeyError
  | IndexError
  | ValueError
  | TypeError
  | AttributeError
  | ZeroDivisionError
  | UnboundLocalError
  | OSError int
  | NoOptionError
  | NoSectionError
  | PlainException string
  | FileSystemException string
  | MissingDrives string
  | InvalidRequest string
  | ResponseError string
  | Timeout string
  | InvalidSession
  | NotAuthorized
  | NotFound
  | ServerError string
  | SysExit int
  | OutOfFuel

type_synonym 'a res = "exc + 'a"

type_synonym ('s, 'a) py = "'s \<Rightarrow> 'a res \<times> 's"

definition ret :: "'a \<Rightarrow> ('s, 'a) py" where
  "ret x = (\<lambda>s. (Inr x, s))"

definition throw :: "exc \<Rightarrow> ('s, 'a) py" where
  "throw e = (\<lambda>s. (Inl e, s))"

definition bnd :: "('s, 'a) py \<Rightarrow> ('a \<Rightarrow> ('s, 'b) py) \<Rightarrow> ('s, 'b) py" where
  "bnd m f = (\<lambda>s. case m s of (Inl e, s') \<Rightarrow> (Inl e, s') | (Inr x, s') \<Rightarrow> f x s')"

definition seq :: "('s, 'a) py \<Rightarrow> ('s, 'b) py \<Rightarrow> ('s, 'b) py" where
  "seq m k = bnd m (\<lambda>_. k)"

definition gets :: "('s \<Rightarrow> 'a) \<Rightarrow> ('s, 'a) py" where
  "gets f = (\<lambda>s. (Inr (f s), s))"

definition modify :: "('s \<Rightarrow> 's) \<Rightarrow> ('s, unit) py" where
  "modify f = (\<lambda>s. (Inr (), f s))"

definition lift :: "'a res \<Rightarrow> ('s, 'a) py" where
  "lift r = (\<lambda>s. (r, s))"

text \<open>\<open>try: m; except e: h e\<close>, where the handler re-raises what it does not name.\<close>

definition catch :: "('s, 'a) py \<Rightarrow> (exc \<Rightarrow> ('s, 'a) py) \<Rightarrow> ('s, 'a) py" where
  "catch m h = (\<lambda>s. case m s of (Inl e, s') \<Rightarrow> h e s' | (Inr x, s') \<Rightarrow> (Inr x, s'))"

definition whenM :: "bool \<Rightarrow> ('s, unit) py \<Rightarrow> ('s, unit) py" where
  "whenM b m = (if b then m else ret ())"

text \<open>\<open>for x in xs: body x\<close>; an exception of the body leaves the loop.\<close>

fun for_each :: "'x list \<Rightarrow> ('x \<Rightarrow> ('s, unit) py) \<Rightarrow> ('s, unit) py" where
  "for_each [] body = ret ()"
| "for_each (x # xs) body = seq (body x) (for_each xs body)"

text \<open>Statements one after the other, \<open>try: m; except KeyError: h\<close>, and \<open>try: m; except E: h\<close> for the
  classes \<open>p\<close>.\<close>

definition block :: "('s, unit) py list \<Rightarrow> ('s, unit) py" where
  "block ms = for_each ms (\<lambda>m. m)"

definition on_exc :: "(exc \<Rightarrow> bool) \<Rightarrow> ('s, 'a) py \<Rightarrow> ('s, 'a) py \<Rightarrow> ('s, 'a) py" where
  "on_exc p m h = catch m (\<lambda>e. if p e then h else throw e)"

abbreviation on_key :: "('s, 'a) py \<Rightarrow> ('s, 'a) py \<Rightarrow> ('s, 'a) py" where
  "on_key \<equiv> on_exc (\<lambda>e. e = KeyError)"

text \<open>What \<open>except Exception\<close> catches.\<close>

definition is_Exception :: "exc \<Rightarrow> bool" where
  "is_Exception e = (case e of OutOfFuel \<Rightarrow> False | SysExit _ \<Rightarrow> False | _ \<Rightarrow> True)"

lemma is_Exception_iff [simp]: "is_Exception e \<longleftrightarrow> e \<noteq> OutOfFuel \<and> (\<forall>n. e \<noteq> SysExit n)"
  by (cases e) (simp_all add: is_Exception_def)

abbreviation on_any :: "('s, 'a) py \<Rightarrow> ('s, 'a) py \<Rightarrow> ('s, 'a) py" where
  "on_any \<equiv> on_exc is_Exception"

lemma block_simps [py_simps]: "block [] = ret ()" "block (m # ms) = seq m (block ms)"
  by (simp_all add: block_def)

lemma on_exc_apply [py_simps]:
  "on_exc p m h s = (case m s of (Inl e, s') \<Rightarrow> if p e then h s' else (Inl e, s') | (Inr x, s') \<Rightarrow> (Inr x, s'))"
  by (auto simp: on_exc_def catch_def throw_def split: prod.splits sum.splits)

lemma ret_apply [py_simps]: "ret x s = (Inr x, s)"
  by (simp add: ret_def)

lemma throw_apply [py_simps]: "throw e s = (Inl e, s)"
  by (simp add: throw_def)

lemma gets_apply [py_simps]: "gets f s = (Inr (f s), s)"
  by (simp add: gets_def)

lemma modify_apply [py_simps]: "modify f s = (Inr (), f s)"
  by (simp add: modify_def)

lemma lift_apply [py_simps]: "lift r s = (r, s)"
  by (simp add: lift_def)

lemma bnd_apply [py_simps]:
  "bnd m f s = (case m s of (Inl e, s') \<Rightarrow> (Inl e, s') | (Inr x, s') \<Rightarrow> f x s')"
  by (simp add: bnd_def)

lemma seq_apply [py_simps]:
  "seq m k s = (case m s of (Inl e, s') \<Rightarrow> (Inl e, s') | (Inr x, s') \<Rightarrow> k s')"
  by (simp add: seq_def bnd_def)

lemma catch_apply [py_simps]:
  "catch m h s = (case m s of (Inl e, s') \<Rightarrow> h e s' | (Inr x, s') \<Rightarrow> (Inr x, s'))"
  by (simp add: catch_def)

lemma whenM_apply [py_simps]: "whenM b m s = (if b then m s else (Inr (), s))"
  by (simp add: whenM_def ret_def)

text \<open>Rules for sums, used where a result is known to be a value.\<close>

lemma bnd_InrE:
  assumes "bnd m f s = (Inr y, t)"
  obtains x u where "m s = (Inr x, u)" "f x u = (Inr y, t)"
  using assms by (auto simp: bnd_def split: prod.splits sum.splits)

lemma seq_InrE:
  assumes "seq m k s = (Inr y, t)"
  obtains x u where "m s = (Inr x, u)" "k u = (Inr y, t)"
  using assms by (auto simp: seq_def elim: bnd_InrE)

lemma bnd_snd: "snd (bnd m f s) = (case fst (m s) of Inl _ \<Rightarrow> snd (m s) | Inr x \<Rightarrow> snd (f x (snd (m s))))"
  by (auto simp: bnd_def split: prod.splits sum.splits)

lemma bnd_inv:
  assumes "P (snd (m s))" and "\<And>x t. P t \<Longrightarrow> P (snd (f x t))"
  shows "P (snd (bnd m f s))"
  using assms by (auto simp: py_simps split: prod.splits sum.splits)

lemma seq_inv:
  assumes "P (snd (m s))" and "\<And>t. P t \<Longrightarrow> P (snd (k t))"
  shows "P (snd (seq m k s))"
  using assms by (auto simp: py_simps split: prod.splits sum.splits)

text \<open>An invariant of the state that the body of a loop keeps is kept by the loop, whether it
  ends or is left by an exception.\<close>

lemma for_each_inv:
  assumes "\<And>x s. x \<in> set xs \<Longrightarrow> P s \<Longrightarrow> P (snd (body x s))" and "P s"
  shows "P (snd (for_each xs body s))"
  using assms
proof (induction xs arbitrary: s)
  case (Cons x xs)
  show ?case
    unfolding for_each.simps by (rule seq_inv) (use Cons in auto)
qed (simp add: py_simps)

text \<open>A part of the state that a computation leaves alone, however it ends. The rules go through the
  text of the program.\<close>

named_theorems keeps_intros

definition keeps :: "('s \<Rightarrow> 'b) \<Rightarrow> ('s, 'a) py \<Rightarrow> bool" where
  "keeps f m = (\<forall>s. f (snd (m s)) = f s)"

lemma keepsD: "keeps f m \<Longrightarrow> m s = (r, t) \<Longrightarrow> f t = f s"
  unfolding keeps_def by (metis snd_conv)

lemma keeps_snd: "keeps f m \<Longrightarrow> f (snd (m s)) = f s"
  by (simp add: keeps_def)

lemma keeps_basic [keeps_intros]:
  "keeps f (ret x)" "keeps f (throw e)" "keeps f (lift r)" "keeps f (gets g)"
  by (simp_all add: keeps_def py_simps)

lemma keeps_modify [keeps_intros]: "(\<And>s. f (g s) = f s) \<Longrightarrow> keeps f (modify g)"
  by (simp add: keeps_def py_simps)

lemma keeps_bnd [keeps_intros]: "keeps f m \<Longrightarrow> (\<And>x. keeps f (k x)) \<Longrightarrow> keeps f (bnd m k)"
  by (auto simp: keeps_def bnd_apply split: prod.splits sum.splits) (metis snd_conv)+

lemma keeps_seq [keeps_intros]: "keeps f m \<Longrightarrow> keeps f k \<Longrightarrow> keeps f (seq m k)"
  unfolding seq_def by (rule keeps_bnd)

lemma keeps_catch [keeps_intros]: "keeps f m \<Longrightarrow> (\<And>e. keeps f (h e)) \<Longrightarrow> keeps f (catch m h)"
  by (auto simp: keeps_def catch_apply split: prod.splits sum.splits) (metis snd_conv)+

lemma keeps_on_exc [keeps_intros]: "keeps f m \<Longrightarrow> keeps f h \<Longrightarrow> keeps f (on_exc p m h)"
  unfolding on_exc_def by (intro keeps_catch) (simp_all add: keeps_basic)

lemma keeps_if [keeps_intros]: "(b \<Longrightarrow> keeps f m) \<Longrightarrow> (\<not> b \<Longrightarrow> keeps f k) \<Longrightarrow> keeps f (if b then m else k)"
  by simp

lemma keeps_whenM [keeps_intros]: "(b \<Longrightarrow> keeps f m) \<Longrightarrow> keeps f (whenM b m)"
  by (simp add: whenM_def keeps_basic)

lemma keeps_for_each [keeps_intros]: "(\<And>x. x \<in> set xs \<Longrightarrow> keeps f (body x)) \<Longrightarrow> keeps f (for_each xs body)"
  by (induction xs) (simp_all add: keeps_basic keeps_seq)

lemma keeps_block [keeps_intros]: "keeps f (block [])" "keeps f m \<Longrightarrow> keeps f (block ms) \<Longrightarrow> keeps f (block (m # ms))"
  by (simp_all add: block_simps keeps_basic keeps_seq)

text \<open>The exceptions a computation can end in.\<close>

named_theorems raises_intros

definition raises :: "(exc \<Rightarrow> bool) \<Rightarrow> ('s, 'a) py \<Rightarrow> bool" where
  "raises E m = (\<forall>s e t. m s = (Inl e, t) \<longrightarrow> E e)"

lemma raisesD: "raises E m \<Longrightarrow> m s = (Inl e, t) \<Longrightarrow> E e"
  unfolding raises_def by blast

lemma raises_basic [raises_intros]: "raises E (ret x)" "raises E (gets f)" "raises E (modify g)"
  by (simp_all add: raises_def py_simps)

lemma raises_throw [raises_intros]: "E e \<Longrightarrow> raises E (throw e)"
  by (simp add: raises_def py_simps)

lemma raises_lift [raises_intros]: "(\<And>e. r = Inl e \<Longrightarrow> E e) \<Longrightarrow> raises E (lift r)"
  by (simp add: raises_def py_simps)

lemma raises_bnd [raises_intros]: "raises E m \<Longrightarrow> (\<And>x. raises E (k x)) \<Longrightarrow> raises E (bnd m k)"
  by (auto simp: raises_def bnd_apply split: prod.splits sum.splits)

lemma raises_seq [raises_intros]: "raises E m \<Longrightarrow> raises E k \<Longrightarrow> raises E (seq m k)"
  unfolding seq_def by (rule raises_bnd)

lemma raises_if [raises_intros]: "(b \<Longrightarrow> raises E m) \<Longrightarrow> (\<not> b \<Longrightarrow> raises E k) \<Longrightarrow> raises E (if b then m else k)"
  by simp

lemma raises_on_exc [raises_intros]: "raises (\<lambda>e. p e \<or> E e) m \<Longrightarrow> raises E h \<Longrightarrow> raises E (on_exc p m h)"
  by (auto simp: raises_def on_exc_apply split: prod.splits sum.splits if_splits)

text \<open>The exceptions that are no \<open>sys.exit\<close>.\<close>

definition no_exit :: "exc \<Rightarrow> bool" where
  "no_exit e = (\<forall>n. e \<noteq> SysExit n)"

lemma no_exit_simps [simp]: "no_exit KeyError" "no_exit TypeError" "no_exit (OSError n)" "no_exit AttributeError" "no_exit ValueError"
  "no_exit IndexError" "no_exit UnboundLocalError" "no_exit (PlainException t)" "no_exit (SysExit n) = False"
  by (simp_all add: no_exit_def)

text \<open>Partial correctness: what holds of the value and the state at the end, or of the exception and the state.\<close>

definition triple :: "('s \<Rightarrow> bool) \<Rightarrow> ('s, 'a) py \<Rightarrow> ('a \<Rightarrow> 's \<Rightarrow> bool) \<Rightarrow> (exc \<Rightarrow> 's \<Rightarrow> bool) \<Rightarrow> bool" where
  "triple P m Q E = (\<forall>s. P s \<longrightarrow> (case m s of (Inl e, t) \<Rightarrow> E e t | (Inr x, t) \<Rightarrow> Q x t))"

lemma triple_InrD: "triple P m Q E \<Longrightarrow> m s = (Inr x, t) \<Longrightarrow> P s \<Longrightarrow> Q x t"
  unfolding triple_def by (metis (mono_tags, lifting) prod.case sum.case(2))

lemma triple_InlD: "triple P m Q E \<Longrightarrow> m s = (Inl e, t) \<Longrightarrow> P s \<Longrightarrow> E e t"
  unfolding triple_def by (metis (mono_tags, lifting) prod.case sum.case(1))

lemma triple_ret: "(\<And>s. P s \<Longrightarrow> Q x s) \<Longrightarrow> triple P (ret x) Q E"
  by (simp add: triple_def py_simps)

lemma triple_throw: "(\<And>s. P s \<Longrightarrow> E e s) \<Longrightarrow> triple P (throw e) Q E"
  by (simp add: triple_def py_simps)

lemma triple_modify: "(\<And>s. P s \<Longrightarrow> Q () (f s)) \<Longrightarrow> triple P (modify f) Q E"
  by (simp add: triple_def py_simps)

lemma triple_bnd:
  assumes "triple P m R E" and "\<And>x. triple (R x) (k x) Q E"
  shows "triple P (bnd m k) Q E"
  unfolding triple_def
proof (intro allI impI)
  fix s assume "P s"
  obtain r t where m: "m s = (r, t)" by (cases "m s")
  show "case bnd m k s of (Inl e, t) \<Rightarrow> E e t | (Inr x, t) \<Rightarrow> Q x t"
  proof (cases r)
    case (Inl e)
    with triple_InlD[OF assms(1)] m \<open>P s\<close> show ?thesis by (simp add: bnd_apply)
  next
    case (Inr x)
    with triple_InrD[OF assms(1)] m \<open>P s\<close> have "R x t" by simp
    then show ?thesis using assms(2)[of x] m Inr by (simp add: bnd_apply triple_def)
  qed
qed

lemma triple_seq: "triple P m (\<lambda>_. R) E \<Longrightarrow> triple R k Q E \<Longrightarrow> triple P (seq m k) Q E"
  unfolding seq_def by (rule triple_bnd)

lemma triple_gets: "(\<And>v. triple (\<lambda>s. P s \<and> v = f s) (k v) Q E) \<Longrightarrow> triple P (bnd (gets f) k) Q E"
  by (simp add: triple_def py_simps)

lemma triple_lift: "(\<And>e. r = Inl e \<Longrightarrow> (\<And>s. P s \<Longrightarrow> E e s)) \<Longrightarrow> (\<And>x. r = Inr x \<Longrightarrow> triple P (k x) Q E) \<Longrightarrow> triple P (bnd (lift r) k) Q E"
  unfolding triple_def by (cases r) (auto simp: py_simps)

lemma triple_conseq: "triple P' m Q' E' \<Longrightarrow> (\<And>s. P s \<Longrightarrow> P' s) \<Longrightarrow> (\<And>x s. Q' x s \<Longrightarrow> Q x s) \<Longrightarrow> (\<And>e s. E' e s \<Longrightarrow> E e s) \<Longrightarrow> triple P m Q E"
  unfolding triple_def by (fastforce split: prod.splits sum.splits)

text \<open>A computation that leaves a part of the state alone keeps what is known of that part.\<close>

lemma triple_keeps: "keeps f m \<Longrightarrow> raises R m \<Longrightarrow> (\<And>s t. f t = f s \<Longrightarrow> P s \<Longrightarrow> P t) \<Longrightarrow> (\<And>e s. R e \<Longrightarrow> P s \<Longrightarrow> E e s) \<Longrightarrow> triple P m (\<lambda>_. P) E"
  unfolding triple_def raises_def keeps_def by (auto split: prod.splits sum.splits) (metis snd_conv)+

section \<open>Preserved predicates\<close>

definition preserves :: "('s \<Rightarrow> bool) \<Rightarrow> ('s, 'a) py \<Rightarrow> bool" where
  "preserves P m = (\<forall>s. P s \<longrightarrow> P (snd (m s)))"

named_theorems preserves_intros

lemma preservesD: "preserves P m \<Longrightarrow> P s \<Longrightarrow> P (snd (m s))"
  by (simp add: preserves_def)

lemma preserves_basic [preserves_intros]: "preserves P (ret x)" "preserves P (throw e)" "preserves P (lift r)" "preserves P (gets f)"
  by (simp_all add: preserves_def py_simps)

lemma preserves_modify: "(\<And>s. P s \<Longrightarrow> P (f s)) \<Longrightarrow> preserves P (modify f)"
  by (simp add: preserves_def py_simps)

lemma preserves_bnd [preserves_intros]: "preserves P m \<Longrightarrow> (\<And>x. preserves P (k x)) \<Longrightarrow> preserves P (bnd m k)"
  unfolding preserves_def bnd_snd by (auto split: sum.split)

lemma preserves_seq [preserves_intros]: "preserves P m \<Longrightarrow> preserves P k \<Longrightarrow> preserves P (seq m k)"
  unfolding seq_def by (rule preserves_bnd)

lemma preserves_lift: "(\<And>x. r = Inr x \<Longrightarrow> preserves P (k x)) \<Longrightarrow> preserves P (bnd (lift r) k)"
  unfolding preserves_def by (cases r) (auto simp: py_simps)

lemma preserves_gets: "(\<And>x s. P s \<Longrightarrow> x = f s \<Longrightarrow> P (snd (k x s))) \<Longrightarrow> preserves P (bnd (gets f) k)"
  by (simp add: preserves_def py_simps)

lemma preserves_if [preserves_intros]: "(b \<Longrightarrow> preserves P m) \<Longrightarrow> (\<not> b \<Longrightarrow> preserves P k) \<Longrightarrow> preserves P (if b then m else k)"
  by simp

lemma preserves_whenM [preserves_intros]: "(b \<Longrightarrow> preserves P m) \<Longrightarrow> preserves P (whenM b m)"
  by (simp add: whenM_def preserves_basic)

lemma preserves_block [preserves_intros]: "preserves P (block [])" "preserves P m \<Longrightarrow> preserves P (block ms) \<Longrightarrow> preserves P (block (m # ms))"
  by (simp_all add: block_simps preserves_intros)

lemma triple_preserves: "preserves P m \<Longrightarrow> triple P m (\<lambda>_. P) (\<lambda>_. P)"
  unfolding triple_def preserves_def by (simp add: case_prod_beta split: sum.split)

lemma preserves_for_each [preserves_intros]: "(\<And>x. x \<in> set xs \<Longrightarrow> preserves P (body x)) \<Longrightarrow> preserves P (for_each xs body)"
  by (induction xs) (simp_all add: preserves_intros)

lemma preserves_on_exc [preserves_intros]: "preserves P m \<Longrightarrow> preserves P h \<Longrightarrow> preserves P (on_exc p m h)"
  unfolding preserves_def by (auto simp: on_exc_apply split: prod.split sum.split) (metis snd_conv)?

lemma preserves_keeps: "keeps f m \<Longrightarrow> (\<And>s t. f t = f s \<Longrightarrow> P s \<Longrightarrow> P t) \<Longrightarrow> preserves P m"
  unfolding preserves_def keeps_def by metis

section \<open>Dynamically typed values\<close>

text \<open>
  What a dictionary of the configuration, of a partition recipe or of a JSON message holds. The
  two functions that occur as dictionary values (the \<open>'lambda'\<close> entries of the built-in
  partition recipes) are named by \<open>PLam\<close>.
\<close>

datatype pyval =
    PNone
  | PBool bool
  | PInt int
  | PFloat rat
  | PStr string
  | PLam nat
  | PList "pyval list"
  | PDict "(string \<times> pyval) list"

text \<open>Truth of a value in a condition.\<close>

fun truthy :: "pyval \<Rightarrow> bool" where
  "truthy PNone = False"
| "truthy (PBool b) = b"
| "truthy (PInt i) = (i \<noteq> 0)"
| "truthy (PFloat r) = (r \<noteq> 0)"
| "truthy (PStr s) = (s \<noteq> [])"
| "truthy (PLam f) = True"
| "truthy (PList xs) = (xs \<noteq> [])"
| "truthy (PDict d) = (d \<noteq> [])"

text \<open>Conversions. \<open>int(v)\<close> of a string needs the numerals of the next theory and is there. A field that
  the code treats as text must hold text: for anything else the model raises \<open>TypeError\<close>.\<close>

definition str_of :: "pyval \<Rightarrow> string res" where
  "str_of v = (case v of PStr s \<Rightarrow> Inr s | _ \<Rightarrow> Inl TypeError)"

definition list_of :: "pyval \<Rightarrow> pyval list res" where
  "list_of v = (case v of PList xs \<Rightarrow> Inr xs | _ \<Rightarrow> Inl TypeError)"

definition dict_of :: "pyval \<Rightarrow> (string \<times> pyval) list res" where
  "dict_of v = (case v of PDict d \<Rightarrow> Inr d | _ \<Rightarrow> Inl TypeError)"

text \<open>Truncation towards zero, \<open>int(x)\<close> of a float.\<close>

definition trunc :: "rat \<Rightarrow> int" where
  "trunc r = (if r < 0 then \<lceil>r\<rceil> else \<lfloor>r\<rfloor>)"

lemma trunc_of_int [simp]: "trunc (of_int i) = i"
  by (simp add: trunc_def)

section \<open>Dictionaries\<close>

text \<open>
  A dictionary is an association list in insertion order: assigning to a key that is present
  keeps its place, a new key goes to the end, which is what \<open>AList.update\<close> does.
\<close>

type_synonym ('k, 'v) dict = "('k \<times> 'v) list"

abbreviation dget :: "('k, 'v) dict \<Rightarrow> 'k \<Rightarrow> 'v option" where
  "dget d k \<equiv> map_of d k"

abbreviation dset :: "'k \<Rightarrow> 'v \<Rightarrow> ('k, 'v) dict \<Rightarrow> ('k, 'v) dict" where
  "dset k v d \<equiv> AList.update k v d"

abbreviation dkeys :: "('k, 'v) dict \<Rightarrow> 'k list" where
  "dkeys d \<equiv> map fst d"

text \<open>\<open>d[k]\<close> in a load: a missing key raises.\<close>

definition dindex :: "('k, 'v) dict \<Rightarrow> 'k \<Rightarrow> 'v res" where
  "dindex d k = (case map_of d k of None \<Rightarrow> Inl KeyError | Some v \<Rightarrow> Inr v)"

text \<open>\<open>d.update(e)\<close>.\<close>

definition dmerge :: "('k, 'v) dict \<Rightarrow> ('k, 'v) dict \<Rightarrow> ('k, 'v) dict" where
  "dmerge d e = fold (\<lambda>(k, v) a. AList.update k v a) e d"

lemma dget_dset [simp]: "map_of (AList.update k v d) = (map_of d)(k \<mapsto> v)"
  by (rule update_conv')

lemma dkeys_dset: "dkeys (dset k v d) = (if k \<in> set (dkeys d) then dkeys d else dkeys d @ [k])"
  by (induction d) auto

lemma distinct_dset: "distinct (dkeys d) \<Longrightarrow> distinct (dkeys (dset k v d))"
  by (simp add: dkeys_dset)

lemma dget_dmerge: "map_of (dmerge d e) k = (case map_of (rev e) k of None \<Rightarrow> map_of d k | Some v \<Rightarrow> Some v)"
  unfolding dmerge_def
  by (induction e arbitrary: d) (auto simp: map_add_def split: option.splits)

text \<open>Indexing of a list, counted from the end for a negative index.\<close>

definition lindex :: "'a list \<Rightarrow> int \<Rightarrow> 'a res" where
  "lindex xs i =
     (if 0 \<le> i \<and> i < int (length xs) then Inr (xs ! nat i)
      else if - int (length xs) \<le> i \<and> i < 0 then Inr (xs ! nat (int (length xs) + i))
      else Inl IndexError)"

text \<open>A loop that collects values, with \<open>None\<close> for an item that is skipped, and the list of the results
  of a fallible function.\<close>

fun collect :: "'x list \<Rightarrow> ('x \<Rightarrow> 'a res) \<Rightarrow> 'a list res" where
  "collect [] f = Inr []"
| "collect (x # xs) f = (case f x of Inl e \<Rightarrow> Inl e
     | Inr y \<Rightarrow> (case collect xs f of Inl e \<Rightarrow> Inl e | Inr ys \<Rightarrow> Inr (y # ys)))"

lemma collect_map: "(\<And>x. x \<in> set xs \<Longrightarrow> f x = Inr (g x)) \<Longrightarrow> collect xs f = Inr (map g xs)"
  by (induction xs) auto

lemma collect_all2: "collect xs f = Inr ys \<Longrightarrow> list_all2 (\<lambda>x y. f x = Inr y) xs ys"
  by (induction xs arbitrary: ys) (auto split: sum.splits)

definition rbnd :: "'a res \<Rightarrow> ('a \<Rightarrow> 'b res) \<Rightarrow> 'b res" where
  "rbnd r f = (case r of Inl e \<Rightarrow> Inl e | Inr x \<Rightarrow> f x)"

lemma rbnd_simps [simp]: "rbnd (Inl e) f = Inl e" "rbnd (Inr x) f = f x"
  by (simp_all add: rbnd_def)

lemma rbnd_InrE:
  assumes "rbnd r f = Inr y"
  obtains x where "r = Inr x" "f x = Inr y"
  using assms by (cases r) auto

lemma dindex_Some [simp]: "map_of d k = Some v \<Longrightarrow> dindex d k = Inr v"
  by (simp add: dindex_def)

lemma dindex_None [simp]: "map_of d k = None \<Longrightarrow> dindex d k = Inl KeyError"
  by (simp add: dindex_def)

end
