(* ===== verification/Py_Strings.thy ===== *)
theory Py_Strings
  imports Py_Prelude
begin

text \<open>
  The string methods of Python that the modelled code calls, as functions on character lists:
  strip, split, join, startswith, replace, splitlines, lower, and the conversions between
  integers and decimal numerals. The lemmas give the inverse pairs (join and split, \<open>str\<close> and
  \<open>int\<close>), each stated once as an interpretation of the interface \<open>codec\<close>.
\<close>

section \<open>An interface for encodings\<close>

text \<open>
  An encoder and a decoder that reads back every valid value it is given. Encoding is then
  injective on the valid values, and decoding is onto them.
\<close>

locale codec =
  fixes enc :: "'a \<Rightarrow> 'b" and dec :: "'b \<Rightarrow> 'a option" and valid :: "'a \<Rightarrow> bool"
  assumes dec_enc: "valid x \<Longrightarrow> dec (enc x) = Some x"
begin

lemma enc_inj: "valid x \<Longrightarrow> valid y \<Longrightarrow> enc x = enc y \<Longrightarrow> x = y"
  by (metis dec_enc option.inject)

lemma enc_inj_on: "inj_on enc {x. valid x}"
  by (rule inj_onI) (use enc_inj in auto)

lemma enc_eq_iff: "valid x \<Longrightarrow> valid y \<Longrightarrow> enc x = enc y \<longleftrightarrow> x = y"
  using enc_inj by blast

end

section \<open>Prefixes, white space, splitting and joining\<close>

definition startswith :: "string \<Rightarrow> string \<Rightarrow> bool" where
  "startswith s p = (take (length p) s = p)"

definition endswith :: "string \<Rightarrow> string \<Rightarrow> bool" where
  "endswith s p = (length p \<le> length s \<and> drop (length s - length p) s = p)"

text \<open>White space of \<open>str.strip\<close> and \<open>str.split\<close> among the Latin-1 code points.\<close>

definition py_space :: "char \<Rightarrow> bool" where
  "py_space c = (let n = (of_char c :: nat) in 9 \<le> n \<and> n \<le> 13 \<or> 28 \<le> n \<and> n \<le> 32 \<or> n = 133 \<or> n = 160)"

definition lstrip_p :: "(char \<Rightarrow> bool) \<Rightarrow> string \<Rightarrow> string" where
  "lstrip_p p s = dropWhile p s"

definition rstrip_p :: "(char \<Rightarrow> bool) \<Rightarrow> string \<Rightarrow> string" where
  "rstrip_p p s = rev (dropWhile p (rev s))"

definition strip :: "string \<Rightarrow> string" where
  "strip s = rstrip_p py_space (lstrip_p py_space s)"

definition lstrip :: "string \<Rightarrow> string" where
  "lstrip s = lstrip_p py_space s"

definition rstrip :: "string \<Rightarrow> string" where
  "rstrip s = rstrip_p py_space s"

text \<open>\<open>s.rstrip(c)\<close> and \<open>s.strip(c)\<close> for one character.\<close>

definition rstrip_chr :: "char \<Rightarrow> string \<Rightarrow> string" where
  "rstrip_chr c s = rstrip_p (\<lambda>x. x = c) s"

definition strip_chr :: "char \<Rightarrow> string \<Rightarrow> string" where
  "strip_chr c s = rstrip_p (\<lambda>x. x = c) (lstrip_p (\<lambda>x. x = c) s)"

text \<open>\<open>s.split(c)\<close> for one character: never empty.\<close>

fun split_chr :: "char \<Rightarrow> string \<Rightarrow> string list" where
  "split_chr c [] = [[]]"
| "split_chr c (x # xs) =
     (if x = c then [] # split_chr c xs
      else case split_chr c xs of [] \<Rightarrow> [[x]] | w # ws \<Rightarrow> (x # w) # ws)"

text \<open>\<open>s.split(c, 1)\<close> assigned to a pair: \<open>None\<close> where the unpacking raises.\<close>

fun split1 :: "char \<Rightarrow> string \<Rightarrow> (string \<times> string) option" where
  "split1 c [] = None"
| "split1 c (x # xs) =
     (if x = c then Some ([], xs)
      else case split1 c xs of None \<Rightarrow> None | Some (a, b) \<Rightarrow> Some (x # a, b))"

text \<open>\<open>s.split()\<close>: the maximal runs of characters that are not white space.\<close>

fun words_acc :: "string \<Rightarrow> string \<Rightarrow> string list" where
  "words_acc w [] = (if w = [] then [] else [rev w])"
| "words_acc w (x # xs) =
     (if py_space x then (if w = [] then words_acc [] xs else rev w # words_acc [] xs)
      else words_acc (x # w) xs)"

definition split_ws :: "string \<Rightarrow> string list" where
  "split_ws s = words_acc [] s"

fun join :: "string \<Rightarrow> string list \<Rightarrow> string" where
  "join sep [] = []"
| "join sep [x] = x"
| "join sep (x # y # ys) = x @ sep @ join sep (y # ys)"

text \<open>\<open>s.replace(old, new)\<close> for a non-empty \<open>old\<close>: the matches are taken from the left and do
  not overlap.\<close>

function replace :: "string \<Rightarrow> string \<Rightarrow> string \<Rightarrow> string" where
  "replace old new s =
     (case s of [] \<Rightarrow> []
      | x # xs \<Rightarrow>
          if old \<noteq> [] \<and> startswith s old then new @ replace old new (drop (length old) s)
          else x # replace old new xs)"
  by pat_completeness auto
termination
  by (relation "measure (\<lambda>(old, new, s). length s)") auto

declare replace.simps [simp del]

text \<open>A line feed and a backslash.\<close>

definition nl :: string where
  "nl = [CHR 0x0A]"

definition bs :: string where
  "bs = [CHR 0x5C]"

text \<open>\<open>str.splitlines\<close>, and the lines of a text file without their terminators (universal newlines
  read \<open>\r\<close> and \<open>\r\n\<close> as \<open>\n\<close>).\<close>

definition line_break :: "char \<Rightarrow> bool" where
  "line_break c = (let n = (of_char c :: nat) in 10 \<le> n \<and> n \<le> 13 \<or> 28 \<le> n \<and> n \<le> 30 \<or> n = 133)"

fun lines_acc :: "(char \<Rightarrow> bool) \<Rightarrow> string \<Rightarrow> string \<Rightarrow> string list" where
  "lines_acc p w [] = (if w = [] then [] else [rev w])"
| "lines_acc p w [x] = (if p x then [rev w] else [rev (x # w)])"
| "lines_acc p w (x # y # ys) =
     (if p x then rev w # (if x = CHR 0x0D \<and> y = CHR 0x0A then lines_acc p [] ys else lines_acc p [] (y # ys))
      else lines_acc p (x # w) (y # ys))"

definition splitlines :: "string \<Rightarrow> string list" where
  "splitlines s = lines_acc line_break [] s"

definition file_lines :: "string \<Rightarrow> string list" where
  "file_lines s = lines_acc (\<lambda>c. c = CHR 0x0A \<or> c = CHR 0x0D) [] s"

text \<open>\<open>str.lower\<close> on the Latin-1 code points.\<close>

definition lower_chr :: "char \<Rightarrow> char" where
  "lower_chr c = (let n = (of_char c :: nat) in
     if 65 \<le> n \<and> n \<le> 90 \<or> 192 \<le> n \<and> n \<le> 222 \<and> n \<noteq> 215 then char_of (n + 32) else c)"

definition lower :: "string \<Rightarrow> string" where
  "lower s = map lower_chr s"

definition is_digit :: "char \<Rightarrow> bool" where
  "is_digit c = (CHR ''0'' \<le> c \<and> c \<le> CHR ''9'')"

text \<open>\<open>re.sub('[^0-9]', '', s)\<close>.\<close>

definition only_digits :: "string \<Rightarrow> string" where
  "only_digits s = filter is_digit s"

text \<open>\<open>sub in s\<close>.\<close>

fun contains :: "string \<Rightarrow> string \<Rightarrow> bool" where
  "contains sub [] = (sub = [])"
| "contains sub (x # xs) = (startswith (x # xs) sub \<or> contains sub xs)"

section \<open>Decimal numerals\<close>

definition digit_chr :: "nat \<Rightarrow> char" where
  "digit_chr d = char_of (48 + d)"

definition digit_val :: "char \<Rightarrow> nat" where
  "digit_val c = of_char c - 48"

function show_nat :: "nat \<Rightarrow> string" where
  "show_nat n = (if n < 10 then [digit_chr n] else show_nat (n div 10) @ [digit_chr (n mod 10)])"
  by pat_completeness auto
termination
  by (relation "measure id") auto

declare show_nat.simps [simp del]

text \<open>\<open>str(i)\<close> for an integer.\<close>

definition show_int :: "int \<Rightarrow> string" where
  "show_int i = (if i < 0 then CHR ''-'' # show_nat (nat (- i)) else show_nat (nat i))"

text \<open>\<open>int(s)\<close>: white space around it, one sign, digits with single underscores between them. The
  first argument of \<open>read_digits\<close> tells whether the last character was a digit.\<close>

fun read_digits :: "bool \<Rightarrow> nat \<Rightarrow> string \<Rightarrow> nat option" where
  "read_digits d acc [] = (if d then Some acc else None)"
| "read_digits d acc (c # cs) =
     (if is_digit c then read_digits True (10 * acc + digit_val c) cs
      else if c = CHR ''_'' \<and> d then read_digits False acc cs
      else None)"

definition read_int :: "string \<Rightarrow> int option" where
  "read_int s = (case strip s of
       [] \<Rightarrow> None
     | c # cs \<Rightarrow>
         if c = CHR ''-'' then map_option (\<lambda>n. - int n) (read_digits False 0 cs)
         else if c = CHR ''+'' then map_option int (read_digits False 0 cs)
         else map_option int (read_digits False 0 (c # cs)))"

definition int_str :: "string \<Rightarrow> int res" where
  "int_str s = (case read_int s of None \<Rightarrow> Inl ValueError | Some i \<Rightarrow> Inr i)"

definition int_of :: "pyval \<Rightarrow> int res" where
  "int_of v = (case v of PInt i \<Rightarrow> Inr i | PBool b \<Rightarrow> Inr (if b then 1 else 0) | PFloat r \<Rightarrow> Inr (trunc r)
     | PStr s \<Rightarrow> int_str s | _ \<Rightarrow> Inl TypeError)"

text \<open>\<open>repr(v)\<close>: a text in quotes, in double ones when it holds a single quote and no double one; what is not printable is escaped.
  A float has no representation in the model and gives \<open>TypeError\<close>.\<close>

definition hex_chr :: "nat \<Rightarrow> char" where
  "hex_chr n = ''0123456789abcdef'' ! n"

text \<open>Hexadecimal with leading zeros.\<close>

fun show_hex :: "nat \<Rightarrow> string" where
  "show_hex n = (if n < 16 then [hex_chr n] else show_hex (n div 16) @ [hex_chr (n mod 16)])"

declare show_hex.simps [simp del]

definition hex_pad :: "nat \<Rightarrow> nat \<Rightarrow> string" where
  "hex_pad w n = (let t = show_hex n in replicate (w - length t) (CHR ''0'') @ t)"

definition repr_chr :: "char \<Rightarrow> char \<Rightarrow> string" where
  "repr_chr q c =
     (let n = (of_char c :: nat) in
      if c = q \<or> n = 0x5C then [CHR 0x5C, c]
      else if n = 10 then [CHR 0x5C, CHR ''n'']
      else if n = 13 then [CHR 0x5C, CHR ''r'']
      else if n = 9 then [CHR 0x5C, CHR ''t'']
      else if n < 32 \<or> 127 \<le> n \<and> n \<le> 160 \<or> n = 173 then [CHR 0x5C, CHR ''x'', hex_chr (n div 16), hex_chr (n mod 16)]
      else [c])"

definition repr_str :: "string \<Rightarrow> string" where
  "repr_str s =
     (let q = (if CHR 0x27 \<in> set s \<and> CHR 0x22 \<notin> set s then CHR 0x22 else CHR 0x27) in
      q # concat (map (repr_chr q) s) @ [q])"

fun py_repr :: "pyval \<Rightarrow> string res"
and repr_items :: "pyval list \<Rightarrow> string list res"
and repr_pairs :: "(string \<times> pyval) list \<Rightarrow> string list res" where
  "py_repr PNone = Inr ''None''"
| "py_repr (PBool b) = Inr (if b then ''True'' else ''False'')"
| "py_repr (PInt i) = Inr (show_int i)"
| "py_repr (PStr s) = Inr (repr_str s)"
| "py_repr (PList vs) = rbnd (repr_items vs) (\<lambda>ts. Inr (''['' @ join '', '' ts @ '']''))"
| "py_repr (PDict d) = rbnd (repr_pairs d) (\<lambda>ts. Inr (''{'' @ join '', '' ts @ ''}''))"
| "py_repr (PFloat r) = Inl TypeError"
| "py_repr (PLam n) = Inl TypeError"
| "repr_items [] = Inr []"
| "repr_items (v # vs) = rbnd (py_repr v) (\<lambda>t. rbnd (repr_items vs) (\<lambda>ts. Inr (t # ts)))"
| "repr_pairs [] = Inr []"
| "repr_pairs ((k, v) # d) = rbnd (py_repr v) (\<lambda>t. rbnd (repr_pairs d) (\<lambda>ts. Inr ((repr_str k @ '': '' @ t) # ts)))"

text \<open>\<open>str(v)\<close>: a text is itself.\<close>

definition py_str :: "pyval \<Rightarrow> string res" where
  "py_str v = (case v of PStr s \<Rightarrow> Inr s | _ \<Rightarrow> py_repr v)"

text \<open>Bytes: \<open>strip()\<close>, \<open>splitlines()\<close>, and the \<open>b'...'\<close> that formatting gives.\<close>

definition byte_space :: "char \<Rightarrow> bool" where
  "byte_space c = (c = CHR '' '' \<or> of_char c \<in> {9..13 :: nat})"

definition bytes_strip :: "string \<Rightarrow> string" where
  "bytes_strip s = rstrip_p byte_space (lstrip_p byte_space s)"

definition bytes_lines :: "string \<Rightarrow> string list" where
  "bytes_lines s = lines_acc (\<lambda>c. c = CHR 0x0A \<or> c = CHR 0x0D) [] s"

definition repr_bytes :: "string \<Rightarrow> string" where
  "repr_bytes s =
     (let q = (if CHR 0x27 \<in> set s \<and> CHR 0x22 \<notin> set s then CHR 0x22 else CHR 0x27) in
      CHR ''b'' # q # concat (map (\<lambda>c. let n = (of_char c :: nat) in
        if 127 \<le> n then [CHR 0x5C, CHR ''x'', hex_chr (n div 16), hex_chr (n mod 16)] else repr_chr q c) s) @ [q])"

text \<open>\<open>bytes.decode()\<close> of UTF-8, for the code points below 256.\<close>

fun utf8_decode :: "string \<Rightarrow> string res" where
  "utf8_decode [] = Inr []"
| "utf8_decode (c # cs) =
     (let n = (of_char c :: nat) in
      if n < 128 then map_sum id (\<lambda>t. c # t) (utf8_decode cs)
      else (case cs of
          [] \<Rightarrow> Inl ValueError
        | d # ds \<Rightarrow>
            let m = (of_char d :: nat) in
            if (n = 194 \<or> n = 195) \<and> 128 \<le> m \<and> m < 192
            then map_sum id (\<lambda>t. char_of ((n - 192) * 64 + (m - 128)) # t) (utf8_decode ds)
            else Inl ValueError))"

text \<open>\<open>os.path.join\<close>, \<open>os.path.dirname\<close> and \<open>os.path.basename\<close> on POSIX paths.\<close>

definition slash :: char where
  "slash = CHR ''/''"

definition os_join :: "string \<Rightarrow> string \<Rightarrow> string" where
  "os_join a b =
     (if b \<noteq> [] \<and> hd b = slash then b
      else if a = [] \<or> last a = slash then a @ b
      else a @ slash # b)"

definition os_dirname :: "string \<Rightarrow> string" where
  "os_dirname p =
     (let h = rev (dropWhile (\<lambda>c. c \<noteq> slash) (rev p)) in
      if list_all (\<lambda>c. c = slash) h then h else rstrip_chr slash h)"

definition os_basename :: "string \<Rightarrow> string" where
  "os_basename p = rev (takeWhile (\<lambda>c. c \<noteq> slash) (rev p))"

section \<open>Lemmas\<close>

lemma startswith_append [simp, str_simps]: "startswith (p @ s) p"
  by (simp add: startswith_def)

lemma startswith_iff: "startswith s p \<longleftrightarrow> (\<exists>t. s = p @ t)"
  unfolding startswith_def by (metis append_take_drop_id append_eq_conv_conj)

lemma split_chr_ne [simp]: "split_chr c s \<noteq> []"
  by (induction s) (auto split: list.splits)

lemma split_chr_no: "c \<notin> set s \<Longrightarrow> split_chr c s = [s]"
  by (induction s) auto

lemma split_chr_append:
  "c \<notin> set w \<Longrightarrow> split_chr c (w @ c # s) = w # split_chr c s"
  by (induction w) auto

lemma split_chr_join [str_simps]:
  assumes "ws \<noteq> []" and "\<forall>w \<in> set ws. c \<notin> set w"
  shows "split_chr c (join [c] ws) = ws"
  using assms by (induction "[c]" ws rule: join.induct) (auto simp: split_chr_no split_chr_append)

lemma join_Cons: "ws \<noteq> [] \<Longrightarrow> join sep (w # ws) = w @ sep @ join sep ws"
  by (cases ws) auto

lemma join_split_chr: "join [c] (split_chr c s) = s"
proof (induction s)
  case (Cons x xs)
  obtain w ws where w: "split_chr c xs = w # ws" by (cases "split_chr c xs") auto
  with Cons have "join [c] (w # ws) = xs" by simp
  then have "join [c] ((x # w) # ws) = x # xs" by (cases ws) auto
  with w Cons show ?case by (simp add: join_Cons)
qed simp

lemma split_chr_parts: "w \<in> set (split_chr c s) \<Longrightarrow> c \<notin> set w"
  by (induction s arbitrary: w) (auto split: list.splits if_splits)

lemma split1_append [str_simps]: "c \<notin> set a \<Longrightarrow> split1 c (a @ c # b) = Some (a, b)"
  by (induction a) auto

lemma split1_SomeD: "split1 c s = Some (a, b) \<Longrightarrow> s = a @ c # b \<and> c \<notin> set a"
  by (induction c s arbitrary: a b rule: split1.induct) (auto split: option.splits if_splits)

lemma split1_None: "split1 c s = None \<longleftrightarrow> c \<notin> set s"
  by (induction s) (auto split: option.splits)

lemma digit_chr_digit: "d < 10 \<Longrightarrow> is_digit (digit_chr d) \<and> digit_val (digit_chr d) = d"
proof -
  assume "d < 10"
  then have "d \<in> {0,1,2,3,4,5,6,7,8,9}" by auto
  then show ?thesis by (auto simp: is_digit_def digit_chr_def digit_val_def less_eq_char_def)
qed

lemma read_digits_append:
  "list_all is_digit w \<Longrightarrow>
     read_digits d acc (w @ cs) =
       read_digits (d \<or> w \<noteq> []) (foldl (\<lambda>a c. 10 * a + digit_val c) acc w) cs"
  by (induction w arbitrary: d acc) auto

lemma read_digits_all:
  "list_all is_digit w \<Longrightarrow> w \<noteq> [] \<Longrightarrow>
     read_digits d acc w = Some (foldl (\<lambda>a c. 10 * a + digit_val c) acc w)"
  using read_digits_append[of w d acc "[]"] by simp

lemma show_nat_digits: "list_all is_digit (show_nat n) \<and> show_nat n \<noteq> []"
proof (induction n rule: show_nat.induct)
  case (1 n)
  then show ?case by (subst (1 2) show_nat.simps) (auto simp: digit_chr_digit)
qed

lemma read_digits_show_nat: "read_digits False 0 (show_nat n) = Some n"
proof (induction n rule: show_nat.induct)
  case (1 n)
  show ?case
  proof (cases "n < 10")
    case True
    then show ?thesis by (subst show_nat.simps) (simp add: digit_chr_digit)
  next
    case False
    with 1 have "foldl (\<lambda>a c. 10 * a + digit_val c) 0 (show_nat (n div 10)) = n div 10"
      using show_nat_digits[of "n div 10"] by (simp add: read_digits_all)
    with False show ?thesis
      using show_nat_digits[of "n div 10"]
      by (subst show_nat.simps) (simp add: digit_chr_digit read_digits_append)
  qed
qed

lemma digit_not_space: "is_digit c \<Longrightarrow> \<not> py_space c"
  by (auto simp: is_digit_def py_space_def less_eq_char_def Let_def)

lemma strip_id: "s \<noteq> [] \<Longrightarrow> \<not> py_space (hd s) \<Longrightarrow> \<not> py_space (last s) \<Longrightarrow> strip s = s"
proof -
  assume s: "s \<noteq> []" "\<not> py_space (hd s)" "\<not> py_space (last s)"
  then have "dropWhile py_space s = s" by (cases s) auto
  moreover have "dropWhile py_space (rev s) = rev s" using s by (cases s rule: rev_cases) auto
  ultimately show ?thesis by (simp add: strip_def rstrip_p_def lstrip_p_def)
qed

lemma strip_show_int: "strip (show_int i) = show_int i"
proof -
  have *: "\<not> py_space (hd (show_nat n))" "\<not> py_space (last (show_nat n))" "show_nat n \<noteq> []" for n
    using show_nat_digits[of n] by (auto simp: list_all_iff dest: digit_not_space hd_in_set last_in_set)
  have "\<not> py_space CHR ''-''" by (simp add: py_space_def)
  then show ?thesis
    by (intro strip_id) (auto simp: show_int_def *)
qed

lemma read_int_show_int [str_simps]: "read_int (show_int i) = Some i"
proof (cases "i < 0")
  case True
  then show ?thesis
    by (simp add: read_int_def strip_show_int) (simp add: show_int_def read_digits_show_nat)
next
  case False
  obtain c cs where c: "show_nat (nat i) = c # cs" "is_digit c"
    using show_nat_digits[of "nat i"] by (cases "show_nat (nat i)") auto
  then have "c \<noteq> CHR ''-''" "c \<noteq> CHR ''+''" by (auto simp: is_digit_def less_eq_char_def)
  with c False show ?thesis
    using read_digits_show_nat[of "nat i"]
    by (simp add: read_int_def strip_show_int) (simp add: show_int_def)
qed

lemma int_str_show_int [simp]: "int_str (show_int i) = Inr i"
  by (simp add: int_str_def read_int_show_int)

interpretation int_codec: codec show_int read_int "\<lambda>_. True"
  by unfold_locales (simp add: read_int_show_int)

interpretation fields_codec: codec "join [c]" "\<lambda>s. Some (split_chr c s)"
    "\<lambda>ws. ws \<noteq> [] \<and> (\<forall>w \<in> set ws. c \<notin> set w)" for c
  by unfold_locales (simp add: split_chr_join)

lemma show_int_inj [simp]: "show_int i = show_int j \<longleftrightarrow> i = j"
  by (rule int_codec.enc_eq_iff) simp_all

end
