(* ===== verification/Installer_Exec.thy ===== *)
theory Installer_Exec
  imports Py_Strings
begin

text \<open>
  The process layer of the Linux installer, \<open>installer/procutils.py\<close>, and what every module of
  the installer shares: the record of its global variables (\<open>proc_state\<close>), the trace of the
  effects it has on the machine (\<open>event\<close>), the machine's answers (\<open>world\<close>), and the distribution
  profile, a \<open>RawConfigParser\<close>. An answer of the machine may depend on everything done before it:
  each field of \<open>world\<close> takes the trace so far.

  \<open>execute_runs_at_most_10\<close> and \<open>run_loop_spec\<close> describe the retry loop of \<open>_execute\<close> completely;
  \<open>runs_env_global\<close> shows which environment a command gets.
\<close>

section \<open>Effects and the machine\<close>

type_synonym environment = "(string, string) dict"

datatype http_via = ViaEnv | Direct | ViaProxy string

datatype event =
    Run string "string option" environment \<comment> \<open>command line, standard input, environment\<close>
  | Sleep nat
  | WriteFile string string
  | AppendFile string string
  | MakeDirs string
  | MakeDir string
  | RemoveDir string
  | Unlink string
  | Rename string string
  | CopyFile string string
  | CopyTree string string
  | AddExec string \<comment> \<open>chmod with the three execute bits added\<close>
  | SendSignal int int
  | HttpGet string http_via
  | Render "string list"

type_synonym trace = "event list"

text \<open>What the installer reads of a \<open>DriveManager\<close>: \<open>block_map\<close> with the drive of each port, the
  occupied ports of \<open>port_map\<close> and the drives of \<open>devpath_map\<close> with their \<open>block_path\<close>. Of a drive it
  uses \<open>supportsTrim\<close>.\<close>

record drive_info =
  supportsTrim :: bool

record drive_view =
  dv_blocks :: "(string, drive_info) dict"
  dv_ports :: "(string, string option) dict"
  dv_devpaths :: "(string option, string option) dict"

text \<open>A \<open>RawConfigParser\<close>: option names are stored and looked up in lower case, an option missing
  from a section is looked up in the default section.\<close>

record profile =
  p_defaults :: "(string, string) dict"
  p_sections :: "(string, (string, string) dict) dict"

text \<open>\<open>w_ini\<close> is a file as \<open>ConfigParser.read\<close> sees it,
  \<open>w_http\<close> the status, the \<open>Location\<close> header and the body of a response, \<open>w_write\<close> whether a file
  operation on a path succeeds, \<open>w_render\<close> whether rendering a list of templates does. \<open>w_run\<close> gives the text of the exception when the command line cannot be split or started,
  else the exit status and the decoded standard output.\<close>

record world =
  w_run :: "trace \<Rightarrow> string \<Rightarrow> string option \<Rightarrow> environment \<Rightarrow> string + (int \<times> string)"
  w_exists :: "trace \<Rightarrow> string \<Rightarrow> bool"
  w_isdir :: "trace \<Rightarrow> string \<Rightarrow> bool"
  w_readable :: "trace \<Rightarrow> string \<Rightarrow> bool"
  w_read :: "trace \<Rightarrow> string \<Rightarrow> string res"
  w_write :: "trace \<Rightarrow> string \<Rightarrow> unit res"
  w_glob :: "trace \<Rightarrow> string \<Rightarrow> string list"
  w_kill :: "trace \<Rightarrow> int \<Rightarrow> unit res"
  w_http :: "trace \<Rightarrow> string \<Rightarrow> http_via \<Rightarrow> (int \<times> string option \<times> string) res"
  w_ini :: "trace \<Rightarrow> string \<Rightarrow> profile"
  w_render :: "trace \<Rightarrow> string list \<Rightarrow> unit res"
  w_drives :: "trace \<Rightarrow> drive_view"
  w_time :: "trace \<Rightarrow> rat"

text \<open>The globals of \<open>procutils.py\<close>: whether \<open>open_output\<close> was called, \<open>chroot_path\<close>,
  \<open>global_env\<close> and \<open>chroot_env\<close>; and the trace, oldest event first.\<close>

record proc_state =
  output_open :: bool
  chroot_path :: "string option"
  global_env :: environment
  chroot_env :: environment
  events :: trace

definition emit :: "event \<Rightarrow> ('a proc_state_scheme, unit) py" where
  "emit e = modify (\<lambda>s. s\<lparr>events := events s @ [e]\<rparr>)"

text \<open>Module initialisation, lines 12 to 24, from the process's environment.\<close>

definition init_envs :: "environment \<Rightarrow> environment \<times> environment" where
  "init_envs os_environ =
     (let g = dset ''DEBIAN_FRONTEND'' ''noninteractive'' (dset ''DEBIAN_PRIORITY'' ''critical'' os_environ)
      in (g, AList.delete ''https_proxy'' (AList.delete ''http_proxy'' g)))"

definition open_output :: "('a proc_state_scheme, unit) py" where
  "open_output = modify (\<lambda>s. s\<lparr>output_open := True\<rparr>)"

definition set_chroot :: "string \<Rightarrow> ('a proc_state_scheme, unit) py" where
  "set_chroot path = modify (\<lambda>s. s\<lparr>chroot_path := Some path\<rparr>)"

section \<open>Running a command\<close>

definition EXEC_RETRY_COUNT :: nat where
  "EXEC_RETRY_COUNT = 10"

text \<open>An empty standard input is not passed on (\<open>if stdin\<close>).\<close>

definition given :: "string option \<Rightarrow> string option" where
  "given stdin = (if stdin = Some [] then None else stdin)"

definition fail_start :: "string \<Rightarrow> string \<Rightarrow> exc" where
  "fail_start e cmd = PlainException (''Exception \"'' @ e @ ''\" while executing \"'' @ cmd @ ''\"'')"

definition fail_rc :: "string \<Rightarrow> exc" where
  "fail_rc cmd = PlainException (''Error Executing \"'' @ cmd @ ''\"'')"

definition fail_retries :: "string \<Rightarrow> exc" where
  "fail_retries cmd = PlainException (''Error Executing \"'' @ cmd @ ''\", retries exceded'')"

text \<open>The loop \<open>while retry: ... else: raise\<close>; the first argument is \<open>retry\<close>.\<close>

fun run_loop :: "nat \<Rightarrow> world \<Rightarrow> string \<Rightarrow> string option \<Rightarrow> environment \<Rightarrow> int list option
    \<Rightarrow> ('a proc_state_scheme, string) py" where
  "run_loop 0 w cmd stdin env retry_rc_list = throw (fail_retries cmd)"
| "run_loop (Suc retry) w cmd stdin env retry_rc_list =
     bnd (gets (\<lambda>s. w_run w (events s) cmd (given stdin) env)) (\<lambda>r.
     seq (emit (Run cmd (given stdin) env))
     (case r of
        Inl e \<Rightarrow> throw (fail_start e cmd)
      | Inr (rc, output) \<Rightarrow>
          if rc = 0 then ret output
          else if (case retry_rc_list of None \<Rightarrow> True | Some rcs \<Rightarrow> rc \<notin> set rcs) then throw (fail_rc cmd)
          else seq (emit (Sleep 60)) (run_loop retry w cmd stdin env retry_rc_list)))"

definition run_command :: "world \<Rightarrow> string \<Rightarrow> string option \<Rightarrow> environment \<Rightarrow> int list option
    \<Rightarrow> ('a proc_state_scheme, string) py" where
  "run_command w cmd stdin env retry_rc_list =
     bnd (gets output_open) (\<lambda>opn.
       if \<not> opn then throw AttributeError
       else run_loop EXEC_RETRY_COUNT w cmd stdin env retry_rc_list)"

definition execute_full :: "world \<Rightarrow> string \<Rightarrow> string option \<Rightarrow> int list option \<Rightarrow> ('a proc_state_scheme, unit) py" where
  "execute_full w cmd stdin rcs =
     bnd (gets global_env) (\<lambda>env. seq (run_command w cmd stdin env rcs) (ret ()))"

definition execute :: "world \<Rightarrow> string \<Rightarrow> ('a proc_state_scheme, unit) py" where
  "execute w cmd = execute_full w cmd None None"

definition execute_lines :: "world \<Rightarrow> string \<Rightarrow> ('a proc_state_scheme, string list) py" where
  "execute_lines w cmd =
     bnd (gets global_env) (\<lambda>env. bnd (run_command w cmd None env None) (\<lambda>out. ret (splitlines out)))"

text \<open>\<open>'{0}'.format( chroot_path )\<close> prints \<open>None\<close> before \<open>set_chroot\<close> is called.\<close>

definition chroot_cmd :: "string option \<Rightarrow> string \<Rightarrow> string" where
  "chroot_cmd path cmd =
     ''/sbin/chroot '' @ (case path of None \<Rightarrow> ''None'' | Some p \<Rightarrow> p) @ '' '' @ cmd"

definition chroot_execute_full :: "world \<Rightarrow> string \<Rightarrow> string option \<Rightarrow> int list option
    \<Rightarrow> ('a proc_state_scheme, unit) py" where
  "chroot_execute_full w cmd stdin rcs =
     bnd (gets chroot_path) (\<lambda>p. execute_full w (chroot_cmd p cmd) stdin rcs)"

definition chroot_execute :: "world \<Rightarrow> string \<Rightarrow> ('a proc_state_scheme, unit) py" where
  "chroot_execute w cmd = chroot_execute_full w cmd None None"

definition chroot_execute_lines :: "world \<Rightarrow> string \<Rightarrow> ('a proc_state_scheme, string list) py" where
  "chroot_execute_lines w cmd =
     bnd (gets chroot_path) (\<lambda>p. execute_lines w (chroot_cmd p cmd))"

section \<open>Files\<close>

text \<open>Each operation asks the machine and then leaves its event; a failed one leaves none.\<close>

definition effect :: "(trace \<Rightarrow> unit res) \<Rightarrow> event \<Rightarrow> ('a proc_state_scheme, unit) py" where
  "effect answer e = bnd (gets (\<lambda>s. answer (events s))) (\<lambda>r. seq (lift r) (emit e))"

definition write_file :: "world \<Rightarrow> string \<Rightarrow> string \<Rightarrow> ('a proc_state_scheme, unit) py" where
  "write_file w path text = effect (\<lambda>t. w_write w t path) (WriteFile path text)"

definition append_file :: "world \<Rightarrow> string \<Rightarrow> string \<Rightarrow> ('a proc_state_scheme, unit) py" where
  "append_file w path text = effect (\<lambda>t. w_write w t path) (AppendFile path text)"

definition file_op :: "world \<Rightarrow> string \<Rightarrow> event \<Rightarrow> ('a proc_state_scheme, unit) py" where
  "file_op w path e = effect (\<lambda>t. w_write w t path) e"

definition read_file :: "world \<Rightarrow> string \<Rightarrow> ('a proc_state_scheme, string) py" where
  "read_file w path = bnd (gets (\<lambda>s. w_read w (events s) path)) lift"

definition path_exists :: "world \<Rightarrow> string \<Rightarrow> ('a proc_state_scheme, bool) py" where
  "path_exists w path = gets (\<lambda>s. w_exists w (events s) path)"

definition readable :: "world \<Rightarrow> string \<Rightarrow> ('a proc_state_scheme, bool) py" where
  "readable w path = gets (\<lambda>s. w_readable w (events s) path)"

text \<open>\<open>if not os.path.isdir( p ): os.makedirs( p )\<close>.\<close>

definition ensure_dir :: "world \<Rightarrow> string \<Rightarrow> ('a proc_state_scheme, unit) py" where
  "ensure_dir w path = bnd (gets (\<lambda>s. w_isdir w (events s) path)) (\<lambda>d.
     whenM (\<not> d) (file_op w path (MakeDirs path)))"

section \<open>The distribution profile\<close>

text \<open>Looking an option up.\<close>

definition pget :: "profile \<Rightarrow> string \<Rightarrow> string \<Rightarrow> string res" where
  "pget p sec opt = (case map_of (p_sections p) sec of
       None \<Rightarrow> Inl NoSectionError
     | Some d \<Rightarrow> (case map_of d (lower opt) of
           Some v \<Rightarrow> Inr v
         | None \<Rightarrow> (case map_of (p_defaults p) (lower opt) of
               Some v \<Rightarrow> Inr v
             | None \<Rightarrow> Inl NoOptionError)))"

text \<open>\<open>get\<close> with a \<open>fallback\<close>.\<close>

definition pget_fb :: "profile \<Rightarrow> string \<Rightarrow> string \<Rightarrow> string \<Rightarrow> string" where
  "pget_fb p sec opt fb = (case pget p sec opt of Inl _ \<Rightarrow> fb | Inr v \<Rightarrow> v)"

text \<open>\<open>items\<close>: the defaults overlaid with the section.\<close>

definition pitems :: "profile \<Rightarrow> string \<Rightarrow> (string \<times> string) list res" where
  "pitems p sec = (case map_of (p_sections p) sec of
       None \<Rightarrow> Inl NoSectionError
     | Some d \<Rightarrow> Inr (dmerge (p_defaults p) d))"

text \<open>\<open>for item in profile.items( sec ): if item[0].startswith( pfx ): body( item[1] )\<close>.\<close>

definition for_items :: "profile \<Rightarrow> string \<Rightarrow> string \<Rightarrow> (string \<Rightarrow> ('s, unit) py) \<Rightarrow> ('s, unit) py" where
  "for_items p sec pfx body =
     bnd (lift (pitems p sec)) (\<lambda>its. for_each its (\<lambda>(k, v). whenM (startswith k pfx) (body v)))"

section \<open>Lemmas\<close>

lemma emit_apply [py_simps]: "emit e s = (Inr (), s\<lparr>events := events s @ [e]\<rparr>)"
  by (simp add: emit_def modify_apply)

text \<open>The commands of a trace.\<close>

fun runs :: "trace \<Rightarrow> string list" where
  "runs [] = []"
| "runs (Run c i e # t) = c # runs t"
| "runs (_ # t) = runs t"

lemma runs_append [simp]: "runs (t @ u) = runs t @ runs u"
  by (induction t rule: runs.induct) auto

text \<open>What the loop does: it runs the same command up to \<open>retry\<close> times, sleeping between two
  runs, and the outcome of the last run decides.\<close>

definition attempt_events :: "nat \<Rightarrow> string \<Rightarrow> string option \<Rightarrow> environment \<Rightarrow> trace" where
  "attempt_events n cmd stdin env = concat (replicate n [Run cmd (given stdin) env, Sleep 60])"

lemma attempt_events_Suc:
  "attempt_events (Suc n) cmd stdin env = Run cmd (given stdin) env # Sleep 60 # attempt_events n cmd stdin env"
  by (simp add: attempt_events_def)

lemma runs_attempt_events [simp]: "runs (attempt_events n cmd stdin env) = replicate n cmd"
  by (induction n) (simp_all add: attempt_events_Suc attempt_events_def)

definition retryable :: "int list option \<Rightarrow> int \<Rightarrow> bool" where
  "retryable rcs rc = (case rcs of None \<Rightarrow> False | Some l \<Rightarrow> rc \<in> set l \<and> rc \<noteq> 0)"

lemma run_loop_step:
  "run_loop (Suc n) w cmd stdin env rcs s =
     (let s' = s\<lparr>events := events s @ [Run cmd (given stdin) env]\<rparr> in
      case w_run w (events s) cmd (given stdin) env of
        Inl e \<Rightarrow> (Inl (fail_start e cmd), s')
      | Inr (rc, out) \<Rightarrow>
          if rc = 0 then (Inr out, s')
          else if \<not> retryable rcs rc then (Inl (fail_rc cmd), s')
          else run_loop n w cmd stdin env rcs (s\<lparr>events := events s @ [Run cmd (given stdin) env, Sleep 60]\<rparr>))"
  by (auto simp: py_simps retryable_def Let_def split: sum.splits option.splits)

lemma run_loop_0: "run_loop 0 w cmd stdin env rcs s = (Inl (fail_retries cmd), s)"
  by (simp add: throw_apply)

declare run_loop.simps [simp del]

text \<open>The trace after \<open>n\<close> failed attempts.\<close>

definition after_attempts :: "nat \<Rightarrow> string \<Rightarrow> string option \<Rightarrow> environment \<Rightarrow> 'a proc_state_scheme \<Rightarrow> 'a proc_state_scheme" where
  "after_attempts n cmd stdin env s = s\<lparr>events := events s @ attempt_events n cmd stdin env\<rparr>"

lemma after_attempts_0 [simp]: "after_attempts 0 cmd stdin env s = s"
  by (simp add: after_attempts_def attempt_events_def)

lemma after_attempts_Suc:
  "after_attempts (Suc n) cmd stdin env s =
     after_attempts n cmd stdin env (s\<lparr>events := events s @ [Run cmd (given stdin) env, Sleep 60]\<rparr>)"
  by (simp add: after_attempts_def attempt_events_Suc)

lemma run_loop_retries:
  assumes "\<forall>j < k. \<exists>rc out. w_run w (events (after_attempts j cmd stdin env s)) cmd (given stdin) env = Inr (rc, out)
             \<and> retryable rcs rc"
    and "k \<le> n"
  shows "run_loop n w cmd stdin env rcs s =
           run_loop (n - k) w cmd stdin env rcs (after_attempts k cmd stdin env s)"
  using assms
proof (induction k arbitrary: n s)
  case (Suc k)
  let ?s = "s\<lparr>events := events s @ [Run cmd (given stdin) env, Sleep 60]\<rparr>"
  from Suc.prems(2) obtain m where n: "n = Suc m" "k \<le> m" by (cases n) auto
  from Suc.prems(1) obtain rc out where
    "w_run w (events s) cmd (given stdin) env = Inr (rc, out)" "retryable rcs rc"
    by (metis after_attempts_0 zero_less_Suc)
  then have "run_loop n w cmd stdin env rcs s = run_loop m w cmd stdin env rcs ?s"
    by (auto simp: n run_loop_step retryable_def split: option.splits)
  also have "\<dots> = run_loop (m - k) w cmd stdin env rcs (after_attempts k cmd stdin env ?s)"
    using Suc.prems(1) n(2) by (intro Suc.IH) (auto simp flip: after_attempts_Suc)
  finally show ?case by (simp add: n after_attempts_Suc)
qed simp

lemma run_loop_events:
  "\<exists>k. snd (run_loop n w cmd stdin env rcs s) = s\<lparr>events := events s @ k\<rparr>
       \<and> length (runs k) \<le> n \<and> set k \<subseteq> {Run cmd (given stdin) env, Sleep 60}"
proof (induction n arbitrary: s)
  case 0
  show ?case by (rule exI[of _ "[]"]) (simp add: run_loop_0)
next
  case (Suc n)
  let ?e = "[Run cmd (given stdin) env]"
  let ?s = "s\<lparr>events := events s @ ?e @ [Sleep 60]\<rparr>"
  from Suc obtain k where k: "snd (run_loop n w cmd stdin env rcs ?s) = ?s\<lparr>events := events ?s @ k\<rparr>"
    "length (runs k) \<le> n" "set k \<subseteq> {Run cmd (given stdin) env, Sleep 60}" by meson
  show ?case
  proof (cases "\<exists>rc out. w_run w (events s) cmd (given stdin) env = Inr (rc, out) \<and> rc \<noteq> 0 \<and> retryable rcs rc")
    case True
    with k show ?thesis
      by (intro exI[of _ "?e @ [Sleep 60] @ k"]) (auto simp: run_loop_step)
  next
    case False
    then show ?thesis
      by (intro exI[of _ ?e]) (auto simp: run_loop_step Let_def split: sum.splits)
  qed
qed

text \<open>Only the trace changes: a command leaves every global of the installer alone.\<close>

lemma run_command_events:
  "\<exists>k. snd (run_command w cmd stdin env rcs s) = s\<lparr>events := events s @ k\<rparr>
       \<and> length (runs k) \<le> EXEC_RETRY_COUNT \<and> set k \<subseteq> {Run cmd (given stdin) env, Sleep 60}"
  using run_loop_events[of EXEC_RETRY_COUNT w cmd stdin env rcs s]
  by (cases "output_open s") (auto simp: run_command_def py_simps intro: exI[of _ "[]"])

lemma execute_full_events:
  "\<exists>k. snd (execute_full w cmd stdin rcs s) = s\<lparr>events := events s @ k\<rparr>
       \<and> length (runs k) \<le> EXEC_RETRY_COUNT \<and> set k \<subseteq> {Run cmd (given stdin) (global_env s), Sleep 60}"
  using run_command_events[of w cmd stdin "global_env s" rcs s]
  by (auto simp: execute_full_def py_simps split: prod.splits sum.splits)

lemma chroot_execute_full_events:
  "\<exists>k. snd (chroot_execute_full w cmd stdin rcs s) = s\<lparr>events := events s @ k\<rparr>
       \<and> length (runs k) \<le> EXEC_RETRY_COUNT
       \<and> set k \<subseteq> {Run (chroot_cmd (chroot_path s) cmd) (given stdin) (global_env s), Sleep 60}"
  using execute_full_events[of w "chroot_cmd (chroot_path s) cmd" stdin rcs s]
  by (simp add: chroot_execute_full_def py_simps)

text \<open>A command that succeeds at once.\<close>

lemma execute_ok:
  "output_open s \<Longrightarrow> w_run w (events s) cmd None (global_env s) = Inr (0, out) \<Longrightarrow>
     execute w cmd s = (Inr (), s\<lparr>events := events s @ [Run cmd None (global_env s)]\<rparr>)"
  by (simp add: execute_def execute_full_def run_command_def py_simps EXEC_RETRY_COUNT_def
      run_loop_step given_def numeral_eq_Suc)

lemma execute_lines_ok:
  "output_open s \<Longrightarrow> w_run w (events s) cmd None (global_env s) = Inr (0, out) \<Longrightarrow>
     execute_lines w cmd s = (Inr (splitlines out), s\<lparr>events := events s @ [Run cmd None (global_env s)]\<rparr>)"
  by (simp add: execute_lines_def run_command_def py_simps EXEC_RETRY_COUNT_def
      run_loop_step given_def numeral_eq_Suc)

text \<open>A command that returns was run once: without a list of statuses nothing is retried.\<close>

lemma execute_success:
  assumes "execute w cmd s = (Inr u, t)"
  shows "t = s\<lparr>events := events s @ [Run cmd None (global_env s)]\<rparr>"
  using assms
  by (auto simp: execute_def execute_full_def run_command_def py_simps EXEC_RETRY_COUNT_def run_loop_step
      numeral_eq_Suc given_def retryable_def Let_def split: sum.splits if_splits)

text \<open>A part of the state other than the trace is kept by commands and files.\<close>

lemma keeps_run_loop:
  fixes f :: "'a proc_state_scheme \<Rightarrow> 'b"
  assumes f: "\<And>s x. f (s\<lparr>events := x\<rparr>) = f s"
  shows "keeps f (run_command w cmd stdin env rcs)"
  unfolding keeps_def
proof
  fix s :: "'a proc_state_scheme"
  obtain k where "snd (run_command w cmd stdin env rcs s) = s\<lparr>events := events s @ k\<rparr>"
    using run_command_events[of w cmd stdin env rcs s] by blast
  with f show "f (snd (run_command w cmd stdin env rcs s)) = f s" by simp
qed

lemma keeps_commands [keeps_intros]:
  assumes "\<And>s x. f (s\<lparr>events := x\<rparr>) = f s"
  shows "keeps f (execute_full w cmd stdin rcs)" "keeps f (execute w cmd)" "keeps f (execute_lines w cmd)"
    "keeps f (chroot_execute_full w cmd stdin rcs)" "keeps f (chroot_execute w cmd)"
  unfolding execute_def chroot_execute_def chroot_execute_full_def execute_full_def execute_lines_def
  by (intro keeps_intros keeps_run_loop assms)+

lemma keeps_effects [keeps_intros]:
  assumes "\<And>s x. f (s\<lparr>events := x\<rparr>) = f s"
  shows "keeps f (emit e)" "keeps f (effect a e)" "keeps f (write_file w path x)" "keeps f (append_file w path x)"
    "keeps f (file_op w path e)" "keeps f (ensure_dir w path)" "keeps f (read_file w path)"
    "keeps f (path_exists w path)" "keeps f (readable w path)"
  unfolding emit_def effect_def write_file_def append_file_def file_op_def ensure_dir_def read_file_def
    path_exists_def readable_def
  by (intro keeps_intros assms)+

text \<open>Which events a step can leave. The rules go through the program text.\<close>

named_theorems appends_intros

definition appends :: "event set \<Rightarrow> ('a proc_state_scheme, 'b) py \<Rightarrow> bool" where
  "appends Q m = (\<forall>s. \<exists>k. events (snd (m s)) = events s @ k \<and> set k \<subseteq> Q)"

lemma appends_ret [appends_intros]: "appends Q (ret x)"
  by (simp add: appends_def py_simps)

lemma appends_throw [appends_intros]: "appends Q (throw e)"
  by (simp add: appends_def py_simps)

lemma appends_lift [appends_intros]: "appends Q (lift r)"
  by (simp add: appends_def py_simps)

lemma appends_gets [appends_intros]: "appends Q (gets f)"
  by (simp add: appends_def py_simps)

lemma appends_modify: "(\<And>s. events (f s) = events s) \<Longrightarrow> appends Q (modify f)"
  by (simp add: appends_def py_simps)

lemma appends_emit [appends_intros]: "e \<in> Q \<Longrightarrow> appends Q (emit e)"
  by (simp add: appends_def py_simps)

lemma appends_bnd [appends_intros]:
  assumes "appends Q m" and "\<And>x. appends Q (f x)"
  shows "appends Q (bnd m f)"
  unfolding appends_def
proof
  fix s
  obtain k where k: "events (snd (m s)) = events s @ k" "set k \<subseteq> Q"
    using assms(1) unfolding appends_def by blast
  show "\<exists>k. events (snd (bnd m f s)) = events s @ k \<and> set k \<subseteq> Q"
  proof (cases "m s")
    case (Pair r t)
    show ?thesis
    proof (cases r)
      case (Inr x)
      obtain l where "events (snd (f x t)) = events t @ l" "set l \<subseteq> Q"
        using assms(2) unfolding appends_def by blast
      with k Pair Inr show ?thesis by (intro exI[of _ "k @ l"]) (simp add: bnd_apply)
    qed (use k Pair in \<open>auto simp: bnd_apply\<close>)
  qed
qed

lemma appends_seq [appends_intros]: "appends Q m \<Longrightarrow> appends Q k \<Longrightarrow> appends Q (seq m k)"
  unfolding seq_def by (rule appends_bnd)

lemma appends_catch [appends_intros]:
  assumes "appends Q m" and "\<And>e. appends Q (h e)"
  shows "appends Q (catch m h)"
  unfolding appends_def
proof
  fix s
  obtain k where k: "events (snd (m s)) = events s @ k" "set k \<subseteq> Q"
    using assms(1) unfolding appends_def by blast
  show "\<exists>k. events (snd (catch m h s)) = events s @ k \<and> set k \<subseteq> Q"
  proof (cases "m s")
    case (Pair r t)
    show ?thesis
    proof (cases r)
      case (Inl e)
      obtain l where "events (snd (h e t)) = events t @ l" "set l \<subseteq> Q"
        using assms(2) unfolding appends_def by blast
      with k Pair Inl show ?thesis by (intro exI[of _ "k @ l"]) (simp add: catch_apply)
    qed (use k Pair in \<open>auto simp: catch_apply\<close>)
  qed
qed

lemma appends_on_exc [appends_intros]: "appends Q m \<Longrightarrow> appends Q h \<Longrightarrow> appends Q (on_exc p m h)"
  unfolding on_exc_def by (intro appends_catch) (simp_all add: appends_throw)

lemma appends_whenM [appends_intros]: "(b \<Longrightarrow> appends Q m) \<Longrightarrow> appends Q (whenM b m)"
  by (simp add: whenM_def appends_ret)

lemma appends_for_each [appends_intros]:
  "(\<And>x. x \<in> set xs \<Longrightarrow> appends Q (body x)) \<Longrightarrow> appends Q (for_each xs body)"
  by (induction xs) (simp_all add: appends_ret appends_seq)

lemma appends_if [appends_intros]: "(b \<Longrightarrow> appends Q m) \<Longrightarrow> (\<not> b \<Longrightarrow> appends Q k) \<Longrightarrow> appends Q (if b then m else k)"
  by simp

lemma appends_block_list [appends_intros]:
  "appends Q (block [])" "appends Q m \<Longrightarrow> appends Q (block ms) \<Longrightarrow> appends Q (block (m # ms))"
  by (simp_all add: block_simps appends_ret appends_seq)

lemma appends_block: "(\<And>m. m \<in> set ms \<Longrightarrow> appends Q m) \<Longrightarrow> appends Q (block ms)"
  unfolding block_def by (rule appends_for_each)

lemma appends_for_items [appends_intros]:
  "(\<And>v. appends Q (body v)) \<Longrightarrow> appends Q (for_items p sec pfx body)"
  unfolding for_items_def
  by (intro appends_bnd appends_lift appends_for_each) (auto simp: case_prod_unfold intro: appends_whenM)

lemma appends_effect [appends_intros]: "e \<in> Q \<Longrightarrow> appends Q (effect a e)"
  unfolding effect_def by (intro appends_intros)

lemma appends_files [appends_intros]:
  "WriteFile path x \<in> Q \<Longrightarrow> appends Q (write_file w path x)"
  "AppendFile path x \<in> Q \<Longrightarrow> appends Q (append_file w path x)"
  "e \<in> Q \<Longrightarrow> appends Q (file_op w path e)"
  "MakeDirs path \<in> Q \<Longrightarrow> appends Q (ensure_dir w path)"
  "appends Q (read_file w path)" "appends Q (path_exists w path)" "appends Q (readable w path)"
  by (simp_all add: write_file_def append_file_def file_op_def ensure_dir_def read_file_def path_exists_def
      readable_def appends_effect appends_bnd appends_gets appends_lift appends_whenM)

lemma appends_case_option [appends_intros]:
  "(x = None \<Longrightarrow> appends Q m) \<Longrightarrow> (\<And>y. x = Some y \<Longrightarrow> appends Q (k y)) \<Longrightarrow>
     appends Q (case x of None \<Rightarrow> m | Some y \<Rightarrow> k y)"
  by (simp split: option.split)

lemma appends_case_prod [appends_intros]:
  "(\<And>a b. x = (a, b) \<Longrightarrow> appends Q (k a b)) \<Longrightarrow> appends Q (case x of (a, b) \<Rightarrow> k a b)"
  by (simp split: prod.split)

lemma appends_empty: "appends {} m \<Longrightarrow> events (snd (m s)) = events s"
  by (fastforce simp: appends_def)

lemma appends_mono: "appends P m \<Longrightarrow> P \<subseteq> Q \<Longrightarrow> appends Q m"
  unfolding appends_def by (meson subset_trans)

text \<open>The events of commands.\<close>

definition commands :: "event set" where
  "commands = insert (Sleep 60) {Run c i e | c i e. True}"

lemma appends_execute_full [appends_intros]:
  assumes "commands \<subseteq> Q"
  shows "appends Q (execute_full w cmd stdin rcs)"
  unfolding appends_def
proof
  fix s :: "'a proc_state_scheme"
  obtain k where k: "snd (execute_full w cmd stdin rcs s) = s\<lparr>events := events s @ k\<rparr>"
    "set k \<subseteq> {Run cmd (given stdin) (global_env s), Sleep 60}"
    using execute_full_events[of w cmd stdin rcs s] by blast
  have "set k \<subseteq> Q"
    by (rule subset_trans[OF k(2)], rule subset_trans[OF _ assms]) (auto simp: commands_def)
  with k(1) show "\<exists>k. events (snd (execute_full w cmd stdin rcs s)) = events s @ k \<and> set k \<subseteq> Q"
    by (intro exI[of _ k]) simp
qed

lemma appends_execute_lines [appends_intros]:
  assumes "commands \<subseteq> Q"
  shows "appends Q (execute_lines w cmd :: ('a proc_state_scheme, string list) py)"
proof -
  have "appends Q (run_command w cmd None env None :: ('a proc_state_scheme, string) py)" for env
    unfolding appends_def
  proof
    fix s :: "'a proc_state_scheme"
    obtain k where k: "snd (run_command w cmd None env None s) = s\<lparr>events := events s @ k\<rparr>"
      "set k \<subseteq> {Run cmd (given None) env, Sleep 60}"
      using run_command_events[of w cmd None env None s] by blast
    have "set k \<subseteq> Q"
      by (rule subset_trans[OF k(2)], rule subset_trans[OF _ assms]) (auto simp: commands_def)
    with k(1) show "\<exists>k. events (snd (run_command w cmd None env None s)) = events s @ k \<and> set k \<subseteq> Q"
      by (intro exI[of _ k]) simp
  qed
  then show ?thesis unfolding execute_lines_def by (intro appends_intros)
qed

lemma appends_chroot_execute_full [appends_intros]:
  "commands \<subseteq> Q \<Longrightarrow> appends Q (chroot_execute_full w cmd stdin rcs)"
  unfolding chroot_execute_full_def by (intro appends_intros)

lemma appends_execute [appends_intros]:
  "commands \<subseteq> Q \<Longrightarrow> appends Q (execute w cmd)" "commands \<subseteq> Q \<Longrightarrow> appends Q (chroot_execute w cmd)"
  unfolding execute_def chroot_execute_def by (intro appends_intros; assumption)+

section \<open>Properties\<close>

text \<open>However the machine answers, one call of \<open>_execute\<close> runs nothing but the given command, at
  most ten times, with the given environment, and changes nothing but the trace.\<close>

theorem execute_runs_at_most_10:
  "\<exists>k. snd (run_command w cmd stdin env rcs s) = s\<lparr>events := events s @ k\<rparr>
       \<and> length (runs k) \<le> 10 \<and> set k \<subseteq> {Run cmd (given stdin) env, Sleep 60}"
  using run_command_events[of w cmd stdin env rcs s] by (simp add: EXEC_RETRY_COUNT_def)

text \<open>When the first \<open>i < 10\<close> attempts end with a status of \<open>retry_rc_list\<close> and the next one with 0,
  \<open>_execute\<close> returns the output of that one, after \<open>i\<close> pauses; and when ten attempts end with a status of
  the list it raises the retries-exceeded exception after the tenth.\<close>

theorem execute_retries:
  assumes "output_open s" and "i \<le> 10"
    and "\<forall>j < i. \<exists>rc out. w_run w (events (after_attempts j cmd stdin env s)) cmd (given stdin) env = Inr (rc, out)
             \<and> retryable rcs rc"
    and "i < 10 \<Longrightarrow> w_run w (events (after_attempts i cmd stdin env s)) cmd (given stdin) env = Inr (0, out)"
  shows "run_command w cmd stdin env rcs s =
           (if i < 10 then (Inr out, s\<lparr>events := events s @ attempt_events i cmd stdin env @ [Run cmd (given stdin) env]\<rparr>)
            else (Inl (fail_retries cmd), s\<lparr>events := events s @ attempt_events 10 cmd stdin env\<rparr>))"
proof -
  have r: "run_command w cmd stdin env rcs s =
             run_loop (10 - i) w cmd stdin env rcs (after_attempts i cmd stdin env s)"
    using assms(1-3) by (simp add: run_command_def py_simps EXEC_RETRY_COUNT_def run_loop_retries)
  show ?thesis
  proof (cases "i < 10")
    case True
    then obtain m where "10 - i = Suc m" by (cases "10 - i") auto
    with True assms(4) r show ?thesis
      by (simp add: run_loop_step) (simp add: after_attempts_def)
  next
    case False
    with assms(2) r show ?thesis by (simp add: run_loop_0 after_attempts_def)
  qed
qed

definition apt_world :: world where
  "apt_world = \<lparr>w_run = (\<lambda>t c i e. Inr (if length t < 2 then 100 else 0, ''ok'')),
     w_exists = (\<lambda>t p. False), w_isdir = (\<lambda>t p. False), w_readable = (\<lambda>t p. False),
     w_read = (\<lambda>t p. Inr []), w_write = (\<lambda>t p. Inr ()), w_glob = (\<lambda>t p. []), w_kill = (\<lambda>t p. Inr ()),
     w_http = (\<lambda>t u p. Inr (200, None, [])), w_ini = (\<lambda>t p. \<lparr>p_defaults = [], p_sections = []\<rparr>), w_render = (\<lambda>t l. Inr ()),
     w_drives = (\<lambda>t. \<lparr>dv_blocks = [], dv_ports = [], dv_devpaths = []\<rparr>), w_time = (\<lambda>t. 0)\<rparr>"

definition open_state :: proc_state where
  "open_state = \<lparr>output_open = True, chroot_path = Some ''/target'', global_env = [(''http_proxy'', ''p'')],
     chroot_env = [], events = []\<rparr>"

theorem execute_retries_witness:
  "run_command apt_world ''a'' None [] (Some [100]) open_state =
     (Inr ''ok'', open_state\<lparr>events := [Run ''a'' None [], Sleep 60, Run ''a'' None []]\<rparr>)"
  using execute_retries[of open_state 1 apt_world "''a''" None "[]" "Some [100]" "''ok''"]
  by (simp add: apt_world_def open_state_def after_attempts_def attempt_events_def retryable_def given_def)

text \<open>A command run inside the target gets the installer's own environment, whatever
  \<open>chroot_env\<close> holds: the proxy variables that the module removes from \<open>chroot_env\<close> still reach it, and the
  variables that \<open>preBaseSetup\<close> adds to \<open>chroot_env\<close> do not.\<close>

theorem chroot_env_unused:
  "chroot_execute w cmd (s\<lparr>chroot_env := e\<rparr>) =
     (case chroot_execute w cmd s of (r, t) \<Rightarrow> (r, t\<lparr>chroot_env := e\<rparr>))
   \<and> (\<exists>k. events (snd (chroot_execute w cmd s)) = events s @ k
        \<and> set k \<subseteq> {Run (chroot_cmd (chroot_path s) cmd) None (global_env s), Sleep 60})"
proof (rule conjI)
  have swap: "t\<lparr>chroot_env := e, events := x\<rparr> = t\<lparr>events := x, chroot_env := e\<rparr>"
    for t :: "'a proc_state_scheme" and x by simp
  have *: "run_loop n w c i g rcs (s\<lparr>chroot_env := e\<rparr>) =
      (case run_loop n w c i g rcs s of (r, t) \<Rightarrow> (r, t\<lparr>chroot_env := e\<rparr>))" for n c i g rcs
    by (induction n arbitrary: s) (auto simp: run_loop_0 run_loop_step Let_def swap split: sum.splits)
  show "chroot_execute w cmd (s\<lparr>chroot_env := e\<rparr>) =
     (case chroot_execute w cmd s of (r, t) \<Rightarrow> (r, t\<lparr>chroot_env := e\<rparr>))"
    by (auto simp: chroot_execute_def chroot_execute_full_def execute_full_def run_command_def py_simps *
        split: prod.splits sum.splits)
  show "\<exists>k. events (snd (chroot_execute w cmd s)) = events s @ k
        \<and> set k \<subseteq> {Run (chroot_cmd (chroot_path s) cmd) None (global_env s), Sleep 60}"
    using chroot_execute_full_events[of w cmd None None s] by (auto simp: chroot_execute_def given_def)
qed

end
