(* ===== verification/Packaging.thy ===== *)
theory Packaging
  imports Installer_Exec
begin

text \<open>
  The packages, users and post-install steps of the Linux installer: \<open>installer/httputils.py\<close>
  (\<open>http_getfile\<close>), the calls of \<open>installer/config.py\<close> that these modules make
  (\<open>renderTemplates\<close>, the shell helper), \<open>installer/packaging.py\<close>, \<open>installer/users.py\<close> and
  \<open>installer/misc.py\<close>. \<open>pkg_state\<close> adds the globals of \<open>packaging.py\<close> to \<open>proc_state\<close>.
\<close>

record pkg_state = proc_state +
  manager_type :: "string option"
  divert_list :: "(string \<times> string) list"

type_synonym value_map = "(string, pyval) dict"

section \<open>httputils.py\<close>

definition via_of :: "pyval \<Rightarrow> http_via res" where
  "via_of proxy = (if \<not> truthy proxy then Inr ViaEnv
     else rbnd (str_of proxy) (\<lambda>p. Inr (if p = ''local'' then Direct else ViaProxy p)))"

definition same_url :: "string \<Rightarrow> string option \<Rightarrow> exc" where
  "same_url url new_url = PlainException (''Got Redirect to same URL \"'' @ url @ ''\" to \"'' @
     (case new_url of None \<Rightarrow> ''None'' | Some u \<Rightarrow> u) @ ''\"'')"

definition http_error :: "int \<Rightarrow> exc" where
  "http_error code = PlainException (''Error with request, HTTP Error \"'' @ show_int code @ ''\"'')"

text \<open>The recursion on redirects has no bound of its own; the fuel is Python's recursion limit.\<close>

fun http_get :: "nat \<Rightarrow> world \<Rightarrow> string \<Rightarrow> http_via \<Rightarrow> ('a proc_state_scheme, string) py" where
  "http_get 0 w url via = throw OutOfFuel"
| "http_get (Suc fuel) w url via =
     bnd (gets (\<lambda>s. w_http w (events s) url via)) (\<lambda>r.
     seq (emit (HttpGet url via))
     (bnd (lift r) (\<lambda>(code, new_url, body).
        if code = 301 \<or> code = 302 then
          (case new_url of
             None \<Rightarrow> throw (same_url url new_url)
           | Some u \<Rightarrow> if u = url then throw (same_url url new_url) else http_get fuel w u via)
        else if code \<noteq> 200 then throw (http_error code)
        else ret body)))"

definition http_fuel :: nat where
  "http_fuel = 1000"

definition http_getfile :: "world \<Rightarrow> string \<Rightarrow> pyval \<Rightarrow> ('a proc_state_scheme, string) py" where
  "http_getfile w url proxy = bnd (lift (via_of proxy)) (\<lambda>via. http_get http_fuel w url via)"

section \<open>config.py\<close>

definition renderTemplates :: "world \<Rightarrow> string list \<Rightarrow> ('a proc_state_scheme, unit) py" where
  "renderTemplates w template_list =
     (let l = map strip template_list in effect (\<lambda>t. w_render w t l) (Render l))"

definition render_option :: "world \<Rightarrow> profile \<Rightarrow> string \<Rightarrow> string \<Rightarrow> ('a proc_state_scheme, unit) py" where
  "render_option w p sec opt = bnd (lift (pget p sec opt)) (\<lambda>v. renderTemplates w (split_chr CHR '','' v))"

definition baseConfig :: "world \<Rightarrow> profile \<Rightarrow> ('a proc_state_scheme, unit) py" where
  "baseConfig w p = block [
     render_option w p ''config'' ''base_templates'',
     on_exc (\<lambda>e. e = NoOptionError) (bnd (lift (pget p ''config'' ''base_cmd'')) (chroot_execute w)) (ret ())]"

text \<open>\<open>writeShellHelper\<close>: one assignment per value, the value in single quotes.\<close>

definition squote :: char where
  "squote = CHR 0x27"

definition shell_escape :: "string \<Rightarrow> string" where
  "shell_escape v = replace [squote] [squote, CHR 0x22, squote, CHR 0x22, squote] v"

definition helper_line :: "string \<Rightarrow> string \<Rightarrow> string" where
  "helper_line name v = name @ ''='' @ [squote] @ shell_escape v @ [squote] @ nl"

definition writeShellHelper :: "world \<Rightarrow> value_map \<Rightarrow> ('a proc_state_scheme, unit) py" where
  "writeShellHelper w values =
     bnd (lift (collect values (\<lambda>(k, v). rbnd (py_str v) (\<lambda>t. Inr (helper_line k t))))) (\<lambda>ls.
       write_file w ''/target/config_data'' (concat ls))"

section \<open>packaging.py\<close>

definition managers :: "string list" where
  "managers = [''apt'', ''yum'', ''zypper'']"

definition apt_update :: "world \<Rightarrow> ('a proc_state_scheme, unit) py" where
  "apt_update w = chroot_execute_full w ''/usr/bin/apt-get update'' None (Some [100])"

text \<open>Where a fetched key goes: into \<open>key_file\<close>, else for apt into the key ring.\<close>

definition store_key :: "world \<Rightarrow> string \<Rightarrow> string \<Rightarrow> value_map \<Rightarrow> string \<Rightarrow> ('a proc_state_scheme, unit) py" where
  "store_key w install_root mgr repo tmp =
     (case map_of repo ''key_file'' of
        Some f \<Rightarrow> bnd (lift (py_str f)) (\<lambda>kf.
          let path = install_root @ ''/'' @ kf in block [
            ensure_dir w (os_dirname path),
            write_file w path tmp])
      | None \<Rightarrow>
          if mgr = ''apt'' then bnd (lift (utf8_decode tmp)) (\<lambda>t.
            chroot_execute_full w ''/usr/bin/apt-key add -'' (Some t) None)
          else ret ())"

text \<open>One turn of the loop over \<open>repo_list\<close>; the value is the new \<open>key_uris\<close>.\<close>

definition repo_key :: "world \<Rightarrow> string \<Rightarrow> string \<Rightarrow> string list \<Rightarrow> value_map \<Rightarrow> ('a proc_state_scheme, string list) py" where
  "repo_key w install_root mgr key_uris repo =
     (case map_of repo ''key_uri'' of
        None \<Rightarrow> ret key_uris
      | Some u \<Rightarrow> bnd (lift (dindex repo ''type'')) (\<lambda>ty.
          if ty \<noteq> PStr mgr then ret key_uris
          else bnd (lift (str_of u)) (\<lambda>uri.
            if uri \<in> set key_uris then ret key_uris
            else bnd (http_getfile w uri (case map_of repo ''proxy'' of None \<Rightarrow> PNone | Some p \<Rightarrow> p)) (\<lambda>tmp.
              seq (store_key w install_root mgr repo tmp) (ret (key_uris @ [uri]))))))"

fun repo_keys :: "world \<Rightarrow> string \<Rightarrow> string \<Rightarrow> string list \<Rightarrow> pyval list \<Rightarrow> ('a proc_state_scheme, unit) py" where
  "repo_keys w install_root mgr key_uris [] = ret ()"
| "repo_keys w install_root mgr key_uris (r # rs) =
     bnd (lift (dict_of r)) (\<lambda>repo.
     bnd (repo_key w install_root mgr key_uris repo) (\<lambda>ks. repo_keys w install_root mgr ks rs))"

definition clean_repos :: "world \<Rightarrow> string \<Rightarrow> ('a proc_state_scheme, unit) py" where
  "clean_repos w install_root = execute w (''ash -c \"rm '' @ install_root @ ''/etc/yum.repos.d/*\"'')"

definition configSources :: "world \<Rightarrow> string \<Rightarrow> profile \<Rightarrow> value_map \<Rightarrow> ('a pkg_state_scheme, unit) py" where
  "configSources w install_root p value_map =
     bnd (lift (pget p ''packaging'' ''manager_type'')) (\<lambda>mgr.
     seq (modify (\<lambda>s. s\<lparr>manager_type := Some mgr\<rparr>))
     (if mgr \<notin> set managers then throw (PlainException (''Unknwon Packaging manager type \"'' @ mgr @ ''\"''))
      else block [
        whenM (mgr = ''yum'') (clean_repos w install_root),
        bnd (lift (rbnd (dindex value_map ''repo_list'') list_of)) (repo_keys w install_root mgr []),
        render_option w p ''packaging'' ''source_templates'',
        whenM (mgr = ''apt'') (apt_update w)]))"

text \<open>A step that depends on the package manager: a global compared with the three names.\<close>

definition by_manager :: "('a pkg_state_scheme, unit) py \<Rightarrow> ('a pkg_state_scheme, unit) py \<Rightarrow> ('a pkg_state_scheme, unit) py
    \<Rightarrow> ('a pkg_state_scheme, unit) py" where
  "by_manager apt yum zypper = bnd (gets manager_type) (\<lambda>m.
     if m = Some ''apt'' then apt else if m = Some ''yum'' then yum
     else if m = Some ''zypper'' then zypper else ret ())"

definition installPackages :: "world \<Rightarrow> string \<Rightarrow> ('a pkg_state_scheme, unit) py" where
  "installPackages w packages = by_manager
     (chroot_execute w (''/usr/bin/apt-get install -q -y '' @ packages))
     (block [chroot_execute w (''/usr/bin/yum -y install '' @ packages),
             chroot_execute w (''/usr/bin/rpm --query '' @ packages)])
     (chroot_execute w (''/usr/bin/zypper --non-interactive install '' @ packages))"

definition installBase :: "world \<Rightarrow> string \<Rightarrow> profile \<Rightarrow> ('a pkg_state_scheme, unit) py" where
  "installBase w install_root p =
     (case pget p ''packaging'' ''base'' of
        Inl NoOptionError \<Rightarrow> ret ()
      | Inl e \<Rightarrow> throw e
      | Inr base \<Rightarrow> by_manager
          (chroot_execute w (''/usr/bin/apt-get install -q -y '' @ base))
          (block [chroot_execute w (''/usr/bin/yum -y groupinstall '' @ base),
                  chroot_execute w ''/usr/bin/yum -y reinstall yum centos-release'',
                  clean_repos w install_root,
                  render_option w p ''packaging'' ''source_templates''])
          (chroot_execute w (''/usr/bin/zypper --non-interactive install '' @ base)))"

text \<open>\<open>manager:package\<close> is for one manager only, a plain name for all.\<close>

definition select_package :: "string option \<Rightarrow> string \<Rightarrow> string list" where
  "select_package mgr package =
     (case split_chr CHR '':'' package of
        [_] \<Rightarrow> [package]
      | a # b # _ \<Rightarrow> if mgr = Some a then [b] else []
      | [] \<Rightarrow> [])"

definition installOtherPackages :: "world \<Rightarrow> profile \<Rightarrow> value_map \<Rightarrow> ('a pkg_state_scheme, unit) py" where
  "installOtherPackages w p value_map =
     bnd (lift (pget p ''packaging'' ''packages'')) (\<lambda>v.
     bnd (lift (case map_of value_map ''package_list'' of
            None \<Rightarrow> Inr [] | Some l \<Rightarrow> rbnd (list_of l) (\<lambda>xs. collect xs str_of))) (\<lambda>extra.
     bnd (gets manager_type) (\<lambda>m.
       let package_list = split_chr CHR '' '' v @ extra in
       whenM (package_list \<noteq> []) (installPackages w (join '' '' (concat (map (select_package m) package_list)))))))"

definition updatePackages :: "world \<Rightarrow> ('a pkg_state_scheme, unit) py" where
  "updatePackages w = by_manager
     (block [apt_update w, chroot_execute w ''/usr/bin/apt-get upgrade -q -y''])
     (chroot_execute w ''/usr/bin/yum -y update'')
     (chroot_execute w ''/usr/bin/zypper --non-interactive update'')"

text \<open>\<open>( name, target ) = item[1].split( ':' )\<close>: exactly two parts.\<close>

definition pair_of :: "string \<Rightarrow> (string \<times> string) res" where
  "pair_of v = (case split_chr CHR '':'' v of [a, b] \<Rightarrow> Inr (a, b) | _ \<Rightarrow> Inl ValueError)"

definition divert_cmds :: "string \<times> string \<Rightarrow> string list" where
  "divert_cmds = (\<lambda>(name, target).
     [''/usr/bin/dpkg-divert --divert '' @ name @ ''.linux-installer --rename '' @ name,
      ''ln -s '' @ target @ '' '' @ name])"

definition undivert_cmds :: "string \<times> string \<Rightarrow> string list" where
  "undivert_cmds = (\<lambda>(name, target).
     [''rm '' @ name, ''/usr/bin/dpkg-divert --rename --remove '' @ name])"

definition divert :: "world \<Rightarrow> profile \<Rightarrow> ('a pkg_state_scheme, unit) py" where
  "divert w p = block [
     for_items p ''packaging'' ''divert_'' (\<lambda>v. bnd (lift (pair_of v)) (\<lambda>(name, target).
       modify (\<lambda>s. s\<lparr>divert_list := divert_list s @ [(strip name, strip target)]\<rparr>))),
     by_manager
       (bnd (gets divert_list) (\<lambda>ds. for_each ds (\<lambda>d. for_each (divert_cmds d) (chroot_execute w))))
       (ret ()) (ret ())]"

definition undivert :: "world \<Rightarrow> profile \<Rightarrow> ('a pkg_state_scheme, unit) py" where
  "undivert w p = by_manager
     (bnd (gets divert_list) (\<lambda>ds. for_each ds (\<lambda>d. for_each (undivert_cmds d) (chroot_execute w))))
     (ret ()) (ret ())"

definition debconf :: "world \<Rightarrow> string \<Rightarrow> ('a proc_state_scheme, unit) py" where
  "debconf w sel = chroot_execute_full w ''/usr/bin/debconf-set-selections'' (Some sel) None"

definition preBaseSetup :: "world \<Rightarrow> profile \<Rightarrow> value_map \<Rightarrow> ('a pkg_state_scheme, unit) py" where
  "preBaseSetup w p value_map = block [
     render_option w p ''packaging'' ''prebase_templates'',
     for_items p ''packaging'' ''install_env_var_'' (\<lambda>v.
       (case split1 CHR '':'' v of
          None \<Rightarrow> throw ValueError
        | Some (name, x) \<Rightarrow> modify (\<lambda>s. s\<lparr>chroot_env := dset name x (chroot_env s)\<rparr>))),
     by_manager
       (block [
          for_items p ''packaging'' ''selection_'' (debconf w),
          bnd (lift (case map_of value_map ''debconf_selection_list'' of
                 None \<Rightarrow> Inr [] | Some l \<Rightarrow> rbnd (list_of l) (\<lambda>xs. collect xs str_of)))
            (\<lambda>l. for_each l (debconf w))])
       (ret ()) (ret ()),
     for_items p ''packaging'' ''prebase_cmd_'' (chroot_execute w)]"

definition find_rm :: "world \<Rightarrow> string \<Rightarrow> string \<Rightarrow> ('a proc_state_scheme, unit) py" where
  "find_rm w install_root ext = execute w (''/bin/find '' @ install_root @ '' '' @ bs @ ''( -path '' @ install_root
     @ ''/proc -o -path '' @ install_root @ ''/sys '' @ bs @ '') -prune -o -name *.'' @ ext @ '' -exec rm {} '' @ bs @ '';'')"

definition cleanPackaging :: "world \<Rightarrow> string \<Rightarrow> ('a pkg_state_scheme, unit) py" where
  "cleanPackaging w install_root = by_manager
     (chroot_execute w ''/usr/bin/apt-get clean'')
     (block [chroot_execute w ''/usr/bin/yum clean all'',
             find_rm w install_root ''rpmnew'', find_rm w install_root ''rpmsave''])
     (block [chroot_execute w ''/usr/bin/zypper --non-interactive clean'',
             find_rm w install_root ''rpmnew'', find_rm w install_root ''rpmsave''])"

section \<open>users.py\<close>

definition default_root_hash :: string where
  "default_root_hash = bs @ ''$6'' @ bs @ ''$rootroot'' @ bs @
     ''$oLo.loyMV45VA7/0sKV5JH/xBAXiq/igL4hQrGz3yd9XUavmC82tZm1lxW2N.5eLxQUlqp53wXKRzifZApP0/1''"

definition vget :: "value_map \<Rightarrow> string \<Rightarrow> pyval \<Rightarrow> pyval" where
  "vget m k d = (case map_of m k of None \<Rightarrow> d | Some v \<Rightarrow> v)"

definition copy_skel :: "world \<Rightarrow> string \<Rightarrow> string \<Rightarrow> ('a proc_state_scheme, unit) py" where
  "copy_skel w mount_point skel_dir =
     (let src_dir = os_join mount_point skel_dir; dest_dir = os_join mount_point ''root'' in
      bnd (gets (\<lambda>s. w_glob w (events s) (src_dir @ ''*''))) (\<lambda>fs. for_each fs (\<lambda>f.
        file_op w (replace src_dir dest_dir f) (CopyTree f (replace src_dir dest_dir f)))))"

text \<open>The group of a user is added while its argument is collected; the value is the argument.\<close>

definition user_group :: "world \<Rightarrow> value_map \<Rightarrow> ('a proc_state_scheme, string list) py" where
  "user_group w user = (case map_of user ''group'' of
       None \<Rightarrow> ret []
     | Some g \<Rightarrow> bnd (lift (py_str g)) (\<lambda>t.
         seq (chroot_execute w (''/usr/sbin/addgroup '' @ t)) (ret [''--group '' @ t])))"

definition user_password :: "string option \<Rightarrow> value_map \<Rightarrow> string list res" where
  "user_password skel_dir user = (case map_of user ''password_hash'' of
       None \<Rightarrow> Inr []
     | Some h \<Rightarrow> rbnd (py_str h) (\<lambda>t. Inr ([''--password '' @ t, ''--create-home''] @
         (case skel_dir of None \<Rightarrow> [] | Some d \<Rightarrow> if d = [] then [] else [''--skel '' @ d]))))"

definition add_user :: "world \<Rightarrow> string \<Rightarrow> string option \<Rightarrow> value_map \<Rightarrow> ('a proc_state_scheme, unit) py" where
  "add_user w mount_point skel_dir user =
     bnd (lift (rbnd (dindex user ''name'') py_str)) (\<lambda>name.
     bnd (user_group w user) (\<lambda>g.
     bnd (lift (user_password skel_dir user)) (\<lambda>pw.
     seq (chroot_execute w (''/usr/sbin/useradd '' @ join '' '' (g @ [''--shell /bin/bash''] @ pw) @ '' '' @ name))
     (bnd (lift (rbnd (list_of (vget user ''sudo_list'' (PList []))) (\<lambda>l. collect l py_str))) (\<lambda>l.
        for_each l (\<lambda>item. append_file w (mount_point @ ''/etc/sudoers'') (name @ '' '' @ item @ nl)))))))"

definition setupUsers :: "world \<Rightarrow> string \<Rightarrow> profile \<Rightarrow> value_map \<Rightarrow> ('a proc_state_scheme, unit) py" where
  "setupUsers w mount_point p value_map =
     bnd (lift (py_str (vget value_map ''root_password_hash'' (PStr default_root_hash)))) (\<lambda>h.
     seq (chroot_execute w (''/usr/sbin/usermod -p '' @ h @ '' root''))
     (let skel_dir = (case pget p ''users'' ''skel_dir'' of Inl _ \<Rightarrow> None | Inr d \<Rightarrow> Some d) in
      seq (case skel_dir of None \<Rightarrow> ret () | Some d \<Rightarrow> copy_skel w mount_point d)
      (bnd (lift (rbnd (list_of (vget value_map ''user_list'' (PList []))) (\<lambda>l. collect l dict_of))) (\<lambda>l.
         for_each l (add_user w mount_point skel_dir)))))"

section \<open>misc.py\<close>

text \<open>\<open>open( path, 'w' ).write( http_getfile( url ) )\<close>: the file is truncated, the download happens,
  and writing the bytes it returns to a text file raises.\<close>

definition write_download :: "world \<Rightarrow> string \<Rightarrow> string \<Rightarrow> ('a proc_state_scheme, unit) py" where
  "write_download w path url =
     seq (write_file w path []) (bnd (http_getfile w url PNone) (\<lambda>body. throw TypeError))"

definition sh_c :: "string \<Rightarrow> string" where
  "sh_c cmd = ''sh -c '' @ [squote] @ cmd @ [squote]"

definition postInstall :: "world \<Rightarrow> string \<Rightarrow> profile \<Rightarrow> value_map \<Rightarrow> ('a proc_state_scheme, unit) py" where
  "postInstall w install_root p value_map = block [
     for_items p ''general'' ''after_cmd_'' (\<lambda>v. chroot_execute w (sh_c v)),
     (case map_of value_map ''postinstall_script'' of
        None \<Rightarrow> ret ()
      | Some u \<Rightarrow> bnd (lift (str_of u)) (\<lambda>url.
          let target_path = os_join install_root ''postinstall.sh'' in block [
            write_download w target_path url,
            file_op w target_path (AddExec target_path),
            chroot_execute w ''/postinstall.sh'',
            file_op w target_path (Unlink target_path)])),
     bnd (lift (rbnd (list_of (vget value_map ''postinstall_command_list'' (PList []))) (\<lambda>l. collect l py_str)))
       (\<lambda>l. for_each l (\<lambda>c. chroot_execute w (sh_c c)))]"

section \<open>Lemmas\<close>

text \<open>When every command succeeds at once, a command line is one more \<open>Run\<close> event.\<close>

definition all_ok :: "world \<Rightarrow> bool" where
  "all_ok w = (\<forall>t c i e. \<exists>out. w_run w t c i e = Inr (0, out))"

definition ran :: "string \<Rightarrow> string option \<Rightarrow> 'a proc_state_scheme \<Rightarrow> 'a proc_state_scheme" where
  "ran cmd stdin s = s\<lparr>events := events s @ [Run cmd (given stdin) (global_env s)]\<rparr>"

definition ran_all :: "string list \<Rightarrow> 'a proc_state_scheme \<Rightarrow> 'a proc_state_scheme" where
  "ran_all cmds s = s\<lparr>events := events s @ map (\<lambda>c. Run c None (global_env s)) cmds\<rparr>"

lemma execute_full_all_ok:
  "all_ok w \<Longrightarrow> output_open s \<Longrightarrow> execute_full w cmd stdin rcs s = (Inr (), ran cmd stdin s)"
proof -
  assume "all_ok w" "output_open s"
  moreover obtain out where "w_run w (events s) cmd (given stdin) (global_env s) = Inr (0, out)"
    using \<open>all_ok w\<close> unfolding all_ok_def by blast
  ultimately show ?thesis
    by (simp add: execute_full_def run_command_def py_simps EXEC_RETRY_COUNT_def run_loop_step numeral_eq_Suc ran_def)
qed

lemma chroot_execute_full_all_ok:
  "all_ok w \<Longrightarrow> output_open s \<Longrightarrow>
     chroot_execute_full w cmd stdin rcs s = (Inr (), ran (chroot_cmd (chroot_path s) cmd) stdin s)"
  by (simp add: chroot_execute_full_def py_simps execute_full_all_ok)

lemma execute_all_ok: "all_ok w \<Longrightarrow> output_open s \<Longrightarrow> execute w cmd s = (Inr (), ran_all [cmd] s)"
  by (simp add: execute_def execute_full_all_ok ran_def ran_all_def given_def)

lemma chroot_execute_all_ok:
  "all_ok w \<Longrightarrow> output_open s \<Longrightarrow>
     chroot_execute w cmd s = (Inr (), ran_all [chroot_cmd (chroot_path s) cmd] s)"
  by (simp add: chroot_execute_def chroot_execute_full_all_ok ran_def ran_all_def given_def)

lemma ran_all_simps [simp]:
  "output_open (ran_all c s) = output_open s" "chroot_path (ran_all c s) = chroot_path s"
  "global_env (ran_all c s) = global_env s"
  "ran_all [] s = s" "ran_all d (ran_all c s) = ran_all (c @ d) s"
  by (simp_all add: ran_all_def)

lemma ran_simps [simp]:
  "output_open (ran c i s) = output_open s" "chroot_path (ran c i s) = chroot_path s"
  "global_env (ran c i s) = global_env s" "events (ran c i s) = events s @ [Run c (given i) (global_env s)]"
  by (simp_all add: ran_def)

lemma chroot_each_all_ok:
  "all_ok w \<Longrightarrow> output_open s \<Longrightarrow>
     for_each cmds (chroot_execute w) s = (Inr (), ran_all (map (chroot_cmd (chroot_path s)) cmds) s)"
  by (induction cmds arbitrary: s) (simp_all add: py_simps chroot_execute_all_ok)

lemma chroot_each_each_all_ok:
  "all_ok w \<Longrightarrow> output_open s \<Longrightarrow>
     for_each xs (\<lambda>x. for_each (f x) (chroot_execute w)) s =
       (Inr (), ran_all (map (chroot_cmd (chroot_path s)) (concat (map f xs))) s)"
  by (induction xs arbitrary: s) (simp_all add: py_simps chroot_each_all_ok)

lemma replace_Nil [simp]: "replace old new [] = []"
  by (simp add: replace.simps)

lemma replace_chr:
  "replace [c] new (x # xs) = (if x = c then new @ replace [c] new xs else x # replace [c] new xs)"
  by (subst replace.simps) (simp add: startswith_def)

text \<open>The addresses that were fetched.\<close>

fun fetched :: "trace \<Rightarrow> string list" where
  "fetched [] = []"
| "fetched (HttpGet u v # t) = u # fetched t"
| "fetched (_ # t) = fetched t"

lemma fetched_append [simp]: "fetched (t @ u) = fetched t @ fetched u"
  by (induction t rule: fetched.induct) auto

definition no_fetch :: "event set" where
  "no_fetch = {e. \<forall>u v. e \<noteq> HttpGet u v}"

lemma fetched_no_fetch: "set t \<subseteq> no_fetch \<Longrightarrow> fetched t = []"
  by (induction t rule: fetched.induct) (auto simp: no_fetch_def)

lemma commands_no_fetch: "commands \<subseteq> no_fetch"
  by (auto simp: commands_def no_fetch_def)

lemma fetched_appends: "appends no_fetch m \<Longrightarrow> fetched (events (snd (m s))) = fetched (events s)"
  unfolding appends_def by (metis append_Nil2 fetched_append fetched_no_fetch)

lemma appends_store_key: "appends no_fetch (store_key w install_root mgr repo tmp)"
proof (cases "map_of repo ''key_file''")
  case None
  then show ?thesis
    unfolding store_key_def
    by (simp add: appends_ret) (intro impI appends_bnd appends_lift appends_chroot_execute_full commands_no_fetch)
next
  case (Some f)
  have "WriteFile p x \<in> no_fetch" "MakeDirs p \<in> no_fetch" for p x by (simp_all add: no_fetch_def)
  then show ?thesis
    unfolding store_key_def Some
    by (auto simp: Let_def intro!: appends_bnd appends_lift appends_block appends_files)
qed

text \<open>An address is fetched without a redirect when every response has another status.\<close>

definition no_redirect :: "world \<Rightarrow> bool" where
  "no_redirect w = (\<forall>t u v code loc body. w_http w t u v = Inr (code, loc, body) \<longrightarrow> code \<noteq> 301 \<and> code \<noteq> 302)"

lemma http_getfile_fetched:
  assumes "no_redirect w"
  shows "fetched (events (snd (http_getfile w url proxy s))) = fetched (events s)
       \<or> fetched (events (snd (http_getfile w url proxy s))) = fetched (events s) @ [url]"
proof -
  have "fetched (events (snd (http_get (Suc n) w url via s))) = fetched (events s) @ [url]" for n via
  proof (cases "w_http w (events s) url via")
    case (Inr r)
    obtain code loc body where r: "r = (code, loc, body)" by (cases r) auto
    with assms Inr have "code \<noteq> 301" "code \<noteq> 302" unfolding no_redirect_def by blast+
    with Inr r show ?thesis by (simp add: py_simps)
  qed (simp add: py_simps)
  then show ?thesis
    by (auto simp: http_getfile_def http_fuel_def py_simps numeral_eq_Suc simp del: http_get.simps split: sum.splits)
qed

text \<open>The value of \<open>repo_key\<close> keeps step with the addresses it fetched.\<close>

lemma repo_key_fetched:
  assumes "no_redirect w"
  shows "\<exists>l. fetched (events (snd (repo_key w rt mgr ks repo s))) = fetched (events s) @ l
       \<and> distinct l \<and> set l \<inter> set ks = {}
       \<and> (\<forall>ks'. fst (repo_key w rt mgr ks repo s) = Inr ks' \<longrightarrow> set ks \<union> set l \<subseteq> set ks')"
proof -
  have st: "fetched (events (snd (store_key w rt mgr repo tmp t))) = fetched (events t)" for tmp t
    by (rule fetched_appends[OF appends_store_key])
  show ?thesis
  proof (cases "\<exists>u uri. map_of repo ''key_uri'' = Some u \<and> map_of repo ''type'' = Some (PStr mgr)
      \<and> u = PStr uri \<and> uri \<notin> set ks")
    case False
    then show ?thesis
      by (intro exI[of _ "[]"])
        (auto simp: repo_key_def py_simps dindex_def str_of_def split: option.splits sum.splits pyval.splits)
  next
    case True
    then obtain uri where u: "map_of repo ''key_uri'' = Some (PStr uri)" "map_of repo ''type'' = Some (PStr mgr)"
      "uri \<notin> set ks" by blast
    define px where "px = (case map_of repo ''proxy'' of None \<Rightarrow> PNone | Some p \<Rightarrow> p)"
    obtain r t where g: "http_getfile w uri px s = (r, t)" by fastforce
    obtain r' t' where h: "store_key w rt mgr repo tmp t = (r' tmp, t' tmp)" for tmp
      using that[of "\<lambda>tmp. fst (store_key w rt mgr repo tmp t)" "\<lambda>tmp. snd (store_key w rt mgr repo tmp t)"] by simp
    have ft: "fetched (events t) = fetched (events s) \<or> fetched (events t) = fetched (events s) @ [uri]"
      using http_getfile_fetched[OF assms, of uri px s] by (simp add: g)
    have ft': "fetched (events (t' tmp)) = fetched (events t)" for tmp
      using st[of tmp t] by (simp add: h)
    show ?thesis
      using ft ft' u
      by (auto simp: repo_key_def py_simps str_of_def g h simp flip: px_def split: sum.splits)
  qed
qed

lemma repo_keys_fetched:
  assumes "no_redirect w"
  shows "\<exists>l. fetched (events (snd (repo_keys w rt mgr ks rs s))) = fetched (events s) @ l
       \<and> distinct l \<and> set l \<inter> set ks = {}"
proof (induction rs arbitrary: ks s)
  case (Cons r rs)
  show ?case
  proof (cases "dict_of r")
    case (Inr repo)
    obtain l where l: "fetched (events (snd (repo_key w rt mgr ks repo s))) = fetched (events s) @ l"
      "distinct l" "set l \<inter> set ks = {}"
      "\<forall>ks'. fst (repo_key w rt mgr ks repo s) = Inr ks' \<longrightarrow> set ks \<union> set l \<subseteq> set ks'"
      using repo_key_fetched[OF assms, of rt mgr ks repo s] by blast
    show ?thesis
    proof (cases "repo_key w rt mgr ks repo s")
      case (Pair q t)
      show ?thesis
      proof (cases q)
        case (Inr ks')
        obtain m where "fetched (events (snd (repo_keys w rt mgr ks' rs t))) = fetched (events t) @ m"
          "distinct m" "set m \<inter> set ks' = {}" using Cons by blast
        with l Pair Inr \<open>dict_of r = Inr repo\<close> show ?thesis
          by (intro exI[of _ "l @ m"]) (auto simp: py_simps)
      qed (use l Pair \<open>dict_of r = Inr repo\<close> in \<open>auto simp: py_simps\<close>)
    qed
  qed (auto simp: py_simps intro: exI[of _ "[]"])
qed (auto simp: py_simps)

text \<open>A reader of shell words made of quoted pieces and plain characters; \<open>None\<close> where the shell would
  expand something or the quote is open.\<close>

definition dquote :: char where
  "dquote = CHR 0x22"

fun sh_word :: "string \<Rightarrow> string option"
and sh_single :: "string \<Rightarrow> string option"
and sh_double :: "string \<Rightarrow> string option" where
  "sh_word [] = Some []"
| "sh_word (c # cs) =
     (if c = squote then sh_single cs
      else if c = dquote then sh_double cs
      else if c \<in> set (nl @ bs @ '' $`&|;<>()*?[]#~=%!{}'') then None
      else map_option (\<lambda>t. c # t) (sh_word cs))"
| "sh_single [] = None"
| "sh_single (c # cs) = (if c = squote then sh_word cs else map_option (\<lambda>t. c # t) (sh_single cs))"
| "sh_double [] = None"
| "sh_double (c # cs) =
     (if c = dquote then sh_word cs
      else if c \<in> set (bs @ ''$`'') then None
      else map_option (\<lambda>t. c # t) (sh_double cs))"

lemma sh_single_escape:
  "sh_single (shell_escape v @ squote # rest) = map_option (\<lambda>t. v @ t) (sh_word rest)"
proof (induction v)
  case (Cons c v)
  have q: "squote \<noteq> CHR 0x22" "squote \<notin> set (bs @ ''$`'')" "dquote = CHR 0x22"
    by (simp_all add: squote_def bs_def dquote_def)
  show ?case
    using Cons q
    by (cases "c = squote") (auto simp: shell_escape_def replace_chr option.map_comp o_def)
qed (simp add: shell_escape_def option.map_ident)

interpretation shell_codec: codec "\<lambda>v. [squote] @ shell_escape v @ [squote]" sh_word "\<lambda>_. True"
  by unfold_locales (simp add: sh_single_escape)

section \<open>Properties\<close>

text \<open>Whatever bytes a configuration value holds, the right-hand side that \<open>writeShellHelper\<close> writes
  for it is read back by a shell as exactly that value, so two values never give the same line.\<close>

theorem shell_helper_roundtrip:
  "sh_word ([squote] @ shell_escape v @ [squote]) = Some v
   \<and> (helper_line k v = helper_line k u \<longleftrightarrow> v = u)"
  using shell_codec.dec_enc[of v] shell_codec.enc_eq_iff[of v u] by (simp add: helper_line_def)

text \<open>As long as the servers do not redirect, \<open>configSources\<close> never downloads a signing key address
  twice, whatever the repository list holds and however the run ends.\<close>

theorem keys_fetched_once:
  assumes "no_redirect w"
  shows "\<exists>l. fetched (events (snd (repo_keys w rt mgr [] repos s))) = fetched (events s) @ l \<and> distinct l"
  using repo_keys_fetched[OF assms, of rt mgr "[]" repos s] by blast

theorem keys_fetched_once_witness:
  "fetched (events (snd (repo_keys apt_world ''/t'' ''apt'' []
     [PDict [(''type'', PStr ''apt''), (''key_uri'', PStr ''k'')], PDict [(''type'', PStr ''apt''), (''key_uri'', PStr ''k'')]]
     (open_state\<lparr>output_open := False\<rparr>)))) = [''k'']
   \<and> (\<exists>l. fetched (events (snd (repo_keys apt_world ''/t'' ''apt'' [] [] open_state))) = fetched (events open_state) @ l \<and> distinct l)"
proof (rule conjI)
  have "no_redirect apt_world" by (simp add: no_redirect_def apt_world_def)
  then show "\<exists>l. fetched (events (snd (repo_keys apt_world ''/t'' ''apt'' [] [] open_state))) = fetched (events open_state) @ l \<and> distinct l"
    by (rule keys_fetched_once)
qed (simp add: py_simps repo_key_def dict_of_def dindex_def str_of_def http_getfile_def via_of_def http_fuel_def
    numeral_eq_Suc apt_world_def open_state_def store_key_def utf8_decode.simps chroot_execute_full_def
    execute_full_def run_command_def)

end
