(* ===== verification/Py_Regex.thy ===== *)
theory Py_Regex
  imports Py_Strings
begin

text \<open>
  Regular expressions of Python's \<open>re\<close> module, as far as the code uses them: a syntax tree, a
  backtracking matcher that lists the ways to match in the order the engine tries them (the first
  element is the match Python reports), \<open>re.match\<close>, \<open>re.search\<close>, \<open>re.findall\<close>, and a parser from
  pattern strings for the places where the pattern is data. An iteration of a repetition whose
  body matches the empty string is not taken, so every match ends. Counted repetitions, look-around
  and back references are not in the tree; the parser gives \<open>None\<close> for a pattern that has one.
  The lemmas \<open>first_*\<close> reason about the reported match only, one construct at a time.
\<close>

datatype re =
    Eps
  | Cls bool "(char \<times> char) list" \<comment> \<open>negated?, ranges\<close>
  | AnyChr
  | Cat re re
  | Alt re re
  | Star re
  | LazyStar re
  | Opt re
  | Grp nat re
  | Bol
  | Eol

type_synonym caps = "(nat, string) dict"

definition in_ranges :: "(char \<times> char) list \<Rightarrow> char \<Rightarrow> bool" where
  "in_ranges rs x = (\<exists>(a, b) \<in> set rs. a \<le> x \<and> x \<le> b)"

definition in_cls :: "bool \<Rightarrow> (char \<times> char) list \<Rightarrow> char \<Rightarrow> bool" where
  "in_cls neg rs x = (in_ranges rs x \<noteq> neg)"

definition newline :: char where
  "newline = CHR 0x0A"

text \<open>The first argument is the length of the whole string, which \<open>^\<close> compares with what is left.\<close>

function re_run :: "nat \<Rightarrow> re \<Rightarrow> string \<Rightarrow> caps \<Rightarrow> (string \<times> caps) list" where
  "re_run n Eps s c = [(s, c)]"
| "re_run n (Cls neg rs) s c = (case s of [] \<Rightarrow> [] | x # xs \<Rightarrow> if in_cls neg rs x then [(xs, c)] else [])"
| "re_run n AnyChr s c = (case s of [] \<Rightarrow> [] | x # xs \<Rightarrow> if x \<noteq> newline then [(xs, c)] else [])"
| "re_run n (Cat a b) s c = concat (map (\<lambda>(s', c'). re_run n b s' c') (re_run n a s c))"
| "re_run n (Alt a b) s c = re_run n a s c @ re_run n b s c"
| "re_run n (Star r) s c =
     concat (map (\<lambda>(s', c'). if length s' < length s then re_run n (Star r) s' c' else []) (re_run n r s c))
     @ [(s, c)]"
| "re_run n (LazyStar r) s c =
     (s, c) #
     concat (map (\<lambda>(s', c'). if length s' < length s then re_run n (LazyStar r) s' c' else []) (re_run n r s c))"
| "re_run n (Opt r) s c = re_run n r s c @ [(s, c)]"
| "re_run n (Grp i r) s c =
     map (\<lambda>(s', c'). (s', dset i (take (length s - length s') s) c')) (re_run n r s c)"
| "re_run n Bol s c = (if length s = n then [(s, c)] else [])"
| "re_run n Eol s c = (if s = [] \<or> s = [newline] then [(s, c)] else [])"
  by pat_completeness auto
termination
  by (relation "measures [\<lambda>(n, r, s, c). size r, \<lambda>(n, r, s, c). length s]") auto

definition Plus :: "re \<Rightarrow> re" where
  "Plus r = Cat r (Star r)"

fun cats :: "re list \<Rightarrow> re" where
  "cats [] = Eps"
| "cats [r] = r"
| "cats (r # rs) = Cat r (cats rs)"

definition lit_chr :: "char \<Rightarrow> re" where
  "lit_chr x = Cls False [(x, x)]"

definition lit :: "string \<Rightarrow> re" where
  "lit s = cats (map lit_chr s)"

definition head_opt :: "'a list \<Rightarrow> 'a option" where
  "head_opt xs = (case xs of [] \<Rightarrow> None | x # _ \<Rightarrow> Some x)"

text \<open>\<open>re.match\<close> and \<open>re.search\<close>: the groups of the reported match.\<close>

definition re_match :: "re \<Rightarrow> string \<Rightarrow> caps option" where
  "re_match r s = map_option snd (head_opt (re_run (length s) r s []))"

fun search_from :: "nat \<Rightarrow> re \<Rightarrow> string \<Rightarrow> caps option" where
  "search_from n r [] = map_option snd (head_opt (re_run n r [] []))"
| "search_from n r (x # xs) = (case head_opt (re_run n r (x # xs) []) of
       Some (_, c) \<Rightarrow> Some c
     | None \<Rightarrow> search_from n r xs)"

definition re_search :: "re \<Rightarrow> string \<Rightarrow> caps option" where
  "re_search r s = search_from (length s) r s"

text \<open>\<open>m.group( i )\<close> of a group that took part in the match.\<close>

definition group_of :: "nat \<Rightarrow> caps \<Rightarrow> string" where
  "group_of i c = (case map_of c i of None \<Rightarrow> [] | Some s \<Rightarrow> s)"

text \<open>\<open>len( re.findall( r, s ) )\<close>: after an empty match the scan moves one character on.\<close>

function count_from :: "nat \<Rightarrow> re \<Rightarrow> string \<Rightarrow> nat" where
  "count_from n r s = (case head_opt (re_run n r s []) of
       None \<Rightarrow> (case s of [] \<Rightarrow> 0 | _ # xs \<Rightarrow> count_from n r xs)
     | Some (s', _) \<Rightarrow>
         if length s' < length s then Suc (count_from n r s')
         else (case s of [] \<Rightarrow> 1 | _ # xs \<Rightarrow> Suc (count_from n r xs)))"
  by pat_completeness auto
termination
  by (relation "measure (\<lambda>(n, r, s). length s)") auto

declare count_from.simps [simp del]

definition re_findall_count :: "re \<Rightarrow> string \<Rightarrow> nat" where
  "re_findall_count r s = count_from (length s) r s"

section \<open>Patterns that are data\<close>

definition digit_ranges :: "(char \<times> char) list" where
  "digit_ranges = [(CHR ''0'', CHR ''9'')]"

definition space_ranges :: "(char \<times> char) list" where
  "space_ranges = [(CHR 0x09, CHR 0x0D), (CHR 0x1C, CHR '' ''), (CHR 0x85, CHR 0x85), (CHR 0xA0, CHR 0xA0)]"

definition word_ranges :: "(char \<times> char) list" where
  "word_ranges = [(CHR ''a'', CHR ''z''), (CHR ''A'', CHR ''Z''), (CHR ''0'', CHR ''9''), (CHR ''_'', CHR ''_'')]"

text \<open>An escape outside a class: a class letter, a control character, or a character that is not
  alphanumeric standing for itself. Other letters and digits are not supported.\<close>

definition escape_re :: "char \<Rightarrow> re option" where
  "escape_re x =
     (if x = CHR ''d'' then Some (Cls False digit_ranges)
      else if x = CHR ''D'' then Some (Cls True digit_ranges)
      else if x = CHR ''s'' then Some (Cls False space_ranges)
      else if x = CHR ''S'' then Some (Cls True space_ranges)
      else if x = CHR ''w'' then Some (Cls False word_ranges)
      else if x = CHR ''W'' then Some (Cls True word_ranges)
      else if x = CHR ''n'' then Some (lit_chr newline)
      else if x = CHR ''t'' then Some (lit_chr (CHR 0x09))
      else if in_ranges word_ranges x \<and> x \<noteq> CHR ''_'' then None
      else Some (lit_chr x))"

definition escape_ranges :: "char \<Rightarrow> (char \<times> char) list option" where
  "escape_ranges x = (case escape_re x of Some (Cls False rs) \<Rightarrow> Some rs | _ \<Rightarrow> None)"

text \<open>The inside of \<open>[...]\<close> after the optional \<open>^\<close>; a \<open>]\<close> in the first place is a member.\<close>

fun parse_members :: "bool \<Rightarrow> string \<Rightarrow> ((char \<times> char) list \<times> string) option" where
  "parse_members first [] = None"
| "parse_members first [x] = (if x = CHR '']'' \<and> \<not> first then Some ([], []) else None)"
| "parse_members first (x # y # xs) =
     (if x = CHR '']'' \<and> \<not> first then Some ([], y # xs)
      else if x = CHR 0x5C then
        (case escape_ranges y of None \<Rightarrow> None
         | Some rs \<Rightarrow> map_option (\<lambda>(ms, r). (rs @ ms, r)) (parse_members False xs))
      else (case xs of
          z # zs \<Rightarrow>
            if y = CHR ''-'' \<and> z \<noteq> CHR '']'' then
              (if z = CHR 0x5C \<or> z < x then None
               else map_option (\<lambda>(ms, r). ((x, z) # ms, r)) (parse_members False zs))
            else map_option (\<lambda>(ms, r). ((x, x) # ms, r)) (parse_members False (y # xs))
        | [] \<Rightarrow> map_option (\<lambda>(ms, r). ((x, x) # ms, r)) (parse_members False (y # xs))))"

definition parse_class :: "string \<Rightarrow> (re \<times> string) option" where
  "parse_class s = (case s of
       [] \<Rightarrow> None
     | x # xs \<Rightarrow>
         if x = CHR ''^'' then map_option (\<lambda>(ms, r). (Cls True ms, r)) (parse_members True xs)
         else map_option (\<lambda>(ms, r). (Cls False ms, r)) (parse_members True s))"

text \<open>Postfix operators, at most one repetition with its lazy mark (only the lazy star is
  supported); a second repetition is an error in Python too.\<close>

definition rep_chars :: string where
  "rep_chars = ''*+?''"

definition parse_post :: "re \<Rightarrow> string \<Rightarrow> (re \<times> string) option" where
  "parse_post r s = (case s of
       [] \<Rightarrow> Some (r, [])
     | x # xs \<Rightarrow>
         if x = CHR ''{'' then None
         else if x \<notin> set rep_chars then Some (r, s)
         else if x = CHR ''*'' \<and> xs \<noteq> [] \<and> hd xs = CHR ''?'' then
           (if tl xs \<noteq> [] \<and> hd (tl xs) \<in> set rep_chars then None else Some (LazyStar r, tl xs))
         else if xs \<noteq> [] \<and> hd xs \<in> set rep_chars then None
         else Some (if x = CHR ''*'' then Star r else if x = CHR ''+'' then Plus r else Opt r, xs))"

text \<open>Alternatives and sequences, with the number of the next group; the fuel is spent on every
  call and the length of the pattern is enough, since every call after the first consumes a
  character or is followed by one that does.\<close>

fun parse_alt :: "nat \<Rightarrow> nat \<Rightarrow> string \<Rightarrow> (re \<times> nat \<times> string) option"
and parse_cat :: "nat \<Rightarrow> nat \<Rightarrow> string \<Rightarrow> (re \<times> nat \<times> string) option" where
  "parse_alt 0 n s = None"
| "parse_alt (Suc fuel) n s = (case parse_cat fuel n s of
       None \<Rightarrow> None
     | Some (r, n', rest) \<Rightarrow>
         (case rest of
            x # xs \<Rightarrow>
              if x = CHR ''|'' then
                (case parse_alt fuel n' xs of None \<Rightarrow> None
                 | Some (r2, n2, rest2) \<Rightarrow> Some (Alt r r2, n2, rest2))
              else Some (r, n', rest)
          | [] \<Rightarrow> Some (r, n', rest)))"
| "parse_cat 0 n s = None"
| "parse_cat (Suc fuel) n s = (case s of
       [] \<Rightarrow> Some (Eps, n, [])
     | x # xs \<Rightarrow>
         if x = CHR ''|'' \<or> x = CHR '')'' then Some (Eps, n, s)
         else
           (case (if x = CHR ''('' then
                    (if xs \<noteq> [] \<and> hd xs = CHR ''?'' then None
                     else case parse_alt fuel (Suc n) xs of
                       Some (r, n', y # ys) \<Rightarrow> if y = CHR '')'' then Some (Grp n r, n', ys) else None
                     | _ \<Rightarrow> None)
                  else if x = CHR ''['' then map_option (\<lambda>(r, t). (r, n, t)) (parse_class xs)
                  else if x = CHR ''.'' then Some (AnyChr, n, xs)
                  else if x = CHR ''^'' then Some (Bol, n, xs)
                  else if x = CHR ''$'' then Some (Eol, n, xs)
                  else if x = CHR 0x5C then
                    (case xs of [] \<Rightarrow> None | y # ys \<Rightarrow> map_option (\<lambda>r. (r, n, ys)) (escape_re y))
                  else if x \<in> set rep_chars then None
                  else Some (lit_chr x, n, xs)) of
              None \<Rightarrow> None
            | Some (r, n', t) \<Rightarrow>
                (case parse_post r t of
                   None \<Rightarrow> None
                 | Some (r', t') \<Rightarrow>
                     (case parse_cat fuel n' t' of
                        None \<Rightarrow> None
                      | Some (r2, n2, rest) \<Rightarrow> Some (if r2 = Eps then r' else Cat r' r2, n2, rest)))))"

definition re_compile :: "string \<Rightarrow> re option" where
  "re_compile p = (case parse_alt (2 * length p + 2) 1 p of
       Some (r, _, []) \<Rightarrow> Some r
     | _ \<Rightarrow> None)"

section \<open>The reported match\<close>

definition first :: "nat \<Rightarrow> re \<Rightarrow> string \<Rightarrow> caps \<Rightarrow> (string \<times> caps) option" where
  "first n r s c = head_opt (re_run n r s c)"

lemma head_opt_simps [simp]: "head_opt [] = None" "head_opt (x # xs) = Some x"
  by (simp_all add: head_opt_def)

lemma head_opt_append: "head_opt (xs @ ys) = (case head_opt xs of None \<Rightarrow> head_opt ys | Some x \<Rightarrow> Some x)"
  by (cases xs) auto

lemma head_opt_map: "head_opt (map f xs) = map_option f (head_opt xs)"
  by (cases xs) auto

lemma re_match_first: "re_match r s = map_option snd (first (length s) r s [])"
  by (simp add: re_match_def first_def)

lemma first_Cat: "first n a s c = Some (s', c') \<Longrightarrow> first n b s' c' = Some x \<Longrightarrow> first n (Cat a b) s c = Some x"
  by (cases "re_run n a s c") (auto simp: first_def head_opt_append)

lemma first_Alt: "first n (Alt a b) s c = (case first n a s c of None \<Rightarrow> first n b s c | Some x \<Rightarrow> Some x)"
  by (simp add: first_def head_opt_append split: option.split)

lemma first_Opt: "first n (Opt r) s c = (case first n r s c of None \<Rightarrow> Some (s, c) | Some x \<Rightarrow> Some x)"
  by (simp add: first_def head_opt_append split: option.split)

lemma first_Grp:
  "first n (Grp i r) s c =
     map_option (\<lambda>(s', c'). (s', dset i (take (length s - length s') s) c')) (first n r s c)"
  by (simp add: first_def head_opt_map)

lemma re_run_Star:
  "re_run n (Star r) s c =
     concat (map (\<lambda>(s', c'). if length s' < length s then re_run n (Star r) s' c' else []) (re_run n r s c))
     @ [(s, c)]"
  by (rule re_run.simps)

declare re_run.simps(6,7) [simp del]

lemma re_run_Star_stop: "re_run n r s c = [] \<Longrightarrow> re_run n (Star r) s c = [(s, c)]"
  by (subst re_run_Star) simp

lemma re_run_Star_Cls_Cons:
  "in_cls neg rs x \<Longrightarrow>
     re_run n (Star (Cls neg rs)) (x # s) c = re_run n (Star (Cls neg rs)) s c @ [(x # s, c)]"
  by (subst re_run_Star) simp

lemma first_Star_step:
  assumes "first n r s c = Some (s', c')" and "length s' < length s" and "first n (Star r) s' c' = Some x"
  shows "first n (Star r) s c = Some x"
proof -
  obtain ys where r: "re_run n r s c = (s', c') # ys"
    using assms(1) by (cases "re_run n r s c") (auto simp: first_def)
  obtain zs where z: "re_run n (Star r) s' c' = x # zs"
    using assms(3) unfolding first_def by (cases "re_run n (Star r) s' c'") (simp_all del: re_run.simps)
  show ?thesis
    unfolding first_def by (subst re_run_Star) (simp add: r z assms(2) del: re_run.simps)
qed

lemma first_Star_stop: "first n r s c = None \<Longrightarrow> first n (Star r) s c = Some (s, c)"
  unfolding first_def by (subst re_run_Star) (cases "re_run n r s c"; simp del: re_run.simps)

lemma first_Cls:
  "first n (Cls neg rs) s c = (case s of [] \<Rightarrow> None | x # xs \<Rightarrow> if in_cls neg rs x then Some (xs, c) else None)"
  by (auto simp: first_def split: list.splits)

text \<open>A greedy run over a class stops at the first character outside it.\<close>

definition stops :: "(char \<Rightarrow> bool) \<Rightarrow> string \<Rightarrow> bool" where
  "stops p s = (s = [] \<or> \<not> p (hd s))"

lemma first_Star_Cls:
  "list_all (in_cls neg rs) w \<Longrightarrow> stops (in_cls neg rs) s \<Longrightarrow>
     first n (Star (Cls neg rs)) (w @ s) c = Some (s, c)"
proof (induction w)
  case Nil
  then have "first n (Cls neg rs) s c = None"
    by (auto simp: first_Cls stops_def split: list.splits)
  then show ?case by (simp add: first_Star_stop)
next
  case (Cons x w)
  have "first n (Cls neg rs) ((x # w) @ s) c = Some (w @ s, c)"
    using Cons.prems(1) by (simp add: first_Cls)
  then show ?case by (rule first_Star_step) (use Cons in auto)
qed

lemma first_Plus_Cls:
  assumes "w \<noteq> []" and "list_all (in_cls neg rs) w" and "stops (in_cls neg rs) s"
  shows "first n (Plus (Cls neg rs)) (w @ s) c = Some (s, c)"
proof -
  obtain x v where w: "w = x # v" using assms(1) by (cases w) auto
  have "first n (Cls neg rs) (w @ s) c = Some (v @ s, c)" using assms(2) by (simp add: w first_Cls)
  then show ?thesis
    unfolding Plus_def by (rule first_Cat) (use assms w in \<open>simp add: first_Star_Cls\<close>)
qed

lemma first_Cat_None: "first n a s c = None \<Longrightarrow> first n (Cat a b) s c = None"
  by (cases "re_run n a s c") (auto simp: first_def)

lemma first_Plus_Cls_None: "stops (in_cls neg rs) s \<Longrightarrow> first n (Plus (Cls neg rs)) s c = None"
  unfolding Plus_def by (rule first_Cat_None) (auto simp: first_Cls stops_def split: list.splits)

text \<open>A literal.\<close>

lemma re_run_Cat_Eps: "re_run n (Cat a Eps) s c = re_run n a s c"
proof -
  have "concat (map (\<lambda>(s', c'). re_run n Eps s' c') xs) = xs" for xs
    by (induction xs) auto
  then show ?thesis unfolding re_run.simps by blast
qed

lemma re_run_lit: "re_run n (lit p) s c = (if startswith s p then [(drop (length p) s, c)] else [])"
proof (induction p arbitrary: s)
  case Nil
  show ?case by (simp add: lit_def startswith_def)
next
  case (Cons x p)
  have "re_run n (lit (x # p)) s c = re_run n (Cat (lit_chr x) (lit p)) s c"
    by (cases p) (simp_all add: lit_def re_run_Cat_Eps del: re_run.simps(4))
  also have "\<dots> = (if startswith s (x # p) then [(drop (length (x # p)) s, c)] else [])"
    by (cases s) (auto simp: lit_chr_def in_cls_def in_ranges_def Cons startswith_def)
  finally show ?case .
qed

lemma first_lit: "first n (lit p) s c = (if startswith s p then Some (drop (length p) s, c) else None)"
  by (simp add: first_def re_run_lit)

lemma first_lit_append [simp]: "first n (lit p) (p @ s) c = Some (s, c)"
  by (simp add: first_lit)

section \<open>What every match satisfies\<close>

text \<open>A match leaves a suffix, and sets no group that is not in the expression.\<close>

fun groups :: "re \<Rightarrow> nat set" where
  "groups (Cat a b) = groups a \<union> groups b"
| "groups (Alt a b) = groups a \<union> groups b"
| "groups (Star r) = groups r"
| "groups (LazyStar r) = groups r"
| "groups (Opt r) = groups r"
| "groups (Grp i r) = insert i (groups r)"
| "groups _ = {}"

lemma groups_lit [simp]: "groups (lit p) = {}"
proof -
  have "(\<forall>r \<in> set rs. groups r = {}) \<Longrightarrow> groups (cats rs) = {}" for rs
    by (induction rs rule: cats.induct) auto
  then show ?thesis by (simp add: lit_def lit_chr_def)
qed

lemma re_run_suffix: "(s', c') \<in> set (re_run n r s c) \<Longrightarrow> \<exists>w. s = w @ s'"
proof (induction n r s c arbitrary: s' c' rule: re_run.induct)
  case (4 n a b s c)
  then obtain t d where t: "(t, d) \<in> set (re_run n a s c)" "(s', c') \<in> set (re_run n b t d)" by auto
  from 4(1)[OF t(1)] obtain v where "s = v @ t" by blast
  moreover from 4(2)[OF t(1) refl t(2)] obtain w where "t = w @ s'" by blast
  ultimately show ?case by (intro exI[of _ "v @ w"]) simp
next
  case (6 n r s c)
  from 6(3) consider "s' = s"
    | t d where "(t, d) \<in> set (re_run n r s c)" "length t < length s" "(s', c') \<in> set (re_run n (Star r) t d)"
    by (subst (asm) re_run_Star) (auto split: if_splits)
  then show ?case
  proof cases
    case (2 t d)
    from 6(1)[OF 2(1)] obtain v where "s = v @ t" by blast
    moreover from 6(2)[OF 2(1) refl 2(2,3)] obtain w where "t = w @ s'" by blast
    ultimately show ?thesis by (intro exI[of _ "v @ w"]) simp
  qed auto
next
  case (7 n r s c)
  from 7(3) consider "s' = s"
    | t d where "(t, d) \<in> set (re_run n r s c)" "length t < length s" "(s', c') \<in> set (re_run n (LazyStar r) t d)"
    by (subst (asm) re_run.simps(7)) (auto split: if_splits)
  then show ?case
  proof cases
    case (2 t d)
    from 7(1)[OF 2(1)] obtain v where "s = v @ t" by blast
    moreover from 7(2)[OF 2(1) refl 2(2,3)] obtain w where "t = w @ s'" by blast
    ultimately show ?thesis by (intro exI[of _ "v @ w"]) simp
  qed auto
qed (auto split: list.splits if_splits)

lemma re_run_keeps: "(s', c') \<in> set (re_run n r s c) \<Longrightarrow> i \<notin> groups r \<Longrightarrow> map_of c' i = map_of c i"
proof (induction n r s c arbitrary: s' c' rule: re_run.induct)
  case (6 n r s c)
  from 6(3) consider "c' = c"
    | t d where "(t, d) \<in> set (re_run n r s c)" "length t < length s" "(s', c') \<in> set (re_run n (Star r) t d)"
    by (subst (asm) re_run_Star) (auto split: if_splits)
  then show ?case
  proof cases
    case (2 t d)
    have "i \<notin> groups r" "i \<notin> groups (Star r)" using 6(4) by simp_all
    with 6(1)[OF 2(1)] 6(2)[OF 2(1) refl 2(2,3)] show ?thesis by simp
  qed simp
next
  case (7 n r s c)
  from 7(3) consider "c' = c"
    | t d where "(t, d) \<in> set (re_run n r s c)" "length t < length s" "(s', c') \<in> set (re_run n (LazyStar r) t d)"
    by (subst (asm) re_run.simps(7)) (auto split: if_splits)
  then show ?case
  proof cases
    case (2 t d)
    have "i \<notin> groups r" "i \<notin> groups (LazyStar r)" using 7(4) by simp_all
    with 7(1)[OF 2(1)] 7(2)[OF 2(1) refl 2(2,3)] show ?thesis by simp
  qed simp
qed (fastforce split: list.splits if_splits)+

lemma Star_Cls_chars:
  "(s', c') \<in> set (re_run n (Star (Cls neg rs)) s c) \<Longrightarrow> \<exists>w. s = w @ s' \<and> list_all (in_cls neg rs) w"
proof (induction s)
  case (Cons x s)
  show ?case
  proof (cases "in_cls neg rs x")
    case True
    with Cons.prems consider "(s', c') \<in> set (re_run n (Star (Cls neg rs)) s c)" | "s' = x # s"
      by (auto simp: re_run_Star_Cls_Cons)
    then show ?thesis
    proof cases
      case 1
      then obtain w where "s = w @ s'" "list_all (in_cls neg rs) w" using Cons.IH by blast
      with True show ?thesis by (intro exI[of _ "x # w"]) simp
    next
      case 2
      then show ?thesis by (intro exI[of _ "[]"]) simp
    qed
  next
    case False
    with Cons.prems show ?thesis by (simp add: re_run_Star_stop)
  qed
qed (simp add: re_run_Star_stop)

end
