(* ===== verification/Py_Float.thy ===== *)
theory Py_Float
  imports Py_Strings
begin

text \<open>
  Python's floats, as the rational numbers they denote: \<open>fl\<close> rounds to 53 significant bits, half to
  even, as the conversions from text and the arithmetic operations do. Neither the overflow to
  infinity nor the loss of bits next to zero is modelled (the code's values are sizes in megabytes,
  percentages and counts), and the texts \<open>inf\<close> and \<open>nan\<close> are not read.
\<close>

fun bits :: "nat \<Rightarrow> nat" where
  "bits n = (if n = 0 then 0 else Suc (bits (n div 2)))"

declare bits.simps [simp del]

definition pow2 :: "int \<Rightarrow> rat" where
  "pow2 k = (if 0 \<le> k then 2 ^ nat k else 1 / 2 ^ nat (- k))"

text \<open>The exponent of the leading bit of a positive rational.\<close>

definition lead_exp :: "rat \<Rightarrow> int" where
  "lead_exp r = (let (p, q) = quotient_of r; d = int (bits (nat p)) - int (bits (nat q)) in
     if r < pow2 d then d - 1 else d)"

definition half_even :: "rat \<Rightarrow> int" where
  "half_even x = (let f = \<lfloor>x\<rfloor>; d = x - of_int f in
     if d < 1/2 then f else if 1/2 < d then f + 1 else if even f then f else f + 1)"

definition fl :: "rat \<Rightarrow> rat" where
  "fl r = (if r = 0 then 0
     else let e = lead_exp \<bar>r\<bar> - 52; m = of_int (half_even (\<bar>r\<bar> / pow2 e)) * pow2 e in
       if r < 0 then - m else m)"

text \<open>\<open>float(s)\<close>: a sign, digits with an optional fraction, an optional exponent.\<close>

definition digits_val :: "string \<Rightarrow> nat" where
  "digits_val w = foldl (\<lambda>a c. 10 * a + digit_val c) 0 w"

definition read_mantissa :: "string \<Rightarrow> rat option" where
  "read_mantissa m = (case split1 CHR ''.'' m of
       None \<Rightarrow> if m \<noteq> [] \<and> list_all is_digit m then Some (of_nat (digits_val m)) else None
     | Some (a, b) \<Rightarrow>
         if a @ b \<noteq> [] \<and> list_all is_digit (a @ b)
         then Some (of_nat (digits_val (a @ b)) / 10 ^ length b) else None)"

definition read_exponent :: "string \<Rightarrow> int option" where
  "read_exponent e = (case e of
       [] \<Rightarrow> None
     | c # cs \<Rightarrow>
         let ds = (if c = CHR ''-'' \<or> c = CHR ''+'' then cs else e) in
         if ds \<noteq> [] \<and> list_all is_digit ds
         then Some (if c = CHR ''-'' then - int (digits_val ds) else int (digits_val ds)) else None)"

definition read_unsigned :: "string \<Rightarrow> rat option" where
  "read_unsigned u =
     (let m = takeWhile (\<lambda>c. c \<noteq> CHR ''e'' \<and> c \<noteq> CHR ''E'') u; t = drop (length m) u in
      case read_mantissa m of
        None \<Rightarrow> None
      | Some r \<Rightarrow>
          if t = [] then Some r
          else (case read_exponent (tl t) of
              None \<Rightarrow> None
            | Some k \<Rightarrow> Some (if 0 \<le> k then r * 10 ^ nat k else r / 10 ^ nat (- k))))"

definition read_dec :: "string \<Rightarrow> rat option" where
  "read_dec s = (case strip s of
       [] \<Rightarrow> None
     | c # cs \<Rightarrow>
         if c = CHR ''-'' then map_option uminus (read_unsigned cs)
         else if c = CHR ''+'' then read_unsigned cs
         else read_unsigned (c # cs))"

definition float_str :: "string \<Rightarrow> rat res" where
  "float_str s = (case read_dec s of None \<Rightarrow> Inl ValueError | Some r \<Rightarrow> Inr (fl r))"

section \<open>Rounding\<close>

lemma half_even_bounds: "\<lfloor>x\<rfloor> \<le> half_even x \<and> half_even x \<le> \<lceil>x\<rceil>"
proof -
  have "x = of_int \<lfloor>x\<rfloor> \<or> \<lceil>x\<rceil> = \<lfloor>x\<rfloor> + 1"
    by (metis ceiling_altdef)
  then show ?thesis
  proof
    assume x: "x = of_int \<lfloor>x\<rfloor>"
    then have "x - of_int \<lfloor>x\<rfloor> < 1 / 2" by linarith
    then have "half_even x = \<lfloor>x\<rfloor>" by (simp add: half_even_def Let_def)
    with x show ?thesis by (metis ceiling_of_int order_refl)
  qed (auto simp: half_even_def Let_def)
qed

lemma half_even_of_int [simp]: "half_even (of_int i) = i"
  using half_even_bounds[of "of_int i"] by simp

lemma pow2_pos [simp]: "0 < pow2 k"
  by (simp add: pow2_def)

lemma fl_0 [simp]: "fl 0 = 0"
  by (simp add: fl_def)

lemma fl_uminus: "fl (- r) = - fl r"
  by (simp add: fl_def Let_def)

text \<open>A rational that is an integral multiple of the unit of its leading bit is a float.\<close>

lemma fl_exact: "\<bar>r\<bar> = of_int i * pow2 (lead_exp \<bar>r\<bar> - 52) \<Longrightarrow> fl r = r"
proof -
  assume a: "\<bar>r\<bar> = of_int i * pow2 (lead_exp \<bar>r\<bar> - 52)"
  show ?thesis
  proof (cases "r = 0")
    case False
    define p where "p = pow2 (lead_exp \<bar>r\<bar> - 52)"
    have "p \<noteq> 0" unfolding p_def by (metis pow2_pos less_irrefl)
    moreover have "\<bar>r\<bar> = of_int i * p" using a by (simp add: p_def)
    ultimately have "of_int (half_even (\<bar>r\<bar> / p)) * p = \<bar>r\<bar>" by simp
    then have "fl r = (if r < 0 then - \<bar>r\<bar> else \<bar>r\<bar>)"
      using False unfolding fl_def Let_def p_def[symmetric] by (simp only: if_False)
    then show ?thesis by simp
  qed simp
qed

end
