(* ===== verification/Partitioning.thy ===== *)
theory Partitioning
  imports Packaging Py_Regex Py_Float
begin

text \<open>
  The first half of \<open>installer/filesystem.py\<close>: its globals (\<open>fs_state\<close>), the built-in partition
  recipes, and the helpers of \<open>partition\<close>: \<open>_parted\<close>, \<open>_addPartition\<close>, \<open>_addRAID\<close>, \<open>_addBCache\<close>,
  \<open>_mdSyncPercentange\<close>, \<open>_targetsWithMount\<close> and \<open>_getTargetDrives\<close>.

  Mount options are mutable lists that several file systems can share, so an entry of
  \<open>filesystem_list\<close> holds a reference into \<open>opt_store\<close>. Sizes that the code divides are rationals:
  they are only compared and truncated, and truncating the exact quotient of two integers below
  \<open>2 ^ 50\<close> gives the same as truncating the float nearest to it.
\<close>

section \<open>State\<close>

type_synonym item = "(string, pyval) dict"

type_synonym recipe = "item list"

text \<open>The keys of an entry of \<open>filesystem_list\<close>; \<open>None\<close> is an absent key.\<close>

record fs_entry =
  fe_type :: string
  fe_mount_point :: "pyval option"
  fe_mount_options :: "nat option"
  fe_block_device :: string
  fe_mkfs_options :: "string option"
  fe_priority :: "int option"
  fe_members :: "string list option"
  fe_uuid :: "string option"

type_synonym mount_entry = "string \<times> string \<times> string \<times> string list"

record fs_state = pkg_state +
  filesystem_list :: "fs_entry list"
  mount_list :: "mount_entry list"
  partition_map :: "(pyval, string) dict"
  boot_drives :: "string list"
  partition_counter :: "(string, nat) dict"
  partition_pos :: "(string, int) dict"
  parted_task_map :: "(string, string list) dict"
  opt_store :: "string list list"

section \<open>Tables\<close>

text \<open>A command line of \<open>mkfs_map\<close>: what stands before the options, between them and the device, and
  after it.\<close>

definition mkfs_map :: "(string, string \<times> string) dict" where
  "mkfs_map = [
     (''ext2'', (''/sbin/mkfs.ext2 -F '', '' -text2 '')),
     (''ext3'', (''/sbin/mkfs.ext2 -F '', '' -text3 '')),
     (''ext4'', (''/sbin/mkfs.ext2 -F '', '' -text4 '')),
     (''xfs'', (''/sbin/mkfs.xfs '', '' -f '')),
     (''vfat'', (''/sbin/mkfs.vfat '', '' '')),
     (''swap'', (''/sbin/mkswap '', '' ''))]"

definition FS_WITH_TRIM :: "string list" where
  "FS_WITH_TRIM = [''ext4'', ''xfs'']"

definition on_target :: "int \<Rightarrow> item \<Rightarrow> string \<Rightarrow> item" where
  "on_target t rest sz = (''target'', PInt t) # rest @ [(''size'', PStr sz)]"

definition mounted_at :: "string \<Rightarrow> item" where
  "mounted_at p = [(''mount_point'', PStr p)]"

definition md_of :: "int \<Rightarrow> item" where
  "md_of g = [(''type'', PStr ''md''), (''group'', PInt g)]"

definition pv_of :: "int \<Rightarrow> item" where
  "pv_of g = [(''type'', PStr ''pv''), (''group'', PInt g)]"

definition swap_type :: item where
  "swap_type = [(''type'', PStr ''swap'')]"

definition md_item :: "int \<Rightarrow> int \<Rightarrow> string \<Rightarrow> item" where
  "md_item g level p = [(''md'', PInt g), (''level'', PInt level), (''mount_point'', PStr p)]"

definition recipe_single :: recipe where
  "recipe_single = [
     on_target 0 (mounted_at ''/boot'') ''boot'',
     on_target 0 (mounted_at ''/'') ''- swap'',
     on_target 0 swap_type ''end'']"

definition recipe_mirror :: recipe where
  "recipe_mirror = [
     on_target 0 (md_of 0) ''boot'',
     on_target 1 (md_of 0) ''boot'',
     on_target 0 (md_of 1) ''- swap'',
     on_target 1 (md_of 1) ''- swap'',
     on_target 0 swap_type ''end'',
     on_target 1 swap_type ''end'',
     md_item 0 1 ''/boot'',
     md_item 1 1 ''/'']"

text \<open>The two lambdas of the striped recipes, applied to the sizes for swap, boot and the reserved
  area in front of boot.\<close>

definition recipe_lambda :: "nat \<Rightarrow> rat \<Rightarrow> rat \<Rightarrow> rat \<Rightarrow> rat" where
  "recipe_lambda n swap boot boot_rsvd =
     (if n = 0 then (if swap > boot then swap else boot)
      else (if swap > boot then swap - boot_rsvd else boot - boot_rsvd))"

definition striped :: "int \<Rightarrow> recipe" where
  "striped level = [
     on_target 0 (md_of 0) ''boot'',
     on_target 1 (md_of 0) ''boot'',
     on_target 2 swap_type ''swap'',
     on_target 3 swap_type ''swap'',
     on_target 0 (md_of 1) ''end'',
     on_target 1 (md_of 1) ''end'',
     on_target 2 (md_of 1) ''end'',
     on_target 3 (md_of 1) ''end'',
     md_item 0 1 ''/boot'',
     md_item 1 level ''/'',
     [(''ref_size'', PStr ''boot''), (''lambda'', PLam 0)],
     [(''ref_size'', PStr ''swap''), (''lambda'', PLam 1)]]"

definition recipe_single_lvm :: recipe where
  "recipe_single_lvm = [
     on_target 0 (mounted_at ''/boot'') ''boot'',
     on_target 0 (pv_of 0) ''- swap'',
     on_target 0 swap_type ''end'',
     [(''vg'', PInt 0), (''name'', PStr ''VG0'')],
     [(''lv'', PInt 0), (''name'', PStr ''root''), (''mount_point'', PStr ''/''), (''size'', PStr ''100%'')]]"

definition recipe_dual_lvm :: recipe where
  "recipe_dual_lvm = [
     on_target 0 (md_of 0) ''boot'',
     on_target 1 (md_of 0) ''boot'',
     on_target 0 (pv_of 0) ''- swap'',
     on_target 0 swap_type ''end'',
     on_target 1 (pv_of 0) ''- swap'',
     on_target 1 swap_type ''end'',
     md_item 0 1 ''/boot'',
     [(''vg'', PInt 0), (''name'', PStr ''VG0'')],
     [(''lv'', PInt 0), (''name'', PStr ''root''), (''mount_point'', PStr ''/''), (''size'', PStr ''95%'')]]"

definition recipe_bcache_var :: recipe where
  "recipe_bcache_var = [
     on_target 0 (mounted_at ''/boot'') ''boot'',
     on_target 0 (mounted_at ''/'') ''- swap'',
     on_target 0 swap_type ''end'',
     on_target 1 [(''type'', PStr ''bcache''), (''group'', PInt 0), (''as'', PStr ''cache'')] ''end'',
     on_target 2 [(''type'', PStr ''bcache''), (''group'', PInt 0), (''as'', PStr ''backing'')] ''end'',
     [(''bcache'', PInt 0), (''mount_point'', PStr ''/var''), (''type'', PStr ''ext4''), (''mode'', PStr ''writeback'')]]"

definition partition_recipes :: "(string, recipe) dict" where
  "partition_recipes = [
     (''single'', recipe_single), (''mirror'', recipe_mirror), (''raid10'', striped 10), (''raid6'', striped 6),
     (''single-lvm'', recipe_single_lvm), (''dual-lvm'', recipe_dual_lvm), (''bcache-var'', recipe_bcache_var)]"

section \<open>Partitions\<close>

definition parted :: "world \<Rightarrow> string \<Rightarrow> string list \<Rightarrow> ('a proc_state_scheme, unit) py" where
  "parted w block_device cmd_list =
     execute w (''/sbin/parted -s '' @ block_device @ '' -- '' @ join (bs @ '' '' @ nl) cmd_list)"

text \<open>An extent as parted gets it: a start, and an end or \<open>-0\<close>. A negative number counts from the end
  of the disk.\<close>

datatype part_end = At int | DiskEnd

definition extent_end :: "int \<Rightarrow> int \<Rightarrow> part_end" where
  "extent_end start sz = (if sz = 0 then DiskEnd else if sz < 0 then At sz else At (start + sz))"

definition next_pos :: "int \<Rightarrow> int \<Rightarrow> int" where
  "next_pos start sz = (if sz = 0 then 0 else if sz < 0 then sz else start + sz)"

definition offsets_text :: "int \<Rightarrow> part_end \<Rightarrow> string" where
  "offsets_text start e = show_int start @ (case e of DiskEnd \<Rightarrow> ''m -0'' | At p \<Rightarrow> ''m '' @ show_int p @ ''m'')"

definition disk_full :: exc where
  "disk_full = PlainException ''Block Device allready full''"

text \<open>Where the next partition of a device starts: 0 the first time, and a stored 0 is a full device.\<close>

definition start_of :: "string \<Rightarrow> ('a fs_state_scheme, int) py" where
  "start_of dev = bnd (gets (\<lambda>s. map_of (partition_pos s) dev)) (\<lambda>p.
     case p of
       None \<Rightarrow> seq (modify (\<lambda>s. s\<lparr>partition_counter := dset dev 0 (partition_counter s)\<rparr>)) (ret 0)
     | Some start \<Rightarrow> if start = 0 then throw disk_full else ret start)"

definition add_task :: "string \<Rightarrow> string \<Rightarrow> ('a fs_state_scheme, unit) py" where
  "add_task dev task = bnd (gets parted_task_map) (\<lambda>m. bnd (lift (dindex m dev)) (\<lambda>ts.
     modify (\<lambda>s. s\<lparr>parted_task_map := dset dev (ts @ [task]) (parted_task_map s)\<rparr>)))"

definition dev_name :: "string \<Rightarrow> nat \<Rightarrow> string" where
  "dev_name dev n = (if startswith dev ''/dev/nvme'' then dev @ ''p'' @ show_nat n else dev @ show_nat n)"

definition addPartition :: "string \<Rightarrow> string \<Rightarrow> rat \<Rightarrow> ('a fs_state_scheme, string option) py" where
  "addPartition dev part_type size_arg =
     (let sz = trunc size_arg in
      bnd (start_of dev) (\<lambda>start.
      let offsets = offsets_text start (extent_end start sz) in
      seq (modify (\<lambda>s. s\<lparr>partition_pos := dset dev (next_pos start sz) (partition_pos s)\<rparr>))
      (if part_type = ''blank'' then ret None
       else bnd (gets partition_counter) (\<lambda>c. bnd (lift (dindex c dev)) (\<lambda>n.
         seq (modify (\<lambda>s. s\<lparr>partition_counter := dset dev (Suc n) (partition_counter s)\<rparr>))
         (seq
           (if part_type = ''bios_grub'' then block [
              add_task dev (''mkpart primary fat32 '' @ offsets),
              add_task dev ''set 1 bios_grub on'']
            else if part_type = ''fs'' \<or> part_type = ''empty'' then
              add_task dev (''mkpart primary ext2 '' @ offsets)
            else if part_type = ''swap'' then
              add_task dev (''mkpart primary linux-swap '' @ offsets)
            else throw (PlainException (''Unknown partition type \"'' @ part_type @ ''\"'')))
           (ret (Some (dev_name dev (Suc n))))))))))"

definition raid_even :: "int \<Rightarrow> exc" where
  "raid_even md_type = PlainException (''RAID '' @ show_int md_type @ '' requires even number of members'')"

definition raid_three :: "int \<Rightarrow> exc" where
  "raid_three md_type = PlainException (''RAID '' @ show_int md_type @ '' requires a minimum of 3 members'')"

definition md_name :: "int \<Rightarrow> string" where
  "md_name g = ''/dev/md'' @ show_int g"

definition mdadm_cmd :: "int \<Rightarrow> string list \<Rightarrow> int \<Rightarrow> string \<Rightarrow> string" where
  "mdadm_cmd g members md_type meta =
     ''/sbin/mdadm '' @ md_name g @ '' --create --run --force --metadata='' @ meta @ '' --level='' @ show_int md_type
     @ '' --raid-devices='' @ show_nat (length members) @ '' '' @ join '' '' members"

definition addRAID :: "world \<Rightarrow> int \<Rightarrow> string list \<Rightarrow> int \<Rightarrow> string \<Rightarrow> ('a proc_state_scheme, string) py" where
  "addRAID w g members md_type meta_version =
     (if (md_type = 1 \<or> md_type = 10) \<and> odd (length members) then throw (raid_even md_type)
      else if (md_type = 5 \<or> md_type = 6) \<and> length members < 3 then throw (raid_three md_type)
      else seq (execute w (mdadm_cmd g members md_type meta_version)) (ret (md_name g)))"

definition addBCache :: "world \<Rightarrow> int \<Rightarrow> string \<Rightarrow> string \<Rightarrow> pyval \<Rightarrow> ('a proc_state_scheme, string) py" where
  "addBCache w g backing cache mode =
     seq (bnd (path_exists w ''/sys/fs/bcache'') (\<lambda>b. whenM (\<not> b) (execute w ''/sbin/modprobe bcache'')))
     (seq (block [
        execute w (''/sbin/make-bcache --wipe-bcache '' @ (if mode = PStr ''writeback'' then ''--writeback'' else [])
          @ '' -B '' @ backing @ '' -C '' @ cache),
        write_file w ''/sys/fs/bcache/register'' backing,
        write_file w ''/sys/fs/bcache/register'' cache])
      (ret (''/dev/bcache'' @ show_int g)))"

text \<open>The pattern \<open>=[ ]+([0-9\.]+)%\<close>.\<close>

definition md_percent_re :: re where
  "md_percent_re = cats [lit ''='', Plus (lit_chr CHR '' ''),
     Grp 1 (Plus (Cls False [(CHR ''0'', CHR ''9''), (CHR ''.'', CHR ''.'')])), lit ''%'']"

fun percentages :: "string list \<Rightarrow> rat list res" where
  "percentages [] = Inr []"
| "percentages (line # ls) = (case re_search md_percent_re line of
       None \<Rightarrow> percentages ls
     | Some c \<Rightarrow> rbnd (rbnd (dindex c 1) float_str) (\<lambda>p. rbnd (percentages ls) (\<lambda>ps. Inr (p # ps))))"

definition mdSyncPercentange :: "world \<Rightarrow> ('a proc_state_scheme, rat list) py" where
  "mdSyncPercentange w = bnd (read_file w ''/proc/mdstat'') (\<lambda>t. lift (percentages (file_lines t)))"

section \<open>Targets\<close>

text \<open>\<open>try: x = int( item[ key ] ); except KeyError: pass\<close>.\<close>

definition int_field :: "item \<Rightarrow> string \<Rightarrow> int option \<Rightarrow> int option res" where
  "int_field item key old = (case map_of item key of
       None \<Rightarrow> Inr old
     | Some v \<Rightarrow> rbnd (int_of v) (\<lambda>i. Inr (Some i)))"

fun places_of :: "recipe \<Rightarrow> string \<Rightarrow> int option \<Rightarrow> int option \<Rightarrow> (int option \<times> int option) res" where
  "places_of [] mp md tgt = Inr (md, tgt)"
| "places_of (item # rest) mp md tgt =
     (if map_of item ''mount_point'' = Some (PStr mp) then
        rbnd (int_field item ''md'' md) (\<lambda>md'.
        rbnd (int_field item ''target'' tgt) (\<lambda>tgt'. places_of rest mp md' tgt'))
      else places_of rest mp md tgt)"

fun group_targets :: "recipe \<Rightarrow> int \<Rightarrow> int list res" where
  "group_targets [] md = Inr []"
| "group_targets (item # rest) md =
     (case map_of item ''target'' of
        None \<Rightarrow> group_targets rest md
      | Some t \<Rightarrow> (case map_of item ''group'' of
            None \<Rightarrow> group_targets rest md
          | Some g \<Rightarrow> rbnd (int_of g) (\<lambda>gi.
              if gi = md then rbnd (int_of t) (\<lambda>ti. rbnd (group_targets rest md) (\<lambda>ts. Inr (ti # ts)))
              else group_targets rest md)))"

definition confused :: "string \<Rightarrow> exc" where
  "confused mp = PlainException (''Confused as to where \"'' @ mp @ ''\" goes'')"

definition targetsWithMount :: "recipe \<Rightarrow> string \<Rightarrow> int list res" where
  "targetsWithMount recipe mount_point =
     rbnd (places_of recipe mount_point None None) (\<lambda>(md_device, target_device).
       case (md_device, target_device) of
         (None, None) \<Rightarrow> Inr []
       | (Some _, Some _) \<Rightarrow> Inl (confused mount_point)
       | (Some md, None) \<Rightarrow> group_targets recipe md
       | (None, Some t) \<Rightarrow> Inr [t])"

text \<open>\<open>not block\<close>.\<close>

definition no_block :: "string option \<Rightarrow> bool" where
  "no_block b = (b = None \<or> b = Some [])"

text \<open>\<open>[ m[i] for i in m if re.search( drive, i ) ]\<close>: a pattern that does not compile raises, a key that
  is \<open>None\<close> too.\<close>

definition bad_pattern :: exc where
  "bad_pattern = PlainException ''re.error''"

fun search_map :: "string \<Rightarrow> (string option, string option) dict \<Rightarrow> string option list res" where
  "search_map drive [] = Inr []"
| "search_map drive ((k, v) # m) =
     (case re_compile drive of
        None \<Rightarrow> Inl bad_pattern
      | Some r \<Rightarrow> (case k of
            None \<Rightarrow> Inl TypeError
          | Some i \<Rightarrow> rbnd (search_map drive m) (\<lambda>vs. Inr (if re_search r i \<noteq> None then v # vs else vs))))"

definition or_try :: "string option \<Rightarrow> string option option res \<Rightarrow> string option res" where
  "or_try b next = (if no_block b then rbnd next (\<lambda>v. Inr (case v of None \<Rightarrow> b | Some b' \<Rightarrow> b')) else Inr b)"

text \<open>One drive of \<open>target_drives\<close>: a block device name, a port, a device path, a pattern for a port,
  a pattern for a device path, in this order.\<close>

definition find_target :: "drive_view \<Rightarrow> string \<Rightarrow> string res" where
  "find_target dm drive =
     (let ports = map (\<lambda>(k, v). (Some k, v)) (dv_ports dm);
          first = (\<lambda>r. rbnd r (\<lambda>vs. Inr (case vs of [] \<Rightarrow> None | v # _ \<Rightarrow> Some v))) in
      rbnd (or_try (if drive \<in> set (dkeys (dv_blocks dm)) then Some drive else None)
              (Inr (map_of (dv_ports dm) drive))) (\<lambda>b.
      rbnd (or_try b (Inr (map_of (dv_devpaths dm) (Some drive)))) (\<lambda>b.
      rbnd (or_try b (first (search_map drive ports))) (\<lambda>b.
      rbnd (or_try b (first (search_map drive (dv_devpaths dm)))) (\<lambda>b.
        case b of
          Some (c # cs) \<Rightarrow> Inr (c # cs)
        | _ \<Rightarrow> Inl (MissingDrives drive))))))"

definition getTargetDrives :: "drive_view \<Rightarrow> string list \<Rightarrow> (string list \<times> (string, drive_info) dict) res" where
  "getTargetDrives dm target_drives =
     (let block_list = sort_key length (sort (dkeys (dv_blocks dm))) in
      if target_drives = [] then Inr (block_list, dv_blocks dm)
      else rbnd (collect target_drives (find_target dm)) (\<lambda>result. Inr (result, dv_blocks dm)))"

end
