(* ===== verification/Partition_Run.thy ===== *)
theory Partition_Run
  imports Partitioning
begin

text \<open>
  \<open>partition\<close> of \<open>installer/filesystem.py\<close>, in the order of the function: the settings, the target
  drives, the recipe and its sizes, the boot partitions, one step for each kind of recipe item
  (\<open>ref_size\<close>, \<open>target\<close>, \<open>md\<close>, \<open>bcache\<close>, \<open>vg\<close>, \<open>lv\<close>), the map of mount points and the wait for the
  arrays. The local variables of the function that outlive a turn of one of its loops are the record
  \<open>part_state\<close> on top of the module's globals: Python keeps the value of an earlier turn where a
  branch does not assign, and raises \<open>UnboundLocalError\<close> where there is none.
\<close>

section \<open>Local variables and settings\<close>

record part_state = fs_state +
  pl_boot_size :: rat
  pl_swap_size :: rat
  pl_tmp :: "rat option"
  pl_item :: item
  pl_part_type :: string
  pl_mount_options :: "nat option"
  pl_priority :: "int option"
  pl_block_device :: "string option"
  pl_md_list :: "(int, (string \<times> drive_info) list) dict"
  pl_pv_list :: "(int, (string \<times> drive_info) list) dict"
  pl_cache :: "(int, string) dict"
  pl_backing :: "(int, string) dict"
  pl_vg :: int
  pl_vg_names :: "(int, string) dict"
  pl_vg_extents :: "(int, int) dict"
  pl_vg_disks :: "(int, drive_info list) dict"
  pl_lv_size :: "string res"

text \<open>What does not change once the recipe is chosen; \<open>pc_default\<close> refers to
  \<open>default_mounting_options\<close>.\<close>

record part_cfg =
  pc_profile :: profile
  pc_type :: string
  pc_fs_type :: string
  pc_boot_fs_type :: string
  pc_md_meta :: pyval
  pc_targets :: "string list"
  pc_drives :: "(string, drive_info) dict"
  pc_default :: nat
  pc_recipe :: recipe

definition init_locals :: "rat \<Rightarrow> rat \<Rightarrow> fs_state \<Rightarrow> part_state" where
  "init_locals swap boot s = fs_state.extend s
     \<lparr>pl_boot_size = boot, pl_swap_size = swap, pl_tmp = None, pl_item = [], pl_part_type = [],
      pl_mount_options = None, pl_priority = None, pl_block_device = None, pl_md_list = [], pl_pv_list = [],
      pl_cache = [], pl_backing = [], pl_vg = 0, pl_vg_names = [], pl_vg_extents = [], pl_vg_disks = [],
      pl_lv_size = Inl TypeError\<rparr>"

definition check_settings :: "profile \<Rightarrow> (string \<times> string \<times> string \<times> string) res" where
  "check_settings p =
     rbnd (pget p ''filesystem'' ''partition_type'') (\<lambda>partition_type.
     if partition_type \<noteq> ''gpt'' \<and> partition_type \<noteq> ''msdos''
     then Inl (FileSystemException (''Invalid partition_type \"'' @ partition_type @ ''\"''))
     else rbnd (pget p ''filesystem'' ''fs_type'') (\<lambda>fs_type.
     if fs_type \<notin> set (dkeys mkfs_map) then Inl (FileSystemException (''Invalid fs_type \"'' @ fs_type @ ''\"''))
     else rbnd (pget p ''filesystem'' ''boot_fs_type'') (\<lambda>boot_fs_type.
     if boot_fs_type \<notin> set (dkeys mkfs_map)
     then Inl (FileSystemException (''Invalid boot_fs_type \"'' @ boot_fs_type @ ''\"''))
     else rbnd (pget p ''filesystem'' ''md_meta_version'') (\<lambda>meta.
       Inr (partition_type, fs_type, boot_fs_type, meta)))))"

text \<open>\<open>if value_map[ key ]: x = value_map[ key ]\<close> with a missing key ignored.\<close>

definition setting :: "value_map \<Rightarrow> string \<Rightarrow> pyval \<Rightarrow> pyval" where
  "setting m key dflt = (case map_of m key of
       None \<Rightarrow> dflt | Some v \<Rightarrow> if truthy v then v else dflt)"

definition int_setting :: "value_map \<Rightarrow> string \<Rightarrow> int res" where
  "int_setting m key = int_of (setting m key (PInt 512))"

definition default_options :: "value_map \<Rightarrow> string list res" where
  "default_options m = (case map_of m ''default_mounting_options'' of
       None \<Rightarrow> Inr []
     | Some v \<Rightarrow>
         if truthy v \<and> v \<noteq> PStr ''defaults''
         then (case v of PStr s \<Rightarrow> Inr (split_chr CHR '','' s) | _ \<Rightarrow> Inl AttributeError)
         else Inr [])"

text \<open>\<open>target_drives\<close> of the value map: absent or empty means every drive.\<close>

definition wanted_drives :: "value_map \<Rightarrow> string list res" where
  "wanted_drives m = (case map_of m ''target_drives'' of
       None \<Rightarrow> Inr []
     | Some v \<Rightarrow> if truthy v then rbnd (list_of v) (\<lambda>l. collect l str_of) else Inr [])"

text \<open>Ten attempts to find the drives, six seconds apart; the first argument is the number of
  attempts after the current one.\<close>

fun wait_targets :: "nat \<Rightarrow> world \<Rightarrow> string list
    \<Rightarrow> ('a proc_state_scheme, string list \<times> (string, drive_info) dict) py" where
  "wait_targets n w wanted =
     bnd (gets (\<lambda>s. getTargetDrives (w_drives w (events s)) wanted)) (\<lambda>r.
       case r of
         Inl (MissingDrives d) \<Rightarrow>
           (case n of
              0 \<Rightarrow> throw (MissingDrives d)
            | Suc m \<Rightarrow> seq (emit (Sleep 6)) (wait_targets m w wanted))
       | _ \<Rightarrow> lift r)"

declare wait_targets.simps [simp del]

definition recipe_of :: "pyval \<Rightarrow> recipe res" where
  "recipe_of v = rbnd (list_of v) (\<lambda>l. collect l dict_of)"

definition unknown_scheme :: "pyval \<Rightarrow> exc" where
  "unknown_scheme v = (case py_str v of
       Inl e \<Rightarrow> e | Inr t \<Rightarrow> PlainException (''Unknown partitioning scheme \"'' @ t @ ''\"''))"

definition choose_recipe :: "value_map \<Rightarrow> recipe res" where
  "choose_recipe m =
     (let scheme = setting m ''partition_scheme'' (PStr ''single'') in
      rbnd (if scheme = PStr ''custom'' then
              (case map_of m ''partition_recipe'' of
                 None \<Rightarrow> Inl (PlainException ''custom paritition_scheme specified, but recipe not found.'')
               | Some v \<Rightarrow> if truthy v then recipe_of v else Inr [])
            else (case scheme of
                PStr s \<Rightarrow> Inr (case map_of partition_recipes s of None \<Rightarrow> [] | Some r \<Rightarrow> r)
              | PList _ \<Rightarrow> Inl TypeError
              | PDict _ \<Rightarrow> Inl TypeError
              | _ \<Rightarrow> Inr [])) (\<lambda>recipe.
        if recipe = [] then Inl (unknown_scheme scheme) else Inr recipe))"

text \<open>The numbers of the targets in the recipe. A Python set of small integers iterates in
  ascending order.\<close>

definition with_key :: "string \<Rightarrow> recipe \<Rightarrow> recipe" where
  "with_key k recipe = filter (\<lambda>i. map_of i k \<noteq> None) recipe"

definition recipe_targets :: "recipe \<Rightarrow> int list res" where
  "recipe_targets recipe =
     rbnd (collect (with_key ''target'' recipe) (\<lambda>i. rbnd (dindex i ''target'') int_of)) (\<lambda>ts.
       Inr (sort (remdups ts)))"

definition not_enough :: "int \<Rightarrow> nat \<Rightarrow> exc" where
  "not_enough need found = PlainException (''Not Enough Target Drives, need \"'' @ show_int need @ ''\" found \"''
     @ show_nat found @ ''\"'')"

definition check_targets :: "string list \<Rightarrow> int list \<Rightarrow> unit res" where
  "check_targets drives targets =
     (if targets = [] then Inl ValueError
      else if int (length drives) \<le> last targets then Inl (not_enough (last targets + 1) (length drives))
      else Inr ())"

definition swap_share :: "recipe \<Rightarrow> int \<Rightarrow> rat" where
  "swap_share recipe swap_size =
     (let n = length (filter (\<lambda>i. map_of i ''type'' = Some (PStr ''swap'')) recipe) in
      if n = 0 then 0 else of_int swap_size / of_nat n)"

definition find_boot_drives :: "recipe \<Rightarrow> string list \<Rightarrow> string list res" where
  "find_boot_drives recipe drives =
     rbnd (targetsWithMount recipe ''/boot'') (\<lambda>b.
     rbnd (if b = [] then targetsWithMount recipe ''/'' else Inr b) (\<lambda>b.
       if b = [] then Inl (PlainException ''Unable to determine the boot_drives'')
       else collect b (lindex drives)))"

section \<open>Boot partitions and reference sizes\<close>

definition boot_rsvd_size :: "string \<Rightarrow> rat" where
  "boot_rsvd_size partition_type = (if partition_type = ''gpt'' then 100 else 5)"

definition new_entry :: "string \<Rightarrow> string \<Rightarrow> fs_entry" where
  "new_entry ty dev = \<lparr>fe_type = ty, fe_mount_point = None, fe_mount_options = None, fe_block_device = dev,
     fe_mkfs_options = None, fe_priority = None, fe_members = None, fe_uuid = None\<rparr>"

definition add_fs :: "fs_entry \<Rightarrow> ('a fs_state_scheme, unit) py" where
  "add_fs e = modify (\<lambda>s. s\<lparr>filesystem_list := filesystem_list s @ [e]\<rparr>)"

text \<open>The name of a partition that \<open>_addPartition\<close> returned where the code puts it into a
  dictionary; only a \<open>blank\<close> one has none.\<close>

definition some_name :: "string option \<Rightarrow> string res" where
  "some_name d = (case d of None \<Rightarrow> Inl TypeError | Some x \<Rightarrow> Inr x)"

definition grub_partition :: "world \<Rightarrow> part_cfg \<Rightarrow> string \<Rightarrow> ('a fs_state_scheme, unit) py" where
  "grub_partition w c drive =
     bnd (addPartition drive ''bios_grub'' 100) (\<lambda>d. bnd (lift (some_name d)) (\<lambda>dev.
     bnd (path_exists w ''/sys/firmware/efi'') (\<lambda>efi.
       let e = (new_entry ''vfat'' dev)\<lparr>fe_mkfs_options := Some (pget_fb (pc_profile c) ''filesystem'' ''mkfs_vfat_options'' [])\<rparr> in
       add_fs (if efi then e\<lparr>fe_mount_point := Some (PStr ''/boot/efi''), fe_mount_options := Some (pc_default c)\<rparr> else e))))"

definition setup_labels :: "part_cfg \<Rightarrow> int list \<Rightarrow> ('a fs_state_scheme, unit) py" where
  "setup_labels c targets = for_each targets (\<lambda>t. bnd (lift (lindex (pc_targets c) t)) (\<lambda>d.
     modify (\<lambda>s. s\<lparr>parted_task_map := dset d [''mklabel '' @ pc_type c] (parted_task_map s)\<rparr>)))"

definition setup_boot :: "world \<Rightarrow> part_cfg \<Rightarrow> ('a fs_state_scheme, unit) py" where
  "setup_boot w c = bnd (gets boot_drives) (\<lambda>ds. for_each ds (\<lambda>d.
     if pc_type c = ''gpt'' then grub_partition w c d
     else seq (addPartition d ''blank'' (boot_rsvd_size (pc_type c))) (ret ())))"

text \<open>\<open>tmp\<close> keeps the value of an earlier item when an item has no lambda.\<close>

definition ref_item :: "part_cfg \<Rightarrow> item \<Rightarrow> (part_state, unit) py" where
  "ref_item c item = block [
     modify (\<lambda>s. s\<lparr>pl_item := item\<rparr>),
     (case map_of item ''lambda'' of
        None \<Rightarrow> ret ()
      | Some (PLam n) \<Rightarrow> modify (\<lambda>s. s\<lparr>pl_tmp :=
          Some (recipe_lambda n (pl_swap_size s) (pl_boot_size s) (boot_rsvd_size (pc_type c)))\<rparr>)
      | Some _ \<Rightarrow> throw TypeError),
     bnd (lift (dindex item ''ref_size'')) (\<lambda>r. bnd (gets pl_tmp) (\<lambda>tmp.
       if r = PStr ''boot'' then
         (case tmp of None \<Rightarrow> throw UnboundLocalError | Some x \<Rightarrow> modify (\<lambda>s. s\<lparr>pl_boot_size := x\<rparr>))
       else if r = PStr ''swap'' then
         (case tmp of None \<Rightarrow> throw UnboundLocalError | Some x \<Rightarrow> modify (\<lambda>s. s\<lparr>pl_swap_size := x\<rparr>))
       else ret ()))]"


section \<open>Target items\<close>

text \<open>\<open>isinstance( size, str ) and size[-1] == '%'\<close> and the percentage; \<open>None\<close> for a text without the
  sign. An empty text raises at \<open>size[-1]\<close>.\<close>

definition percent_of :: "string \<Rightarrow> rat option res" where
  "percent_of s =
     (if s = [] then Inl IndexError
      else if last s = CHR ''%'' then rbnd (float_str (butlast s)) (\<lambda>x. Inr (Some (fl (x / 100))))
      else Inr None)"

definition bad_percent :: "string \<Rightarrow> exc" where
  "bad_percent s = PlainException (''Invalid size percentage \"'' @ s @ ''\"'')"

text \<open>The size of a target item. A percentage strictly between 0 and 100 asks the drive of the block
  device for an attribute \<open>drive\<close>, which a \<open>Drive\<close> does not have.\<close>

definition item_size :: "part_cfg \<Rightarrow> rat \<Rightarrow> rat \<Rightarrow> string \<Rightarrow> item \<Rightarrow> rat res" where
  "item_size c boot_size swap_size target_drive item =
     rbnd (dindex item ''size'') (\<lambda>v.
       if v = PStr ''end'' then Inr 0
       else if v = PStr ''boot'' then Inr boot_size
       else if v = PStr ''- boot'' then Inr (- boot_size)
       else if v = PStr ''swap'' then Inr swap_size
       else if v = PStr ''- swap'' then Inr (- swap_size)
       else (case v of
           PStr s \<Rightarrow> rbnd (percent_of s) (\<lambda>p. case p of
               Some x \<Rightarrow>
                 if x = 1 then Inr 0
                 else if x \<le> 0 \<or> 1 \<le> x then Inl (bad_percent s)
                 else rbnd (dindex (pc_drives c) target_drive) (\<lambda>d. Inl AttributeError)
             | None \<Rightarrow> rbnd (int_str s) (\<lambda>i. Inr (of_int i)))
         | _ \<Rightarrow> rbnd (int_of v) (\<lambda>i. Inr (of_int i))))"

definition target_type :: "part_cfg \<Rightarrow> item \<Rightarrow> string res" where
  "target_type c item = (case map_of item ''type'' of
       Some t \<Rightarrow> str_of t
     | None \<Rightarrow> rbnd (dindex item ''mount_point'') (\<lambda>m.
         Inr (if m = PStr ''/boot'' then pc_boot_fs_type c else pc_fs_type c)))"

text \<open>A new list object.\<close>

definition new_options :: "string list \<Rightarrow> (part_state, unit) py" where
  "new_options l = modify (\<lambda>s. s\<lparr>opt_store := opt_store s @ [l], pl_mount_options := Some (length (opt_store s))\<rparr>)"

text \<open>\<open>mount_options\<close>: for \<open>'defaults'\<close> the variable is left as it is.\<close>

definition set_mount_options :: "part_cfg \<Rightarrow> item \<Rightarrow> (part_state, unit) py" where
  "set_mount_options c item = (case map_of item ''mount_options'' of
       None \<Rightarrow> bnd (gets (\<lambda>s. opt_store s ! pc_default c)) new_options
     | Some v \<Rightarrow>
         if v = PStr ''defaults'' then ret ()
         else (case v of PStr s \<Rightarrow> new_options (split_chr CHR '','' s) | _ \<Rightarrow> throw AttributeError))"

definition cur_options :: "(part_state, nat) py" where
  "cur_options = bnd (gets pl_mount_options) (\<lambda>r. case r of None \<Rightarrow> throw UnboundLocalError | Some i \<Rightarrow> ret i)"

definition cur_device :: "(part_state, string) py" where
  "cur_device = bnd (gets pl_block_device) (\<lambda>r. case r of None \<Rightarrow> throw UnboundLocalError | Some i \<Rightarrow> ret i)"

definition cur_priority :: "(part_state, int) py" where
  "cur_priority = bnd (gets pl_priority) (\<lambda>r. case r of None \<Rightarrow> throw UnboundLocalError | Some i \<Rightarrow> ret i)"

text \<open>\<open>mount_options.append( 'discard' )\<close>: every entry that refers to the list sees it.\<close>

definition add_discard :: "(part_state, unit) py" where
  "add_discard = bnd cur_options (\<lambda>i.
     modify (\<lambda>s. s\<lparr>opt_store := (opt_store s)[i := opt_store s ! i @ [''discard'']]\<rparr>))"

definition profile_mkfs :: "part_cfg \<Rightarrow> string \<Rightarrow> string" where
  "profile_mkfs c part_type = pget_fb (pc_profile c) ''filesystem'' (''mkfs_'' @ part_type @ ''_options'') []"

definition mkfs_options :: "part_cfg \<Rightarrow> string \<Rightarrow> item \<Rightarrow> string res" where
  "mkfs_options c part_type item = (case map_of item ''mkfs_options'' of
       None \<Rightarrow> Inr (profile_mkfs c part_type)
     | Some v \<Rightarrow> rbnd (py_str v) (\<lambda>t. Inr (profile_mkfs c part_type @ '' '' @ t)))"

definition item_priority :: "item \<Rightarrow> int res" where
  "item_priority item = (case map_of item ''priority'' of None \<Rightarrow> Inr 0 | Some v \<Rightarrow> int_of v)"

text \<open>Members of arrays and volume groups are collected by group, in the order of the items.\<close>

definition add_member :: "int \<Rightarrow> 'm \<Rightarrow> (int, 'm list) dict \<Rightarrow> (int, 'm list) dict" where
  "add_member g m d = dset g ((case map_of d g of None \<Rightarrow> [] | Some l \<Rightarrow> l) @ [m]) d"

definition item_group :: "item \<Rightarrow> int res" where
  "item_group item = rbnd (dindex item ''group'') int_of"

definition register_bcache :: "item \<Rightarrow> (part_state, unit) py" where
  "register_bcache item =
     bnd (lift (dindex item ''as'')) (\<lambda>a.
       if a = PStr ''cache'' then bnd cur_device (\<lambda>d. bnd (lift (item_group item)) (\<lambda>g.
         modify (\<lambda>s. s\<lparr>pl_cache := dset g d (pl_cache s)\<rparr>)))
       else if a = PStr ''backing'' then bnd cur_device (\<lambda>d. bnd (lift (item_group item)) (\<lambda>g.
         modify (\<lambda>s. s\<lparr>pl_backing := dset g d (pl_backing s)\<rparr>)))
       else ret ())"

definition add_swap :: "string \<Rightarrow> (part_state, unit) py" where
  "add_swap mkfs = bnd cur_priority (\<lambda>pr. bnd cur_device (\<lambda>d.
     add_fs ((new_entry ''swap'' d)\<lparr>fe_priority := Some pr, fe_mkfs_options := Some mkfs\<rparr>)))"

text \<open>A file system entry: the mount point is looked up first, then the two variables.\<close>

definition add_mounted :: "item \<Rightarrow> string \<Rightarrow> string option \<Rightarrow> string list option \<Rightarrow> (part_state, unit) py" where
  "add_mounted item ty mkfs members =
     bnd (lift (dindex item ''mount_point'')) (\<lambda>m. bnd cur_options (\<lambda>o'. bnd cur_device (\<lambda>d.
       add_fs ((new_entry ty d)\<lparr>fe_mount_point := Some m, fe_mount_options := Some o', fe_mkfs_options := mkfs,
         fe_members := members\<rparr>))))"

definition register_target :: "part_cfg \<Rightarrow> string \<Rightarrow> string \<Rightarrow> string \<Rightarrow> item \<Rightarrow> (part_state, unit) py" where
  "register_target c target_drive part_type mkfs item =
     (if part_type = ''md'' then
        bnd (lift (item_group item)) (\<lambda>g. bnd cur_device (\<lambda>d. bnd (lift (dindex (pc_drives c) target_drive)) (\<lambda>i.
          modify (\<lambda>s. s\<lparr>pl_md_list := add_member g (d, i) (pl_md_list s)\<rparr>))))
      else if part_type = ''bcache'' then register_bcache item
      else if part_type = ''pv'' then
        bnd (lift (item_group item)) (\<lambda>g. bnd cur_device (\<lambda>d. bnd (lift (dindex (pc_drives c) target_drive)) (\<lambda>i.
          modify (\<lambda>s. s\<lparr>pl_pv_list := add_member g (d, i) (pl_pv_list s)\<rparr>))))
      else if part_type = ''swap'' then add_swap mkfs
      else if part_type = ''blank'' \<or> part_type = ''empty'' then ret ()
      else bnd (lift (dindex (pc_drives c) target_drive)) (\<lambda>i.
        seq (whenM (supportsTrim i \<and> part_type \<in> set FS_WITH_TRIM) add_discard)
        (add_mounted item part_type (Some mkfs) None)))"

text \<open>The partition of a target item.\<close>

definition create_target :: "string \<Rightarrow> string \<Rightarrow> rat \<Rightarrow> (part_state, unit) py" where
  "create_target target_drive part_type sz =
     (if part_type = ''swap'' then bnd (addPartition target_drive ''swap'' sz)
        (\<lambda>d. modify (\<lambda>s. s\<lparr>pl_block_device := d\<rparr>))
      else if part_type = ''blank'' \<or> part_type = ''empty'' then
        seq (addPartition target_drive part_type sz) (ret ())
      else bnd (addPartition target_drive ''fs'' sz) (\<lambda>d. modify (\<lambda>s. s\<lparr>pl_block_device := d\<rparr>)))"

definition target_item :: "part_cfg \<Rightarrow> item \<Rightarrow> (part_state, unit) py" where
  "target_item c item =
     seq (modify (\<lambda>s. s\<lparr>pl_item := item\<rparr>))
     (bnd (lift (rbnd (rbnd (dindex item ''target'') int_of) (lindex (pc_targets c)))) (\<lambda>target_drive.
      bnd (gets (\<lambda>s. (pl_boot_size s, pl_swap_size s))) (\<lambda>(boot, swap).
      bnd (lift (item_size c boot swap target_drive item)) (\<lambda>sz.
      bnd (lift (target_type c item)) (\<lambda>part_type.
      seq (modify (\<lambda>s. s\<lparr>pl_part_type := part_type\<rparr>))
      (seq (set_mount_options c item)
      (bnd (lift (mkfs_options c part_type item)) (\<lambda>mkfs.
      bnd (lift (item_priority item)) (\<lambda>pr.
      seq (modify (\<lambda>s. s\<lparr>pl_priority := Some pr\<rparr>))
      (seq (create_target target_drive part_type sz)
      (register_target c target_drive part_type mkfs item)))))))))))"

section \<open>Arrays and caches\<close>

definition plain_type :: "part_cfg \<Rightarrow> item \<Rightarrow> string res" where
  "plain_type c item = (case map_of item ''type'' of None \<Rightarrow> Inr (pc_fs_type c) | Some t \<Rightarrow> str_of t)"

text \<open>The part that the loops over \<open>md\<close>, \<open>bcache\<close> and \<open>lv\<close> items share: the type, the mount options.\<close>

definition item_head :: "part_cfg \<Rightarrow> item \<Rightarrow> (part_state, string) py" where
  "item_head c item =
     bnd (lift (plain_type c item)) (\<lambda>part_type.
     seq (modify (\<lambda>s. s\<lparr>pl_part_type := part_type\<rparr>))
     (seq (set_mount_options c item) (ret part_type)))"

definition md_step :: "world \<Rightarrow> part_cfg \<Rightarrow> item \<Rightarrow> (part_state, unit) py" where
  "md_step w c item =
     seq (modify (\<lambda>s. s\<lparr>pl_item := item\<rparr>))
     (bnd (item_head c item) (\<lambda>part_type.
      bnd (lift (mkfs_options c part_type item)) (\<lambda>mkfs.
      bnd (lift (rbnd (dindex item ''md'') int_of)) (\<lambda>g.
      bnd (gets pl_md_list) (\<lambda>mds.
      bnd (lift (dindex mds g)) (\<lambda>members.
      bnd (lift (rbnd (dindex item ''level'') int_of)) (\<lambda>level.
      bnd (lift (py_str (case map_of item ''meta_version'' of None \<Rightarrow> pc_md_meta c | Some v \<Rightarrow> v))) (\<lambda>meta.
      bnd (addRAID w g (map fst members) level meta) (\<lambda>dev.
      seq (modify (\<lambda>s. s\<lparr>pl_block_device := Some dev\<rparr>))
      (if part_type = ''swap'' then add_swap mkfs
       else if part_type = ''bcache'' then register_bcache item
       else if map_of item ''mount_point'' \<noteq> None then
         seq (whenM ((\<forall>(_, i) \<in> set members. supportsTrim i) \<and> part_type \<in> set FS_WITH_TRIM) add_discard)
         (add_mounted item part_type (Some mkfs) (Some (map fst members)))
       else ret ()))))))))))"

definition bcache_step :: "world \<Rightarrow> part_cfg \<Rightarrow> item \<Rightarrow> (part_state, unit) py" where
  "bcache_step w c item =
     seq (modify (\<lambda>s. s\<lparr>pl_item := item\<rparr>))
     (bnd (item_head c item) (\<lambda>part_type.
      bnd (lift (mkfs_options c part_type item)) (\<lambda>mkfs.
      bnd (lift (rbnd (dindex item ''bcache'') int_of)) (\<lambda>g.
      bnd (gets (\<lambda>s. dindex (pl_backing s) g)) (\<lambda>rb. bnd (lift rb) (\<lambda>backing.
      bnd (gets (\<lambda>s. dindex (pl_cache s) g)) (\<lambda>rc. bnd (lift rc) (\<lambda>cache.
      bnd (addBCache w g backing cache (case map_of item ''mode'' of None \<Rightarrow> PNone | Some m \<Rightarrow> m)) (\<lambda>dev.
      seq (modify (\<lambda>s. s\<lparr>pl_block_device := Some dev\<rparr>))
      (if part_type = ''swap'' then add_swap mkfs
       else whenM (map_of item ''mount_point'' \<noteq> None) (add_mounted item part_type None None)))))))))))"

section \<open>Logical volumes\<close>

definition pv_create :: "world \<Rightarrow> (part_state, unit) py" where
  "pv_create w = bnd (gets pl_pv_list) (\<lambda>pvs. for_each pvs (\<lambda>(g, members).
     seq (modify (\<lambda>s. s\<lparr>pl_vg := g\<rparr>))
     (for_each members (\<lambda>(dev, _). execute w (''/sbin/lvm pvcreate -ff -y '' @ dev)))))"

text \<open>The pattern \<open>[ ]*Total PE[ ]*([0-9\.]*)\<close>.\<close>

definition total_pe_re :: re where
  "total_pe_re = cats [Star (lit_chr CHR '' ''), lit ''Total PE'', Star (lit_chr CHR '' ''),
     Grp 1 (Star (Cls False [(CHR ''0'', CHR ''9''), (CHR ''.'', CHR ''.'')]))]"

text \<open>The number on the first line that matches.\<close>

fun total_pe :: "string list \<Rightarrow> int option res" where
  "total_pe [] = Inr None"
| "total_pe (line # ls) = (case re_match total_pe_re line of
       None \<Rightarrow> total_pe ls
     | Some c \<Rightarrow> rbnd (rbnd (dindex c 1) int_str) (\<lambda>n. Inr (Some n)))"

definition no_extents :: "string \<Rightarrow> exc" where
  "no_extents name = PlainException (''Unable to get Size/Extents of VG \"'' @ name @ ''\"'')"

definition vg_step :: "world \<Rightarrow> item \<Rightarrow> (part_state, unit) py" where
  "vg_step w item =
     seq (modify (\<lambda>s. s\<lparr>pl_item := item\<rparr>))
     (bnd (lift (rbnd (dindex item ''vg'') int_of)) (\<lambda>g.
      seq (modify (\<lambda>s. s\<lparr>pl_vg := g\<rparr>))
      (bnd (lift (rbnd (dindex item ''name'') py_str)) (\<lambda>name.
      seq (modify (\<lambda>s. s\<lparr>pl_vg_names := dset g name (pl_vg_names s), pl_vg_disks := dset g [] (pl_vg_disks s)\<rparr>))
      (bnd (gets (\<lambda>s. dindex (pl_pv_list s) g)) (\<lambda>r. bnd (lift r) (\<lambda>members.
      seq (modify (\<lambda>s. s\<lparr>pl_vg_disks := dset g (map snd members) (pl_vg_disks s)\<rparr>))
      (seq (execute w (''/sbin/lvm vgcreate '' @ name @ '' '' @ join '' '' (map fst members)))
      (bnd (execute_lines w (''/sbin/lvm vgdisplay '' @ name)) (\<lambda>out.
      bnd (lift (total_pe out)) (\<lambda>n.
      seq (case n of None \<Rightarrow> ret () | Some k \<Rightarrow> modify (\<lambda>s. s\<lparr>pl_vg_extents := dset g k (pl_vg_extents s)\<rparr>))
      (bnd (gets (\<lambda>s. map_of (pl_vg_extents s) g)) (\<lambda>x.
         whenM (x = None \<or> x = Some 0) (throw (no_extents name)))))))))))))))"

definition lv_size :: "rat \<Rightarrow> rat \<Rightarrow> (int, int) dict \<Rightarrow> int \<Rightarrow> item \<Rightarrow> string res" where
  "lv_size boot_size swap_size extents g item =
     rbnd (dindex item ''size'') (\<lambda>v.
       if v = PStr ''boot'' then Inr (''--size '' @ show_int (trunc boot_size) @ ''M'')
       else if v = PStr ''swap'' then Inr (''--size '' @ show_int (trunc swap_size) @ ''M'')
       else (case v of
           PStr s \<Rightarrow> rbnd (percent_of s) (\<lambda>p. case p of
               Some x \<Rightarrow>
                 if x = 1 then rbnd (dindex extents g) (\<lambda>n. Inr (''--extents '' @ show_int n))
                 else if x \<le> 0 \<or> 1 \<le> x then Inl (bad_percent s)
                 else rbnd (dindex extents g) (\<lambda>n. Inr (''--extents '' @ show_int (trunc (fl (of_int n * x)))))
             | None \<Rightarrow> rbnd (int_str s) (\<lambda>i. Inr (''--size '' @ show_int i @ ''M'')))
         | _ \<Rightarrow> rbnd (int_of v) (\<lambda>i. Inr (''--size '' @ show_int i @ ''M''))))"

text \<open>The body of the loop over the \<open>lv\<close> items: what it computes stays in the variables.\<close>

definition lv_step :: "part_cfg \<Rightarrow> item \<Rightarrow> (part_state, unit) py" where
  "lv_step c item =
     seq (modify (\<lambda>s. s\<lparr>pl_item := item\<rparr>))
     (bnd (lift (rbnd (dindex item ''lv'') int_of)) (\<lambda>g.
      seq (modify (\<lambda>s. s\<lparr>pl_vg := g\<rparr>))
      (bnd (gets (\<lambda>s. lv_size (pl_boot_size s) (pl_swap_size s) (pl_vg_extents s) g item)) (\<lambda>r.
      bnd (lift r) (\<lambda>t.
      seq (modify (\<lambda>s. s\<lparr>pl_lv_size := Inr t\<rparr>))
      (seq (item_head c item) (ret ())))))))"

text \<open>The \<open>try\<close> after that loop, with the creation of the volume inside its \<open>except\<close>: it runs once,
  with what the last turn left, and only when that item has no \<open>mkfs_options\<close>.\<close>

definition lv_create :: "world \<Rightarrow> part_cfg \<Rightarrow> (part_state, unit) py" where
  "lv_create w c =
     bnd (gets (\<lambda>s. (pl_item s, pl_part_type s))) (\<lambda>(item, part_type).
     (case map_of item ''mkfs_options'' of
        Some v \<Rightarrow> bnd (lift (py_str v)) (\<lambda>t. ret ())
      | None \<Rightarrow>
          bnd (gets (\<lambda>s. dindex (pl_vg_names s) (pl_vg s))) (\<lambda>rn. bnd (lift rn) (\<lambda>vg_name.
          bnd (lift (rbnd (dindex item ''name'') py_str)) (\<lambda>name.
          seq (modify (\<lambda>s. s\<lparr>pl_block_device := Some (''/dev/mapper/'' @ vg_name @ ''-'' @ name)\<rparr>))
          (bnd (gets pl_lv_size) (\<lambda>rs. bnd (lift rs) (\<lambda>sz.
          seq (execute w (''/sbin/lvm lvcreate --name \"'' @ name @ ''\" '' @ sz @ '' '' @ vg_name))
          (bnd (gets (\<lambda>s. dindex (pl_vg_disks s) (pl_vg s))) (\<lambda>rd. bnd (lift rd) (\<lambda>disks.
          if part_type = ''swap'' then add_swap (profile_mkfs c part_type)
          else seq (whenM ((\<forall>i \<in> set disks. supportsTrim i) \<and> part_type \<in> set FS_WITH_TRIM) add_discard)
            (add_mounted item (pc_fs_type c) (Some (profile_mkfs c part_type)) None))))))))))))"

definition lvm_steps :: "world \<Rightarrow> part_cfg \<Rightarrow> (part_state, unit) py" where
  "lvm_steps w c = bnd (gets pl_pv_list) (\<lambda>pvs. whenM (pvs \<noteq> []) (block [
     pv_create w,
     for_each (with_key ''vg'' (pc_recipe c)) (vg_step w),
     for_each (with_key ''lv'' (pc_recipe c)) (lv_step c),
     lv_create w c]))"

section \<open>The end of the function\<close>

definition hashable :: "pyval \<Rightarrow> bool" where
  "hashable v = (case v of PList _ \<Rightarrow> False | PDict _ \<Rightarrow> False | _ \<Rightarrow> True)"

definition map_mounts :: "('a fs_state_scheme, unit) py" where
  "map_mounts = bnd (gets filesystem_list) (\<lambda>l. for_each l (\<lambda>e.
     case fe_mount_point e of
       None \<Rightarrow> ret ()
     | Some m \<Rightarrow>
         if m = PNone then ret ()
         else if \<not> hashable m then throw TypeError
         else modify (\<lambda>s. s\<lparr>partition_map := dset m (fe_block_device e) (partition_map s)\<rparr>)))"

text \<open>\<open>while perc_list and min( perc_list ) < 0.5\<close>: no bound but the clock. Every turn sleeps 30 seconds
  and the loop is left 300 seconds after its start, so a fuel of 12 turns is enough for a clock that
  runs (\<open>md_wait_returns\<close>).\<close>

fun md_wait :: "nat \<Rightarrow> world \<Rightarrow> rat \<Rightarrow> rat list \<Rightarrow> ('a proc_state_scheme, unit) py" where
  "md_wait 0 w start_at perc_list = throw OutOfFuel"
| "md_wait (Suc fuel) w start_at perc_list =
     (if perc_list \<noteq> [] \<and> Min (set perc_list) < 1/2 then
        bnd (gets (\<lambda>s. w_time w (events s))) (\<lambda>now.
          if now - 300 > start_at then ret ()
          else seq (emit (Sleep 30)) (bnd (mdSyncPercentange w) (md_wait fuel w start_at)))
      else ret ())"

definition md_fuel :: nat where
  "md_fuel = 12"

definition sync_wait :: "world \<Rightarrow> ('a proc_state_scheme, unit) py" where
  "sync_wait w =
     bnd (gets (\<lambda>s. w_time w (events s))) (\<lambda>start_at.
     seq (write_file w ''/proc/sys/dev/raid/speed_limit_min'' ''500000000'')
     (seq (write_file w ''/proc/sys/dev/raid/speed_limit_max'' ''500000000'')
     (seq (bnd (mdSyncPercentange w) (md_wait md_fuel w start_at))
     (write_file w ''/proc/sys/dev/raid/speed_limit_min'' ''2000''))))"

definition run_parted :: "world \<Rightarrow> ('a fs_state_scheme, unit) py" where
  "run_parted w = bnd (gets parted_task_map) (\<lambda>m. for_each m (\<lambda>(target, tasks). parted w target tasks))"

section \<open>The whole function\<close>

text \<open>Everything up to the first command: the labels, the boot partitions, the sizes and the target items
  only fill the module's tables.\<close>

definition part_plan :: "world \<Rightarrow> part_cfg \<Rightarrow> int list \<Rightarrow> (part_state, unit) py" where
  "part_plan w c targets = block [
     setup_labels c targets,
     setup_boot w c,
     for_each (with_key ''ref_size'' (pc_recipe c)) (ref_item c),
     for_each (with_key ''target'' (pc_recipe c)) (target_item c)]"

definition part_apply :: "world \<Rightarrow> part_cfg \<Rightarrow> (part_state, unit) py" where
  "part_apply w c = block [
     run_parted w,
     for_each (with_key ''md'' (pc_recipe c)) (md_step w c),
     for_each (with_key ''bcache'' (pc_recipe c)) (bcache_step w c),
     lvm_steps w c,
     map_mounts,
     bnd (gets pl_md_list) (\<lambda>mds. whenM (mds \<noteq> []) (sync_wait w))]"

definition part_body :: "world \<Rightarrow> part_cfg \<Rightarrow> int list \<Rightarrow> (part_state, unit) py" where
  "part_body w c targets = seq (part_plan w c targets) (part_apply w c)"

text \<open>Run a computation with local variables and forget them.\<close>

definition with_locals :: "rat \<Rightarrow> rat \<Rightarrow> (part_state, 'b) py \<Rightarrow> (fs_state, 'b) py" where
  "with_locals swap boot m = (\<lambda>s. map_prod id fs_state.truncate (m (init_locals swap boot s)))"

text \<open>The settings, the drives, the recipe and the boot drives; the value has the numbers of the targets,
  the swap and the boot size.\<close>

definition prepare :: "world \<Rightarrow> profile \<Rightarrow> value_map \<Rightarrow> (fs_state, part_cfg \<times> int list \<times> rat \<times> rat) py" where
  "prepare w p value_map =
     bnd (lift (check_settings p)) (\<lambda>(partition_type, fs_type, boot_fs_type, meta).
     bnd (lift (wanted_drives value_map)) (\<lambda>wanted.
     bnd (wait_targets 9 w wanted) (\<lambda>(target_drives, drive_map).
     bnd (lift (int_setting value_map ''swap_size'')) (\<lambda>swap_size.
     bnd (lift (int_setting value_map ''boot_size'')) (\<lambda>boot_size.
     bnd (lift (default_options value_map)) (\<lambda>opts.
     bnd (lift (choose_recipe value_map)) (\<lambda>recipe.
     bnd (lift (recipe_targets recipe)) (\<lambda>targets.
     bnd (lift (check_targets target_drives targets)) (\<lambda>_.
     bnd (lift (find_boot_drives recipe target_drives)) (\<lambda>boots.
     bnd (gets (\<lambda>s. length (opt_store s))) (\<lambda>ref.
     seq (modify (\<lambda>s. s\<lparr>boot_drives := boots, opt_store := opt_store s @ [opts]\<rparr>))
     (ret (\<lparr>pc_profile = p, pc_type = partition_type, pc_fs_type = fs_type, pc_boot_fs_type = boot_fs_type,
            pc_md_meta = setting value_map ''md_meta_version'' (PStr meta), pc_targets = target_drives,
            pc_drives = drive_map, pc_default = ref, pc_recipe = recipe\<rparr>,
           targets, swap_share recipe swap_size, of_int boot_size)))))))))))))"

definition partition :: "world \<Rightarrow> profile \<Rightarrow> value_map \<Rightarrow> (fs_state, unit) py" where
  "partition w p value_map =
     bnd (prepare w p value_map) (\<lambda>(c, targets, swap, boot). with_locals swap boot (part_body w c targets))"

end
