(* ===== verification/Partition_Layout.thy ===== *)
theory Partition_Layout
  imports Partition_Run
begin

text \<open>
  What the partition table looks like that \<open>_addPartition\<close> builds for one device. The module keeps one
  number per device, the place where the last partition ended, negative when it was given from the
  end of the disk and 0 when it reached the end. The interface \<open>allocator\<close> is the contract of a
  sequential allocator over addresses; the device's number with the extents that the code writes is an
  instance of it (\<open>part_alloc\<close>), for requests that fit (\<open>fits\<close>). The theorems about the program are
  then facts of that instance: extents follow each other without gap or overlap and stay on the disk.
\<close>

section \<open>Sequential allocators\<close>

text \<open>\<open>next s\<close> is the first free address and \<open>take r s\<close> the extent a request gets, with the new state.\<close>

locale allocator =
  fixes next_addr :: "'s \<Rightarrow> int" and alloc :: "'r \<Rightarrow> 's \<Rightarrow> (int \<times> int) \<times> 's" and ok :: "'r \<Rightarrow> 's \<Rightarrow> bool"
    and limit :: int
  assumes alloc_spec: "ok r s \<Longrightarrow> alloc r s = ((a, b), t) \<Longrightarrow>
     a = next_addr s \<and> b = next_addr t \<and> a < b \<and> b \<le> limit"
begin

fun run :: "'r list \<Rightarrow> 's \<Rightarrow> (int \<times> int) list \<times> 's" where
  "run [] s = ([], s)"
| "run (r # rs) s = (let (e, t) = alloc r s; (es, u) = run rs t in (e # es, u))"

fun all_ok_from :: "'r list \<Rightarrow> 's \<Rightarrow> bool" where
  "all_ok_from [] s = True"
| "all_ok_from (r # rs) s = (ok r s \<and> all_ok_from rs (snd (alloc r s)))"

lemma run_bounds:
  "all_ok_from rs s \<Longrightarrow> run rs s = (es, t) \<Longrightarrow>
     next_addr s \<le> next_addr t
     \<and> (\<forall>(a, b) \<in> set es. next_addr s \<le> a \<and> a < b \<and> b \<le> next_addr t)
     \<and> (rs \<noteq> [] \<longrightarrow> next_addr t \<le> limit)"
proof (induction rs arbitrary: s es)
  case (Cons r rs)
  obtain a b u where e: "alloc r s = ((a, b), u)" by (metis surj_pair)
  obtain fs v where f: "run rs u = (fs, v)" by fastforce
  from Cons.prems e f have es: "es = (a, b) # fs" "t = v" by auto
  have "a = next_addr s" "b = next_addr u" "a < b" "b \<le> limit"
    using alloc_spec[of r s a b u] Cons.prems e by auto
  moreover have "next_addr u \<le> next_addr t" "\<forall>(a, b) \<in> set fs. next_addr u \<le> a \<and> a < b \<and> b \<le> next_addr t"
    "rs \<noteq> [] \<longrightarrow> next_addr t \<le> limit"
    using Cons.IH[of u fs] Cons.prems e f es by auto
  ultimately show ?case using es e f Cons.prems by (cases rs) fastforce+
qed simp

lemma run_sorted: "all_ok_from rs s \<Longrightarrow> run rs s = (es, t) \<Longrightarrow> sorted_wrt (\<lambda>(_, b) (a, _). b \<le> a) es"
proof (induction rs arbitrary: s es)
  case (Cons r rs)
  obtain a b u where e: "alloc r s = ((a, b), u)" by (metis surj_pair)
  obtain fs v where f: "run rs u = (fs, v)" by fastforce
  from Cons.prems e f have es: "es = (a, b) # fs" by auto
  have "b = next_addr u" using alloc_spec[of r s a b u] Cons.prems e by auto
  moreover have "\<forall>(a, b) \<in> set fs. next_addr u \<le> a"
    using run_bounds[of rs u fs v] Cons.prems e f by auto
  ultimately show ?case using es Cons e f by auto
qed simp

text \<open>The first extent starts where the allocator stood, each other one where its predecessor ended.\<close>

fun chained :: "int \<Rightarrow> (int \<times> int) list \<Rightarrow> bool" where
  "chained p [] = True"
| "chained p ((a, b) # es) = (a = p \<and> chained b es)"

lemma run_chained: "all_ok_from rs s \<Longrightarrow> run rs s = (es, t) \<Longrightarrow> chained (next_addr s) es"
proof (induction rs arbitrary: s es)
  case (Cons r rs)
  obtain a b u where e: "alloc r s = ((a, b), u)" by (metis surj_pair)
  obtain fs v where f: "run rs u = (fs, v)" by fastforce
  have "a = next_addr s" "b = next_addr u" using alloc_spec[of r s a b u] Cons.prems e by auto
  with Cons e f show ?case by auto
qed simp

end

section \<open>The instance\<close>

text \<open>An address on a disk of \<open>D\<close> megabytes.\<close>

definition addr :: "int \<Rightarrow> int \<Rightarrow> int" where
  "addr D p = (if p < 0 then D + p else p)"

definition end_addr :: "int \<Rightarrow> part_end \<Rightarrow> int" where
  "end_addr D e = (case e of DiskEnd \<Rightarrow> D | At p \<Rightarrow> addr D p)"

text \<open>The number kept for a device, \<open>None\<close> before the first partition.\<close>

definition start_num :: "int option \<Rightarrow> int" where
  "start_num p = (case p of None \<Rightarrow> 0 | Some x \<Rightarrow> x)"

definition free_addr :: "int \<Rightarrow> int option \<Rightarrow> int" where
  "free_addr D p = (case p of None \<Rightarrow> 0 | Some x \<Rightarrow> if x = 0 then D else addr D x)"

definition part_step :: "int \<Rightarrow> int \<Rightarrow> int option \<Rightarrow> (int \<times> int) \<times> int option" where
  "part_step D sz p =
     ((addr D (start_num p), end_addr D (extent_end (start_num p) sz)), Some (next_pos (start_num p) sz))"

text \<open>A request that fits: the rest of the disk, a size counted from a non-negative place that stays
  on the disk, a size counted from a negative place that does not reach the end exactly, or all but
  the last \<open>- sz\<close> megabytes.\<close>

definition fits :: "int \<Rightarrow> int \<Rightarrow> int option \<Rightarrow> bool" where
  "fits D sz p =
     (p \<noteq> Some 0 \<and> - D \<le> start_num p \<and> free_addr D p < D \<and>
      (if sz = 0 then True
       else if sz < 0 then free_addr D p < D + sz
       else if start_num p < 0 then start_num p + sz < 0
       else start_num p + sz \<le> D))"

interpretation part_alloc: allocator "free_addr D" "part_step D" "fits D" D for D
  by unfold_locales
    (auto simp: part_step_def fits_def free_addr_def start_num_def end_addr_def extent_end_def next_pos_def
      addr_def split: option.splits if_splits)

section \<open>The program\<close>

text \<open>A series of calls of \<open>_addPartition\<close> for one device, with the names it returned.\<close>

fun add_all :: "string \<Rightarrow> (string \<times> rat) list \<Rightarrow> ('a fs_state_scheme, string option list) py" where
  "add_all dev [] = ret []"
| "add_all dev ((ty, sz) # rs) =
     bnd (addPartition dev ty sz) (\<lambda>n. bnd (add_all dev rs) (\<lambda>ns. ret (n # ns)))"

definition known_types :: "string list" where
  "known_types = [''blank'', ''bios_grub'', ''fs'', ''empty'', ''swap'']"

text \<open>The lines for parted that a call adds.\<close>

definition tasks_for :: "string \<Rightarrow> string \<Rightarrow> string list" where
  "tasks_for ty offsets =
     (if ty = ''blank'' then []
      else if ty = ''bios_grub'' then [''mkpart primary fat32 '' @ offsets, ''set 1 bios_grub on'']
      else if ty = ''swap'' then [''mkpart primary linux-swap '' @ offsets]
      else [''mkpart primary ext2 '' @ offsets])"

definition dev_tasks :: "string \<Rightarrow> 'a fs_state_scheme \<Rightarrow> string list option" where
  "dev_tasks dev s = map_of (parted_task_map s) dev"

definition dev_pos :: "string \<Rightarrow> 'a fs_state_scheme \<Rightarrow> int option" where
  "dev_pos dev s = map_of (partition_pos s) dev"

definition dev_count :: "string \<Rightarrow> 'a fs_state_scheme \<Rightarrow> nat option" where
  "dev_count dev s = map_of (partition_counter s) dev"

text \<open>A device that has a place has a counter: an invariant of the module.\<close>

definition counted :: "string \<Rightarrow> 'a fs_state_scheme \<Rightarrow> bool" where
  "counted dev s = (dev_pos dev s \<noteq> None \<longrightarrow> dev_count dev s \<noteq> None)"

definition count_num :: "string \<Rightarrow> 'a fs_state_scheme \<Rightarrow> nat" where
  "count_num dev s = (if dev_pos dev s = None then 0 else the (dev_count dev s))"

lemma addPartition_full: "dev_pos dev s = Some 0 \<Longrightarrow> addPartition dev ty sz s = (Inl disk_full, s)"
  by (simp add: addPartition_def start_of_def dev_pos_def py_simps Let_def)

lemma keeps_add_task: "keeps partition_pos (add_task d x)"
  unfolding add_task_def by (intro keeps_intros) simp

lemma start_of_pos: "start_of dev s = (Inr x, t) \<Longrightarrow> partition_pos t = partition_pos s"
  by (auto simp: start_of_def py_simps split: option.splits if_splits)

text \<open>However a call ends that found a start, the new place is recorded.\<close>

lemma addPartition_pos:
  assumes "start_of dev s = (Inr x, t)"
  shows "dev_pos dev (snd (addPartition dev ty sz s)) = Some (next_pos x (trunc sz))"
proof -
  let ?u = "t\<lparr>partition_pos := dset dev (next_pos x (trunc sz)) (partition_pos t)\<rparr>"
  obtain m where m: "addPartition dev ty sz s = m ?u" "keeps partition_pos m"
  proof
    let ?o = "offsets_text x (extent_end x (trunc sz))"
    let ?m = "if ty = ''blank'' then ret None
       else bnd (gets partition_counter) (\<lambda>c. bnd (lift (dindex c dev)) (\<lambda>n.
         seq (modify (\<lambda>s. s\<lparr>partition_counter := dset dev (Suc n) (partition_counter s)\<rparr>))
         (seq
           (if ty = ''bios_grub'' then block [
              add_task dev (''mkpart primary fat32 '' @ ?o), add_task dev ''set 1 bios_grub on'']
            else if ty = ''fs'' \<or> ty = ''empty'' then add_task dev (''mkpart primary ext2 '' @ ?o)
            else if ty = ''swap'' then add_task dev (''mkpart primary linux-swap '' @ ?o)
            else throw (PlainException (''Unknown partition type \"'' @ ty @ ''\"'')))
           (ret (Some (dev_name dev (Suc n)))))))"
    show "addPartition dev ty sz s = ?m ?u"
      by (simp only: addPartition_def Let_def bnd_apply[of "start_of dev"] assms prod.case sum.case
          seq_apply[of "modify _"] modify_apply)
    show "keeps partition_pos ?m"
      by (intro keeps_intros keeps_add_task) simp
  qed
  then have "partition_pos (snd (addPartition dev ty sz s)) = partition_pos ?u" by (simp add: keeps_def)
  then show ?thesis by (simp add: dev_pos_def)
qed

lemma addPartition_ok:
  assumes "dev_pos dev s \<noteq> Some 0" and "dev_tasks dev s = Some ts" and "ty \<in> set known_types" and "counted dev s"
    and "p = dev_pos dev s" and "n = count_num dev s" and "z = trunc sz"
  shows "\<exists>t. addPartition dev ty sz s = (Inr (if ty = ''blank'' then None else Some (dev_name dev (Suc n))), t)
     \<and> dev_tasks dev t = Some (ts @ tasks_for ty (offsets_text (start_num p) (extent_end (start_num p) z)))
     \<and> dev_pos dev t = Some (next_pos (start_num p) z)
     \<and> dev_count dev t = Some (if ty = ''blank'' then n else Suc n)"
proof (cases "map_of (partition_pos s) dev")
  case None
  with assms show ?thesis
    by (auto simp: addPartition_def start_of_def dev_pos_def dev_tasks_def dev_count_def counted_def count_num_def
        known_types_def add_task_def tasks_for_def start_num_def py_simps Let_def)
next
  case (Some x)
  with assms obtain k where "map_of (partition_counter s) dev = Some k"
    by (auto simp: counted_def dev_pos_def dev_count_def)
  with Some assms show ?thesis
    by (auto simp: addPartition_def start_of_def dev_pos_def dev_tasks_def dev_count_def counted_def count_num_def
        known_types_def add_task_def tasks_for_def start_num_def py_simps Let_def)
qed

text \<open>The lines of a series, from the numbers alone.\<close>

fun plan_tasks :: "int option \<Rightarrow> (string \<times> rat) list \<Rightarrow> string list" where
  "plan_tasks p [] = []"
| "plan_tasks p ((ty, sz) # rs) =
     tasks_for ty (offsets_text (start_num p) (extent_end (start_num p) (trunc sz)))
     @ plan_tasks (Some (next_pos (start_num p) (trunc sz))) rs"

fun plan_names :: "string \<Rightarrow> nat \<Rightarrow> (string \<times> rat) list \<Rightarrow> string option list" where
  "plan_names dev n [] = []"
| "plan_names dev n ((ty, sz) # rs) =
     (if ty = ''blank'' then None # plan_names dev n rs
      else Some (dev_name dev (Suc n)) # plan_names dev (Suc n) rs)"

definition sizes :: "(string \<times> rat) list \<Rightarrow> int list" where
  "sizes rs = map (\<lambda>(_, sz). trunc sz) rs"

lemma sizes_Cons [simp]: "sizes ((ty, sz) # rs) = trunc sz # sizes rs" "sizes [] = []"
  by (simp_all add: sizes_def)

lemma snd_part_step [simp]: "snd (part_step D sz p) = Some (next_pos (start_num p) sz)"
  by (simp add: part_step_def)

lemma add_all_ok:
  assumes "part_alloc.all_ok_from D (sizes rs) (dev_pos dev s)" and "dev_tasks dev s = Some ts"
    and "\<forall>(ty, _) \<in> set rs. ty \<in> set known_types" and "counted dev s"
  shows "\<exists>t. add_all dev rs s = (Inr (plan_names dev (count_num dev s) rs), t)
     \<and> dev_tasks dev t = Some (ts @ plan_tasks (dev_pos dev s) rs)
     \<and> (rs \<noteq> [] \<longrightarrow> dev_pos dev t = snd (part_alloc.run D (sizes rs) (dev_pos dev s)))"
  using assms
proof (induction rs arbitrary: s ts)
  case (Cons r rs)
  obtain ty sz where r: "r = (ty, sz)" by fastforce
  let ?p = "dev_pos dev s" and ?n = "count_num dev s" and ?z = "trunc sz"
  have f: "fits D ?z ?p" using Cons.prems r by simp
  obtain t where t: "addPartition dev ty sz s = (Inr (if ty = ''blank'' then None else Some (dev_name dev (Suc ?n))), t)"
    "dev_tasks dev t = Some (ts @ tasks_for ty (offsets_text (start_num ?p) (extent_end (start_num ?p) ?z)))"
    "dev_pos dev t = Some (next_pos (start_num ?p) ?z)"
    "dev_count dev t = Some (if ty = ''blank'' then ?n else Suc ?n)"
    using addPartition_ok[of dev s ts ty ?p ?n ?z sz] f Cons.prems r by (auto simp: fits_def)
  have c: "counted dev t" "count_num dev t = (if ty = ''blank'' then ?n else Suc ?n)"
    using t by (auto simp: counted_def count_num_def)
  have "part_alloc.all_ok_from D (sizes rs) (dev_pos dev t)"
    using Cons.prems(1) by (simp add: r t(3))
  from Cons.IH[OF this t(2) _ c(1)] Cons.prems(3)
  obtain u where u: "add_all dev rs t = (Inr (plan_names dev (count_num dev t) rs), u)"
    "dev_tasks dev u = Some ((ts @ tasks_for ty (offsets_text (start_num ?p) (extent_end (start_num ?p) ?z)))
        @ plan_tasks (dev_pos dev t) rs)"
    "rs \<noteq> [] \<longrightarrow> dev_pos dev u = snd (part_alloc.run D (sizes rs) (dev_pos dev t))" by auto
  have "rs = [] \<longrightarrow> u = t" using u(1) by (auto simp: py_simps)
  with t u c show ?case
    by (cases rs) (auto simp: r py_simps Let_def split_beta)
qed (simp add: py_simps)

text \<open>The extents of a series as they are written, and when all of them fit.\<close>

fun layout :: "int option \<Rightarrow> int list \<Rightarrow> (int \<times> part_end) list" where
  "layout p [] = []"
| "layout p (z # zs) =
     (start_num p, extent_end (start_num p) z) # layout (Some (next_pos (start_num p) z)) zs"

fun layout_fits :: "int \<Rightarrow> int option \<Rightarrow> int list \<Rightarrow> bool" where
  "layout_fits D p [] = True"
| "layout_fits D p (z # zs) = (fits D z p \<and> layout_fits D (Some (next_pos (start_num p) z)) zs)"

definition on_disk :: "int \<Rightarrow> int \<times> part_end \<Rightarrow> int \<times> int" where
  "on_disk D = (\<lambda>(a, e). (addr D a, end_addr D e))"

lemma all_ok_layout: "part_alloc.all_ok_from D zs p = layout_fits D p zs"
  by (induction zs arbitrary: p) simp_all

lemma run_layout: "fst (part_alloc.run D zs p) = map (on_disk D) (layout p zs)"
proof (induction zs arbitrary: p)
  case (Cons z zs)
  have "part_step D z p = (on_disk D (start_num p, extent_end (start_num p) z), Some (next_pos (start_num p) z))"
    by (simp add: part_step_def on_disk_def)
  with Cons show ?case by (simp add: Let_def split_beta)
qed simp

lemma plan_tasks_layout:
  "plan_tasks p rs = concat (map (\<lambda>((ty, _), (a, e)). tasks_for ty (offsets_text a e)) (zip rs (layout p (sizes rs))))"
  by (induction p rs rule: plan_tasks.induct) simp_all

lemma show_nat_inj: "show_nat m = show_nat n \<longleftrightarrow> m = n"
  by (metis option.inject read_digits_show_nat)

lemma plan_names_fresh: "Some x \<in> set (plan_names dev n rs) \<Longrightarrow> \<exists>k > n. x = dev_name dev k"
  by (induction dev n rs rule: plan_names.induct) (force split: if_splits dest: Suc_lessD)+

lemma dev_name_inj: "dev_name dev m = dev_name dev n \<longleftrightarrow> m = n"
  by (simp add: dev_name_def show_nat_inj)

lemma plan_names_distinct: "distinct (filter (\<lambda>x. x \<noteq> None) (plan_names dev n rs))"
proof (induction dev n rs rule: plan_names.induct)
  case (2 dev n ty sz rs)
  have "Some (dev_name dev (Suc n)) \<notin> set (plan_names dev (Suc n) rs)"
    using plan_names_fresh[of "dev_name dev (Suc n)" dev "Suc n" rs] by (auto simp: dev_name_inj)
  with 2 show ?case by simp
qed simp

section \<open>Properties\<close>

text \<open>C1: whenever the sizes asked of a fresh device fit a disk of \<open>D\<close> megabytes, a series of
  \<open>_addPartition\<close> calls succeeds, gives no name twice and queues for parted one command per partition;
  the extents in these commands, read as addresses on the disk, start at 0, each where the one before
  it ended, are not empty, do not overlap and stay on the disk.\<close>

theorem partition_layout:
  assumes "layout_fits D None (sizes rs)" and "dev_pos dev s = None" and "dev_tasks dev s = Some ts"
    and "\<forall>(ty, _) \<in> set rs. ty \<in> set known_types"
  shows "\<exists>names t. add_all dev rs s = (Inr names, t)
     \<and> distinct (filter (\<lambda>x. x \<noteq> None) names)
     \<and> dev_tasks dev t =
         Some (ts @ concat (map (\<lambda>((ty, _), (a, e)). tasks_for ty (offsets_text a e)) (zip rs (layout None (sizes rs)))))
     \<and> part_alloc.chained 0 (map (on_disk D) (layout None (sizes rs)))
     \<and> sorted_wrt (\<lambda>(_, b) (a, _). b \<le> a) (map (on_disk D) (layout None (sizes rs)))
     \<and> (\<forall>(a, b) \<in> set (map (on_disk D) (layout None (sizes rs))). 0 \<le> a \<and> a < b \<and> b \<le> D)"
proof -
  let ?zs = "sizes rs"
  obtain es q where r: "part_alloc.run D ?zs None = (es, q)" by fastforce
  then have es: "es = map (on_disk D) (layout None ?zs)" using run_layout[of D ?zs None] by simp
  have ok: "part_alloc.all_ok_from D ?zs None" using assms(1) by (simp add: all_ok_layout)
  have z: "free_addr D None = 0" by (simp add: free_addr_def)
  have b: "\<forall>(a, b) \<in> set es. 0 \<le> a \<and> a < b \<and> b \<le> D"
    using part_alloc.run_bounds[OF ok r] z by (cases rs) (auto simp: r es)
  obtain t where "add_all dev rs s = (Inr (plan_names dev 0 rs), t)" "dev_tasks dev t = Some (ts @ plan_tasks None rs)"
    using add_all_ok[of D rs dev s ts] ok assms(2-4) by (auto simp: count_num_def counted_def)
  moreover have "part_alloc.chained 0 es" using part_alloc.run_chained[OF ok r] z by simp
  ultimately show ?thesis
    using b part_alloc.run_sorted[OF ok r] plan_names_distinct[of dev 0 rs] es plan_tasks_layout[of None rs]
    by auto
qed

definition blank_fs :: fs_state where
  "blank_fs = \<lparr>output_open = True, chroot_path = Some ''/target'', global_env = [], chroot_env = [], events = [],
     manager_type = None, divert_list = [], filesystem_list = [], mount_list = [], partition_map = [],
     boot_drives = [], partition_counter = [], partition_pos = [],
     parted_task_map = [(''/dev/sda'', [''mklabel gpt''])], opt_store = []\<rparr>"

theorem partition_layout_witness:
  "layout_fits 10000 None (sizes [(''bios_grub'', 100), (''fs'', 512), (''fs'', -512), (''swap'', 0)])
   \<and> (\<exists>names t. add_all ''/dev/sda'' [(''bios_grub'', 100), (''fs'', 512), (''fs'', -512), (''swap'', 0)] blank_fs
        = (Inr names, t))"
proof -
  let ?rs = "[(''bios_grub'', 100), (''fs'', 512), (''fs'', -512), (''swap'', 0)] :: (string \<times> rat) list"
  have f: "layout_fits 10000 None (sizes ?rs)"
    by (simp add: fits_def free_addr_def start_num_def next_pos_def addr_def trunc_def)
  moreover have "dev_pos ''/dev/sda'' blank_fs = None" "dev_tasks ''/dev/sda'' blank_fs = Some [''mklabel gpt'']"
    by (simp_all add: blank_fs_def dev_pos_def dev_tasks_def)
  moreover have "\<forall>(ty, _) \<in> set ?rs. ty \<in> set known_types" by (simp add: known_types_def)
  ultimately show ?thesis using partition_layout[of 10000 ?rs "''/dev/sda''" blank_fs] by blast
qed

text \<open>A partition that takes the rest of a device is the last one: every later \<open>_addPartition\<close> on the
  device raises and changes nothing.\<close>

theorem rest_is_last:
  assumes "addPartition dev ty sz s = (Inr n, t)" and "trunc sz = 0"
  shows "addPartition dev ty' sz' t = (Inl disk_full, t)"
proof (rule addPartition_full)
  obtain x u where "start_of dev s = (Inr x, u)"
    using assms(1) unfolding addPartition_def Let_def by (elim bnd_InrE)
  from addPartition_pos[OF this, of ty sz] show "dev_pos dev t = Some 0"
    using assms by (simp add: next_pos_def)
qed

theorem rest_is_last_witness:
  "addPartition ''/dev/sda'' ''swap'' 5 (snd (addPartition ''/dev/sda'' ''fs'' 0 blank_fs)) =
     (Inl disk_full, snd (addPartition ''/dev/sda'' ''fs'' 0 blank_fs))"
proof -
  obtain n t where "addPartition ''/dev/sda'' ''fs'' 0 blank_fs = (Inr n, t)"
    by (simp add: addPartition_def start_of_def add_task_def blank_fs_def py_simps trunc_def)
  then show ?thesis using rest_is_last[of "''/dev/sda''" "''fs''" 0 blank_fs n t "''swap''" 5] by (simp add: trunc_def)
qed

end
