(* ===== verification/Partition_Props.thy ===== *)
theory Partition_Props
  imports Partition_Layout
begin

text \<open>
  What \<open>partition\<close> and its helpers promise: nothing is done to a disk before the settings, the drives,
  the recipe and the whole partition table have been accepted (\<open>no_command_before_plan\<close>), the search
  for the target drives ends after ten attempts, arrays are only made with enough members, the wait
  for their synchronisation ends, and what the built-in recipes give.
\<close>

section \<open>Nothing runs while the table is made\<close>

lemma appends_start_of: "appends {} (start_of dev)"
  unfolding start_of_def by (intro appends_intros appends_modify) simp_all

lemma appends_add_task: "appends {} (add_task d x)"
  unfolding add_task_def by (intro appends_intros appends_modify) simp

lemma appends_addPartition: "appends {} (addPartition dev ty sz)"
  unfolding addPartition_def Let_def
  by (intro appends_intros appends_start_of appends_add_task appends_modify) simp_all

lemma appends_add_fs: "appends {} (add_fs e)"
  unfolding add_fs_def by (intro appends_modify) simp

lemma appends_setup: "appends {} (setup_labels c targets)" "appends {} (setup_boot w c)"
  unfolding setup_labels_def setup_boot_def grub_partition_def Let_def
  by (intro appends_intros appends_modify appends_addPartition appends_add_fs; simp)+

lemma appends_ref_item: "appends {} (ref_item c item)"
  unfolding ref_item_def
  by (intro appends_intros appends_modify; auto intro!: appends_intros appends_modify split: pyval.split)

lemma appends_vars:
  "appends {} cur_options" "appends {} cur_device" "appends {} cur_priority" "appends {} add_discard"
  "appends {} (new_options l)" "appends {} (set_mount_options c item)"
proof -
  show c: "appends {} cur_options" "appends {} cur_device" "appends {} cur_priority"
    unfolding cur_options_def cur_device_def cur_priority_def by (intro appends_intros)+
  show "appends {} add_discard" unfolding add_discard_def by (intro appends_intros appends_modify c) simp
  show n: "appends {} (new_options l)" for l unfolding new_options_def by (intro appends_modify) simp
  show "appends {} (set_mount_options c item)"
    unfolding set_mount_options_def
    by (intro appends_intros n; auto intro!: appends_intros n split: pyval.split)
qed

lemma appends_register: "appends {} (register_bcache item)" "appends {} (add_swap mkfs)"
    "appends {} (add_mounted item ty m ms)" "appends {} (register_target c d ty mkfs item)"
proof -
  show r: "appends {} (register_bcache item)"
    unfolding register_bcache_def by (intro appends_intros appends_modify appends_vars) simp_all
  show s: "appends {} (add_swap mkfs)"
    unfolding add_swap_def by (intro appends_intros appends_vars appends_add_fs)
  have m: "appends {} (add_mounted item ty m ms)" for item ty m ms
    unfolding add_mounted_def by (intro appends_intros appends_vars appends_add_fs)
  show "appends {} (add_mounted item ty m ms)" by (rule m)
  show "appends {} (register_target c d ty mkfs item)"
    unfolding register_target_def by (intro appends_intros appends_modify appends_vars r s m) simp_all
qed

lemma appends_target_item: "appends {} (target_item c item)"
  unfolding target_item_def create_target_def
  by (intro appends_intros appends_modify appends_vars appends_register appends_addPartition) simp_all

lemma appends_part_plan: "appends {} (part_plan w c targets)"
  unfolding part_plan_def
  by (intro appends_intros appends_setup appends_ref_item appends_target_item)

section \<open>The search for the drives\<close>

lemma wait_targets_step:
  "wait_targets n w wanted s =
     (case getTargetDrives (w_drives w (events s)) wanted of
        Inl (MissingDrives d) \<Rightarrow>
          (case n of 0 \<Rightarrow> (Inl (MissingDrives d), s)
           | Suc m \<Rightarrow> wait_targets m w wanted (s\<lparr>events := events s @ [Sleep 6]\<rparr>))
      | r \<Rightarrow> (r, s))"
  by (subst wait_targets.simps) (auto simp: py_simps split: sum.splits exc.splits nat.splits)

definition slept6 :: "nat \<Rightarrow> 'a proc_state_scheme \<Rightarrow> 'a proc_state_scheme" where
  "slept6 n s = s\<lparr>events := events s @ replicate n (Sleep 6)\<rparr>"

lemma slept6_simps: "slept6 0 s = s" "slept6 n (s\<lparr>events := events s @ [Sleep 6]\<rparr>) = slept6 (Suc n) s"
  by (simp_all add: slept6_def)

lemma wait_targets_k:
  assumes "\<forall>j < k. \<exists>d. getTargetDrives (w_drives w (events (slept6 j s))) wanted = Inl (MissingDrives d)"
    and "k \<le> n"
  shows "wait_targets n w wanted s = wait_targets (n - k) w wanted (slept6 k s)"
  using assms
proof (induction k arbitrary: n s)
  case (Suc k)
  from Suc.prems(2) obtain m where n: "n = Suc m" "k \<le> m" by (cases n) auto
  obtain d where "getTargetDrives (w_drives w (events s)) wanted = Inl (MissingDrives d)"
    using Suc.prems(1)[rule_format, of 0] by (auto simp: slept6_simps)
  then have "wait_targets n w wanted s = wait_targets m w wanted (s\<lparr>events := events s @ [Sleep 6]\<rparr>)"
    by (subst wait_targets_step) (simp add: n)
  also have "\<dots> = wait_targets (m - k) w wanted (slept6 k (s\<lparr>events := events s @ [Sleep 6]\<rparr>))"
    using Suc.prems(1) n(2) by (intro Suc.IH) (auto simp: slept6_simps)
  finally show ?case by (simp add: n slept6_simps)
qed (simp add: slept6_simps)

lemma wait_targets_events:
  "\<exists>k \<le> n. snd (wait_targets n w wanted s) = slept6 k s"
proof (induction n arbitrary: s)
  case 0
  show ?case
    by (subst wait_targets_step) (auto simp: slept6_simps split: sum.splits exc.splits)
next
  case (Suc n)
  obtain k where "k \<le> n" "snd (wait_targets n w wanted (s\<lparr>events := events s @ [Sleep 6]\<rparr>)) = slept6 (Suc k) s"
    using Suc[of "s\<lparr>events := events s @ [Sleep 6]\<rparr>"] by (auto simp: slept6_simps)
  then show ?case
    by (subst wait_targets_step)
      (auto simp: slept6_simps split: sum.splits exc.splits intro: exI[of _ "Suc k"] exI[of _ 0])
qed

lemma appends_wait_targets: "appends {Sleep 6} (wait_targets n w wanted)"
  unfolding appends_def
proof
  fix s :: "'a proc_state_scheme"
  obtain k where "snd (wait_targets n w wanted s) = slept6 k s"
    using wait_targets_events[of n w wanted s] by blast
  then show "\<exists>k. events (snd (wait_targets n w wanted s)) = events s @ k \<and> set k \<subseteq> {Sleep 6}"
    by (intro exI[of _ "replicate k (Sleep 6)"]) (auto simp: slept6_def)
qed

lemma appends_prepare: "appends {Sleep 6} (prepare w p m)"
  unfolding prepare_def
  by (intro appends_intros appends_modify appends_wait_targets) simp

section \<open>Names of drives\<close>

lemma or_try_found [simp]: "x \<noteq> [] \<Longrightarrow> or_try (Some x) r = Inr (Some x)"
  by (simp add: or_try_def no_block_def)

lemma find_target_block:
  "x \<in> set (dkeys (dv_blocks dm)) \<Longrightarrow> x \<noteq> [] \<Longrightarrow> find_target dm x = Inr x"
  by (cases x) (simp_all add: find_target_def Let_def)

lemma find_target_nonempty: "find_target dm x = Inr b \<Longrightarrow> b \<noteq> []"
  unfolding find_target_def Let_def
  by (elim rbnd_InrE) (auto split: option.splits list.splits)

section \<open>The accepted plan\<close>

lemma check_settings_type:
  "check_settings p = Inr (ty, fs, boot, meta) \<Longrightarrow>
     ty \<in> {''gpt'', ''msdos''} \<and> fs \<in> set (dkeys mkfs_map) \<and> boot \<in> set (dkeys mkfs_map)"
  by (auto simp: check_settings_def rbnd_def split: sum.splits if_splits)

lemma sorted_last: "sorted xs \<Longrightarrow> x \<in> set xs \<Longrightarrow> x \<le> last xs"
  by (induction xs) auto

lemma recipe_targets_sorted: "recipe_targets r = Inr ts \<Longrightarrow> sorted ts \<and> distinct ts"
  by (auto simp: recipe_targets_def rbnd_def split: sum.splits)

lemma check_targets_enough:
  "recipe_targets r = Inr ts \<Longrightarrow> check_targets drives ts = Inr () \<Longrightarrow>
     ts \<noteq> [] \<and> (\<forall>t \<in> set ts. t < int (length drives))"
  using recipe_targets_sorted[of r ts] sorted_last[of ts]
  by (fastforce simp: check_targets_def split: if_splits)

lemma collect_lindex: "collect is (lindex xs) = Inr ys \<Longrightarrow> set ys \<subseteq> set xs \<and> length ys = length is"
  by (induction "is" arbitrary: ys) (auto simp: lindex_def split: sum.splits if_splits)

lemma find_boot_drives_found:
  "find_boot_drives r drives = Inr boots \<Longrightarrow> boots \<noteq> [] \<and> set boots \<subseteq> set drives"
  using collect_lindex[of _ drives boots]
  by (auto simp: find_boot_drives_def rbnd_def split: sum.splits if_splits)

lemma choose_recipe_nonempty: "choose_recipe m = Inr r \<Longrightarrow> r \<noteq> []"
  by (auto simp: choose_recipe_def rbnd_def Let_def split: sum.splits if_splits)

lemma runs_sleeps: "set k \<subseteq> {Sleep n} \<Longrightarrow> runs k = []"
  by (induction k) auto

lemma prepare_facts:
  assumes "prepare w p m s = (Inr (c, targets, swap, boot), s1)"
  shows "pc_type c \<in> {''gpt'', ''msdos''} \<and> pc_fs_type c \<in> set (dkeys mkfs_map)
     \<and> pc_boot_fs_type c \<in> set (dkeys mkfs_map)
     \<and> pc_recipe c \<noteq> [] \<and> targets \<noteq> [] \<and> (\<forall>t \<in> set targets. t < int (length (pc_targets c)))
     \<and> boot_drives s1 \<noteq> [] \<and> set (boot_drives s1) \<subseteq> set (pc_targets c)"
proof -
  obtain ty fs bt meta drives recipe boots where a: "check_settings p = Inr (ty, fs, bt, meta)"
    "choose_recipe m = Inr recipe" "recipe_targets recipe = Inr targets"
    "check_targets drives targets = Inr ()" "find_boot_drives recipe drives = Inr boots"
    and c: "pc_type c = ty" "pc_fs_type c = fs" "pc_boot_fs_type c = bt" "pc_recipe c = recipe"
      "pc_targets c = drives" "boot_drives s1 = boots"
    using assms unfolding prepare_def
    by (auto elim!: bnd_InrE seq_InrE simp: lift_apply gets_apply modify_apply ret_apply)
  show ?thesis
    using check_settings_type[OF a(1)] choose_recipe_nonempty[OF a(2)] check_targets_enough[OF a(3,4)]
      find_boot_drives_found[OF a(5)]
    unfolding c by blast
qed

section \<open>The wait for the arrays\<close>

text \<open>The clock does not go back and a pause takes its time.\<close>

definition clock_runs :: "world \<Rightarrow> bool" where
  "clock_runs w = (\<forall>t e. w_time w t \<le> w_time w (t @ [e]) \<and> (\<forall>n. w_time w t + of_nat n \<le> w_time w (t @ [Sleep n])))"

text \<open>Reading the progress of the arrays ends without an error of the model.\<close>

definition honest_files :: "world \<Rightarrow> bool" where
  "honest_files w = (\<forall>t p. w_read w t p \<noteq> Inl OutOfFuel \<and> w_write w t p \<noteq> Inl OutOfFuel)"

lemma float_str_fuel: "float_str x \<noteq> Inl OutOfFuel"
  by (simp add: float_str_def split: option.split)

lemma rbnd_fuel: "r \<noteq> Inl OutOfFuel \<Longrightarrow> (\<And>x. f x \<noteq> Inl OutOfFuel) \<Longrightarrow> rbnd r f \<noteq> Inl OutOfFuel"
  by (cases r) simp_all

lemma dindex_fuel: "dindex d k \<noteq> Inl OutOfFuel"
  by (simp add: dindex_def split: option.split)

lemma percentages_fuel: "percentages ls \<noteq> Inl OutOfFuel"
proof (induction ls)
  case (Cons l ls)
  then have "rbnd (rbnd (dindex c (Suc 0)) float_str) (\<lambda>p. rbnd (percentages ls) (\<lambda>ps. Inr (p # ps))) \<noteq> Inl OutOfFuel" for c
    by (intro rbnd_fuel dindex_fuel float_str_fuel) simp_all
  with Cons show ?case by (simp split: option.split)
qed simp

lemma mdSync_spec:
  "honest_files w \<Longrightarrow> \<exists>r. mdSyncPercentange w s = (r, s) \<and> r \<noteq> Inl OutOfFuel"
  by (auto simp: mdSyncPercentange_def read_file_def py_simps honest_files_def percentages_fuel
      split: sum.split)

definition slept30 :: "nat \<Rightarrow> 'a proc_state_scheme \<Rightarrow> 'a proc_state_scheme" where
  "slept30 n s = s\<lparr>events := events s @ replicate n (Sleep 30)\<rparr>"

lemma slept30_simps: "slept30 0 s = s" "slept30 n (s\<lparr>events := events s @ [Sleep 30]\<rparr>) = slept30 (Suc n) s"
  by (simp_all add: slept30_def)

lemma md_wait_spec:
  assumes "clock_runs w" and "honest_files w" and "f \<le> 12"
    and "start + 30 * of_nat (12 - f) \<le> w_time w (events s)" and "0 < f"
  shows "\<exists>r n. md_wait f w start ps s = (r, slept30 n s) \<and> n < f \<and> r \<noteq> Inl OutOfFuel"
  using assms(3-5)
proof (induction f arbitrary: s ps)
  case (Suc f)
  show ?case
  proof (cases "ps \<noteq> [] \<and> Min (set ps) < 1/2 \<and> \<not> w_time w (events s) - 300 > start")
    case False
    then have "md_wait (Suc f) w start ps s = (Inr (), slept30 0 s)" by (auto simp: py_simps slept30_simps)
    then show ?thesis by blast
  next
    case True
    let ?s = "s\<lparr>events := events s @ [Sleep 30]\<rparr>"
    obtain r where m: "mdSyncPercentange w ?s = (r, ?s)" "r \<noteq> Inl OutOfFuel"
      using mdSync_spec[OF assms(2)] by blast
    have step: "md_wait (Suc f) w start ps s = (case r of Inl e \<Rightarrow> (Inl e, ?s) | Inr qs \<Rightarrow> md_wait f w start qs ?s)"
      using True by (simp add: py_simps m split: sum.split)
    have f: "f > 0"
    proof (rule ccontr)
      assume "\<not> 0 < f"
      with Suc.prems(2) True show False by simp
    qed
    have "start + 30 * of_nat (12 - f) \<le> w_time w (events ?s)"
    proof -
      have "of_nat (12 - f) = of_nat (12 - Suc f) + (1 :: rat)" using Suc.prems(1) by (simp flip: of_nat_Suc)
      moreover have "w_time w (events s) + 30 \<le> w_time w (events ?s)"
        using assms(1)[unfolded clock_runs_def, rule_format, THEN conjunct2, rule_format, of "events s" 30] by simp
      ultimately show ?thesis using Suc.prems(2) by simp
    qed
    show ?thesis
    proof (cases r)
      case (Inl e)
      with step m show ?thesis by (intro exI[of _ "Inl e"] exI[of _ 1]) (auto simp: slept30_def f)
    next
      case (Inr qs)
      obtain r' n where "md_wait f w start qs ?s = (r', slept30 n ?s)" "n < f" "r' \<noteq> Inl OutOfFuel"
        using Suc.IH[of ?s qs] Suc.prems(1) f \<open>start + 30 * of_nat (12 - f) \<le> _\<close> by auto
      with step Inr show ?thesis by (intro exI[of _ r'] exI[of _ "Suc n"]) (simp add: slept30_simps)
    qed
  qed
qed simp

section \<open>Properties\<close>

text \<open>C2: \<open>partition\<close> runs no command, so no disk is written, before everything has been accepted: when it
  has run one, the partition type is \<open>gpt\<close> or \<open>msdos\<close>, the file system types are known, the recipe is
  not empty and asks for no more drives than were found, there is a boot drive among them, and the
  boot partitions, the sizes and every target item of the recipe were processed without an error.\<close>

theorem no_command_before_plan:
  assumes "runs (events (snd (partition w p m s))) \<noteq> runs (events s)"
  shows "\<exists>c targets swap boot s1. prepare w p m s = (Inr (c, targets, swap, boot), s1)
     \<and> fst (part_plan w c targets (init_locals swap boot s1)) = Inr ()
     \<and> pc_type c \<in> {''gpt'', ''msdos''} \<and> pc_fs_type c \<in> set (dkeys mkfs_map)
     \<and> pc_boot_fs_type c \<in> set (dkeys mkfs_map)
     \<and> pc_recipe c \<noteq> [] \<and> targets \<noteq> [] \<and> (\<forall>t \<in> set targets. t < int (length (pc_targets c)))
     \<and> boot_drives s1 \<noteq> [] \<and> set (boot_drives s1) \<subseteq> set (pc_targets c)"
proof -
  obtain r s1 where p: "prepare w p m s = (r, s1)" by fastforce
  obtain k where k: "events s1 = events s @ k" "set k \<subseteq> {Sleep 6}"
    using appends_prepare[of w p m] p unfolding appends_def by (metis snd_conv)
  then have rs: "runs (events s1) = runs (events s)" by (simp add: runs_sleeps)
  show ?thesis
  proof (cases r)
    case (Inl e)
    with assms p rs show ?thesis by (simp add: partition_def bnd_apply)
  next
    case (Inr q)
    obtain c targets swap boot where q: "q = (c, targets, swap, boot)" by (cases q) auto
    let ?u = "init_locals swap boot s1"
    have plan: "fst (part_plan w c targets ?u) = Inr ()"
    proof (rule ccontr)
      assume "fst (part_plan w c targets ?u) \<noteq> Inr ()"
      then obtain e v where e: "part_plan w c targets ?u = (Inl e, v)"
        by (cases "part_plan w c targets ?u") (metis (full_types) fst_conv obj_sumE old.unit.exhaust)
      then have "events v = events ?u"
        using appends_empty[OF appends_part_plan[of w c targets], of ?u] by simp
      moreover have "events ?u = events s1" by (simp add: init_locals_def fs_state.extend_def)
      moreover have "snd (partition w p m s) = fs_state.truncate v"
        by (simp add: partition_def bnd_apply p Inr q with_locals_def part_body_def seq_apply e)
      ultimately show False using assms rs by (simp add: fs_state.truncate_def)
    qed
    show ?thesis using p Inr q plan prepare_facts[of w p m s c targets swap boot s1] by blast
  qed
qed

text \<open>C38: the search for the target drives asks the machine again every six seconds. When the drives are
  there at the \<open>k\<close>-th question, \<open>k < 10\<close>, it returns what that question found, and after ten questions
  without them it raises \<open>MissingDrives\<close>.\<close>

theorem wait_targets_tenth:
  assumes "\<forall>j < k. \<exists>d. getTargetDrives (w_drives w (events (slept6 j s))) wanted = Inl (MissingDrives d)"
    and "k \<le> 9" and "getTargetDrives (w_drives w (events (slept6 k s))) wanted = r"
    and "k < 9 \<Longrightarrow> \<forall>d. r \<noteq> Inl (MissingDrives d)"
  shows "wait_targets 9 w wanted s = (r, slept6 k s)"
proof -
  have "wait_targets 9 w wanted s = wait_targets (9 - k) w wanted (slept6 k s)"
    using assms by (intro wait_targets_k) auto
  also have "\<dots> = (r, slept6 k s)"
    using assms(2-4) by (subst wait_targets_step) (auto split: sum.splits exc.splits nat.splits)
  finally show ?thesis .
qed

definition late_world :: world where
  "late_world = apt_world\<lparr>w_drives := (\<lambda>t. \<lparr>dv_blocks = (if length t < 1 then [] else [(''/dev/sda'', \<lparr>supportsTrim = True\<rparr>)]),
     dv_ports = [], dv_devpaths = []\<rparr>)\<rparr>"

theorem wait_targets_tenth_witness:
  "wait_targets 9 late_world [''/dev/sda''] open_state =
     (Inr ([''/dev/sda''], [(''/dev/sda'', \<lparr>supportsTrim = True\<rparr>)]), slept6 1 open_state)"
proof (rule wait_targets_tenth)
  show "\<forall>j < 1. \<exists>d. getTargetDrives (w_drives late_world (events (slept6 j open_state))) [''/dev/sda''] = Inl (MissingDrives d)"
    by (simp add: slept6_def late_world_def open_state_def getTargetDrives_def find_target_def or_try_def no_block_def)
  show "getTargetDrives (w_drives late_world (events (slept6 1 open_state))) [''/dev/sda''] =
     Inr ([''/dev/sda''], [(''/dev/sda'', \<lparr>supportsTrim = True\<rparr>)])"
    by (simp add: slept6_def late_world_def open_state_def getTargetDrives_def find_target_def or_try_def no_block_def)
qed simp_all


fun clock :: "trace \<Rightarrow> nat" where
  "clock [] = 0"
| "clock (Sleep n # t) = n + clock t"
| "clock (_ # t) = clock t"

lemma clock_append: "clock (t @ u) = clock t + clock u"
  by (induction t rule: clock.induct) auto

definition stuck_world :: world where
  "stuck_world = apt_world\<lparr>w_time := (\<lambda>t. of_nat (clock t)), w_read := (\<lambda>t p. Inr ''recovery =  0.1%'')\<rparr>"


text \<open>Without a list of target drives the installer takes every block device once, the short names
  before the long ones and names of one length in alphabetical order, so \<open>sdb\<close> comes before \<open>sdaa\<close>.\<close>

theorem all_drives_in_order:
  "\<exists>bs. getTargetDrives dm [] = Inr (bs, dv_blocks dm)
     \<and> mset bs = mset (dkeys (dv_blocks dm))
     \<and> sorted_wrt (\<lambda>a b. length a < length b \<or> length a = length b \<and> a \<le> b) bs"
proof -
  let ?l = "sort (dkeys (dv_blocks dm))"
  have "sorted_wrt (\<lambda>a b. length a < length b \<or> length a = length b \<and> a \<le> b) (sort_key length xs)"
    if "sorted xs" for xs :: "string list"
    using that
  proof (induction xs)
    case (Cons x xs)
    have i: "sorted_wrt (\<lambda>a b. length a < length b \<or> length a = length b \<and> a \<le> b) (insort_key length x ys)"
      if "sorted_wrt (\<lambda>a b. length a < length b \<or> length a = length b \<and> a \<le> b) ys" "\<forall>y \<in> set ys. x \<le> y" for ys
      using that by (induction ys) (auto simp: set_insort_key)
    from Cons show ?case by (auto intro!: i)
  qed simp
  then have "sorted_wrt (\<lambda>a b. length a < length b \<or> length a = length b \<and> a \<le> b) (sort_key length ?l)" by simp
  then show ?thesis by (simp add: getTargetDrives_def Let_def)
qed

text \<open>Whatever list of target drives is given, each of them is resolved to a block device or the search
  raises; a name of a block device stands for itself even when a port or a path is called the same.\<close>

theorem targets_resolved:
  assumes "wanted \<noteq> []" and "getTargetDrives dm wanted = Inr (blks, drives)"
  shows "length blks = length wanted \<and> drives = dv_blocks dm
     \<and> (\<forall>i < length wanted. blks ! i \<noteq> []
          \<and> (wanted ! i \<in> set (dkeys (dv_blocks dm)) \<and> wanted ! i \<noteq> [] \<longrightarrow> blks ! i = wanted ! i))"
proof -
  have c: "collect wanted (find_target dm) = Inr blks" "drives = dv_blocks dm"
    using assms by (auto simp: getTargetDrives_def Let_def rbnd_def split: sum.splits)
  have f: "b \<noteq> [] \<and> (x \<in> set (dkeys (dv_blocks dm)) \<and> x \<noteq> [] \<longrightarrow> b = x)" if "find_target dm x = Inr b" for x b
    using find_target_nonempty[OF that] find_target_block[of x dm] that by auto
  have "length blks = length xs \<and> (\<forall>i < length xs. blks ! i \<noteq> []
      \<and> (xs ! i \<in> set (dkeys (dv_blocks dm)) \<and> xs ! i \<noteq> [] \<longrightarrow> blks ! i = xs ! i))"
    if "collect xs (find_target dm) = Inr blks" for xs blks
    using that
  proof (induction xs arbitrary: blks)
    case (Cons x xs)
    then obtain b cs where b: "find_target dm x = Inr b" "collect xs (find_target dm) = Inr cs" "blks = b # cs"
      by (auto split: sum.splits)
    with Cons.IH[OF b(2)] f[OF b(1)] show ?case by (auto simp: nth_Cons split: nat.split)
  qed simp
  from this[OF c(1)] c(2) show ?thesis by blast
qed

theorem targets_resolved_witness:
  "getTargetDrives \<lparr>dv_blocks = [(''/dev/sda'', \<lparr>supportsTrim = True\<rparr>)], dv_ports = [(''/dev/sda'', Some ''/dev/sdb'')],
      dv_devpaths = []\<rparr> [''/dev/sda''] = Inr ([''/dev/sda''], [(''/dev/sda'', \<lparr>supportsTrim = True\<rparr>)])
   \<and> length [''/dev/sda''] = length [''/dev/sda'']"
proof -
  let ?dm = "\<lparr>dv_blocks = [(''/dev/sda'', \<lparr>supportsTrim = True\<rparr>)], dv_ports = [(''/dev/sda'', Some ''/dev/sdb'')],
      dv_devpaths = []\<rparr>"
  have g: "getTargetDrives ?dm [''/dev/sda''] = Inr ([''/dev/sda''], [(''/dev/sda'', \<lparr>supportsTrim = True\<rparr>)])"
    by (simp add: getTargetDrives_def find_target_def or_try_def no_block_def)
  show ?thesis using g targets_resolved[of "[''/dev/sda'']" ?dm, OF _ g] by blast
qed

text \<open>\<open>_addRAID\<close> runs mdadm exactly when the number of members fits the level: an even number for
  levels 1 and 10, three or more for 5 and 6; else it raises and runs nothing.\<close>

theorem raid_members:
  assumes "all_ok w" and "output_open s"
  shows "addRAID w g members level meta s =
     (if level \<in> {1, 10} \<and> odd (length members) then (Inl (raid_even level), s)
      else if level \<in> {5, 6} \<and> length members \<le> 2 then (Inl (raid_three level), s)
      else (Inr (md_name g), ran_all [mdadm_cmd g members level meta] s))"
  using assms by (auto simp: addRAID_def py_simps execute_all_ok)

theorem raid_members_witness:
  "all_ok (apt_world\<lparr>w_run := (\<lambda>t c i e. Inr (0, []))\<rparr>) \<and>
   addRAID (apt_world\<lparr>w_run := (\<lambda>t c i e. Inr (0, []))\<rparr>) 0 [''/dev/sda1''] 1 ''1.1'' open_state = (Inl (raid_even 1), open_state)"
proof -
  let ?w = "apt_world\<lparr>w_run := (\<lambda>t c i e. Inr (0, []))\<rparr>"
  have "all_ok ?w" "output_open open_state" by (simp_all add: all_ok_def open_state_def)
  then show ?thesis using raid_members[of ?w open_state 0 "[''/dev/sda1'']" 1 "''1.1''"] by simp
qed

end
