(* ===== verification/Mounting.thy ===== *)
theory Mounting
  imports Partition_Props
begin

text \<open>
  The second half of \<open>installer/filesystem.py\<close>: making the file systems, mounting them below the
  install root, mounting again what a step of the installation unmounted, unmounting at the end,
  \<open>/etc/fstab\<close>, and the values for the boot loader's configuration; and \<open>installer/booting.py\<close>. A
  file that is written piece by piece is one \<open>WriteFile\<close> with all its text; a run that raises while it
  composes the text leaves no such event.
\<close>

section \<open>mkfs\<close>

definition mkfs_cmd :: "fs_entry \<Rightarrow> string res" where
  "mkfs_cmd e = rbnd (dindex mkfs_map (fe_type e)) (\<lambda>(a, b).
     case fe_mkfs_options e of None \<Rightarrow> Inl KeyError | Some opts \<Rightarrow> Inr (a @ opts @ b @ fe_block_device e))"

text \<open>The first \<open>UUID=...\<close> among the words of a line of blkid's output; a word without exactly one \<open>=\<close> is
  skipped. A later line with one overrides.\<close>

fun word_uuid :: "string list \<Rightarrow> string option" where
  "word_uuid [] = None"
| "word_uuid (part # ps) = (case split_chr CHR ''='' part of
       [key, v] \<Rightarrow> if key = ''UUID'' then Some v else word_uuid ps
     | _ \<Rightarrow> word_uuid ps)"

definition line_uuid :: "string option \<Rightarrow> string \<Rightarrow> string option" where
  "line_uuid old line = (case word_uuid (split_chr CHR '' '' line) of None \<Rightarrow> old | Some u \<Rightarrow> Some u)"

definition mkfs_one :: "world \<Rightarrow> nat \<Rightarrow> ('a fs_state_scheme, unit) py" where
  "mkfs_one w i = bnd (gets (\<lambda>s. filesystem_list s ! i)) (\<lambda>e.
     bnd (lift (mkfs_cmd e)) (\<lambda>cmd.
     seq (execute w cmd)
     (bnd (execute_lines w (''/sbin/blkid -o export '' @ fe_block_device e)) (\<lambda>out.
        modify (\<lambda>s. s\<lparr>filesystem_list := (filesystem_list s)[i := e\<lparr>fe_uuid := foldl line_uuid (fe_uuid e) out\<rparr>]\<rparr>)))))"

definition mkfs :: "world \<Rightarrow> ('a fs_state_scheme, unit) py" where
  "mkfs w = bnd (gets (\<lambda>s. length (filesystem_list s))) (\<lambda>n. for_each [0..<n] (mkfs_one w))"

section \<open>Mounting\<close>

definition mount_cmd :: "string \<Rightarrow> string \<Rightarrow> string \<Rightarrow> string list \<Rightarrow> string" where
  "mount_cmd mount_point fstype fs options =
     (let o' = (if options = [] then [] else ''-o '' @ join '','' options) in
      if fstype \<noteq> [] then ''mount '' @ o' @ '' -t '' @ fstype @ '' '' @ fs @ '' '' @ mount_point
      else ''mount '' @ o' @ '' '' @ fs @ '' '' @ mount_point)"

definition do_mount :: "world \<Rightarrow> mount_entry \<Rightarrow> ('a proc_state_scheme, unit) py" where
  "do_mount w = (\<lambda>(mount_point, fstype, fs, options). execute w (mount_cmd mount_point fstype fs options))"

definition mount_one :: "world \<Rightarrow> string \<Rightarrow> string \<Rightarrow> string \<Rightarrow> string list \<Rightarrow> ('a fs_state_scheme, unit) py" where
  "mount_one w mp fstype fs options =
     (let mount_point = rstrip_chr slash (strip mp) in block [
        ensure_dir w mount_point,
        do_mount w (mount_point, fstype, fs, options),
        modify (\<lambda>s. s\<lparr>mount_list := mount_list s @ [(mount_point, fstype, fs, options)]\<rparr>)])"

type_synonym mount_points = "(string, string \<times> string \<times> string list) dict"

text \<open>One \<open>extra_mount_\<close> option: type, device, place, and options if there is a fourth part; too few
  parts are an index out of range.\<close>

definition extra_mount :: "bool \<Rightarrow> string \<Rightarrow> mount_points \<Rightarrow> mount_points res" where
  "extra_mount efi v mps =
     (let parts = map strip (split_chr CHR '':'' v) in
      if hd parts = ''efivarfs'' \<and> \<not> efi then Inr mps
      else (case parts of
          [a, b, c] \<Rightarrow> Inr (dset c (a, b, []) mps)
        | a # b # c # d # _ \<Rightarrow> Inr (dset c (a, b, split_chr CHR '','' d) mps)
        | _ \<Rightarrow> Inl IndexError))"

text \<open>\<open>efi\<close> is asked for each \<open>efivarfs\<close> entry; the answer is the same as long as nothing runs.\<close>

fun extra_mounts :: "bool \<Rightarrow> (string \<times> string) list \<Rightarrow> mount_points \<Rightarrow> mount_points res" where
  "extra_mounts efi [] mps = Inr mps"
| "extra_mounts efi ((k, v) # its) mps =
     (if startswith k ''extra_mount_'' then rbnd (extra_mount efi v mps) (extra_mounts efi its)
      else extra_mounts efi its mps)"

definition has_place :: "fs_entry \<Rightarrow> pyval option" where
  "has_place e = (case fe_mount_point e of None \<Rightarrow> None | Some m \<Rightarrow> if m = PNone then None else Some m)"

fun fs_mounts :: "string list list \<Rightarrow> fs_entry list \<Rightarrow> mount_points \<Rightarrow> mount_points res" where
  "fs_mounts store [] mps = Inr mps"
| "fs_mounts store (e # es) mps = (case has_place e of
       None \<Rightarrow> fs_mounts store es mps
     | Some m \<Rightarrow> rbnd (str_of m) (\<lambda>mp. case fe_mount_options e of
           None \<Rightarrow> Inl KeyError
         | Some r \<Rightarrow> fs_mounts store es (dset mp (fe_type e, fe_block_device e, store ! r) mps)))"

text \<open>By length, which puts every place after the places above it.\<close>

definition mount_order :: "(string, 'v) dict \<Rightarrow> string list" where
  "mount_order mps = sort_key length (dkeys mps)"

definition etc :: "string \<Rightarrow> string \<Rightarrow> string" where
  "etc mount_point name = os_join (os_join mount_point ''etc'') name"

definition collect_mounts :: "world \<Rightarrow> profile \<Rightarrow> ('a fs_state_scheme, mount_points) py" where
  "collect_mounts w p =
     bnd (lift (pitems p ''filesystem'')) (\<lambda>its.
     bnd (path_exists w ''/sys/firmware/efi'') (\<lambda>efi.
     bnd (lift (extra_mounts efi its [])) (\<lambda>mps.
     bnd (gets (\<lambda>s. fs_mounts (opt_store s) (filesystem_list s) mps)) lift)))"

definition mount_all :: "world \<Rightarrow> string \<Rightarrow> mount_points \<Rightarrow> ('a fs_state_scheme, unit) py" where
  "mount_all w mount_point mps =
     for_each (mount_order mps) (\<lambda>point. case map_of mps point of
       None \<Rightarrow> throw KeyError
     | Some (fstype, fs, options) \<Rightarrow> mount_one w (mount_point @ point) fstype fs options)"

definition mount :: "world \<Rightarrow> string \<Rightarrow> profile \<Rightarrow> ('a fs_state_scheme, unit) py" where
  "mount w mount_point p =
     bnd (collect_mounts w p) (\<lambda>mps. block [
       mount_all w mount_point mps,
       ensure_dir w (os_join mount_point ''etc''),
       execute w (''ln -s /proc/self/mounts '' @ etc mount_point ''mtab'')])"

definition mounted_point :: "string \<Rightarrow> string res" where
  "mounted_point line = (case split_chr CHR '' '' line of [_, point, _, _, _, _] \<Rightarrow> Inr point | _ \<Rightarrow> Inl ValueError)"

definition remount :: "world \<Rightarrow> ('a fs_state_scheme, unit) py" where
  "remount w =
     bnd (read_file w ''/proc/mounts'') (\<lambda>t.
     bnd (lift (collect (file_lines t) mounted_point)) (\<lambda>mounted.
     bnd (gets mount_list) (\<lambda>ms. for_each ms (\<lambda>m. whenM (fst m \<notin> set mounted) (do_mount w m)))))"

section \<open>Unmounting\<close>

definition SIGTERM :: int where
  "SIGTERM = 15"

definition SIGKILL :: int where
  "SIGKILL = 9"

definition ESRCH :: int where
  "ESRCH = 3"

definition target_pids :: "world \<Rightarrow> ('a proc_state_scheme, int list) py" where
  "target_pids w = bnd (execute_lines w ''sh -c \"lsof | grep target | cut -f 1 | uniq\"'') (\<lambda>ls. lift (collect ls int_str))"

definition kill_pid :: "world \<Rightarrow> int \<Rightarrow> int \<Rightarrow> ('a proc_state_scheme, unit) py" where
  "kill_pid w sig pid =
     on_exc (\<lambda>e. e = OSError ESRCH) (effect (\<lambda>t. w_kill w t pid) (SendSignal pid sig)) (ret ())"

text \<open>\<open>while pid_list\<close>: three rounds of SIGTERM, then SIGKILL until none is left.\<close>

fun kill_loop :: "nat \<Rightarrow> world \<Rightarrow> nat \<Rightarrow> int list \<Rightarrow> ('a proc_state_scheme, unit) py" where
  "kill_loop 0 w rnd pid_list = throw OutOfFuel"
| "kill_loop (Suc fuel) w rnd pid_list =
     (if pid_list = [] then ret ()
      else seq (for_each pid_list (kill_pid w (if rnd < 3 then SIGTERM else SIGKILL)))
       (seq (emit (Sleep 2))
       (bnd (target_pids w) (kill_loop fuel w (Suc rnd)))))"

definition unmount :: "nat \<Rightarrow> world \<Rightarrow> string \<Rightarrow> profile \<Rightarrow> ('a fs_state_scheme, unit) py" where
  "unmount fuel w mount_point p =
     seq (execute w (''rm '' @ etc mount_point ''mtab''))
     (bnd (lift (pget p ''filesystem'' ''mtab'')) (\<lambda>mtab.
      seq (execute w (if mtab = ''file'' then ''touch '' @ etc mount_point ''mtab''
             else ''ln -s '' @ mtab @ '' '' @ etc mount_point ''mtab''))
      (seq (bnd (target_pids w) (kill_loop fuel w 0))
      (seq (modify (\<lambda>s. s\<lparr>mount_list := rev (sort_key (\<lambda>m. length (fst m)) (mount_list s))\<rparr>))
      (bnd (gets mount_list) (\<lambda>ms. for_each ms (\<lambda>m. execute w (''/bin/umount '' @ fst m))))))))"

section \<open>fstab\<close>

definition tab :: string where
  "tab = [CHR 0x09]"

definition uuid_of :: "fs_entry \<Rightarrow> string res" where
  "uuid_of e = (case fe_uuid e of None \<Rightarrow> Inl KeyError | Some u \<Rightarrow> Inr u)"

definition swap_line :: "fs_entry \<Rightarrow> string res" where
  "swap_line e = rbnd (uuid_of e) (\<lambda>u. case fe_priority e of
       None \<Rightarrow> Inl KeyError
     | Some pr \<Rightarrow> Inr (join tab [''UUID='' @ u, ''none'', ''swap'', ''sw,pri='' @ show_int pr, ''0'', ''0''] @ nl))"

definition mount_line :: "string list list \<Rightarrow> string \<Rightarrow> fs_entry \<Rightarrow> string res" where
  "mount_line store mp e = (case fe_mount_options e of
       None \<Rightarrow> Inl KeyError
     | Some r \<Rightarrow>
         let opts = join '','' (store ! r) in
         rbnd (uuid_of e) (\<lambda>u. Inr (join tab [''UUID='' @ u, mp, fe_type e,
           if opts = [] then ''defaults'' else opts, ''0'', if mp = ''/'' then ''1'' else ''2''] @ nl)))"

fun placed :: "fs_entry list \<Rightarrow> (string, fs_entry) dict \<Rightarrow> (string, fs_entry) dict res" where
  "placed [] d = Inr d"
| "placed (e # es) d = (case has_place e of
       None \<Rightarrow> placed es d
     | Some m \<Rightarrow> rbnd (str_of m) (\<lambda>mp. placed es (dset mp e d)))"

definition fstab_lines :: "(string \<times> string) list \<Rightarrow> string list list \<Rightarrow> fs_entry list \<Rightarrow> string list res" where
  "fstab_lines its store l =
     rbnd (placed l []) (\<lambda>d.
     rbnd (collect (filter (\<lambda>e. fe_type e = ''swap'') l) swap_line) (\<lambda>swaps.
     rbnd (collect (mount_order d) (\<lambda>mp. rbnd (dindex d mp) (mount_line store mp))) (\<lambda>mounts.
       Inr (map (\<lambda>(k, v). v @ nl) (filter (\<lambda>(k, v). startswith k ''prefix_'') its) @ swaps @ mounts))))"

definition writefstab :: "world \<Rightarrow> string \<Rightarrow> profile \<Rightarrow> ('a fs_state_scheme, unit) py" where
  "writefstab w mount_point p =
     seq (ensure_dir w (os_join mount_point ''etc''))
     (bnd (lift (pitems p ''fstab'')) (\<lambda>its.
      bnd (gets (\<lambda>s. fstab_lines its (opt_store s) (filesystem_list s))) (\<lambda>r.
      bnd (lift r) (\<lambda>ls. write_file w (etc mount_point ''fstab'') (concat ls)))))"

section \<open>Values for the configuration\<close>

record fs_values =
  fv_mount_points :: "(string, string) dict"
  fv_boot_drives :: "string list"
  fv_root_uuid :: "string option"
  fv_block_device :: "string option"

definition rooted_places :: "(pyval, string) dict \<Rightarrow> (string, string) dict res" where
  "rooted_places pm = rbnd (collect pm (\<lambda>(m, dev). rbnd (str_of m) (\<lambda>mp.
       if mp = [] then Inl IndexError else Inr (mp, dev)))) (\<lambda>l.
     Inr (filter (\<lambda>(mp, _). hd mp = slash) l))"

definition root_values :: "fs_values \<Rightarrow> fs_entry \<Rightarrow> fs_values" where
  "root_values v e =
     (if fe_mount_point e = Some (PStr ''/'') then
        (case fe_uuid e of None \<Rightarrow> v
         | Some u \<Rightarrow> v\<lparr>fv_root_uuid := Some u, fv_block_device := Some (fe_block_device e)\<rparr>)
      else v)"

definition fsConfigValues :: "('a fs_state_scheme, fs_values) py" where
  "fsConfigValues = bnd (gets (\<lambda>s. rooted_places (partition_map s))) (\<lambda>r. bnd (lift r) (\<lambda>places.
     gets (\<lambda>s. foldl root_values
       \<lparr>fv_mount_points = places, fv_boot_drives = boot_drives s, fv_root_uuid = None, fv_block_device = None\<rparr>
       (filesystem_list s))))"

fun getFirstMDMember :: "fs_entry list \<Rightarrow> string \<Rightarrow> string option" where
  "getFirstMDMember [] mp = None"
| "getFirstMDMember (e # es) mp =
     (if fe_mount_point e = Some (PStr mp) then
        (case fe_members e of Some (m # _) \<Rightarrow> Some m | _ \<Rightarrow> Some (fe_block_device e))
      else getFirstMDMember es mp)"

definition kernel_re :: re where
  "kernel_re = cats [Bol, lit ''vmlinuz'', Star (lit_chr CHR ''-'')]"

definition initrd_re :: re where
  "initrd_re = cats [Bol, lit ''initramfs'', Star (lit_chr CHR ''-'')]"

record grub_values =
  gv_grub_root :: string
  gv_kernel :: "string option"
  gv_initrd :: "string option"

definition grub_file :: "string \<Rightarrow> grub_values \<Rightarrow> string \<Rightarrow> grub_values" where
  "grub_file boot_path v filename =
     (let name = last (split_chr slash filename);
          v1 = (if re_search kernel_re name \<noteq> None then v\<lparr>gv_kernel := Some (os_join boot_path name)\<rparr> else v) in
      if re_search initrd_re name \<noteq> None then v1\<lparr>gv_initrd := Some (os_join boot_path name)\<rparr> else v1)"

definition grub_root :: "fs_entry list \<Rightarrow> string \<Rightarrow> string res" where
  "grub_root l mp = (case getFirstMDMember l mp of
       None \<Rightarrow> Inl TypeError
     | Some d \<Rightarrow> if d = [] then Inl IndexError
         else rbnd (int_str [last d]) (\<lambda>n. Inr (''hd0,'' @ show_int (n - 1))))"

definition grubConfigValues :: "world \<Rightarrow> string \<Rightarrow> ('a fs_state_scheme, grub_values) py" where
  "grubConfigValues w mount_point =
     bnd (gets (\<lambda>s. map_of (partition_map s) (PStr ''/boot'') \<noteq> None)) (\<lambda>sep.
     let boot_path = (if sep then ''/'' else ''/boot/'') in
     bnd (gets (\<lambda>s. grub_root (filesystem_list s) (if sep then ''/boot'' else ''/''))) (\<lambda>r.
     bnd (lift r) (\<lambda>root.
     bnd (gets (\<lambda>s. w_glob w (events s) (mount_point @ ''/boot/*''))) (\<lambda>files.
       ret (foldl (grub_file boot_path) \<lparr>gv_grub_root = root, gv_kernel = None, gv_initrd = None\<rparr> files)))))"

fun add_new :: "string list \<Rightarrow> string list \<Rightarrow> string list" where
  "add_new acc [] = acc"
| "add_new acc (line # ls) = (case split_chr CHR '' '' line of
       _ # _ # fs # _ \<Rightarrow> add_new (if fs \<in> set acc then acc else acc @ [fs]) ls
     | _ \<Rightarrow> add_new acc ls)"

definition installFilesystemUtils :: "world \<Rightarrow> profile \<Rightarrow> ('a pkg_state_scheme, unit) py" where
  "installFilesystemUtils w p =
     bnd (read_file w ''/proc/mounts'') (\<lambda>t. for_each (add_new [] (file_lines t)) (\<lambda>fs.
       case pget p ''packages'' (''filesystem_'' @ fs @ ''_package'') of
         Inl NoOptionError \<Rightarrow> ret ()
       | Inl e \<Rightarrow> throw e
       | Inr package \<Rightarrow> installPackages w package))"

section \<open>booting.py\<close>

text \<open>\<open>template.format( arg )\<close>: \<open>{0}\<close> and \<open>{}\<close> are the argument, doubled braces are braces; another field raises.\<close>

function format1 :: "string \<Rightarrow> string \<Rightarrow> string res" where
  "format1 arg s =
     (if s = [] then Inr []
      else if startswith s ''{{'' then map_sum id (\<lambda>t. CHR ''{'' # t) (format1 arg (drop 2 s))
      else if startswith s ''}}'' then map_sum id (\<lambda>t. CHR ''}'' # t) (format1 arg (drop 2 s))
      else if startswith s ''{0}'' then map_sum id (\<lambda>t. arg @ t) (format1 arg (drop 3 s))
      else if startswith s ''{}'' then map_sum id (\<lambda>t. arg @ t) (format1 arg (drop 2 s))
      else if hd s = CHR ''{'' \<or> hd s = CHR ''}'' then Inl ValueError
      else map_sum id (\<lambda>t. hd s # t) (format1 arg (tl s)))"
  by pat_completeness auto
termination
  by (relation "measure (\<lambda>(arg, s). length s)") (auto simp: startswith_def)

declare format1.simps [simp del]

definition optional :: "'b res \<Rightarrow> ('b \<Rightarrow> ('s, unit) py) \<Rightarrow> ('s, unit) py" where
  "optional r k = on_exc (\<lambda>e. e = NoOptionError) (bnd (lift r) k) (ret ())"

definition install_option :: "world \<Rightarrow> profile \<Rightarrow> string \<Rightarrow> ('a pkg_state_scheme, unit) py" where
  "install_option w p opt = bnd (lift (pget p ''packages'' opt)) (installPackages w)"

definition installBoot :: "world \<Rightarrow> string \<Rightarrow> profile \<Rightarrow> ('a fs_state_scheme, unit) py" where
  "installBoot w install_root p = block [
     render_option w p ''booting'' ''bootloader_templates'',
     bnd (readable w ''/proc/mdstat'') (\<lambda>b. whenM b (install_option w p ''mdadm_package'')),
     bnd (execute_lines w ''/sbin/lvm pvs'') (\<lambda>l. whenM (l \<noteq> []) (install_option w p ''lvm_package'')),
     bnd (readable w ''/sys/fs/bcache'') (\<lambda>b. whenM b (install_option w p ''bcache_package'')),
     bnd (path_exists w ''/sys/firmware/efi'') (\<lambda>b.
       install_option w p (if b then ''bootloader_package_efi'' else ''bootloader_package_bios'')),
     optional (pget p ''booting'' ''bootloader_config'') (chroot_execute w),
     optional (pget p ''packages'' ''kernel_package'') (installPackages w),
     optional (pget p ''booting'' ''bootloader_install'') (\<lambda>cmd. whenM (cmd \<noteq> [])
       (bnd fsConfigValues (\<lambda>v. for_each (fv_boot_drives v) (\<lambda>d. bnd (lift (format1 d cmd)) (chroot_execute w)))))]"

end
