(* ===== verification/Mounting_Props.thy ===== *)
theory Mounting_Props
  imports Mounting
begin

text \<open>
  What the mounting half of \<open>filesystem.py\<close> promises: places are mounted below-after-above and unmounted
  the other way round, \<open>remount\<close> repeats exactly the mounts that are gone, a process that holds the
  target gets three chances to end before it is killed, and the lines of \<open>/etc/fstab\<close>.
\<close>

section \<open>Orders by length\<close>

text \<open>A list sorted by length puts a string before its proper extensions.\<close>

definition before :: "'a \<Rightarrow> 'a \<Rightarrow> 'a list \<Rightarrow> bool" where
  "before a b l = (\<exists>xs ys zs. l = xs @ a # ys @ b # zs)"

lemma before_rev: "before a b (rev l) \<longleftrightarrow> before b a l"
proof
  assume "before a b (rev l)"
  then obtain xs ys zs where "rev l = xs @ a # ys @ b # zs" by (auto simp: before_def)
  then have "l = rev zs @ b # rev ys @ a # rev xs" by (metis append.assoc append_Cons append_Nil rev.simps(2) rev_append rev_rev_ident)
  then show "before b a l" unfolding before_def by blast
next
  assume "before b a l"
  then obtain xs ys zs where "l = xs @ b # ys @ a # zs" by (auto simp: before_def)
  then have "rev l = rev zs @ a # rev ys @ b # rev xs" by simp
  then show "before a b (rev l)" unfolding before_def by blast
qed

lemma sorted_before:
  assumes "sorted (map f l)" and "a \<in> set l" and "b \<in> set l" and "f a < f b"
  shows "before a b l"
proof -
  obtain xs r where l: "l = xs @ b # r" using split_list[OF assms(3)] by blast
  have "a \<notin> set (b # r)" using assms(1,4) by (auto simp: l sorted_append)
  with assms(2) l obtain us vs where "xs = us @ a # vs" by (auto dest: split_list)
  with l show ?thesis unfolding before_def by auto
qed

lemma sort_key_before:
  "a \<in> set l \<Longrightarrow> b \<in> set l \<Longrightarrow> f a < f b \<Longrightarrow> before a b (sort_key f l)"
  by (rule sorted_before[of f]) simp_all

definition below :: "string \<Rightarrow> string \<Rightarrow> bool" where
  "below q p = (\<exists>x. x \<noteq> [] \<and> q = p @ x)"

lemma below_length: "below q p \<Longrightarrow> length p < length q"
  by (auto simp: below_def)

lemma mount_order_above_first:
  "p \<in> set (dkeys mps) \<Longrightarrow> q \<in> set (dkeys mps) \<Longrightarrow> below q p \<Longrightarrow> before p q (mount_order mps)"
  unfolding mount_order_def by (intro sort_key_before below_length)

lemma mount_order_set [simp]: "set (mount_order mps) = set (dkeys mps)"
  by (simp add: mount_order_def)

section \<open>What is mounted\<close>

definition mount_entry_of :: "string \<Rightarrow> mount_points \<Rightarrow> string \<Rightarrow> mount_entry" where
  "mount_entry_of root_dir mps point = (rstrip_chr slash (strip (root_dir @ point)), the (map_of mps point))"

lemma mount_one_list:
  assumes "mount_one w mp f d opts s = (Inr u, t)"
  shows "mount_list t = mount_list s @ [(rstrip_chr slash (strip mp), f, d, opts)]"
proof -
  let ?m = "rstrip_chr slash (strip mp)"
  obtain v s1 v' s2 where a: "ensure_dir w ?m s = (Inr v, s1)" and b: "do_mount w (?m, f, d, opts) s1 = (Inr v', s2)"
    and t: "mount_list t = mount_list s2 @ [(?m, f, d, opts)]"
    using assms unfolding mount_one_def Let_def block_simps
    by (elim seq_InrE) (auto simp: modify_apply ret_apply)
  have "mount_list s1 = mount_list s" by (rule keepsD[where f = mount_list, OF keeps_effects(6) a]) simp
  moreover have "mount_list (snd (do_mount w (?m, f, d, opts) s1)) = mount_list s1"
    unfolding do_mount_def prod.case by (rule keeps_snd[where f = mount_list], rule keeps_commands) simp
  ultimately show ?thesis using t b by simp
qed

lemma mount_all_list:
  assumes "mount_all w rd mps s = (Inr u, t)"
  shows "mount_list t = mount_list s @ map (mount_entry_of rd mps) (mount_order mps)"
proof -
  have "mount_list t = mount_list s @ map (mount_entry_of rd mps) ps"
    if "for_each ps (\<lambda>point. case map_of mps point of None \<Rightarrow> throw KeyError
       | Some (fstype, fs, options) \<Rightarrow> mount_one w (rd @ point) fstype fs options) s = (Inr u, t)" for ps
    using that
  proof (induction ps arbitrary: s)
    case (Cons p ps)
    from Cons.prems obtain v s1 where
      a: "(case map_of mps p of None \<Rightarrow> throw KeyError
       | Some (fstype, fs, options) \<Rightarrow> mount_one w (rd @ p) fstype fs options) s = (Inr v, s1)"
      and b: "for_each ps (\<lambda>point. case map_of mps point of None \<Rightarrow> throw KeyError
       | Some (fstype, fs, options) \<Rightarrow> mount_one w (rd @ point) fstype fs options) s1 = (Inr u, t)"
      by (auto elim: seq_InrE)
    then obtain f d o' where m: "map_of mps p = Some (f, d, o')"
      by (auto simp: throw_apply split: option.splits)
    with a have "mount_list s1 = mount_list s @ [mount_entry_of rd mps p]"
      by (simp add: mount_entry_of_def mount_one_list)
    with Cons.IH[OF b] show ?case by simp
  qed (simp add: ret_apply)
  from this[OF assms[unfolded mount_all_def]] show ?thesis .
qed

section \<open>Properties\<close>


definition ok_world :: world where
  "ok_world = apt_world\<lparr>w_run := (\<lambda>t c i e. Inr (0, [])), w_drives := (\<lambda>t.
     \<lparr>dv_blocks = [(''/dev/sda'', \<lparr>supportsTrim = True\<rparr>), (''/dev/sdb'', \<lparr>supportsTrim = True\<rparr>),
                   (''/dev/sdc'', \<lparr>supportsTrim = True\<rparr>), (''/dev/sdd'', \<lparr>supportsTrim = True\<rparr>)],
      dv_ports = [], dv_devpaths = []\<rparr>)\<rparr>"

lemma ok_world_ok: "all_ok ok_world"
  by (simp add: all_ok_def ok_world_def)

definition demo_mounts :: mount_points where
  "demo_mounts = [(''/boot'', ''ext2'', ''/dev/sda2'', []), (''/'', ''ext4'', ''/dev/sda3'', [''discard''])]"


section \<open>Unmounting\<close>

lemma umount_each:
  "for_each ms (\<lambda>m. execute w (''/bin/umount '' @ fst m)) s = (Inr u, t) \<Longrightarrow>
     runs (events t) = runs (events s) @ map (\<lambda>m. ''/bin/umount '' @ fst m) ms"
proof (induction ms arbitrary: s)
  case (Cons m ms)
  then obtain v s1 where a: "execute w (''/bin/umount '' @ fst m) s = (Inr v, s1)"
    and b: "for_each ms (\<lambda>m. execute w (''/bin/umount '' @ fst m)) s1 = (Inr u, t)"
    by (auto elim: seq_InrE)
  with Cons.IH[OF b] execute_success[OF a] show ?case by simp
qed (simp add: ret_apply)

lemma keeps_target_pids: "(\<And>s x. f (s\<lparr>events := x\<rparr>) = f s) \<Longrightarrow> keeps f (target_pids w)"
  unfolding target_pids_def by (intro keeps_intros)

lemma keeps_kill_pid: "(\<And>s x. f (s\<lparr>events := x\<rparr>) = f s) \<Longrightarrow> keeps f (kill_pid w sig pid)"
  unfolding kill_pid_def by (intro keeps_intros)

lemma keeps_kill_loop: "(\<And>s x. f (s\<lparr>events := x\<rparr>) = f s) \<Longrightarrow> keeps f (kill_loop fuel w n pids)"
  by (induction fuel w n pids rule: kill_loop.induct)
    (auto intro!: keeps_intros keeps_target_pids keeps_kill_pid)

text \<open>The events of one kind in a trace.\<close>

definition pauses :: "nat \<Rightarrow> trace \<Rightarrow> nat" where
  "pauses n t = length (filter (\<lambda>e. e = Sleep n) t)"

definition signals_ok :: "nat \<Rightarrow> trace \<Rightarrow> bool" where
  "signals_ok n t = (\<forall>i < length t. \<forall>pid sig. t ! i = SendSignal pid sig \<longrightarrow>
     sig = (if n + pauses 2 (take i t) < 3 then SIGTERM else SIGKILL))"

lemma signals_ok_quiet:
  "\<forall>e \<in> set t. \<forall>pid sig. e \<noteq> SendSignal pid sig \<Longrightarrow> signals_ok n t"
  by (auto simp: signals_ok_def dest: nth_mem)

lemma signals_ok_append:
  "signals_ok n t \<Longrightarrow> signals_ok (n + pauses 2 t) u \<Longrightarrow> signals_ok n (t @ u)"
  unfolding signals_ok_def
proof (intro allI impI)
  fix i pid sig
  assume a: "\<forall>i<length t. \<forall>pid sig. t ! i = SendSignal pid sig \<longrightarrow>
       sig = (if n + pauses 2 (take i t) < 3 then SIGTERM else SIGKILL)"
    and b: "\<forall>i<length u. \<forall>pid sig. u ! i = SendSignal pid sig \<longrightarrow>
       sig = (if n + pauses 2 t + pauses 2 (take i u) < 3 then SIGTERM else SIGKILL)"
    and i: "i < length (t @ u)" "(t @ u) ! i = SendSignal pid sig"
  show "sig = (if n + pauses 2 (take i (t @ u)) < 3 then SIGTERM else SIGKILL)"
  proof (cases "i < length t")
    case True
    with a i show ?thesis by (simp add: nth_append)
  next
    case False
    with b i show ?thesis by (simp add: nth_append pauses_def add.assoc)
  qed
qed

lemma signals_ok_round:
  "signals_ok n (map (\<lambda>p. SendSignal p (if n < 3 then SIGTERM else SIGKILL)) ps)"
  by (auto simp: signals_ok_def pauses_def take_map filter_empty_conv)

lemma pauses_append [simp]: "pauses n (t @ u) = pauses n t + pauses n u"
  by (simp add: pauses_def)

text \<open>The trace of one computation.\<close>

lemma appendsE:
  assumes "appends Q m" and "m s = (r, t)"
  obtains k where "events t = events s @ k" "set k \<subseteq> Q"
  using assms unfolding appends_def by (metis snd_conv)

lemma pauses_none: "\<forall>e \<in> set k. e \<noteq> Sleep n \<Longrightarrow> pauses n k = 0"
  by (simp add: pauses_def filter_empty_conv)

lemma quiet_commands:
  assumes "set k \<subseteq> commands"
  shows "signals_ok n k \<and> pauses 2 k = 0"
proof -
  have q: "e \<noteq> SendSignal p g \<and> e \<noteq> Sleep 2" if "e \<in> set k" for e p g
    using that assms unfolding commands_def by auto
  then show ?thesis using signals_ok_quiet[of k n] pauses_none[of k 2] by blast
qed

lemma signals_of_round:
  assumes "set k \<subseteq> {SendSignal p (if n < 3 then SIGTERM else SIGKILL) | p. True}"
  shows "signals_ok n k \<and> pauses 2 k = 0"
proof -
  have p: "pauses 2 l = 0" if "set l \<subseteq> set k" for l
    using that assms by (intro pauses_none) auto
  have "signals_ok n k"
    unfolding signals_ok_def
  proof (intro allI impI)
    fix i pid sig assume i: "i < length k" "k ! i = SendSignal pid sig"
    then have "sig = (if n < 3 then SIGTERM else SIGKILL)" using assms nth_mem[of i k] by auto
    moreover have "pauses 2 (take i k) = 0" by (rule p) (rule set_take_subset)
    ultimately show "sig = (if n + pauses 2 (take i k) < 3 then SIGTERM else SIGKILL)" by simp
  qed
  with p show ?thesis by simp
qed

lemma pause_ok: "signals_ok n [Sleep m]"
  by (simp add: signals_ok_def)

lemma kill_loop_signals:
  "\<exists>k. events (snd (kill_loop fuel w n pids s)) = events s @ k \<and> signals_ok n k"
proof (induction fuel arbitrary: n pids s)
  case 0
  show ?case by (intro exI[of _ "[]"]) (simp add: throw_apply signals_ok_def)
next
  case (Suc fuel)
  show ?case
  proof (cases "pids = []")
    case True
    then show ?thesis by (intro exI[of _ "[]"]) (simp add: ret_apply signals_ok_def)
  next
    case False
    let ?sig = "if n < 3 then SIGTERM else SIGKILL"
    let ?A = "for_each pids (kill_pid w ?sig)"
    obtain ra sa where A: "?A s = (ra, sa)" by fastforce
    have "appends {SendSignal p ?sig | p. True} ?A"
      unfolding kill_pid_def by (intro appends_intros) auto
    from appendsE[OF this A] obtain ka where ka: "events sa = events s @ ka"
      "set ka \<subseteq> {SendSignal p ?sig | p. True}" .
    note sk = signals_of_round[OF ka(2)]
    show ?thesis
    proof (cases ra)
      case (Inl e)
      with False A ka sk show ?thesis by (intro exI[of _ ka]) (simp add: seq_apply)
    next
      case (Inr u)
      let ?sb = "sa\<lparr>events := events sa @ [Sleep 2]\<rparr>"
      obtain rc sc where C: "target_pids w ?sb = (rc, sc)" by fastforce
      have "appends commands (target_pids w)" unfolding target_pids_def by (intro appends_intros) simp
      from appendsE[OF this C] obtain kc where kc: "events sc = events ?sb @ kc" "set kc \<subseteq> commands" .
      have step: "kill_loop (Suc fuel) w n pids s =
          (case rc of Inl e \<Rightarrow> (Inl e, sc) | Inr ps \<Rightarrow> kill_loop fuel w (Suc n) ps sc)"
        using False A Inr C by (simp add: py_simps split: sum.split)
      have one: "pauses 2 [Sleep 2] = 1" by (simp add: pauses_def)
      have "signals_ok n (ka @ [Sleep 2] @ kc)"
        using sk quiet_commands[OF kc(2)] by (intro signals_ok_append pause_ok) blast+
      moreover have p: "pauses 2 (ka @ [Sleep 2] @ kc) = 1"
        unfolding pauses_append one using sk quiet_commands[OF kc(2), of 0] by simp
      moreover have e: "events sc = events s @ (ka @ [Sleep 2] @ kc)" using ka kc by simp
      ultimately show ?thesis
      proof (cases rc)
        case (Inr ps)
        obtain l where "events (snd (kill_loop fuel w (Suc n) ps sc)) = events sc @ l" "signals_ok (Suc n) l"
          using Suc by blast
        with step Inr e p \<open>signals_ok n (ka @ [Sleep 2] @ kc)\<close> show ?thesis
          by (intro exI[of _ "(ka @ [Sleep 2] @ kc) @ l"]) (simp add: signals_ok_append del: append_assoc)
      qed (use step in auto)
    qed
  qed
qed


definition busy_world :: world where
  "busy_world = apt_world\<lparr>w_run := (\<lambda>t c i e. Inr (0, if length t < 3 then ''7'' else []))\<rparr>"


text \<open>C10: \<open>unmount\<close>, when it returns, ends with exactly one \<open>umount\<close> for every recorded mount, a mount
  below another one before it.\<close>

theorem unmounts_below_first:
  assumes "unmount fuel w rd p s = (Inr (), t)"
  shows "\<exists>pre order. runs (events t) = pre @ map (\<lambda>m. ''/bin/umount '' @ fst m) order
     \<and> mset order = mset (mount_list s)
     \<and> (\<forall>a b. a \<in> set order \<and> b \<in> set order \<and> below (fst b) (fst a) \<longrightarrow> before b a order)"
proof -
  let ?order = "rev (sort_key (\<lambda>m. length (fst m)) (mount_list s))"
  obtain v1 s1 mtab v2 s2 pids s3 v4 s4 where
    a: "execute w (''rm '' @ etc rd ''mtab'') s = (Inr v1, s1)"
    and b: "execute w (if mtab = ''file'' then ''touch '' @ etc rd ''mtab'' else ''ln -s '' @ mtab @ '' '' @ etc rd ''mtab'') s1 = (Inr v2, s2)"
    and c: "target_pids w s2 = (Inr pids, s3)" and d: "kill_loop fuel w 0 pids s3 = (Inr v4, s4)"
    and e: "for_each (rev (sort_key (\<lambda>m. length (fst m)) (mount_list s4))) (\<lambda>m. execute w (''/bin/umount '' @ fst m))
       (s4\<lparr>mount_list := rev (sort_key (\<lambda>m. length (fst m)) (mount_list s4))\<rparr>) = (Inr (), t)"
    using assms unfolding unmount_def
    by (elim seq_InrE bnd_InrE) (auto simp: lift_apply modify_apply gets_apply)
  have "mount_list s4 = mount_list s"
    using execute_success[OF a] execute_success[OF b]
      keeps_snd[where f = mount_list, OF keeps_target_pids, of w s2]
      keeps_snd[where f = mount_list, OF keeps_kill_loop, of fuel w 0 pids s3] c d by simp
  with umount_each[OF e] have "runs (events t) = runs (events s4) @ map (\<lambda>m. ''/bin/umount '' @ fst m) ?order" by simp
  moreover have "before y x ?order" if "x \<in> set (mount_list s)" "y \<in> set (mount_list s)" "below (fst y) (fst x)" for x y
    using that sort_key_before[of x "mount_list s" y "\<lambda>m. length (fst m)"] below_length[of "fst y" "fst x"]
    by (simp add: before_rev)
  ultimately show ?thesis by (intro exI[of _ "runs (events s4)"] exI[of _ ?order]) auto
qed

definition fs_profile :: profile where
  "fs_profile = \<lparr>p_defaults = [], p_sections = [(''filesystem'', [(''partition_type'', ''gpt''), (''fs_type'', ''ext4''),
      (''boot_fs_type'', ''ext2''), (''md_meta_version'', ''1.1''), (''mtab'', ''file'')]), (''fstab'', [(''prefix_1'', ''# fstab'')])]\<rparr>"

definition mounted_fs :: fs_state where
  "mounted_fs = blank_fs\<lparr>mount_list := [(''/target'', ''ext4'', ''/dev/sda3'', []), (''/target/boot'', ''ext2'', ''/dev/sda2'', [])]\<rparr>"

theorem unmounts_below_first_witness:
  "\<exists>t pre order. unmount 1 ok_world ''/target'' fs_profile mounted_fs = (Inr (), t)
     \<and> runs (events t) = pre @ map (\<lambda>m. ''/bin/umount '' @ fst m) order \<and> mset order = mset (mount_list mounted_fs)"
proof -
  have "fst (unmount 1 ok_world ''/target'' fs_profile mounted_fs) = Inr ()" by code_simp
  then obtain t where t: "unmount 1 ok_world ''/target'' fs_profile mounted_fs = (Inr (), t)"
    by (cases "unmount 1 ok_world ''/target'' fs_profile mounted_fs") auto
  with unmounts_below_first[OF t] show ?thesis by blast
qed

section \<open>remount and fstab\<close>

lemma do_mount_ok:
  "all_ok w \<Longrightarrow> output_open s \<Longrightarrow>
     do_mount w m s = (Inr (), ran_all [case m of (mp, f, d, opts) \<Rightarrow> mount_cmd mp f d opts] s)"
  by (cases m) (simp add: do_mount_def execute_all_ok)

lemma remount_each:
  "all_ok w \<Longrightarrow> output_open s \<Longrightarrow>
     for_each ms (\<lambda>m. whenM (fst m \<notin> M) (do_mount w m)) s =
       (Inr (), ran_all (map (\<lambda>(mp, f, d, opts). mount_cmd mp f d opts) (filter (\<lambda>m. fst m \<notin> M) ms)) s)"
  by (induction ms arbitrary: s) (auto simp: py_simps do_mount_ok)

text \<open>\<open>remount\<close> repeats, in their order, the recorded mounts whose places are not in \<open>/proc/mounts\<close>, and
  no others; nothing is recorded twice.\<close>

theorem remount_missing:
  assumes "all_ok w" and "output_open s" and "w_read w (events s) ''/proc/mounts'' = Inr txt"
    and "collect (file_lines txt) mounted_point = Inr mounted"
  shows "remount w s =
     (Inr (), ran_all (map (\<lambda>(mp, f, d, opts). mount_cmd mp f d opts)
        (filter (\<lambda>m. fst m \<notin> set mounted) (mount_list s))) s)"
  using assms by (simp add: remount_def read_file_def bnd_apply gets_apply lift_apply remount_each)

theorem remount_missing_witness:
  "remount (ok_world\<lparr>w_read := (\<lambda>t p. Inr (''/dev/sda3 /target ext4 rw 0 0'' @ nl))\<rparr>) mounted_fs =
     (Inr (), ran_all [''mount  -t ext2 /dev/sda2 /target/boot''] mounted_fs)"
proof -
  let ?w = "ok_world\<lparr>w_read := (\<lambda>t p. Inr (''/dev/sda3 /target ext4 rw 0 0'' @ nl))\<rparr>"
  have "all_ok ?w" by (simp add: all_ok_def ok_world_def)
  moreover have "output_open mounted_fs" by (simp add: mounted_fs_def blank_fs_def)
  moreover have "collect (file_lines (''/dev/sda3 /target ext4 rw 0 0'' @ nl)) mounted_point = Inr [''/target'']"
    by code_simp
  ultimately have "remount ?w mounted_fs = (Inr (), ran_all (map (\<lambda>(mp, f, d, opts). mount_cmd mp f d opts)
        (filter (\<lambda>m. fst m \<notin> set [''/target'']) (mount_list mounted_fs))) mounted_fs)"
    by (intro remount_missing) simp_all
  then show ?thesis by (simp add: mounted_fs_def mount_cmd_def)
qed

text \<open>A line of \<open>fstab\<close> for a place, split at its tabs, has six fields: the UUID, the place, the type,
  the options or \<open>defaults\<close>, no dump, and the check pass, 1 for the root and 2 for every other place.\<close>

theorem fstab_line_fields:
  assumes "mount_line store mp e = Inr line" and "fe_uuid e = Some u" and "fe_mount_options e = Some r"
    and "\<forall>x \<in> {u, mp, fe_type e, join '','' (store ! r)}. CHR 0x09 \<notin> set x"
  shows "split_chr CHR 0x09 (butlast line) =
     [''UUID='' @ u, mp, fe_type e, if join '','' (store ! r) = [] then ''defaults'' else join '','' (store ! r),
      ''0'', if mp = ''/'' then ''1'' else ''2''] \<and> last line = hd nl"
proof -
  let ?ws = "[''UUID='' @ u, mp, fe_type e, if join '','' (store ! r) = [] then ''defaults'' else join '','' (store ! r),
      ''0'', if mp = ''/'' then ''1'' else ''2'']"
  have l: "line = join tab ?ws @ nl"
    using assms(1-3) by (simp add: mount_line_def uuid_of_def Let_def)
  have "split_chr CHR 0x09 (join tab ?ws) = ?ws"
    unfolding tab_def using assms(4) by (intro split_chr_join) auto
  then show ?thesis by (simp only: l nl_def butlast_snoc last_snoc list.sel)
qed

definition root_entry :: fs_entry where
  "root_entry = (new_entry ''ext4'' ''/dev/sda3'')\<lparr>fe_mount_point := Some (PStr ''/''), fe_mount_options := Some 0,
     fe_uuid := Some ''ab12''\<rparr>"

theorem fstab_line_fields_witness:
  "\<exists>line. mount_line [[''discard'']] ''/'' root_entry = Inr line
     \<and> split_chr CHR 0x09 (butlast line) = [''UUID=ab12'', ''/'', ''ext4'', ''discard'', ''0'', ''1'']"
proof -
  obtain line where l: "mount_line [[''discard'']] ''/'' root_entry = Inr line"
    by (simp add: mount_line_def root_entry_def new_entry_def uuid_of_def Let_def)
  then show ?thesis
    using fstab_line_fields[of "[[''discard'']]" "''/''" root_entry line "''ab12''" 0]
    by (auto simp: root_entry_def new_entry_def)
qed

text \<open>\<open>fstab\<close> has the profile's own lines first, then one line for each swap area, then one line for each
  place that has a file system, and a place below another comes after it.\<close>

theorem fstab_complete:
  assumes "fstab_lines its store l = Inr ls"
  shows "\<exists>d own swaps mounts. ls = own @ swaps @ mounts \<and> placed l [] = Inr d
     \<and> own = map (\<lambda>(k, v). v @ nl) (filter (\<lambda>(k, v). startswith k ''prefix_'') its)
     \<and> list_all2 (\<lambda>e line. swap_line e = Inr line) (filter (\<lambda>e. fe_type e = ''swap'') l) swaps
     \<and> list_all2 (\<lambda>mp line. rbnd (dindex d mp) (mount_line store mp) = Inr line) (mount_order d) mounts
     \<and> (\<forall>p q. p \<in> set (dkeys d) \<and> q \<in> set (dkeys d) \<and> below q p \<longrightarrow> before p q (mount_order d))"
proof -
  obtain d swaps mounts where a: "placed l [] = Inr d"
    "collect (filter (\<lambda>e. fe_type e = ''swap'') l) swap_line = Inr swaps"
    "collect (mount_order d) (\<lambda>mp. rbnd (dindex d mp) (mount_line store mp)) = Inr mounts"
    "ls = map (\<lambda>(k, v). v @ nl) (filter (\<lambda>(k, v). startswith k ''prefix_'') its) @ swaps @ mounts"
    using assms unfolding fstab_lines_def by (elim rbnd_InrE) simp
  show ?thesis
    using a(1,4) collect_all2[OF a(2)] collect_all2[OF a(3)] mount_order_above_first[of _ d] by blast
qed

theorem fstab_complete_witness:
  "\<exists>ls d. fstab_lines [] [[''discard'']] [root_entry] = Inr ls \<and> placed [root_entry] [] = Inr d"
proof -
  have "\<exists>ls. fstab_lines [] [[''discard'']] [root_entry] = Inr ls"
    by (simp add: fstab_lines_def has_place_def root_entry_def new_entry_def str_of_def mount_order_def mount_line_def
        uuid_of_def Let_def dindex_def)
  then obtain ls where "fstab_lines [] [[''discard'']] [root_entry] = Inr ls" by blast
  with fstab_complete[OF this] show ?thesis by blast
qed

text \<open>The partition number in \<open>grub_root\<close> is one digit, the last character of the device name, less one:
  for the tenth partition of a drive the value is \<open>hd0,-1\<close>.\<close>

theorem grub_root_last_digit:
  assumes "fe_mount_point e = Some (PStr mp)" and "fe_members e = None" and "fe_block_device e = dev_name d (10 * k)"
    and "0 < k"
  shows "grub_root (e # l) mp = Inr ''hd0,-1''"
proof -
  have "char_of (48 :: nat) = CHR ''0''" by code_simp
  then have "last (show_nat (10 * k)) = CHR ''0''"
    using assms(4) by (subst show_nat.simps) (simp add: digit_chr_def)
  moreover have "show_nat (10 * k) \<noteq> []" using show_nat_digits by blast
  ultimately have "last (fe_block_device e) = CHR ''0''" "fe_block_device e \<noteq> []"
    using assms(3) by (auto simp: dev_name_def)
  moreover have "int_str ''0'' = Inr 0" by code_simp
  moreover have "show_int (-1) = ''-1''" by code_simp
  ultimately show ?thesis using assms(1,2) by (simp add: grub_root_def)
qed

theorem grub_root_last_digit_witness:
  "grub_root [(new_entry ''ext4'' ''/dev/sda10'')\<lparr>fe_mount_point := Some (PStr ''/'')\<rparr>] ''/'' = Inr ''hd0,-1''"
proof -
  have "''/dev/sda10'' = dev_name ''/dev/sda'' (10 * 1)" by code_simp
  then show ?thesis
    using grub_root_last_digit[of "(new_entry ''ext4'' ''/dev/sda10'')\<lparr>fe_mount_point := Some (PStr ''/'')\<rparr>" "''/''" "''/dev/sda''" 1 "[]"]
    by (simp add: new_entry_def)
qed

end
