(* ===== verification/Recipe_Runs.thy ===== *)
theory Recipe_Runs
  imports Mounting_Props
begin

text \<open>
  Runs of \<open>partition\<close> from beginning to end, on a machine with four drives where every command succeeds:
  what the built-in recipes do, and what goes wrong in the parts of the function that a recipe can
  reach only with options the built-in recipes do not use.
\<close>

definition scheme :: "string \<Rightarrow> value_map" where
  "scheme s = [(''partition_scheme'', PStr s)]"

definition custom :: "recipe \<Rightarrow> value_map" where
  "custom r = [(''partition_scheme'', PStr ''custom''), (''partition_recipe'', PList (map PDict r))]"

definition fresh_fs :: fs_state where
  "fresh_fs = blank_fs\<lparr>parted_task_map := []\<rparr>"

definition after :: "value_map \<Rightarrow> exc + fs_state" where
  "after m = (case partition ok_world fs_profile m fresh_fs of (Inl e, _) \<Rightarrow> Inl e | (Inr _, t) \<Rightarrow> Inr t)"

text \<open>Every built-in recipe names its boot drives, and they are among its targets.\<close>

definition bootable :: "recipe \<Rightarrow> bool" where
  "bootable r = (case (recipe_targets r, targetsWithMount r ''/boot'') of
       (Inr ts, Inr bts) \<Rightarrow> bts \<noteq> [] \<and> list_all (\<lambda>b. List.member ts b) bts
     | _ \<Rightarrow> False)"

section \<open>Properties\<close>

text \<open>Each of the seven built-in recipes says on which of its targets \<open>/boot\<close> is, through the array or
  directly, so \<open>partition\<close> never fails to find the boot drives for them.\<close>

theorem builtin_recipes_bootable:
  "list_all (\<lambda>(n, r). bootable r) partition_recipes"
  by code_simp

text \<open>The \<open>mirror\<close> recipe on a gpt disk: two drives get the same five partitions (boot loader, two
  array members, swap at the end), two arrays of level 1 are made of the corresponding partitions, both
  drives are boot drives, and the root is the second array, with \<open>discard\<close>.\<close>

theorem mirror_run:
  "(case after (scheme ''mirror'') of Inl e \<Rightarrow> False | Inr t \<Rightarrow>
     map_of (parted_task_map t) ''/dev/sda'' = Some [''mklabel gpt'', ''mkpart primary fat32 0m 100m'', ''set 1 bios_grub on'',
        ''mkpart primary ext2 100m 612m'', ''mkpart primary ext2 612m -256m'', ''mkpart primary linux-swap -256m -0'']
     \<and> map_of (parted_task_map t) ''/dev/sdb'' = map_of (parted_task_map t) ''/dev/sda''
     \<and> drop 2 (runs (events t)) =
        [''/sbin/mdadm /dev/md0 --create --run --force --metadata=1.1 --level=1 --raid-devices=2 /dev/sda2 /dev/sdb2'',
         ''/sbin/mdadm /dev/md1 --create --run --force --metadata=1.1 --level=1 --raid-devices=2 /dev/sda3 /dev/sdb3'']
     \<and> boot_drives t = [''/dev/sda'', ''/dev/sdb'']
     \<and> map_of (partition_map t) (PStr ''/'') = Some ''/dev/md1''
     \<and> map (\<lambda>r. opt_store t ! r) (concat (map (\<lambda>e. case (fe_mount_point e, fe_mount_options e) of
          (Some (PStr mp), Some r) \<Rightarrow> if mp = ''/'' then [r] else [] | _ \<Rightarrow> []) (filesystem_list t))) = [[''discard'']])"
  by code_simp

definition two_volumes :: recipe where
  "two_volumes = [
     on_target 0 (mounted_at ''/boot'') ''boot'',
     on_target 0 (pv_of 0) ''end'',
     [(''vg'', PInt 0), (''name'', PStr ''VG0'')],
     [(''lv'', PInt 0), (''name'', PStr ''root''), (''mount_point'', PStr ''/''), (''size'', PInt 100)],
     [(''lv'', PInt 0), (''name'', PStr ''home''), (''mount_point'', PStr ''/home''), (''size'', PInt 100)]]"

definition lvm_world :: world where
  "lvm_world = ok_world\<lparr>w_run := (\<lambda>t c i e. Inr (0, ''  Total PE              1000''))\<rparr>"

text \<open>The body that creates a logical volume stands after the loop over the \<open>lv\<close> items: of two volumes
  in a recipe only the last one is created and gets a file system, and the first is skipped without an
  error.\<close>

theorem only_last_volume:
  "(case partition lvm_world fs_profile (custom two_volumes) fresh_fs of
      (Inl e, _) \<Rightarrow> False
    | (Inr _, t) \<Rightarrow>
        filter (\<lambda>c. startswith c ''/sbin/lvm lvcreate'') (runs (events t)) = [''/sbin/lvm lvcreate --name \"home\" --size 100M VG0'']
        \<and> map_of (partition_map t) (PStr ''/home'') = Some ''/dev/mapper/VG0-home''
        \<and> map_of (partition_map t) (PStr ''/'') = None)"
  by code_simp

text \<open>The \<open>bcache-var\<close> recipe cannot be installed: the entry for its cached file system has no
  \<open>mkfs_options\<close>, so \<open>mkfs\<close> raises \<open>KeyError\<close> after \<open>partition\<close> has returned.\<close>

theorem bcache_without_mkfs:
  "(case after (scheme ''bcache-var'') of Inl e \<Rightarrow> False | Inr t \<Rightarrow> fst (mkfs ok_world t) = Inl KeyError)"
  by code_simp

definition defaults_recipe :: recipe where
  "defaults_recipe = [
     on_target 0 (mounted_at ''/boot'' @ [(''type'', PStr ''ext2'')]) ''boot'',
     on_target 0 (mounted_at ''/'' @ [(''mount_options'', PStr ''defaults'')]) ''end'']"

text \<open>An item whose mount options are the text \<open>defaults\<close> shares the list of the item before it: the
  \<open>discard\<close> that its drive asks for is also put on the other file system, which is none that can use it.\<close>

theorem defaults_share_options:
  "(case after (custom defaults_recipe) of Inl e \<Rightarrow> False | Inr t \<Rightarrow>
     map (\<lambda>e. (fe_type e, case fe_mount_options e of None \<Rightarrow> [] | Some r \<Rightarrow> opt_store t ! r)) (filesystem_list t) =
       [(''vfat'', []), (''ext2'', [''discard'']), (''ext4'', [''discard''])])"
  by code_simp

text \<open>A target item whose size is a percentage strictly between 0 and 100 always fails: the code asks
  the drive for an attribute it does not have.\<close>

theorem percentage_size_fails:
  assumes "map_of item ''size'' = Some (PStr s)" and "percent_of s = Inr (Some x)" and "0 < x" and "x < 1"
    and "dindex (pc_drives c) d = Inr i" and "s \<notin> {''end'', ''boot'', ''- boot'', ''swap'', ''- swap''}"
  shows "item_size c boot swap d item = Inl AttributeError"
  using assms by (simp add: item_size_def)

theorem percentage_size_fails_witness:
  "item_size \<lparr>pc_profile = fs_profile, pc_type = ''gpt'', pc_fs_type = ''ext4'', pc_boot_fs_type = ''ext2'',
      pc_md_meta = PNone, pc_targets = [''/dev/sda''], pc_drives = [(''/dev/sda'', \<lparr>supportsTrim = True\<rparr>)],
      pc_default = 0, pc_recipe = []\<rparr> 512 512 ''/dev/sda'' [(''size'', PStr ''50%'')] = Inl AttributeError"
proof -
  have "percent_of ''50%'' = Inr (Some (1/2))" by code_simp
  then show ?thesis by (intro percentage_size_fails[of _ "''50%''" "1/2" _ _ "\<lparr>supportsTrim = True\<rparr>"]) simp_all
qed

text \<open>\<open>partition\<close> checked against a machine: the \<open>single\<close> recipe runs exactly one command, and with a
  recipe that needs more drives than there are none at all.\<close>

theorem single_run:
  "(case after (scheme ''single'') of Inl e \<Rightarrow> False | Inr t \<Rightarrow>
     runs (events t) = [''/sbin/parted -s /dev/sda -- '' @ join (bs @ '' '' @ nl) [''mklabel gpt'',
        ''mkpart primary fat32 0m 100m'', ''set 1 bios_grub on'', ''mkpart primary ext2 100m 612m'',
        ''mkpart primary ext2 612m -512m'', ''mkpart primary linux-swap -512m -0'']])
   \<and> fst (partition ok_world fs_profile (custom [on_target 4 (mounted_at ''/'') ''end'']) fresh_fs) = Inl (not_enough 5 4)
   \<and> events (snd (partition ok_world fs_profile (custom [on_target 4 (mounted_at ''/'') ''end'']) fresh_fs)) = []"
  by code_simp

theorem no_command_before_plan_witness:
  "\<exists>c targets swap boot s1. prepare ok_world fs_profile (scheme ''single'') fresh_fs = (Inr (c, targets, swap, boot), s1)
     \<and> fst (part_plan ok_world c targets (init_locals swap boot s1)) = Inr ()"
proof -
  have "runs (events (snd (partition ok_world fs_profile (scheme ''single'') fresh_fs))) \<noteq> runs (events fresh_fs)"
    by code_simp
  then show ?thesis using no_command_before_plan[of ok_world fs_profile "scheme ''single''" fresh_fs] by blast
qed

end
