(* ===== verification/Cinp_Uri.thy ===== *)
theory Cinp_Uri
  imports Py_Regex
begin

text \<open>
  The URIs of the CInP protocol, \<open>contractor/cinp/common.py\<close>: \<open>URI.split\<close> and \<open>URI.build\<close> with the
  pattern the class compiles, \<open>extractIds\<close>, and \<open>doccstring_prep\<close>. A URI is \<open>root namespace/ ... model
  :id:id: (action)\<close>. The root path stands in the pattern as it is given; the model takes it for
  itself, as it is for the paths the clients use, which hold letters, digits and slashes.

  \<open>uri_roundtrip\<close> is the contract of the pair: what was built is split into the same parts, and so no
  two requests have the same URI (\<open>uri_codec\<close>).
\<close>

section \<open>The pattern\<close>

definition name_ranges :: "(char \<times> char) list" where
  "name_ranges = [(CHR ''a'', CHR ''z''), (CHR ''A'', CHR ''Z''), (CHR ''0'', CHR ''9''), (CHR ''-'', CHR ''-''),
     (CHR ''_'', CHR ''_''), (CHR ''.'', CHR ''.''), (CHR ''!'', CHR ''!''), (CHR ''~'', CHR ''~''), (CHR ''*'', CHR ''*'')]"

definition id_ranges :: "(char \<times> char) list" where
  "id_ranges = name_ranges @ [(CHR 0x27, CHR 0x27)]"

definition name_cls :: re where
  "name_cls = Cls False name_ranges"

definition namespace_re :: re where
  "namespace_re = Grp 2 (Star (Grp 3 (Cat (Plus name_cls) (lit [slash]))))"

definition model_re :: re where
  "model_re = Opt (Grp 4 (Plus name_cls))"

definition ids_re :: re where
  "ids_re = Opt (Grp 5 (Cat (lit '':'') (Star (Grp 6 (Cat (Star (Cls False id_ranges)) (lit '':''))))))"

definition action_re :: re where
  "action_re = Opt (Grp 7 (Cat (lit ''('') (Cat (Plus name_cls) (lit '')''))))"

definition uri_re :: "string \<Rightarrow> re" where
  "uri_re root_path = Cat Bol (Cat (Grp 1 (Alt (lit root_path) (lit [slash])))
     (Cat namespace_re (Cat model_re (Cat ids_re (Cat action_re Eol)))))"

section \<open>Operations\<close>

definition uri_init :: "string \<Rightarrow> unit res" where
  "uri_init root_path =
     (if root_path = [] then Inl IndexError
      else if last root_path \<noteq> slash \<or> hd root_path \<noteq> slash then Inl ValueError
      else Inr ())"

type_synonym uri_parts = "string list \<times> string option \<times> string option \<times> string list option \<times> bool"

definition colon :: char where
  "colon = CHR '':''"

definition ids_of :: "string \<Rightarrow> string list" where
  "ids_of rec_id = split_chr colon (strip_chr colon rec_id)"

definition namespaces_of :: "string \<Rightarrow> string list" where
  "namespaces_of ns = (if ns \<noteq> [] then split_chr slash (rstrip_chr slash ns) else [])"

text \<open>\<open>action[ 1:-1 ]\<close>.\<close>

definition inner :: "string \<Rightarrow> string" where
  "inner s = butlast (tl s)"

definition uri_split :: "string \<Rightarrow> string \<Rightarrow> bool \<Rightarrow> uri_parts res" where
  "uri_split root_path uri root_optional =
     (case re_match (uri_re root_path) uri of
        None \<Rightarrow> Inl ValueError
      | Some c \<Rightarrow>
          if map_of c 1 \<noteq> Some root_path \<and> \<not> root_optional then Inl ValueError
          else
            let id_list = map_option ids_of (map_of c 5) in
            Inr (case map_of c 2 of None \<Rightarrow> [] | Some ns \<Rightarrow> namespaces_of ns,
                 map_of c 4,
                 map_option inner (map_of c 7),
                 id_list,
                 case id_list of None \<Rightarrow> False | Some ids \<Rightarrow> length ids > 1))"

text \<open>\<open>namespace\<close> and \<open>id_list\<close> are given as lists here; a single string is the list of it.\<close>

definition uri_build :: "string \<Rightarrow> string list option \<Rightarrow> string option \<Rightarrow> string option \<Rightarrow> string list option \<Rightarrow> bool \<Rightarrow> string" where
  "uri_build root_path namespace model action id_list in_root =
     (let r0 = (if in_root then root_path else [slash]);
          r1 = (case namespace of
              None \<Rightarrow> r0
            | Some ns \<Rightarrow> if length ns > 0 then r0 @ join [slash] ns @ [slash] else r0) in
      case model of
        None \<Rightarrow> r1
      | Some m \<Rightarrow>
          let r2 = r1 @ m;
              r3 = (case id_list of
                  None \<Rightarrow> r2
                | Some ids \<Rightarrow> if ids \<noteq> [] then r2 @ '':'' @ join '':'' ids @ '':'' else r2) in
          (case action of None \<Rightarrow> r3 | Some a \<Rightarrow> r3 @ ''('' @ a @ '')''))"

definition ids_in :: "string \<Rightarrow> string \<Rightarrow> string list res" where
  "ids_in root_path uri =
     (case re_match (uri_re root_path) uri of
        None \<Rightarrow> Inl ValueError
      | Some c \<Rightarrow> (case map_of c 5 of None \<Rightarrow> Inl ValueError | Some rec_id \<Rightarrow> Inr (ids_of rec_id)))"

definition extractIds :: "string \<Rightarrow> string list \<Rightarrow> string list res" where
  "extractIds root_path uri_list = rbnd (collect uri_list (ids_in root_path)) (\<lambda>l. Inr (concat l))"

section \<open>doccstring_prep\<close>

text \<open>\<open>str.expandtabs\<close> with the column of the next character.\<close>

fun expandtabs :: "nat \<Rightarrow> string \<Rightarrow> string" where
  "expandtabs col [] = []"
| "expandtabs col (c # cs) =
     (if c = CHR 0x09 then replicate (8 - col mod 8) CHR '' '' @ expandtabs 0 cs
      else if c = CHR 0x0A \<or> c = CHR 0x0D then c # expandtabs 0 cs
      else c # expandtabs (Suc col) cs)"

fun min_indent :: "nat option \<Rightarrow> string list \<Rightarrow> nat option" where
  "min_indent i [] = i"
| "min_indent i (line # ls) =
     (let stripped = lstrip line in
      if stripped = [] then min_indent i ls
      else let k = length line - length stripped in
        min_indent (Some (case i of None \<Rightarrow> k | Some j \<Rightarrow> min j k)) ls)"

definition trim_blank :: "string list \<Rightarrow> string list" where
  "trim_blank ls = dropWhile (\<lambda>l. l = []) (rev (dropWhile (\<lambda>l. l = []) (rev ls)))"

text \<open>\<open>indent\<close> is \<open>None\<close> where the code has \<open>sys.maxsize\<close>.\<close>

definition doccstring_prep :: "string \<Rightarrow> string res" where
  "doccstring_prep docstring =
     (if docstring = [] then Inr []
      else (case splitlines (expandtabs 0 docstring) of
          [] \<Rightarrow> Inl IndexError
        | l # ls \<Rightarrow>
            Inr (join nl (trim_blank (strip l # (case min_indent None ls of
                None \<Rightarrow> [] | Some i \<Rightarrow> map (\<lambda>line. rstrip (drop i line)) ls))))))"

section \<open>How the pattern matches\<close>

definition name_ok :: "string \<Rightarrow> bool" where
  "name_ok s = (s \<noteq> [] \<and> list_all (in_cls False name_ranges) s)"

definition id_ok :: "string \<Rightarrow> bool" where
  "id_ok s = (s \<noteq> [] \<and> list_all (in_cls False id_ranges) s)"

definition root_ok :: "string \<Rightarrow> bool" where
  "root_ok r = (uri_init r = Inr ())"

lemma name_cls_special [simp]:
  "\<not> in_cls False name_ranges slash" "\<not> in_cls False name_ranges colon"
  "\<not> in_cls False name_ranges CHR ''(''" "\<not> in_cls False name_ranges CHR '')''"
  "\<not> in_cls False id_ranges colon" "\<not> in_cls False id_ranges CHR ''(''"
  by code_simp+

lemma id_cls_colon [simp]: "\<not> in_cls False id_ranges CHR '':''"
  by (fact name_cls_special(5)[unfolded colon_def])

text \<open>Every way a greedy run over a class can end leaves a suffix of the run before the rest.\<close>

lemma re_run_Star_Cls:
  "(t, c') \<in> set (re_run n (Star (Cls neg rs)) (w @ s) c) \<Longrightarrow> list_all (in_cls neg rs) w \<Longrightarrow>
     stops (in_cls neg rs) s \<Longrightarrow> \<exists>u v. w = v @ u \<and> t = u @ s"
proof (induction w)
  case Nil
  then have "re_run n (Cls neg rs) s c = []" by (auto simp: stops_def split: list.splits)
  with Nil show ?case by (simp add: re_run_Star_stop)
next
  case (Cons x w)
  then have "(t, c') \<in> set (re_run n (Star (Cls neg rs)) (w @ s) c) \<or> t = x # w @ s"
    by (auto simp: re_run_Star_Cls_Cons)
  then show ?case
  proof
    assume "(t, c') \<in> set (re_run n (Star (Cls neg rs)) (w @ s) c)"
    with Cons obtain u v where "w = v @ u" "t = u @ s" by auto
    then show ?thesis by (intro exI[of _ u] exI[of _ "x # v"]) simp
  qed auto
qed

lemma first_None_iff: "first n r s c = None \<longleftrightarrow> re_run n r s c = []"
  by (cases "re_run n r s c") (auto simp: first_def)

text \<open>A run over a class followed by a character outside it fails when the character is not there.\<close>

lemma first_Star_Cls_then_None:
  assumes "list_all (in_cls neg rs) w" and "stops (in_cls neg rs) s" and "\<not> in_cls neg rs x"
    and "s = [] \<or> hd s \<noteq> x"
  shows "first n (Cat (Star (Cls neg rs)) (lit [x])) (w @ s) c = None"
proof -
  have "re_run n (lit [x]) t c' = []" if a: "(t, c') \<in> set (re_run n (Star (Cls neg rs)) (w @ s) c)" for t c'
  proof -
    obtain u v where u: "w = v @ u" "t = u @ s" using re_run_Star_Cls[OF a assms(1,2)] by blast
    have "t = [] \<or> hd t \<noteq> x"
      using assms u by (cases u) auto
    then show ?thesis by (cases t) (auto simp: re_run_lit startswith_def)
  qed
  then show ?thesis by (auto simp: first_None_iff)
qed

lemma first_Plus_Cls_then_None:
  assumes "list_all (in_cls neg rs) w" and "stops (in_cls neg rs) s" and "\<not> in_cls neg rs x"
    and "s = [] \<or> hd s \<noteq> x"
  shows "first n (Cat (Plus (Cls neg rs)) (lit [x])) (w @ s) c = None"
proof (cases w)
  case Nil
  then show ?thesis using first_Plus_Cls_None[OF assms(2)] by (simp add: first_Cat_None)
next
  case (Cons y v)
  have "first n (Cat (Star (Cls neg rs)) (lit [x])) (v @ s) c = None"
    using assms Cons by (intro first_Star_Cls_then_None) auto
  then show ?thesis
    using assms(1) Cons by (simp add: Plus_def first_None_iff)
qed

section \<open>Matching what was built\<close>

text \<open>Two capture tables that agree but for the groups that nothing reads.\<close>

definition agree :: "caps \<Rightarrow> caps \<Rightarrow> bool" where
  "agree c d = (\<forall>j. j \<noteq> 3 \<and> j \<noteq> 6 \<longrightarrow> map_of c j = map_of d j)"

lemma agree_refl [simp]: "agree c c"
  by (simp add: agree_def)

lemma agree_dset36 [simp]: "agree c (dset 3 x d) = agree c d" "agree c (dset 6 x d) = agree c d"
  by (auto simp: agree_def)

definition ends_name :: "string \<Rightarrow> bool" where
  "ends_name u = (u = [] \<or> hd u = colon \<or> hd u = CHR ''('')"

lemma ends_name_stops: "ends_name u \<Longrightarrow> stops (in_cls False name_ranges) u"
  by (auto simp: ends_name_def stops_def)

lemma ends_name_not_slash: "ends_name u \<Longrightarrow> u = [] \<or> hd u \<noteq> slash"
  by (auto simp: ends_name_def slash_def colon_def)

definition ns_text :: "string list \<Rightarrow> string" where
  "ns_text ns = concat (map (\<lambda>x. x @ [slash]) ns)"

lemma ns_text_simps [simp]: "ns_text [] = []" "ns_text (x # ns) = x @ slash # ns_text ns"
  by (simp_all add: ns_text_def)

lemma first_name: "name_ok x \<Longrightarrow> stops (in_cls False name_ranges) s \<Longrightarrow>
    first n (Plus name_cls) (x @ s) c = Some (s, c)"
  unfolding name_cls_def by (rule first_Plus_Cls) (auto simp: name_ok_def)

lemma first_namespaces:
  "list_all name_ok ns \<Longrightarrow> name_ok m \<Longrightarrow> ends_name u \<Longrightarrow>
     \<exists>d. first n (Star (Grp 3 (Cat (Plus name_cls) (lit [slash])))) (ns_text ns @ m @ u) c = Some (m @ u, d) \<and> agree c d"
proof (induction ns arbitrary: c)
  case Nil
  have "first n (Cat (Plus name_cls) (lit [slash])) (m @ u) c = None"
    unfolding name_cls_def using Nil
    by (intro first_Plus_Cls_then_None) (auto simp: name_ok_def ends_name_stops dest: ends_name_not_slash)
  then have "first n (Grp 3 (Cat (Plus name_cls) (lit [slash]))) (m @ u) c = None" by (simp add: first_Grp)
  then show ?case by (simp add: first_Star_stop)
next
  case (Cons x ns)
  let ?r = "Grp 3 (Cat (Plus name_cls) (lit [slash]))" and ?t = "ns_text ns @ m @ u"
  have "first n (Cat (Plus name_cls) (lit [slash])) (x @ slash # ?t) c = Some (?t, c)"
    using Cons.prems by (intro first_Cat[of n _ _ c "slash # ?t" c] first_name) (auto simp: stops_def first_lit startswith_def)
  then have "first n ?r (x @ slash # ?t) c =
      Some (?t, dset 3 (take (length (x @ slash # ?t) - length ?t) (x @ slash # ?t)) c)"
    by (simp add: first_Grp)
  moreover obtain d where "first n (Star ?r) ?t (dset 3 (take (length (x @ slash # ?t) - length ?t) (x @ slash # ?t)) c) = Some (m @ u, d)"
    "agree (dset 3 (take (length (x @ slash # ?t) - length ?t) (x @ slash # ?t)) c) d"
    using Cons.IH[of "dset 3 (take (length (x @ slash # ?t) - length ?t) (x @ slash # ?t)) c"] Cons.prems by auto
  ultimately have "first n (Star ?r) (x @ slash # ?t) c = Some (m @ u, d)" "agree c d"
    using first_Star_step[of n ?r "x @ slash # ?t" c ?t] by (auto simp: agree_def)
  then show ?case by auto
qed

text \<open>The record ids, \<open>:a:b:\<close>.\<close>

definition ids_text :: "string list \<Rightarrow> string" where
  "ids_text ids = concat (map (\<lambda>x. x @ [colon]) ids)"

lemma ids_text_simps [simp]: "ids_text [] = []" "ids_text (x # ids) = x @ colon # ids_text ids"
  by (simp_all add: ids_text_def)

definition ends_ids :: "string \<Rightarrow> bool" where
  "ends_ids u = (u = [] \<or> hd u = CHR ''('')"

lemma first_ids_star:
  "list_all id_ok ids \<Longrightarrow> ends_ids u \<Longrightarrow>
     \<exists>d. first n (Star (Grp 6 (Cat (Star (Cls False id_ranges)) (lit '':'')))) (ids_text ids @ u) c = Some (u, d) \<and> agree c d"
proof (induction ids arbitrary: c)
  case Nil
  then have "first n (Cat (Star (Cls False id_ranges)) (lit [colon])) ([] @ u) c = None"
    by (intro first_Star_Cls_then_None) (auto simp: ends_ids_def stops_def colon_def)
  then have "first n (Grp 6 (Cat (Star (Cls False id_ranges)) (lit '':''))) u c = None"
    by (simp add: first_Grp colon_def)
  then show ?case by (simp add: first_Star_stop)
next
  case (Cons x ids)
  let ?r = "Grp 6 (Cat (Star (Cls False id_ranges)) (lit '':''))" and ?t = "ids_text ids @ u"
  let ?d = "dset 6 (take (length (x @ colon # ?t) - length ?t) (x @ colon # ?t)) c"
  have "first n (Cat (Star (Cls False id_ranges)) (lit '':'')) (x @ colon # ?t) c = Some (?t, c)"
    using Cons.prems
    by (intro first_Cat[of n _ _ c "colon # ?t" c] first_Star_Cls)
      (auto simp: id_ok_def stops_def first_lit startswith_def colon_def)
  then have "first n ?r (x @ colon # ?t) c = Some (?t, ?d)" by (simp add: first_Grp)
  moreover obtain d where "first n (Star ?r) ?t ?d = Some (u, d)" "agree ?d d"
    using Cons.IH[of ?d] Cons.prems by auto
  ultimately have "first n (Star ?r) (x @ colon # ?t) c = Some (u, d)" "agree c d"
    using first_Star_step[of n ?r "x @ colon # ?t" c ?t] by (auto simp: agree_def)
  then show ?case by auto
qed

definition id_part :: "string list \<Rightarrow> string" where
  "id_part ids = (if ids = [] then [] else colon # ids_text ids)"

definition action_part :: "string option \<Rightarrow> string" where
  "action_part a = (case a of None \<Rightarrow> [] | Some x \<Rightarrow> ''('' @ x @ '')'')"

lemma first_ids_re:
  assumes "list_all id_ok ids" and "ends_ids u"
  shows "\<exists>d. first n ids_re (id_part ids @ u) c = Some (u, d)
     \<and> map_of d 5 = (if ids = [] then map_of c 5 else Some (id_part ids))
     \<and> (\<forall>j. j \<noteq> 3 \<and> j \<noteq> 5 \<and> j \<noteq> 6 \<longrightarrow> map_of d j = map_of c j)"
proof (cases "ids = []")
  case True
  have "first n (lit '':'') u c = None"
    using assms(2) by (cases u) (auto simp: first_lit startswith_def ends_ids_def)
  then have "first n ids_re u c = Some (u, c)"
    by (simp add: ids_re_def first_Opt first_Grp first_Cat_None)
  with True show ?thesis by (simp add: id_part_def)
next
  case False
  obtain d where d: "first n (Star (Grp 6 (Cat (Star (Cls False id_ranges)) (lit '':'')))) (ids_text ids @ u) c = Some (u, d)"
    "agree c d" using first_ids_star[OF assms] by blast
  have "first n (lit '':'') (colon # ids_text ids @ u) c = Some (ids_text ids @ u, c)"
    by (simp add: first_lit startswith_def colon_def)
  from first_Cat[OF this d(1)]
  have "first n (Grp 5 (Cat (lit '':'') (Star (Grp 6 (Cat (Star (Cls False id_ranges)) (lit '':'')))))) (id_part ids @ u) c =
      Some (u, dset 5 (id_part ids) d)"
    using False by (simp add: first_Grp id_part_def)
  with False d(2) show ?thesis
    by (intro exI[of _ "dset 5 (id_part ids) d"]) (auto simp: ids_re_def first_Opt agree_def)
qed

lemma first_action_re:
  assumes "\<forall>x. a = Some x \<longrightarrow> name_ok x"
  shows "first n action_re (action_part a) c =
     Some ([], case a of None \<Rightarrow> c | Some x \<Rightarrow> dset 7 (action_part a) c)"
proof (cases a)
  case None
  then show ?thesis
    by (simp add: action_part_def action_re_def first_Opt first_Grp first_Cat_None first_lit startswith_def)
next
  case (Some x)
  have p: "stops (in_cls False name_ranges) '')''" by (simp add: stops_def)
  have l: "first n (lit '')'') '')'' c = Some ([], c)" by (simp add: first_lit startswith_def)
  have "first n (Cat (Plus name_cls) (lit '')'')) (x @ '')'') c = Some ([], c)"
    using assms Some by (intro first_Cat[OF first_name[OF _ p] l]) simp
  then have "first n (Cat (lit ''('') (Cat (Plus name_cls) (lit '')''))) (''('' @ x @ '')'') c = Some ([], c)"
    by (intro first_Cat[OF first_lit_append]) simp
  with Some show ?thesis by (simp add: action_re_def first_Opt first_Grp action_part_def)
qed

text \<open>The whole URI.\<close>

definition uri_text :: "string \<Rightarrow> string list \<Rightarrow> string \<Rightarrow> string list \<Rightarrow> string option \<Rightarrow> string" where
  "uri_text root_path ns m ids a = root_path @ ns_text ns @ m @ id_part ids @ action_part a"

lemma uri_match_built:
  assumes "list_all name_ok ns" and "name_ok m" and "list_all id_ok ids" and "\<forall>x. a = Some x \<longrightarrow> name_ok x"
  shows "\<exists>c. re_match (uri_re root_path) (uri_text root_path ns m ids a) = Some c
     \<and> map_of c 1 = Some root_path \<and> map_of c 2 = Some (ns_text ns) \<and> map_of c 4 = Some m
     \<and> map_of c 5 = (if ids = [] then None else Some (id_part ids))
     \<and> map_of c 7 = (case a of None \<Rightarrow> None | Some x \<Rightarrow> Some (action_part a))"
proof -
  let ?u = "uri_text root_path ns m ids a"
  let ?n = "length ?u"
  let ?t4 = "action_part a" and ?t3 = "id_part ids @ action_part a"
  have e: "ends_ids ?t4" by (auto simp: ends_ids_def action_part_def split: option.split)
  have en: "ends_name ?t3" using e by (auto simp: ends_name_def ends_ids_def id_part_def)
  let ?c1 = "dset 1 root_path []"
  have bol: "first ?n Bol ?u [] = Some (?u, [])" by (simp add: first_def)
  have "first ?n (Alt (lit root_path) (lit [slash])) ?u [] = Some (ns_text ns @ m @ ?t3, [])"
    by (simp add: first_Alt uri_text_def)
  then have rt: "first ?n (Grp 1 (Alt (lit root_path) (lit [slash]))) ?u [] = Some (ns_text ns @ m @ ?t3, ?c1)"
    by (simp add: first_Grp uri_text_def)
  obtain d where d: "first ?n (Star (Grp 3 (Cat (Plus name_cls) (lit [slash])))) (ns_text ns @ m @ ?t3) ?c1 = Some (m @ ?t3, d)"
    "agree ?c1 d" using first_namespaces[OF assms(1,2) en] by blast
  let ?c2 = "dset 2 (ns_text ns) d"
  have nsp: "first ?n namespace_re (ns_text ns @ m @ ?t3) ?c1 = Some (m @ ?t3, ?c2)"
    using d(1) by (simp add: namespace_re_def first_Grp)
  let ?c3 = "dset 4 m ?c2"
  have mo: "first ?n model_re (m @ ?t3) ?c2 = Some (?t3, ?c3)"
    using first_name[OF assms(2) ends_name_stops[OF en]] by (simp add: model_re_def first_Opt first_Grp)
  obtain c4 where i: "first ?n ids_re (id_part ids @ ?t4) ?c3 = Some (?t4, c4)"
    "map_of c4 5 = (if ids = [] then map_of ?c3 5 else Some (id_part ids))"
    "\<forall>j. j \<noteq> 3 \<and> j \<noteq> 5 \<and> j \<noteq> 6 \<longrightarrow> map_of c4 j = map_of ?c3 j"
    using first_ids_re[OF assms(3) e] by blast
  let ?c5 = "case a of None \<Rightarrow> c4 | Some x \<Rightarrow> dset 7 ?t4 c4"
  have ac: "first ?n (Cat action_re Eol) ?t4 c4 = Some ([], ?c5)"
    by (rule first_Cat[OF first_action_re[OF assms(4)]]) (simp add: first_def)
  have "first ?n (uri_re root_path) ?u [] = Some ([], ?c5)"
    unfolding uri_re_def
    by (rule first_Cat[OF bol first_Cat[OF rt first_Cat[OF nsp first_Cat[OF mo first_Cat[OF i(1) ac]]]]])
  then have "re_match (uri_re root_path) ?u = Some ?c5" by (simp add: re_match_first)
  moreover have "map_of d j = map_of ?c1 j" if "j \<noteq> 3" "j \<noteq> 6" for j
    using d(2) that by (simp add: agree_def)
  from this[of 5] this[of 7] this[of 1] have "map_of d 5 = None" "map_of d 7 = None" "map_of d 1 = Some root_path"
    by simp_all
  ultimately show ?thesis using i(2,3) by (auto split: option.split)
qed

section \<open>Building and splitting\<close>

lemma join_sep: "ws \<noteq> [] \<Longrightarrow> join sep ws @ sep = concat (map (\<lambda>x. x @ sep) ws)"
  by (induction sep ws rule: join.induct) auto

lemma uri_build_text:
  "uri_build root_path (Some ns) (Some m) a (Some ids) True = uri_text root_path ns m ids a"
  using join_sep[of ns "[slash]"] join_sep[of ids "'':''"]
  by (cases "ns = []"; cases "ids = []")
    (auto simp: uri_build_def uri_text_def ns_text_def id_part_def ids_text_def action_part_def colon_def Let_def
      split: option.split)

text \<open>A string that starts and ends with other characters is what is left when a character around it is
  stripped.\<close>

lemma rstrip_chr_end: "w \<noteq> [] \<Longrightarrow> last w \<noteq> c \<Longrightarrow> rstrip_chr c (w @ [c]) = w"
  by (cases w rule: rev_cases) (simp_all add: rstrip_chr_def rstrip_p_def)

lemma strip_chr_around: "w \<noteq> [] \<Longrightarrow> hd w \<noteq> c \<Longrightarrow> last w \<noteq> c \<Longrightarrow> strip_chr c (c # w @ [c]) = w"
  using rstrip_chr_end[of w c] by (cases w) (simp_all add: strip_chr_def rstrip_chr_def lstrip_p_def)

lemma join_ends:
  "ws \<noteq> [] \<Longrightarrow> \<forall>w \<in> set ws. w \<noteq> [] \<Longrightarrow> join sep ws \<noteq> [] \<and> hd (join sep ws) = hd (hd ws) \<and> last (join sep ws) = last (last ws)"
  by (induction sep ws rule: join.induct) (auto simp: hd_append)

lemma cls_no: "list_all (in_cls False rs) s \<Longrightarrow> \<not> in_cls False rs c \<Longrightarrow> c \<notin> set s"
  by (auto simp: list_all_iff)

lemma namespaces_of_text: "list_all name_ok ns \<Longrightarrow> namespaces_of (ns_text ns) = ns"
proof (cases "ns = []")
  case False
  assume ok: "list_all name_ok ns"
  have no: "\<forall>w \<in> set ns. w \<noteq> [] \<and> slash \<notin> set w"
    using ok cls_no[of name_ranges _ slash] by (auto simp: list_all_iff[of name_ok] name_ok_def)
  let ?j = "join [slash] ns"
  have t: "ns_text ns = ?j @ [slash]" using join_sep[OF False, of "[slash]"] by (simp add: ns_text_def)
  have "last ns \<in> set ns" using False by simp
  then have "last (last ns) \<noteq> slash" using no last_in_set[of "last ns"] by (metis)
  then have "rstrip_chr slash (?j @ [slash]) = ?j"
    using join_ends[OF False, of "[slash]"] no by (intro rstrip_chr_end) auto
  with t no False show ?thesis by (simp add: namespaces_of_def split_chr_join)
qed (simp add: namespaces_of_def)

lemma ids_of_part: "list_all id_ok ids \<Longrightarrow> ids \<noteq> [] \<Longrightarrow> ids_of (id_part ids) = ids"
proof -
  assume ok: "list_all id_ok ids" and ne: "ids \<noteq> []"
  have no: "\<forall>w \<in> set ids. w \<noteq> [] \<and> colon \<notin> set w"
    using ok cls_no[of id_ranges _ colon] by (auto simp: list_all_iff[of id_ok] id_ok_def)
  let ?j = "join [colon] ids"
  have t: "id_part ids = colon # ?j @ [colon]"
    using join_sep[OF ne, of "[colon]"] ne by (simp add: id_part_def ids_text_def)
  have "last (last ids) \<noteq> colon" "hd (hd ids) \<noteq> colon"
    using no ne last_in_set[of "last ids"] hd_in_set[of "hd ids"] by (metis last_in_set hd_in_set)+
  then have "strip_chr colon (colon # ?j @ [colon]) = ?j"
    using join_ends[OF ne, of "[colon]"] no by (intro strip_chr_around) auto
  with t no ne show ?thesis by (simp add: ids_of_def split_chr_join)
qed

lemma inner_action: "inner (''('' @ x @ '')'') = x"
  by (simp add: inner_def butlast_append)

text \<open>The parts of a request for a model, and when they can be written.\<close>

type_synonym uri_req = "string list \<times> string \<times> string option \<times> string list"

definition req_ok :: "uri_req \<Rightarrow> bool" where
  "req_ok = (\<lambda>(ns, m, a, ids). list_all name_ok ns \<and> name_ok m \<and> list_all id_ok ids \<and> (\<forall>x. a = Some x \<longrightarrow> name_ok x))"

definition req_uri :: "string \<Rightarrow> uri_req \<Rightarrow> string" where
  "req_uri root_path = (\<lambda>(ns, m, a, ids). uri_build root_path (Some ns) (Some m) a (Some ids) True)"

definition uri_req :: "string \<Rightarrow> string \<Rightarrow> uri_req option" where
  "uri_req root_path u = (case uri_split root_path u False of
       Inr (ns, Some m, a, ids, _) \<Rightarrow> Some (ns, m, a, case ids of None \<Rightarrow> [] | Some l \<Rightarrow> l)
     | _ \<Rightarrow> None)"

lemma uri_split_built:
  assumes "req_ok (ns, m, a, ids)"
  shows "uri_split root_path (req_uri root_path (ns, m, a, ids)) opt =
     Inr (ns, Some m, a, if ids = [] then None else Some ids, length ids > 1)"
proof -
  have ok: "list_all name_ok ns" "name_ok m" "list_all id_ok ids" "\<forall>x. a = Some x \<longrightarrow> name_ok x"
    using assms by (auto simp: req_ok_def)
  obtain c where c: "re_match (uri_re root_path) (uri_text root_path ns m ids a) = Some c"
    "map_of c 1 = Some root_path" "map_of c 2 = Some (ns_text ns)" "map_of c 4 = Some m"
    "map_of c 5 = (if ids = [] then None else Some (id_part ids))"
    "map_of c 7 = (case a of None \<Rightarrow> None | Some x \<Rightarrow> Some (action_part a))"
    using uri_match_built[OF ok] by blast
  then have "map_option inner (map_of c 7) = a"
    using inner_action by (auto simp: action_part_def split: option.split)
  with c namespaces_of_text[OF ok(1)] ids_of_part[OF ok(3)] show ?thesis
    by (auto simp: uri_split_def req_uri_def uri_build_text Let_def)
qed

interpretation uri_codec: codec "req_uri r" "uri_req r" req_ok for r
proof unfold_locales
  fix x assume "req_ok x"
  then show "uri_req r (req_uri r x) = Some x"
    by (cases x) (auto simp: uri_req_def uri_split_built)
qed

section \<open>Properties\<close>

text \<open>C30: \<open>URI.split\<close> gives back the namespaces, the model, the action and the record ids that
  \<open>URI.build\<close> was given, for all names and ids made of the characters that the protocol allows, so two
  different requests never have the same URI.\<close>

theorem uri_roundtrip:
  assumes "req_ok (ns, m, a, ids)"
  shows "uri_split root_path (uri_build root_path (Some ns) (Some m) a (Some ids) True) opt =
      Inr (ns, Some m, a, if ids = [] then None else Some ids, length ids > 1)
    \<and> (\<forall>ns' m' a' ids'. req_ok (ns', m', a', ids') \<and>
         uri_build root_path (Some ns) (Some m) a (Some ids) True = uri_build root_path (Some ns') (Some m') a' (Some ids') True
         \<longrightarrow> (ns, m, a, ids) = (ns', m', a', ids'))"
  using uri_split_built[OF assms, of root_path opt] uri_codec.enc_inj[OF assms, of _ root_path]
  by (auto simp: req_uri_def)

theorem uri_roundtrip_witness:
  "uri_build ''/api/v1/'' (Some [''Foreman'']) (Some ''BaseJob'') (Some ''postMessage'') (Some [''12'', ''7'']) True
     = ''/api/v1/Foreman/BaseJob:12:7:(postMessage)''
   \<and> uri_split ''/api/v1/'' ''/api/v1/Foreman/BaseJob:12:7:(postMessage)'' False
     = Inr ([''Foreman''], Some ''BaseJob'', Some ''postMessage'', Some [''12'', ''7''], True)"
proof -
  have b: "uri_build ''/api/v1/'' (Some [''Foreman'']) (Some ''BaseJob'') (Some ''postMessage'') (Some [''12'', ''7'']) True
     = ''/api/v1/Foreman/BaseJob:12:7:(postMessage)''" by code_simp
  have "name_ok ''Foreman''" "name_ok ''BaseJob''" "name_ok ''postMessage''" "id_ok ''12''" "id_ok ''7''" by code_simp+
  then have "req_ok ([''Foreman''], ''BaseJob'', Some ''postMessage'', [''12'', ''7''])" by (simp add: req_ok_def)
  from uri_roundtrip[OF this, of "''/api/v1/''" False] b show ?thesis by simp
qed

lemma extractIds_built:
  assumes "list_all (\<lambda>q. req_ok q \<and> snd (snd (snd q)) \<noteq> []) qs"
  shows "extractIds root_path (map (req_uri root_path) qs) = Inr (concat (map (\<lambda>q. snd (snd (snd q))) qs))"
proof -
  have one: "ids_in root_path (req_uri root_path (ns, m, a, ids)) = Inr ids"
    if r: "req_ok (ns, m, a, ids)" and i: "ids \<noteq> []" for ns m a ids
  proof -
    have ok: "list_all name_ok ns" "name_ok m" "list_all id_ok ids" "\<forall>x. a = Some x \<longrightarrow> name_ok x"
      using r by (auto simp: req_ok_def)
    obtain c where "re_match (uri_re root_path) (uri_text root_path ns m ids a) = Some c" "map_of c 5 = Some (id_part ids)"
      using uri_match_built[OF ok, of root_path] i by auto
    with ids_of_part[OF ok(3) i] show ?thesis by (simp add: ids_in_def req_uri_def uri_build_text)
  qed
  have "collect (map (req_uri root_path) qs) (ids_in root_path) = Inr (map (\<lambda>q. snd (snd (snd q))) qs)"
    using assms by (induction qs) (auto simp: one)
  then show ?thesis by (simp add: extractIds_def)
qed

text \<open>\<open>extractIds\<close> on URIs that were built with ids gives all their ids, in order and with repetitions.\<close>

theorem extract_ids_built:
  assumes "list_all (\<lambda>q. req_ok q \<and> snd (snd (snd q)) \<noteq> []) qs"
  shows "extractIds root_path (map (req_uri root_path) qs) = Inr (concat (map (\<lambda>q. snd (snd (snd q))) qs))"
  using assms by (rule extractIds_built)

theorem extract_ids_built_witness:
  "extractIds ''/'' [req_uri ''/'' ([], ''a'', None, [''1'', ''2'']), req_uri ''/'' ([], ''a'', None, [''1''])] = Inr [''1'', ''2'', ''1'']"
proof -
  have "name_ok ''a''" "id_ok ''1''" "id_ok ''2''" by code_simp+
  then have "list_all (\<lambda>q. req_ok q \<and> snd (snd (snd q)) \<noteq> []) [([], ''a'', None, [''1'', ''2'']), ([], ''a'', None, [''1''])]"
    by (simp add: req_ok_def)
  from extract_ids_built[OF this, of "''/''"] show ?thesis by simp
qed

text \<open>Whatever URI is split, a list of ids in the result is never empty, though the comment in the code
  gives the empty list a meaning of its own: \<open>:\<close> and \<open>::\<close> stand for one empty id.\<close>

theorem split_ids_never_empty:
  "uri_split root_path u opt \<noteq> Inr (ns, m, a, Some [], multi)
   \<and> uri_split ''/'' ''/a::'' False = Inr ([], Some ''a'', None, Some [[]], False)"
proof (rule conjI)
  show "uri_split root_path u opt \<noteq> Inr (ns, m, a, Some [], multi)"
    by (auto simp: uri_split_def Let_def ids_of_def split: option.splits if_splits)
qed code_simp

end
