(* ===== verification/Cinp_Client.thy ===== *)
theory Cinp_Client
  imports Cinp_Uri
begin

text \<open>
  The CInP client, \<open>contractor/cinp/client.py\<close>. The state \<open>cinp\<close> is the client object with the list of the
  requests it has sent; the server with the network before it is the parameter \<open>srv\<close>: what comes back
  for a request may depend on all requests before it. A response carries its text and the value that
  \<open>json.loads\<close> gives for it (\<open>None\<close> where that raises). Generators are modelled by the list of all they
  yield. Logging is left out.

  \<open>check_request_table\<close> is the contract of the check before a request; \<open>multi_ids_once\<close> says what
  \<open>getMulti\<close> asks for.
\<close>

section \<open>The transport\<close>

datatype payload = NoData | Json pyval | Stream string

type_synonym headers = "(string, string) dict"

record sent_request =
  rq_verb :: string
  rq_url :: string
  rq_data :: payload
  rq_headers :: headers
  rq_timeout :: int

datatype answer =
    AHttpError string
  | AUrlError bool string \<comment> \<open>is the reason a timeout?\<close>
  | ATimeout
  | ASocketError string
  | AResponse int string "pyval option" headers

type_synonym server = "sent_request list \<Rightarrow> sent_request \<Rightarrow> answer"

record cinp =
  ci_host :: string
  ci_root :: string
  ci_proxy :: string
  ci_headers :: "(string \<times> string) list"
  ci_log :: "sent_request list"
  ci_files :: "(string \<times> string) list"

definition agent_headers :: "(string \<times> string) list" where
  "agent_headers = [(''User-Agent'', ''python CInP client 0.17.0''), (''Accepts'', ''application/json''),
     (''Accept-Charset'', ''utf-8''), (''CInP-Version'', ''1.0'')]"

definition cinp_init :: "string \<Rightarrow> string \<Rightarrow> string \<Rightarrow> cinp res" where
  "cinp_init host root_path proxy =
     (if \<not> (startswith host ''http:'' \<or> startswith host ''https:'') then Inl ValueError
      else if last host = slash then Inl ValueError
      else rbnd (uri_init root_path) (\<lambda>_. Inr \<lparr>ci_host = host, ci_root = root_path, ci_proxy = proxy,
        ci_headers = agent_headers, ci_log = [], ci_files = []\<rparr>))"

section \<open>Checking a request\<close>

definition verbs :: "string list" where
  "verbs = [''GET'', ''LIST'', ''UPDATE'', ''CREATE'', ''DELETE'', ''CALL'', ''DESCRIBE'']"

definition quoted :: "string \<Rightarrow> string \<Rightarrow> string \<Rightarrow> string" where
  "quoted a v b = a @ ''\"'' @ v @ ''\"'' @ b"

definition is_dict :: "pyval \<Rightarrow> bool" where
  "is_dict v = (case v of PDict _ \<Rightarrow> True | _ \<Rightarrow> False)"

text \<open>\<open>str( e )\<close> of the two errors of \<open>URI.split\<close> is not told apart here.\<close>

definition checkRequest :: "string \<Rightarrow> string \<Rightarrow> string \<Rightarrow> pyval option \<Rightarrow> unit res" where
  "checkRequest root_path verb uri data =
     (if verb \<notin> set verbs then Inl (InvalidRequest (quoted ''Invalid Verb (HTTP Method) '' verb []))
      else if (case data of None \<Rightarrow> False | Some d \<Rightarrow> \<not> is_dict d) then Inl (InvalidRequest ''Data must be a dict'')
      else (case uri_split root_path uri False of
          Inl _ \<Rightarrow> Inl (InvalidRequest (quoted ''Unable to parse URI '' uri []))
        | Inr (_, model, action, ids0, _) \<Rightarrow>
            let id_list = (if ids0 = Some [] then None else ids0) in
            if action \<noteq> None \<and> verb \<notin> {''CALL'', ''DESCRIBE''} then
              Inl (InvalidRequest (quoted ''Invalid verb '' verb '' for request with action''))
            else if verb = ''CALL'' \<and> action = None then
              Inl (InvalidRequest (quoted ''Verb '' verb '' requires action''))
            else if id_list \<noteq> None \<and> verb \<notin> {''GET'', ''UPDATE'', ''DELETE'', ''CALL''} then
              Inl (InvalidRequest (quoted ''Invalid verb '' verb '' for request with id''))
            else if verb \<in> {''GET'', ''UPDATE'', ''DELETE''} \<and> id_list = None then
              Inl (InvalidRequest (quoted ''verb '' verb '' requires id''))
            else if data \<noteq> None \<and> verb \<notin> {''LIST'', ''UPDATE'', ''CREATE'', ''CALL''} then
              Inl (InvalidRequest (quoted ''Invalid verb '' verb '' for request with data''))
            else if verb \<in> {''UPDATE'', ''CREATE''} \<and> data = None then
              Inl (InvalidRequest (quoted ''Verb '' verb '' requires data''))
            else if verb \<in> {''GET'', ''LIST'', ''UPDATE'', ''CREATE'', ''DELETE'', ''CALL''} \<and> (model = None \<or> model = Some []) then
              Inl (InvalidRequest (quoted ''Verb '' verb '' requires model''))
            else Inr ()))"

section \<open>Sending a request\<close>

definition clip :: "string \<Rightarrow> string" where
  "clip s = take 200 s"

definition timeout_msg :: "int \<Rightarrow> string" where
  "timeout_msg t = ''Request Timeout after '' @ show_int t @ '' seconds''"

definition known_codes :: "int list" where
  "known_codes = [200, 201, 202, 400, 401, 403, 404, 500]"

text \<open>The text of a message value; one that is no text, number or constant is left empty.\<close>

definition msg_text :: "pyval \<Rightarrow> string" where
  "msg_text v = (case py_str v of Inl _ \<Rightarrow> [] | Inr t \<Rightarrow> t)"

definition bad_request :: "pyval \<Rightarrow> string \<Rightarrow> exc" where
  "bad_request data buff = InvalidRequest (case data of
       PDict d \<Rightarrow> (case map_of d ''message'' of None \<Rightarrow> clip buff | Some m \<Rightarrow> msg_text m)
     | _ \<Rightarrow> clip buff)"

definition server_error :: "pyval \<Rightarrow> string \<Rightarrow> exc" where
  "server_error data buff = ServerError (case data of
       PDict d \<Rightarrow> (case (map_of d ''message'', map_of d ''trace'') of
           (Some m, Some t) \<Rightarrow> quoted ''Server Error '' (msg_text m) (nl @ msg_text t)
         | (Some m, None) \<Rightarrow> quoted ''Server Error '' (msg_text m) []
         | (None, _) \<Rightarrow> msg_text data)
     | _ \<Rightarrow> quoted ''Server Error: '' (clip buff) [])"

definition wanted_headers :: "string list" where
  "wanted_headers = [''Position'', ''Count'', ''Total'', ''Type'', ''Multi-Object'', ''Object-Id'', ''verb'']"

text \<open>\<open>resp.headers[ item ]\<close> of an absent header is \<open>None\<close>, not an error.\<close>

type_synonym reply = "int \<times> pyval \<times> (string \<Rightarrow> string option)"

definition read_response :: "bool \<Rightarrow> int \<Rightarrow> string \<Rightarrow> pyval option \<Rightarrow> headers \<Rightarrow> reply res" where
  "read_response no_parse code text parsed hdrs =
     (if code \<notin> set known_codes then Inl (ResponseError (quoted ''HTTP code '' (show_int code) '' unhandled''))
      else if code = 401 then Inl InvalidSession
      else if code = 403 then Inl NotAuthorized
      else if code = 404 then Inl NotFound
      else
        let buff = strip text in
        if buff \<noteq> [] \<and> \<not> no_parse \<and> parsed = None \<and> code \<notin> {400, 500}
        then Inl (ResponseError (quoted ''Unable to parse response '' (clip buff) []))
        else
          let data = (if buff = [] then PNone else if no_parse then PStr buff
                      else (case parsed of None \<Rightarrow> PNone | Some v \<Rightarrow> v)) in
          if code = 400 then Inl (bad_request data buff)
          else if code = 500 then Inl (server_error data buff)
          else Inr (code, data, \<lambda>h. if h \<in> set wanted_headers then map_of hdrs h else None))"

definition send :: "server \<Rightarrow> sent_request \<Rightarrow> bool \<Rightarrow> ('a cinp_scheme, reply) py" where
  "send srv rq no_parse =
     bnd (gets (\<lambda>s. srv (ci_log s) rq)) (\<lambda>a.
     seq (modify (\<lambda>s. s\<lparr>ci_log := ci_log s @ [rq]\<rparr>))
     (lift (case a of
        AHttpError e \<Rightarrow> Inl (ResponseError (quoted ''HTTPError '' e []))
      | AUrlError True e \<Rightarrow> Inl (Timeout (timeout_msg (rq_timeout rq)))
      | AUrlError False e \<Rightarrow> Inl (ResponseError (quoted ''URLError '' e []))
      | ATimeout \<Rightarrow> Inl (Timeout (timeout_msg (rq_timeout rq)))
      | ASocketError e \<Rightarrow> Inl (ResponseError (quoted ''Socket Error '' e []))
      | AResponse code text parsed hdrs \<Rightarrow> read_response no_parse code text parsed hdrs)))"

definition payload_json :: "payload \<Rightarrow> pyval option" where
  "payload_json d = (case d of NoData \<Rightarrow> None | Json v \<Rightarrow> Some v | Stream x \<Rightarrow> Some PNone)"

definition request :: "server \<Rightarrow> string \<Rightarrow> string \<Rightarrow> payload \<Rightarrow> headers \<Rightarrow> int \<Rightarrow> bool \<Rightarrow> ('a cinp_scheme, reply) py" where
  "request srv verb uri data hdrs timeout no_parse =
     bnd (gets (\<lambda>s. (ci_host s, ci_root s, ci_headers s))) (\<lambda>(host, root_path, common).
     let rq = (\<lambda>v h. \<lparr>rq_verb = v, rq_url = host @ uri, rq_data = data, rq_headers = common @ h, rq_timeout = timeout\<rparr>) in
     if verb = ''UPLOAD'' then
       (case data of
          Stream x \<Rightarrow> send srv (rq ''POST'' (dset ''Content-Type'' ''application/octet-stream'' hdrs)) no_parse
        | _ \<Rightarrow> throw (InvalidRequest ''data must be an readable stream''))
     else if verb = ''RAWGET'' then send srv (rq ''GET'' hdrs) no_parse
     else seq (lift (checkRequest root_path verb uri (payload_json data)))
       (send srv (rq verb (dset ''Content-Type'' ''application/json;charset=utf-8'' hdrs)) no_parse))"

section \<open>The verbs\<close>

text \<open>Without an id the headers are removed.\<close>

definition setAuth :: "string \<Rightarrow> string \<Rightarrow> ('a cinp_scheme, unit) py" where
  "setAuth auth_id auth_token = modify (\<lambda>s.
     if auth_id = [] then s\<lparr>ci_headers := filter (\<lambda>(k, _). k \<notin> {''Auth-Id'', ''Auth-Token''}) (ci_headers s)\<rparr>
     else s\<lparr>ci_headers := ci_headers s @ [(''Auth-Id'', auth_id), (''Auth-Token'', auth_token)]\<rparr>)"

definition unexpected :: "int \<Rightarrow> string \<Rightarrow> exc" where
  "unexpected code what = ResponseError (quoted ''Unexpected HTTP Code '' (show_int code) ('' for '' @ what))"

definition expect :: "int \<Rightarrow> string \<Rightarrow> reply \<Rightarrow> ('s, pyval) py" where
  "expect want what = (\<lambda>(code, data, _). if code \<noteq> want then throw (unexpected code what) else ret data)"

definition multi_header :: "bool \<Rightarrow> headers" where
  "multi_header m = (if m then [(''Multi-Object'', ''True'')] else [])"

definition describe :: "server \<Rightarrow> string \<Rightarrow> int \<Rightarrow> ('a cinp_scheme, pyval) py" where
  "describe srv uri timeout = bnd (request srv ''DESCRIBE'' uri NoData [] timeout False) (expect 200 ''DESCRIBE'')"

record counts =
  cm_position :: int
  cm_count :: int
  cm_total :: int

text \<open>\<open>int( header_map[ item ] )\<close>: a text that is no number is skipped; \<open>None\<close> is a \<open>TypeError\<close>, which the
  code does not catch.\<close>

definition header_num :: "string option \<Rightarrow> int res" where
  "header_num h = (case h of None \<Rightarrow> Inl TypeError | Some t \<Rightarrow> Inr (case read_int t of None \<Rightarrow> 0 | Some i \<Rightarrow> i))"

definition read_counts :: "(string \<Rightarrow> string option) \<Rightarrow> counts res" where
  "read_counts h =
     rbnd (header_num (h ''Position'')) (\<lambda>p. rbnd (header_num (h ''Count'')) (\<lambda>c. rbnd (header_num (h ''Total'')) (\<lambda>t.
       Inr \<lparr>cm_position = p, cm_count = c, cm_total = t\<rparr>)))"

definition not_a :: "string \<Rightarrow> string \<Rightarrow> string \<Rightarrow> exc" where
  "not_a field ty what = ResponseError (''Response '' @ field @ '' must be a '' @ ty @ '' for '' @ what)"

definition cinp_list :: "server \<Rightarrow> string \<Rightarrow> string option \<Rightarrow> pyval option \<Rightarrow> int \<Rightarrow> int \<Rightarrow> int
    \<Rightarrow> ('a cinp_scheme, pyval list \<times> counts) py" where
  "cinp_list srv uri filter_name filter_value_map position cnt timeout =
     (let fvm = (case filter_value_map of None \<Rightarrow> PDict [] | Some v \<Rightarrow> v) in
      if \<not> is_dict fvm then throw (InvalidRequest ''list filter_value_map must be a dict'')
      else if position < 0 \<or> cnt < 0 then throw (InvalidRequest ''position and count must bot be int and greater than 0'')
      else
        let hdrs = [(''Position'', show_int position), (''Count'', show_int cnt)]
              @ (case filter_name of None \<Rightarrow> [] | Some f \<Rightarrow> [(''Filter'', f)]) in
        bnd (request srv ''LIST'' uri (Json fvm) hdrs timeout False) (\<lambda>(code, id_list, h).
          if code \<noteq> 200 then throw (unexpected code ''LIST'')
          else (case id_list of
              PList ids \<Rightarrow> bnd (lift (read_counts h)) (\<lambda>c. ret (ids, c))
            | _ \<Rightarrow> throw (not_a ''id_list'' ''list'' ''LIST''))))"

definition cinp_get :: "server \<Rightarrow> string \<Rightarrow> bool \<Rightarrow> int \<Rightarrow> ('a cinp_scheme, (string, pyval) dict) py" where
  "cinp_get srv uri multi timeout =
     bnd (request srv ''GET'' uri NoData (multi_header multi) timeout False) (\<lambda>r.
     bnd (expect 200 ''GET'' r) (\<lambda>d. case d of PDict v \<Rightarrow> ret v | _ \<Rightarrow> throw (not_a ''rec_values'' ''dict'' ''GET'')))"

text \<open>A missing \<open>Object-Id\<close> header is \<open>None\<close> here too.\<close>

definition create :: "server \<Rightarrow> string \<Rightarrow> pyval \<Rightarrow> int \<Rightarrow> ('a cinp_scheme, string option \<times> (string, pyval) dict) py" where
  "create srv uri vals timeout =
     (if \<not> is_dict vals then throw (InvalidRequest ''values must be a dict'')
      else bnd (request srv ''CREATE'' uri (Json vals) [] timeout False) (\<lambda>(code, d, h).
        if code \<noteq> 201 then throw (unexpected code ''CREATE'')
        else (case d of PDict v \<Rightarrow> ret (h ''Object-Id'', v) | _ \<Rightarrow> throw (not_a ''rec_values'' ''dict'' ''CREATE''))))"

definition update :: "server \<Rightarrow> string \<Rightarrow> pyval \<Rightarrow> bool \<Rightarrow> int \<Rightarrow> ('a cinp_scheme, (string, pyval) dict) py" where
  "update srv uri vals multi timeout =
     (if \<not> is_dict vals then throw (InvalidRequest ''values must be a dict'')
      else bnd (request srv ''UPDATE'' uri (Json vals) (multi_header multi) timeout False) (\<lambda>r.
        bnd (expect 200 ''UPDATE'' r) (\<lambda>d. case d of PDict v \<Rightarrow> ret v | _ \<Rightarrow> throw (not_a ''rec_values'' ''str'' ''UPDATE''))))"

definition delete :: "server \<Rightarrow> string \<Rightarrow> int \<Rightarrow> ('a cinp_scheme, bool) py" where
  "delete srv uri timeout =
     bnd (request srv ''DELETE'' uri NoData [] timeout False) (\<lambda>r. bnd (expect 200 ''DELETE'' r) (\<lambda>_. ret True))"

definition call :: "server \<Rightarrow> string \<Rightarrow> pyval \<Rightarrow> bool \<Rightarrow> int \<Rightarrow> ('a cinp_scheme, pyval) py" where
  "call srv uri args multi timeout =
     (if \<not> is_dict args then throw (InvalidRequest ''args must be a dict'')
      else bnd (request srv ''CALL'' uri (Json args) (multi_header multi) timeout False) (expect 200 ''CALL''))"

section \<open>Several records\<close>

text \<open>The chunks \<open>id_list[ pos: pos + chunk_size ]\<close>; a chunk size of 0 never gets on, which is no list.\<close>

function chunks :: "nat \<Rightarrow> 'b list \<Rightarrow> 'b list list" where
  "chunks k xs = (if xs = [] \<or> k = 0 then [] else take k xs # chunks k (drop k xs))"
  by pat_completeness auto
termination
  by (relation "measure (\<lambda>(k, xs). length xs)") auto

declare chunks.simps [simp del]

fun get_chunks :: "server \<Rightarrow> string list \<Rightarrow> string option \<Rightarrow> string list list
    \<Rightarrow> ('a cinp_scheme, (string \<times> pyval) list) py" where
  "get_chunks srv ns model [] = ret []"
| "get_chunks srv ns model (c # cs) =
     bnd (gets ci_root) (\<lambda>root_path.
     bnd (cinp_get srv (uri_build root_path (Some ns) model None (Some c) True) True 30) (\<lambda>d.
     bnd (get_chunks srv ns model cs) (\<lambda>rest. ret (d @ rest))))"

definition run_chunks :: "server \<Rightarrow> string list \<Rightarrow> string option \<Rightarrow> string list \<Rightarrow> nat
    \<Rightarrow> ('a cinp_scheme, (string \<times> pyval) list) py" where
  "run_chunks srv ns model ids chunk_size =
     (if ids \<noteq> [] \<and> chunk_size = 0 then throw OutOfFuel else get_chunks srv ns model (chunks chunk_size ids))"

definition getMulti :: "server \<Rightarrow> string \<Rightarrow> string list option \<Rightarrow> nat \<Rightarrow> ('a cinp_scheme, (string \<times> pyval) list) py" where
  "getMulti srv uri id_list chunk_size =
     bnd (gets ci_root) (\<lambda>root_path.
     bnd (lift (uri_split root_path uri False)) (\<lambda>(ns, model, _, ids, _).
       case (case id_list of None \<Rightarrow> ids | Some l \<Rightarrow> Some l) of
         None \<Rightarrow> throw TypeError
       | Some l \<Rightarrow> run_chunks srv ns model l chunk_size))"

text \<open>The same for a list of URIs: their ids together, the place of the first.\<close>

definition getMultiList :: "server \<Rightarrow> string list \<Rightarrow> nat \<Rightarrow> ('a cinp_scheme, (string \<times> pyval) list) py" where
  "getMultiList srv uris chunk_size =
     bnd (gets ci_root) (\<lambda>root_path.
     bnd (lift (collect uris (\<lambda>u. rbnd (uri_split root_path u False) (\<lambda>(_, _, _, ids, _).
            case ids of None \<Rightarrow> Inl TypeError | Some l \<Rightarrow> Inr l)))) (\<lambda>ids.
     case uris of
       [] \<Rightarrow> throw IndexError
     | u # _ \<Rightarrow> bnd (lift (uri_split root_path u False)) (\<lambda>(ns, model, _, _, _).
         run_chunks srv ns model (concat ids) chunk_size)))"

text \<open>The uris of a LIST answer must be text for \<open>extractIds\<close>.\<close>

definition list_ids :: "server \<Rightarrow> string \<Rightarrow> string option \<Rightarrow> pyval option \<Rightarrow> int \<Rightarrow> int
    \<Rightarrow> ('a cinp_scheme, string list \<times> counts) py" where
  "list_ids srv uri fname fvm pos cnt =
     bnd (cinp_list srv uri fname fvm pos cnt 30) (\<lambda>(l, c).
     bnd (gets ci_root) (\<lambda>root_path.
     bnd (lift (rbnd (collect l str_of) (extractIds root_path))) (\<lambda>ids. ret (ids, c))))"

text \<open>The \<open>while\<close> is left by the \<open>return\<close> of its first turn.\<close>

definition getFilteredObjects :: "server \<Rightarrow> string \<Rightarrow> string option \<Rightarrow> pyval option \<Rightarrow> int \<Rightarrow> nat
    \<Rightarrow> ('a cinp_scheme, (string \<times> pyval) list) py" where
  "getFilteredObjects srv uri fname fvm list_chunk get_chunk =
     bnd (list_ids srv uri fname fvm 0 list_chunk) (\<lambda>(ids, _). getMulti srv uri (Some ids) get_chunk)"

text \<open>The loop goes on while the server says that there is more; nothing else ends it.\<close>

fun uris_from :: "nat \<Rightarrow> server \<Rightarrow> string \<Rightarrow> string option \<Rightarrow> pyval option \<Rightarrow> int \<Rightarrow> int \<Rightarrow> int
    \<Rightarrow> ('a cinp_scheme, string list) py" where
  "uris_from 0 srv uri fname fvm list_chunk pos tot = throw OutOfFuel"
| "uris_from (Suc fuel) srv uri fname fvm list_chunk pos tot =
     (if pos < tot then
        bnd (list_ids srv uri fname fvm pos list_chunk) (\<lambda>(ids, c).
        bnd (uris_from fuel srv uri fname fvm list_chunk (cm_position c + cm_count c) (cm_total c)) (\<lambda>rest.
          ret (ids @ rest)))
      else ret [])"

definition getFilteredURIs :: "nat \<Rightarrow> server \<Rightarrow> string \<Rightarrow> string option \<Rightarrow> pyval option \<Rightarrow> int
    \<Rightarrow> ('a cinp_scheme, string list) py" where
  "getFilteredURIs fuel srv uri fname fvm list_chunk = uris_from fuel srv uri fname fvm list_chunk 0 1"

section \<open>Files\<close>

text \<open>\<open>getFile\<close> without a file object: the file is \<open>target_dir/model\<close>; without a model it is a temporary
  file, which closing removes again. \<open>tmp\<close> is the name that \<open>NamedTemporaryFile\<close> chooses.\<close>

definition get_file_answer :: "server \<Rightarrow> sent_request \<Rightarrow> ('a cinp_scheme, string) py" where
  "get_file_answer srv rq =
     bnd (gets (\<lambda>s. srv (ci_log s) rq)) (\<lambda>a.
     seq (modify (\<lambda>s. s\<lparr>ci_log := ci_log s @ [rq]\<rparr>))
     (lift (case a of
        AHttpError e \<Rightarrow> Inl (ResponseError (quoted ''HTTPError '' e []))
      | AUrlError True e \<Rightarrow> Inl (Timeout (timeout_msg (rq_timeout rq)))
      | AUrlError False e \<Rightarrow> Inl (ResponseError (quoted ''URLError '' e []))
      | ATimeout \<Rightarrow> Inl (OSError 110)
      | ASocketError e \<Rightarrow> Inl (OSError 5)
      | AResponse code text _ _ \<Rightarrow> if code \<noteq> 200 then Inl (unexpected code ''File Get'') else Inr text)))"

definition getFile :: "server \<Rightarrow> string \<Rightarrow> string \<Rightarrow> string \<Rightarrow> int \<Rightarrow> ('a cinp_scheme, string) py" where
  "getFile srv tmp uri target_dir timeout =
     (case uri_split [slash] uri False of
        Inl _ \<Rightarrow> throw (InvalidRequest (quoted ''Unable to parse URI '' uri []))
      | Inr (_, filename, _, _, _) \<Rightarrow>
          bnd (gets (\<lambda>s. \<lparr>rq_verb = ''GET'', rq_url = ci_host s @ uri, rq_data = NoData, rq_headers = ci_headers s, rq_timeout = timeout\<rparr>)) (\<lambda>rq.
          bnd (get_file_answer srv rq) (\<lambda>text.
            case filename of
              None \<Rightarrow> ret (os_join target_dir tmp)
            | Some f \<Rightarrow>
                let path = os_join target_dir f in
                seq (modify (\<lambda>s. s\<lparr>ci_files := ci_files s @ [(path, text)]\<rparr>)) (ret path))))"

definition uploadFile :: "server \<Rightarrow> string \<Rightarrow> string \<Rightarrow> string \<Rightarrow> string option \<Rightarrow> int \<Rightarrow> ('a cinp_scheme, pyval) py" where
  "uploadFile srv uri filepath content filename timeout =
     (case uri_split [slash] uri False of
        Inl _ \<Rightarrow> throw (InvalidRequest (quoted ''Unable to parse URI '' uri []))
      | Inr (ns, model, action, ids, _) \<Rightarrow>
          if action \<noteq> None \<or> ids \<noteq> None then
            throw (InvalidRequest (''file upload target can'' @ [CHR 0x27] @ ''t be an action nor have ids''))
          else
            let name = (case filename of None \<Rightarrow> os_basename filepath | Some f \<Rightarrow> f) in
            bnd (request srv ''UPLOAD'' (uri_build [slash] (Some ns) model None None True) (Stream content)
              [(''Content-Disposition'', quoted ''inline: filename='' name []), (''Content-Length'', show_nat (length content))]
              timeout False) (\<lambda>(code, data, _).
            if code \<noteq> 202 then throw (unexpected code ''File Upload'')
            else (case data of PDict d \<Rightarrow> lift (dindex d ''uri'') | _ \<Rightarrow> throw TypeError)))"

end
