(* ===== verification/Cinp_Props.thy ===== *)
theory Cinp_Props
  imports Cinp_Client
begin

text \<open>
  What the CInP client promises. \<open>check_request_table\<close> writes the chain of checks of
  \<open>_checkRequest\<close> as one table of the verbs; \<open>one_checked_request\<close> says that a verb sends one request,
  when the check passes, and changes nothing else; \<open>reply_only_on_success\<close> that only an answer
  with code 200, 201 or 202 becomes a value. \<open>multi_ids_once\<close> and \<open>paging_complete\<close> are the contracts of
  the two chunked readers, \<open>get_file_inside\<close> that of the download.
\<close>

section \<open>The check of a request\<close>

definition has_model :: "string option \<Rightarrow> bool" where
  "has_model m = (m \<noteq> None \<and> m \<noteq> Some [])"

text \<open>What a URI may name and whether data comes with it, for each verb.\<close>

fun verb_allows :: "string \<Rightarrow> string option \<Rightarrow> string option \<Rightarrow> string list option \<Rightarrow> bool \<Rightarrow> bool" where
  "verb_allows v m a ids data =
     (if v = ''GET'' \<or> v = ''DELETE'' then has_model m \<and> a = None \<and> ids \<noteq> None \<and> \<not> data
      else if v = ''UPDATE'' then has_model m \<and> a = None \<and> ids \<noteq> None \<and> data
      else if v = ''CREATE'' then has_model m \<and> a = None \<and> ids = None \<and> data
      else if v = ''LIST'' then has_model m \<and> a = None \<and> ids = None
      else if v = ''CALL'' then has_model m \<and> a \<noteq> None
      else v = ''DESCRIBE'' \<and> ids = None \<and> \<not> data)"

lemma split_ids_ne: "uri_split rt u opt = Inr (ns, m, a, ids, multi) \<Longrightarrow> ids \<noteq> Some []"
  by (auto simp: uri_split_def Let_def ids_of_def split: option.splits if_splits)

text \<open>C29: a request passes the check exactly when its URI lies under the root path, its data, if any, is a
  dictionary, and the verb's row of the table allows the model, action, ids and data; no earlier
  check of the chain hides a later one.\<close>

theorem check_request_table:
  "checkRequest rt v u data = Inr () \<longleftrightarrow>
     (case data of None \<Rightarrow> True | Some d \<Rightarrow> is_dict d) \<and>
     (case uri_split rt u False of Inl _ \<Rightarrow> False | Inr (_, m, a, ids, _) \<Rightarrow> verb_allows v m a ids (data \<noteq> None))"
proof (cases "uri_split rt u False")
  case (Inl e)
  then show ?thesis by (auto simp: checkRequest_def)
next
  case (Inr p)
  obtain ns m a ids multi where p: "p = (ns, m, a, ids, multi)" by (cases p) auto
  have n: "ids \<noteq> Some []" using split_ids_ne Inr p by blast
  have d: "(case data of None \<Rightarrow> False | Some d \<Rightarrow> \<not> is_dict d) = (\<not> (case data of None \<Rightarrow> True | Some d \<Rightarrow> is_dict d))"
    by (simp split: option.split)
  show ?thesis
    using n unfolding checkRequest_def Inr p d verbs_def
    by (cases "v \<in> {''GET'', ''LIST'', ''UPDATE'', ''CREATE'', ''DELETE'', ''CALL'', ''DESCRIBE''}")
      (auto simp: has_model_def Let_def)
qed

section \<open>Sending\<close>

lemma send_log: "send srv rq np s = (r, s') \<Longrightarrow> s' = s\<lparr>ci_log := ci_log s @ [rq]\<rparr>"
  by (auto simp: send_def py_simps)

lemma send_snd [simp]: "snd (send srv rq np s) = s\<lparr>ci_log := ci_log s @ [rq]\<rparr>"
  by (simp add: send_def py_simps)

lemma send_value:
  "send srv rq np s = (Inr (code, data, h), s') \<Longrightarrow>
     \<exists>text v hdrs. srv (ci_log s) rq = AResponse code text v hdrs \<and> code \<in> {200, 201, 202}"
  by (auto simp: send_def py_simps read_response_def known_codes_def Let_def split: answer.splits if_splits bool.splits)

definition checked_verb :: "string \<Rightarrow> bool" where
  "checked_verb v = (v \<noteq> ''UPLOAD'' \<and> v \<noteq> ''RAWGET'')"

definition json_type :: string where
  "json_type = ''application/json;charset=utf-8''"

definition request_of :: "'a cinp_scheme \<Rightarrow> string \<Rightarrow> string \<Rightarrow> payload \<Rightarrow> headers \<Rightarrow> int \<Rightarrow> sent_request" where
  "request_of s v u data hdrs timeout = \<lparr>rq_verb = v, rq_url = ci_host s @ u, rq_data = data,
     rq_headers = ci_headers s @ dset ''Content-Type'' json_type hdrs, rq_timeout = timeout\<rparr>"

lemma request_checked:
  "checked_verb v \<Longrightarrow> request srv v u data hdrs t np s =
     (case checkRequest (ci_root s) v u (payload_json data) of
        Inl e \<Rightarrow> (Inl e, s)
      | Inr _ \<Rightarrow> send srv (request_of s v u data hdrs t) np s)"
  by (auto simp: request_def checked_verb_def py_simps request_of_def json_type_def split: sum.splits)

text \<open>A request with a protocol verb is sent once when the check passes, with the host before the URI
  and the headers of the client, the authentication among them, before its own; when the check fails
  nothing is sent. Nothing but the log of requests changes, whatever the server answers.\<close>

theorem one_checked_request:
  assumes "checked_verb v"
  shows "snd (request srv v u data hdrs t np s) =
     (if checkRequest (ci_root s) v u (payload_json data) = Inr ()
      then s\<lparr>ci_log := ci_log s @ [request_of s v u data hdrs t]\<rparr> else s)"
proof (cases "checkRequest (ci_root s) v u (payload_json data)")
  case (Inr x)
  obtain r s' where "send srv (request_of s v u data hdrs t) np s = (r, s')" by (cases "send srv (request_of s v u data hdrs t) np s")
  with Inr send_log show ?thesis by (fastforce simp: request_checked[OF assms])
qed (simp add: request_checked[OF assms])

definition tiny :: cinp where
  "tiny = \<lparr>ci_host = ''http://c'', ci_root = ''/api/'', ci_proxy = [], ci_headers = [(''Auth-Id'', ''me'')], ci_log = [], ci_files = []\<rparr>"

theorem one_checked_request_witness:
  "ci_log (snd (request (\<lambda>_ _. ATimeout) ''GET'' ''/api/a:1:'' NoData [] 30 False tiny)) =
     [\<lparr>rq_verb = ''GET'', rq_url = ''http://c/api/a:1:'', rq_data = NoData,
       rq_headers = [(''Auth-Id'', ''me''), (''Content-Type'', json_type)], rq_timeout = 30\<rparr>]
   \<and> ci_log (snd (request (\<lambda>_ _. ATimeout) ''GET'' ''/api/a'' NoData [] 30 False tiny)) = []"
proof -
  have c: "checked_verb ''GET''" by code_simp
  have "checkRequest (ci_root tiny) ''GET'' ''/api/a:1:'' (payload_json NoData) = Inr ()"
    "checkRequest (ci_root tiny) ''GET'' ''/api/a'' (payload_json NoData) \<noteq> Inr ()" by code_simp+
  with one_checked_request[OF c, of "\<lambda>_ _. ATimeout" "''/api/a:1:''" NoData "[]" 30 False tiny]
    one_checked_request[OF c, of "\<lambda>_ _. ATimeout" "''/api/a''" NoData "[]" 30 False tiny]
  show ?thesis by (simp add: tiny_def request_of_def)
qed

definition answer_code :: "server \<Rightarrow> sent_request \<Rightarrow> 'a cinp_scheme \<Rightarrow> int option" where
  "answer_code srv rq s = (case srv (ci_log s) rq of AResponse code _ _ _ \<Rightarrow> Some code | _ \<Rightarrow> None)"

definition timed_out :: "answer \<Rightarrow> bool" where
  "timed_out a = (case a of ATimeout \<Rightarrow> True | AUrlError t _ \<Rightarrow> t | _ \<Rightarrow> False)"

lemmas send_unfold = send_def py_simps read_response_def known_codes_def answer_code_def Let_def bad_request_def
  server_error_def timed_out_def

text \<open>A reply is given to the caller only for the codes 200, 201 and 202, with the body as parsed
  (nothing for an empty body); each of the codes 401, 403, 404, 400 and 500 has an exception of its own, raised for
  that code and no other, and \<open>Timeout\<close> stands for a timeout of the network and nothing else.\<close>

theorem reply_only_on_success:
  "(fst (send srv rq False s) = Inr (code, data, h) \<longleftrightarrow>
     (\<exists>text v hdrs. srv (ci_log s) rq = AResponse code text v hdrs \<and> code \<in> {200, 201, 202} \<and>
        (if strip text = [] then data = PNone else v = Some data) \<and>
        h = (\<lambda>k. if k \<in> set wanted_headers then map_of hdrs k else None)))
   \<and> (fst (send srv rq False s) = Inl InvalidSession \<longleftrightarrow> answer_code srv rq s = Some 401)
   \<and> (fst (send srv rq False s) = Inl NotAuthorized \<longleftrightarrow> answer_code srv rq s = Some 403)
   \<and> (fst (send srv rq False s) = Inl NotFound \<longleftrightarrow> answer_code srv rq s = Some 404)
   \<and> ((\<exists>m. fst (send srv rq False s) = Inl (InvalidRequest m)) \<longleftrightarrow> answer_code srv rq s = Some 400)
   \<and> ((\<exists>m. fst (send srv rq False s) = Inl (ServerError m)) \<longleftrightarrow> answer_code srv rq s = Some 500)
   \<and> ((\<exists>m. fst (send srv rq False s) = Inl (Timeout m)) \<longleftrightarrow> timed_out (srv (ci_log s) rq))"
proof (cases "srv (ci_log s) rq")
  case (AResponse c body v hdrs)
  show ?thesis
    by (cases "strip body = []"; cases v; intro conjI) (auto simp: send_unfold AResponse split: if_splits)
next
  case (AUrlError t e)
  then show ?thesis by (cases t) (simp_all add: send_unfold)
qed (simp_all add: send_unfold)

section \<open>Reading many records\<close>

lemma chunks_concat: "k > 0 \<Longrightarrow> concat (chunks k xs) = xs"
proof (induction k xs rule: chunks.induct)
  case (1 k xs)
  then show ?case by (subst chunks.simps) auto
qed

lemma chunks_size: "c \<in> set (chunks k xs) \<Longrightarrow> c \<noteq> [] \<and> length c \<le> k \<and> set c \<subseteq> set xs"
proof (induction k xs rule: chunks.induct)
  case (1 k xs)
  from 1(2) have k: "xs \<noteq> []" "k \<noteq> 0" and "c = take k xs \<or> c \<in> set (chunks k (drop k xs))"
    by (auto simp: chunks.simps[of k xs] split: if_splits)
  then show ?case using 1(1) set_take_subset[of k xs] set_drop_subset[of k xs] by auto
qed

lemma checkRequest_built:
  assumes "req_ok (ns, m, a, ids)"
  shows "checkRequest rt ''GET'' (req_uri rt (ns, m, None, ids)) None = Inr () \<longleftrightarrow> ids \<noteq> []"
    and "is_dict d \<Longrightarrow> checkRequest rt ''LIST'' (req_uri rt (ns, m, None, [])) (Some d) = Inr ()"
  using assms uri_split_built[of ns m None ids rt False] uri_split_built[of ns m None "[]" rt False]
  by (auto simp: checkRequest_def verbs_def req_ok_def name_ok_def)

abbreviation multi_mode :: headers where
  "multi_mode \<equiv> [(''Multi-Object'', ''True'')]"

text \<open>A server that answers every \<open>GET\<close> with the records \<open>recs\<close> of the request.\<close>

definition gives_records :: "server \<Rightarrow> (sent_request \<Rightarrow> (string, pyval) dict) \<Rightarrow> bool" where
  "gives_records srv recs = (\<forall>log rq. rq_verb rq = ''GET'' \<longrightarrow>
     (\<exists>body hdrs. strip body \<noteq> [] \<and> srv log rq = AResponse 200 body (Some (PDict (recs rq))) hdrs))"

definition multi_request :: "'a cinp_scheme \<Rightarrow> string list \<Rightarrow> string \<Rightarrow> string list \<Rightarrow> sent_request" where
  "multi_request s ns m c = request_of s ''GET'' (req_uri (ci_root s) (ns, m, None, c)) NoData multi_mode 30"

lemma multi_request_log [simp]: "multi_request (s\<lparr>ci_log := l\<rparr>) ns m c = multi_request s ns m c"
  by (simp add: multi_request_def request_of_def)

lemma send_records:
  assumes "gives_records srv recs" and "rq_verb rq = ''GET''"
  obtains h where "send srv rq False s = (Inr (200, PDict (recs rq), h), s\<lparr>ci_log := ci_log s @ [rq]\<rparr>)"
proof -
  obtain body hdrs where "strip body \<noteq> []" "srv (ci_log s) rq = AResponse 200 body (Some (PDict (recs rq))) hdrs"
    using assms unfolding gives_records_def by blast
  then show ?thesis by (intro that) (simp add: send_unfold)
qed

lemma cinp_get_records:
  assumes "gives_records srv recs" and "req_ok (ns, m, None, c)" and "c \<noteq> []"
  shows "cinp_get srv (req_uri (ci_root s) (ns, m, None, c)) True 30 s =
     (Inr (recs (multi_request s ns m c)), s\<lparr>ci_log := ci_log s @ [multi_request s ns m c]\<rparr>)"
proof -
  obtain h where h: "send srv (multi_request s ns m c) False s =
      (Inr (200, PDict (recs (multi_request s ns m c)), h), s\<lparr>ci_log := ci_log s @ [multi_request s ns m c]\<rparr>)"
    by (rule send_records[OF assms(1), of "multi_request s ns m c" s]) (simp_all add: multi_request_def request_of_def)
  have "checkRequest (ci_root s) ''GET'' (req_uri (ci_root s) (ns, m, None, c)) None = Inr ()"
    using checkRequest_built(1)[OF assms(2)] assms(3) by simp
  with h show ?thesis
    by (simp add: cinp_get_def bnd_apply request_checked checked_verb_def payload_json_def multi_header_def expect_def
        multi_request_def ret_apply)
qed

lemma get_chunks_records:
  assumes "gives_records srv recs"
  shows "\<forall>c \<in> set cs. req_ok (ns, m, None, c) \<and> c \<noteq> [] \<Longrightarrow>
    get_chunks srv ns (Some m) cs s =
      (Inr (concat (map (\<lambda>c. recs (multi_request s ns m c)) cs)), s\<lparr>ci_log := ci_log s @ map (multi_request s ns m) cs\<rparr>)"
proof (induction cs arbitrary: s)
  case (Cons c cs)
  have g: "cinp_get srv (uri_build (ci_root s) (Some ns) (Some m) None (Some c) True) True 30 s =
     (Inr (recs (multi_request s ns m c)), s\<lparr>ci_log := ci_log s @ [multi_request s ns m c]\<rparr>)"
    using cinp_get_records[OF assms, of ns m c s] Cons.prems by (simp add: req_uri_def)
  have "get_chunks srv ns (Some m) cs (s\<lparr>ci_log := ci_log s @ [multi_request s ns m c]\<rparr>) = (Inr (concat (map (\<lambda>c. recs (multi_request s ns m c)) cs)),
      s\<lparr>ci_log := ci_log s @ multi_request s ns m c # map (multi_request s ns m) cs\<rparr>)"
    using Cons.IH[of "s\<lparr>ci_log := ci_log s @ [multi_request s ns m c]\<rparr>"] Cons.prems by (simp cong: map_cong)
  with g show ?case by (simp add: py_simps)
qed (simp add: py_simps)

text \<open>C35: \<open>getMulti\<close> asks for the ids in pieces of at most \<open>chunk_size\<close>, each piece in one request, in order, every id
  once, and gives all records of the answers; the URI of a request splits back into the namespace, the
  model and the piece.\<close>

theorem multi_ids_once:
  assumes "gives_records srv recs" and "req_ok (ns, m, a, ids0)" and "list_all id_ok ids" and "k > 0"
  shows "concat (chunks k ids) = ids \<and> (\<forall>c \<in> set (chunks k ids). c \<noteq> [] \<and> length c \<le> k)
     \<and> getMulti srv (req_uri (ci_root s) (ns, m, a, ids0)) (Some ids) k s =
         (Inr (concat (map (\<lambda>c. recs (multi_request s ns m c)) (chunks k ids))), s\<lparr>ci_log := ci_log s @ map (multi_request s ns m) (chunks k ids)\<rparr>)
     \<and> (\<forall>c \<in> set (chunks k ids). rq_url (multi_request s ns m c) = ci_host s @ req_uri (ci_root s) (ns, m, None, c)
          \<and> uri_split (ci_root s) (req_uri (ci_root s) (ns, m, None, c)) False = Inr (ns, Some m, None, Some c, length c > 1))"
proof (intro conjI)
  let ?cs = "chunks k ids"
  show "concat ?cs = ids" using assms(4) by (rule chunks_concat)
  show "\<forall>c \<in> set ?cs. c \<noteq> [] \<and> length c \<le> k" using chunks_size by blast
  have ok: "\<forall>c \<in> set ?cs. req_ok (ns, m, None, c) \<and> c \<noteq> []"
    using assms(2,3) chunks_size[of _ k ids] by (fastforce simp: req_ok_def list_all_iff)
  then show "\<forall>c \<in> set ?cs. rq_url (multi_request s ns m c) = ci_host s @ req_uri (ci_root s) (ns, m, None, c)
          \<and> uri_split (ci_root s) (req_uri (ci_root s) (ns, m, None, c)) False = Inr (ns, Some m, None, Some c, length c > 1)"
    by (simp add: uri_split_built multi_request_def request_of_def)
  show "getMulti srv (req_uri (ci_root s) (ns, m, a, ids0)) (Some ids) k s =
         (Inr (concat (map (\<lambda>c. recs (multi_request s ns m c)) ?cs)), s\<lparr>ci_log := ci_log s @ map (multi_request s ns m) ?cs\<rparr>)"
    using get_chunks_records[OF assms(1) ok, of s] assms(4)
    by (simp add: getMulti_def run_chunks_def bnd_apply gets_apply lift_apply uri_split_built[OF assms(2)])
qed

theorem multi_ids_once_witness:
  "getMulti (\<lambda>_ rq. AResponse 200 ''r'' (Some (PDict [(rq_url rq, PNone)])) []) ''/api/a'' (Some [''1'', ''2'', ''3'']) 2 tiny =
     (Inr [(''http://c/api/a:1:2:'', PNone), (''http://c/api/a:3:'', PNone)],
      tiny\<lparr>ci_log := map (multi_request tiny [] ''a'') [[''1'', ''2''], [''3'']]\<rparr>)"
proof -
  let ?srv = "\<lambda>_ rq. AResponse 200 ''r'' (Some (PDict [(rq_url rq, PNone)])) []"
  have b: "strip ''r'' \<noteq> []" by code_simp
  have r: "gives_records ?srv (\<lambda>rq. [(rq_url rq, PNone)])"
    unfolding gives_records_def by (auto intro!: exI[of _ "''r''"] simp: b)
  have n: "name_ok ''a''" "list_all id_ok [''1'', ''2'', ''3'']" by code_simp+
  then have q: "req_ok ([], ''a'', None, [])" by (simp add: req_ok_def)
  have u: "req_uri ''/api/'' ([], ''a'', None, []) = ''/api/a''" by code_simp
  have c: "chunks 2 [''1'', ''2'', ''3''] = [[''1'', ''2''], [''3'']]" by code_simp
  have v: "rq_url (multi_request tiny [] ''a'' [''1'', ''2'']) = ''http://c/api/a:1:2:''"
    "rq_url (multi_request tiny [] ''a'' [''3'']) = ''http://c/api/a:3:''" by code_simp+
  from multi_ids_once[OF r q n(2), of 2 tiny] u c v show ?thesis by (simp add: tiny_def)
qed

section \<open>Reading in pages\<close>

text \<open>A server that gives the URIs \<open>us\<close> of a \<open>LIST\<close> in pages: what \<open>Position\<close> and \<open>Count\<close> ask for, with the place,
  the number given and the number of all.\<close>

definition page :: "int \<Rightarrow> int \<Rightarrow> string list \<Rightarrow> string list" where
  "page p k us = take (nat k) (drop (nat p) us)"

definition gives_pages :: "server \<Rightarrow> string list \<Rightarrow> bool" where
  "gives_pages srv us = (\<forall>log rq p k. rq_verb rq = ''LIST'' \<and> map_of (rq_headers rq) ''Position'' = Some (show_int p)
      \<and> map_of (rq_headers rq) ''Count'' = Some (show_int k) \<longrightarrow>
     (\<exists>body. strip body \<noteq> [] \<and> srv log rq = AResponse 200 body (Some (PList (map PStr (page p k us))))
        [(''Position'', show_int p), (''Count'', show_int (int (length (page p k us)))), (''Total'', show_int (int (length us)))]))"

definition list_request :: "'a cinp_scheme \<Rightarrow> string \<Rightarrow> int \<Rightarrow> int \<Rightarrow> sent_request" where
  "list_request s u p k = request_of s ''LIST'' u (Json (PDict [])) [(''Position'', show_int p), (''Count'', show_int k)] 30"

lemma list_request_log [simp]: "list_request (s\<lparr>ci_log := l\<rparr>) u p k = list_request s u p k"
  by (simp add: list_request_def request_of_def)

definition own_headers :: "'a cinp_scheme \<Rightarrow> bool" where
  "own_headers s = (''Position'' \<notin> fst ` set (ci_headers s) \<and> ''Count'' \<notin> fst ` set (ci_headers s))"

lemma collect_str_of: "collect (map PStr us) str_of = Inr us"
  by (induction us) (simp_all add: str_of_def)

definition ids_of_reqs :: "uri_req list \<Rightarrow> string list" where
  "ids_of_reqs qs = concat (map (\<lambda>q. snd (snd (snd q))) qs)"

lemma ids_of_reqs_append: "ids_of_reqs (xs @ ys) = ids_of_reqs xs @ ids_of_reqs ys"
  by (simp add: ids_of_reqs_def)

definition reqs_ok :: "uri_req list \<Rightarrow> bool" where
  "reqs_ok qs = list_all (\<lambda>q. req_ok q \<and> snd (snd (snd q)) \<noteq> []) qs"

lemma reqs_ok_page: "reqs_ok qs \<Longrightarrow> reqs_ok (take n (drop m qs))"
  by (auto simp: reqs_ok_def list_all_iff dest!: in_set_takeD in_set_dropD)

lemma list_ids_page:
  assumes srv: "gives_pages srv (map (req_uri (ci_root s)) qs)" and qs: "reqs_ok qs" and u: "req_ok (ns, m, None, [])"
    and own: "own_headers s" and p: "p \<ge> 0" "k \<ge> 0"
  shows "list_ids srv (req_uri (ci_root s) (ns, m, None, [])) None None p k s =
     (Inr (ids_of_reqs (take (nat k) (drop (nat p) qs)),
        \<lparr>cm_position = p, cm_count = int (length (take (nat k) (drop (nat p) qs))), cm_total = int (length qs)\<rparr>),
      s\<lparr>ci_log := ci_log s @ [list_request s (req_uri (ci_root s) (ns, m, None, [])) p k]\<rparr>)"
proof -
  let ?u = "req_uri (ci_root s) (ns, m, None, [])" and ?us = "map (req_uri (ci_root s)) qs"
  let ?rq = "list_request s ?u p k" and ?pg = "take (nat k) (drop (nat p) qs)"
  have pg: "page p k ?us = map (req_uri (ci_root s)) ?pg" by (simp add: page_def take_map drop_map)
  have own': "map_of (ci_headers s) ''Position'' = None" "map_of (ci_headers s) ''Count'' = None"
    using own by (simp_all add: own_headers_def map_of_eq_None_iff)
  have hd: "rq_verb ?rq = ''LIST''" "map_of (rq_headers ?rq) ''Position'' = Some (show_int p)"
    "map_of (rq_headers ?rq) ''Count'' = Some (show_int k)"
    using own' by (simp_all add: list_request_def request_of_def map_add_def)
  then obtain body where b: "strip body \<noteq> []" "srv (ci_log s) ?rq = AResponse 200 body (Some (PList (map PStr (page p k ?us))))
        [(''Position'', show_int p), (''Count'', show_int (int (length (page p k ?us)))), (''Total'', show_int (int (length ?us)))]"
    using srv unfolding gives_pages_def by blast
  have c: "checkRequest (ci_root s) ''LIST'' ?u (Some (PDict [])) = Inr ()"
    using checkRequest_built(2)[OF u] by (simp add: is_dict_def)
  have snd: "send srv ?rq False s = (Inr (200, PList (map PStr (page p k ?us)), \<lambda>h. if h \<in> set wanted_headers then map_of
        [(''Position'', show_int p), (''Count'', show_int (int (length (page p k ?us)))), (''Total'', show_int (int (length qs)))] h else None),
      s\<lparr>ci_log := ci_log s @ [?rq]\<rparr>)"
    using b unfolding length_map[of "req_uri (ci_root s)" qs] by (simp add: send_unfold)
  have rc: "read_counts (\<lambda>h. if h \<in> set wanted_headers then map_of
        [(''Position'', show_int p), (''Count'', show_int (int (length (page p k ?us)))), (''Total'', show_int (int (length qs)))] h else None)
      = Inr \<lparr>cm_position = p, cm_count = int (length (page p k ?us)), cm_total = int (length qs)\<rparr>"
    by (simp add: read_counts_def header_num_def wanted_headers_def read_int_show_int)
  have "request srv ''LIST'' ?u (Json (PDict [])) [(''Position'', show_int p), (''Count'', show_int k)] 30 False s = send srv ?rq False s"
    using c by (simp add: request_checked checked_verb_def payload_json_def list_request_def)
  then have "cinp_list srv ?u None None p k 30 s =
      (Inr (map PStr (page p k ?us), \<lparr>cm_position = p, cm_count = int (length (page p k ?us)), cm_total = int (length qs)\<rparr>),
       s\<lparr>ci_log := ci_log s @ [?rq]\<rparr>)"
    using p by (simp add: cinp_list_def is_dict_def bnd_apply snd lift_apply ret_apply rc)
  moreover have "extractIds (ci_root s) (page p k ?us) = Inr (ids_of_reqs ?pg)"
    using reqs_ok_page[OF qs] unfolding pg ids_of_reqs_def by (intro extractIds_built) (simp add: reqs_ok_def)
  ultimately show ?thesis
    using collect_str_of[of "map (req_uri (ci_root s)) ?pg"]
    by (simp add: list_ids_def bnd_apply gets_apply lift_apply ret_apply pg)
qed

text \<open>The multiples of \<open>k\<close> from one on.\<close>

lemma multiples_step:
  assumes "p < n" and "k dvd p" and "k > 0"
  shows "filter (\<lambda>i. k dvd i) [p..<n] = p # filter (\<lambda>i. k dvd i) [p + min k (n - p)..<n]"
proof -
  have "\<not> k dvd i" if "p < i" "i < p + k" for i
  proof
    assume "k dvd i"
    from dvd_diff_nat[OF this assms(2)] that show False by (auto dest: dvd_imp_le)
  qed
  then have z: "filter (\<lambda>i. k dvd i) [Suc p..<p + min k (n - p)] = []"
    by (auto simp: filter_empty_conv)
  have "[p..<n] = p # [Suc p..<p + min k (n - p)] @ [p + min k (n - p)..<n]"
    using assms upt_add_eq_append[of "Suc p" "p + min k (n - p)" "n - (p + min k (n - p))"]
    by (simp add: upt_conv_Cons)
  with z assms(2) show ?thesis by simp
qed

lemma uris_from_pages:
  assumes u: "req_ok (ns, m, None, [])" and qs: "reqs_ok qs" and k: "k > 0"
  shows "gives_pages srv (map (req_uri (ci_root s)) qs) \<Longrightarrow> own_headers s \<Longrightarrow> k dvd p \<or> p = length qs \<Longrightarrow> p \<le> length qs
    \<Longrightarrow> length qs - p < fuel \<Longrightarrow>
    uris_from fuel srv (req_uri (ci_root s) (ns, m, None, [])) None None (int k) (int p) (int (length qs)) s =
      (Inr (ids_of_reqs (drop p qs)), s\<lparr>ci_log := ci_log s @
         map (\<lambda>i. list_request s (req_uri (ci_root s) (ns, m, None, [])) (int i) (int k)) (filter (\<lambda>i. k dvd i) [p..<length qs])\<rparr>)"
proof (induction fuel arbitrary: p s)
  case (Suc fuel)
  show ?case
  proof (cases "p < length qs")
    case True
    let ?u = "req_uri (ci_root s) (ns, m, None, [])" and ?pg = "take k (drop p qs)"
    let ?p' = "p + min k (length qs - p)"
    let ?s' = "s\<lparr>ci_log := ci_log s @ [list_request s ?u (int p) (int k)]\<rparr>"
    have dvd: "k dvd p" using Suc.prems(3) True by auto
    have "k dvd ?p' \<or> ?p' = length qs" using dvd by (auto simp: min_def)
    moreover have "?p' \<le> length qs" "length qs - ?p' < fuel" using k Suc.prems(5) True by (auto simp: min_def)
    ultimately have rest: "uris_from fuel srv ?u None None (int k) (int ?p') (int (length qs)) ?s' =
        (Inr (ids_of_reqs (drop ?p' qs)), s\<lparr>ci_log := ci_log s @ list_request s ?u (int p) (int k) #
           map (\<lambda>i. list_request s ?u (int i) (int k)) (filter (\<lambda>i. k dvd i) [?p'..<length qs])\<rparr>)"
      using Suc.IH[of ?s' ?p'] Suc.prems(1,2) by (simp add: own_headers_def)
    have pg: "list_ids srv ?u None None (int p) (int k) s = (Inr (ids_of_reqs ?pg,
        \<lparr>cm_position = int p, cm_count = int (min k (length qs - p)), cm_total = int (length qs)\<rparr>), ?s')"
      using list_ids_page[OF Suc.prems(1) qs u Suc.prems(2), of "int p" "int k"] by (simp add: min.commute)
    have "?pg @ drop ?p' qs = drop p qs"
      using append_take_drop_id[of k "drop p qs"] by (auto simp: min_def add.commute)
    then have "ids_of_reqs ?pg @ ids_of_reqs (drop ?p' qs) = ids_of_reqs (drop p qs)"
      by (simp flip: ids_of_reqs_append)
    moreover have "int p + int (min k (length qs - p)) = int ?p'" by simp
    ultimately show ?thesis
      using True rest pg multiples_step[OF True dvd k] by (simp add: bnd_apply ret_apply)
  next
    case False
    with Suc.prems(4) show ?thesis by (simp add: ret_apply ids_of_reqs_def)
  qed
qed simp

text \<open>C34: with a server that pages correctly, \<open>getFilteredURIs\<close> ends and yields the ids of all objects, in order and
  each once, after one \<open>LIST\<close> for every page (a single one when there is nothing to list).\<close>

theorem paging_complete:
  assumes "gives_pages srv (map (req_uri (ci_root s)) qs)" and "reqs_ok qs" and "req_ok (ns, m, None, [])"
    and "own_headers s" and "k > 0" and "fuel > Suc (length qs)"
  shows "getFilteredURIs fuel srv (req_uri (ci_root s) (ns, m, None, [])) None None (int k) s =
     (Inr (ids_of_reqs qs), s\<lparr>ci_log := ci_log s @
        map (\<lambda>i. list_request s (req_uri (ci_root s) (ns, m, None, [])) (int i) (int k))
          (if qs = [] then [0] else filter (\<lambda>i. k dvd i) [0..<length qs])\<rparr>)"
proof -
  let ?u = "req_uri (ci_root s) (ns, m, None, [])"
  obtain f where f: "fuel = Suc f" "length qs < f" using assms(6) by (cases fuel) auto
  let ?p' = "min k (length qs)"
  let ?s' = "s\<lparr>ci_log := ci_log s @ [list_request s ?u 0 (int k)]\<rparr>"
  have pg: "list_ids srv ?u None None 0 (int k) s = (Inr (ids_of_reqs (take k qs),
        \<lparr>cm_position = 0, cm_count = int (min k (length qs)), cm_total = int (length qs)\<rparr>), ?s')"
    using list_ids_page[OF assms(1-4), of 0 "int k"] by (simp add: min.commute)
  have "uris_from f srv ?u None None (int k) (int ?p') (int (length qs)) ?s' =
      (Inr (ids_of_reqs (drop ?p' qs)), s\<lparr>ci_log := ci_log s @ list_request s ?u 0 (int k) #
         map (\<lambda>i. list_request s ?u (int i) (int k)) (filter (\<lambda>i. k dvd i) [?p'..<length qs])\<rparr>)"
    using uris_from_pages[OF assms(3,2,5), of srv ?s' ?p' f] assms(1,4) f by (auto simp: own_headers_def min_def)
  moreover have "take k qs @ drop ?p' qs = qs" by (auto simp: min_def)
  then have "ids_of_reqs (take k qs) @ ids_of_reqs (drop ?p' qs) = ids_of_reqs qs"
    by (simp flip: ids_of_reqs_append)
  ultimately show ?thesis
    using pg f multiples_step[of 0 "length qs" k] assms(5)
    by (auto simp: getFilteredURIs_def bnd_apply ret_apply)
qed

definition three :: "uri_req list" where
  "three = [([], ''a'', None, [''1'']), ([], ''a'', None, [''2'']), ([], ''a'', None, [''3''])]"

definition header_int :: "sent_request \<Rightarrow> string \<Rightarrow> int" where
  "header_int rq h = (case map_of (rq_headers rq) h of None \<Rightarrow> 0 | Some t \<Rightarrow> (case read_int t of None \<Rightarrow> 0 | Some i \<Rightarrow> i))"

definition paging_server :: "string list \<Rightarrow> server" where
  "paging_server us old rq =
     (let p = header_int rq ''Position''; l = page p (header_int rq ''Count'') us in
      AResponse 200 ''[]'' (Some (PList (map PStr l)))
        [(''Position'', show_int p), (''Count'', show_int (int (length l))), (''Total'', show_int (int (length us)))])"

lemma paging_server_gives: "gives_pages (paging_server us) us"
proof -
  have "strip ''[]'' \<noteq> []" by code_simp
  then show ?thesis
    by (auto simp: gives_pages_def paging_server_def header_int_def read_int_show_int Let_def)
qed

theorem paging_complete_witness:
  "fst (getFilteredURIs 5 (paging_server (map (req_uri ''/api/'') three)) ''/api/a'' None None 2 tiny) = Inr [''1'', ''2'', ''3'']"
proof -
  have n: "name_ok ''a''" "id_ok ''1''" "id_ok ''2''" "id_ok ''3''" by code_simp+
  then have q: "req_ok ([], ''a'', None, [])" "reqs_ok three" by (simp_all add: req_ok_def reqs_ok_def three_def)
  have u: "req_uri ''/api/'' ([], ''a'', None, []) = ''/api/a''" by code_simp
  have o: "own_headers tiny" by (simp add: own_headers_def tiny_def)
  have r: "ci_root tiny = ''/api/''" by (simp add: tiny_def)
  have i: "ids_of_reqs three = [''1'', ''2'', ''3'']" "Suc (length three) < 5" by code_simp+
  have "gives_pages (paging_server (map (req_uri ''/api/'') three)) (map (req_uri (ci_root tiny)) three)"
    unfolding r by (rule paging_server_gives)
  from paging_complete[OF this q(2,1) o, of 2 5] u i show ?thesis by (simp add: r)
qed

text \<open>A server whose page is empty but which says that there is one object.\<close>

definition empty_page_server :: server where
  "empty_page_server old rq = AResponse 200 ''[]'' (Some (PList []))
     [(''Position'', ''0''), (''Count'', ''0''), (''Total'', ''1'')]"

lemma empty_page_list:
  assumes "ci_root s = ''/api/''"
  shows "list_ids empty_page_server ''/api/a'' None None 0 10 s =
     (Inr ([], \<lparr>cm_position = 0, cm_count = 0, cm_total = 1\<rparr>), s\<lparr>ci_log := ci_log s @ [list_request s ''/api/a'' 0 10]\<rparr>)"
proof -
  have c: "checkRequest ''/api/'' ''LIST'' ''/api/a'' (Some (PDict [])) = Inr ()" by code_simp
  have n: "strip ''[]'' \<noteq> []" "read_int ''0'' = Some 0" "read_int ''1'' = Some 1" by code_simp+
  have "extractIds ''/api/'' [] = Inr []" by (simp add: extractIds_def)
  then show ?thesis
    using assms c n
    by (simp add: list_ids_def cinp_list_def is_dict_def py_simps request_checked checked_verb_def payload_json_def
        send_unfold empty_page_server_def list_request_def read_counts_def header_num_def wanted_headers_def)
qed

text \<open>Nothing but the counts that the server gives ends the loop of \<open>getFilteredURIs\<close>: a server that says there is one
  object and gives none is asked again for ever.\<close>

theorem paging_may_not_end:
  "fst (getFilteredURIs fuel empty_page_server ''/api/a'' None None 10 tiny) = Inl OutOfFuel"
proof -
  have "ci_root s = ''/api/'' \<Longrightarrow> fst (uris_from fuel empty_page_server ''/api/a'' None None 10 0 1 s) = Inl OutOfFuel" for s :: cinp
  proof (induction fuel arbitrary: s)
    case (Suc fuel)
    from Suc.IH[of "s\<lparr>ci_log := ci_log s @ [list_request s ''/api/a'' 0 10]\<rparr>"] Suc.prems
    show ?case by (auto simp: bnd_apply empty_page_list split: prod.splits sum.splits)
  qed (simp add: throw_apply)
  then show ?thesis by (simp add: getFilteredURIs_def tiny_def)
qed

text \<open>How many \<open>LIST\<close> requests were sent.\<close>

definition lists_sent :: "'a cinp_scheme \<Rightarrow> nat" where
  "lists_sent s = length (filter (\<lambda>rq. rq_verb rq = ''LIST'') (ci_log s))"

lemma keeps_lists_request [keeps_intros]:
  "checked_verb v \<Longrightarrow> v \<noteq> ''LIST'' \<Longrightarrow> keeps lists_sent (request srv v u d h t np)"
  unfolding keeps_def
proof
  fix s :: "'a cinp_scheme"
  assume v: "checked_verb v" "v \<noteq> ''LIST''"
  show "lists_sent (snd (request srv v u d h t np s)) = lists_sent s"
    using v send_log[of srv "request_of s v u d h t" np s]
    by (cases "send srv (request_of s v u d h t) np s")
      (auto simp: request_checked lists_sent_def request_of_def split: sum.split)
qed

lemma keeps_lists_get [keeps_intros]: "keeps lists_sent (cinp_get srv u mm t)"
  unfolding cinp_get_def expect_def
  by (intro keeps_intros) (auto simp: checked_verb_def split: prod.splits pyval.splits intro!: keeps_intros)

lemma keeps_lists_chunks [keeps_intros]: "keeps lists_sent (get_chunks srv ns m cs)"
  by (induction cs) (auto intro!: keeps_intros)

lemma keeps_lists_multi [keeps_intros]: "keeps lists_sent (getMulti srv u ids k)"
  unfolding getMulti_def run_chunks_def
  by (auto split: prod.splits option.splits intro!: keeps_intros)

lemma list_ids_one: "lists_sent (snd (list_ids srv u f v p k s)) \<le> lists_sent s + 1"
proof -
  have "lists_sent (snd (request srv ''LIST'' u d h t False s)) \<le> lists_sent s + 1" for d h t
    using send_log[of srv "request_of s ''LIST'' u d h t" False s]
    by (cases "send srv (request_of s ''LIST'' u d h t) False s")
      (auto simp: request_checked checked_verb_def lists_sent_def request_of_def split: sum.split)
  then have "lists_sent (snd (cinp_list srv u f v p k 30 s)) \<le> lists_sent s + 1"
    unfolding cinp_list_def Let_def
    by (auto simp: throw_apply bnd_apply lift_apply ret_apply split: prod.splits sum.splits pyval.splits)
      (metis snd_conv)+
  then show ?thesis
    unfolding list_ids_def by (auto simp: py_simps split: prod.splits sum.splits)
qed

text \<open>\<open>getFilteredObjects\<close> sends one \<open>LIST\<close> at most and reads no more than the objects of that page; with three objects and a
  page of two the third is never read, though its loop is written to go on to the next page.\<close>

theorem filtered_objects_first_page:
  "lists_sent (snd (getFilteredObjects srv u f v k g s)) \<le> lists_sent s + 1
   \<and> fst (getFilteredObjects (\<lambda>old rq. if rq_verb rq = ''LIST'' then paging_server (map (req_uri ''/api/'') three) old rq
         else AResponse 200 ''r'' (Some (PDict [(rq_url rq, PNone)])) []) ''/api/a'' None None 2 10 tiny)
      = Inr [(''http://c/api/a:1:2:'', PNone)]"
proof (rule conjI)
  show "lists_sent (snd (getFilteredObjects srv u f v k g s)) \<le> lists_sent s + 1"
  proof (cases "list_ids srv u f v 0 k s")
    case (Pair r t)
    with list_ids_one[of srv u f v 0 k s] show ?thesis
      by (cases r) (auto simp: getFilteredObjects_def bnd_apply keeps_snd[OF keeps_lists_multi])
  qed
qed code_simp

section \<open>Downloads\<close>

text \<open>The model of a URI that was split is a name, so it holds no slash.\<close>

lemma re_run_Cat:
  "(s', c') \<in> set (re_run n (Cat a b) s c) \<longleftrightarrow> (\<exists>t d. (t, d) \<in> set (re_run n a s c) \<and> (s', c') \<in> set (re_run n b t d))"
  by auto

lemma re_run_OptE:
  assumes "(s', c') \<in> set (re_run n (Opt r) s c)"
  obtains "(s', c') \<in> set (re_run n r s c)" | "s' = s" "c' = c"
  using assms by auto

lemma uri_match_model:
  assumes "re_match (uri_re rt) u = Some c" and "map_of c 4 = Some m"
  shows "name_ok m"
proof -
  let ?n = "length u"
  have "\<exists>t. (t, c) \<in> set (re_run ?n (uri_re rt) u [])"
    using assms(1) unfolding re_match_first first_def by (cases "re_run ?n (uri_re rt) u []") auto
  then obtain t t2 c2 t3 c3 where
    ns: "(t2, c2) \<in> set (re_run ?n (Cat Bol (Cat (Grp 1 (Alt (lit rt) (lit [slash]))) namespace_re)) u [])"
    and mo: "(t3, c3) \<in> set (re_run ?n model_re t2 c2)"
    and tl: "(t, c) \<in> set (re_run ?n (Cat ids_re (Cat action_re Eol)) t3 c3)"
    unfolding uri_re_def re_run_Cat by fastforce
  have "map_of c2 4 = None"
    using re_run_keeps[OF ns, of 4] by (simp add: namespace_re_def name_cls_def Plus_def)
  moreover have "map_of c3 4 = Some m"
    using re_run_keeps[OF tl, of 4] assms(2) by (simp add: ids_re_def action_re_def name_cls_def Plus_def)
  ultimately obtain s' c' where r: "(s', c') \<in> set (re_run ?n (Plus name_cls) t2 c2)"
      "c3 = dset 4 (take (length t2 - length s') t2) c'"
    using mo unfolding model_re_def by (auto elim!: re_run_OptE)
  have m: "m = take (length t2 - length s') t2" using \<open>map_of c3 4 = Some m\<close> r(2) by simp
  obtain x v where x: "t2 = x # v" "in_cls False name_ranges x" "(s', c') \<in> set (re_run ?n (Star (Cls False name_ranges)) v c2)"
    using r(1) by (auto simp: Plus_def name_cls_def split: list.splits if_splits)
  then obtain w where "v = w @ s'" "list_all (in_cls False name_ranges) w" using Star_Cls_chars by blast
  with x m show ?thesis by (simp add: name_ok_def)
qed

text \<open>The file that a download writes lies in the target directory itself: its name is the model of the URI, a text of name
  characters without a slash; the file holds what the server sent for that one request, and nothing is written unless it
  answered 200.\<close>

theorem get_file_inside:
  "ci_files (snd (getFile srv tmp u dir t s)) = ci_files s \<or>
   (\<exists>f body v hdrs. ci_files (snd (getFile srv tmp u dir t s)) = ci_files s @ [(os_join dir f, body)]
     \<and> f \<noteq> [] \<and> slash \<notin> set f
     \<and> os_join dir f = (if dir = [] \<or> last dir = slash then dir else dir @ [slash]) @ f
     \<and> srv (ci_log s) \<lparr>rq_verb = ''GET'', rq_url = ci_host s @ u, rq_data = NoData, rq_headers = ci_headers s, rq_timeout = t\<rparr>
         = AResponse 200 body v hdrs)"
proof (cases "uri_split [slash] u False")
  case (Inl e)
  then show ?thesis by (simp add: getFile_def throw_apply)
next
  case (Inr p)
  obtain ns m a ids multi where p: "p = (ns, m, a, ids, multi)" by (cases p) auto
  let ?rq = "\<lparr>rq_verb = ''GET'', rq_url = ci_host s @ u, rq_data = NoData, rq_headers = ci_headers s, rq_timeout = t\<rparr>"
  have ok: "name_ok f" if "m = Some f" for f
    using Inr that uri_match_model[of "[slash]" u _ f] unfolding p
    by (auto simp: uri_split_def Let_def split: option.splits if_splits)
  have no: "slash \<notin> set f \<and> f \<noteq> []" if "m = Some f" for f
    using ok[OF that] cls_no[of name_ranges f slash] by (simp add: name_ok_def)
  have join: "os_join dir f = (if dir = [] \<or> last dir = slash then dir else dir @ [slash]) @ f" if "m = Some f" for f
    using no[OF that] by (cases f) (auto simp: os_join_def startswith_def)
  show ?thesis
  proof (cases "\<exists>f body v hdrs. m = Some f \<and> srv (ci_log s) ?rq = AResponse 200 body v hdrs")
    case True
    then obtain f body v hdrs where f: "m = Some f" "srv (ci_log s) ?rq = AResponse 200 body v hdrs" by blast
    then have "ci_files (snd (getFile srv tmp u dir t s)) = ci_files s @ [(os_join dir f, body)]"
      by (simp add: getFile_def Inr p py_simps get_file_answer_def Let_def)
    with f no[OF f(1)] join[OF f(1)] show ?thesis by blast
  next
    case False
    then have "ci_files (snd (getFile srv tmp u dir t s)) = ci_files s"
      by (cases m; cases "srv (ci_log s) ?rq") (auto simp: getFile_def Inr p py_simps get_file_answer_def Let_def split: bool.splits)
    then show ?thesis by simp
  qed
qed

end
