(* ===== verification/Contractor_Client.thy ===== *)
theory Contractor_Client
  imports Cinp_Props
begin

text \<open>
  The client of Contractor, \<open>contractor/client.py\<close>: the choice of the client by \<open>getClient\<close>, the retry loop
  of \<open>HTTPClient.request\<close> with the growing delays, the messages and signals to the job and the reading
  of the configuration. The state extends the one of the CInP client with the job, what was printed
  and how long was slept. \<open>random.random()\<close> is the parameter \<open>rnd\<close>: the number drawn before the n-th try.
  The files that the clients read come as what reading and parsing gives.
\<close>

section \<open>State\<close>

datatype client_kind = NoConfigClient | HTTPClient | LocalFileClient | StaticConfigClient

record contractor = cinp +
  ct_kind :: client_kind
  ct_config_uuid :: "string option"
  ct_config :: "(string, pyval) dict"
  ct_job_id :: "pyval option"
  ct_cookie :: "pyval option"
  ct_out :: "string list"
  ct_slept :: "int list"

text \<open>An attribute that was never assigned.\<close>

definition attr :: "('s \<Rightarrow> 'a option) \<Rightarrow> ('s, 'a) py" where
  "attr f = bnd (gets f) (\<lambda>v. case v of None \<Rightarrow> throw AttributeError | Some x \<Rightarrow> ret x)"

definition print :: "string \<Rightarrow> (contractor, unit) py" where
  "print line = modify (\<lambda>s. s\<lparr>ct_out := ct_out s @ [line]\<rparr>)"

section \<open>The delay before a try\<close>

definition DELAY_MULTIPLIER :: real where
  "DELAY_MULTIPLIER = 15"

definition delay_factor :: "int \<Rightarrow> int" where
  "delay_factor cnt = \<lfloor>DELAY_MULTIPLIER * ln (of_int (if cnt < 1 then 1 else cnt))\<rfloor>"

definition delay_of :: "int \<Rightarrow> real \<Rightarrow> int" where
  "delay_of cnt rnd = (let factor = delay_factor cnt in \<lfloor>of_int factor + rnd * of_int factor\<rfloor>)"

definition backOffDelay :: "(nat \<Rightarrow> real) \<Rightarrow> nat \<Rightarrow> (contractor, unit) py" where
  "backOffDelay rnd cnt = modify (\<lambda>s. s\<lparr>ct_slept := ct_slept s @ [delay_of (int cnt) (rnd cnt)]\<rparr>)"

section \<open>The retry loop\<close>

definition may_retry :: "exc \<Rightarrow> bool" where
  "may_retry e = (case e of ResponseError _ \<Rightarrow> True | Timeout _ \<Rightarrow> True | _ \<Rightarrow> False)"

fun retry_loop :: "nat \<Rightarrow> ('s, 'a) py \<Rightarrow> (nat \<Rightarrow> ('s, unit) py) \<Rightarrow> int \<Rightarrow> nat \<Rightarrow> ('s, 'a) py" where
  "retry_loop 0 attempt pause retry_count retry = throw OutOfFuel"
| "retry_loop (Suc fuel) attempt pause retry_count retry =
     catch attempt (\<lambda>e.
       if \<not> may_retry e \<or> (retry_count \<noteq> - 1 \<and> int retry \<ge> retry_count) then throw e
       else seq (pause (Suc retry)) (retry_loop fuel attempt pause retry_count (Suc retry)))"

text \<open>\<open>method\<close> with its arguments; the other strings give \<open>ValueError\<close>.\<close>

datatype http_method = RawGet | Call | Listing | Update | OtherMethod

definition list_value :: "pyval list \<times> counts \<Rightarrow> pyval" where
  "list_value = (\<lambda>(l, c). PList [PList l, PDict [(''position'', PInt (cm_position c)), (''count'', PInt (cm_count c)), (''total'', PInt (cm_total c))]])"

definition attempt :: "server \<Rightarrow> http_method \<Rightarrow> string \<Rightarrow> pyval option \<Rightarrow> string option \<Rightarrow> int \<Rightarrow> bool \<Rightarrow> (contractor, pyval) py" where
  "attempt srv mth uri data fltr timeout no_parse =
     (let args = (case data of None \<Rightarrow> PNone | Some v \<Rightarrow> v) in
      case mth of
        RawGet \<Rightarrow> bnd (request srv ''RAWGET'' uri NoData [] timeout no_parse) (\<lambda>(code, vals, _).
          if code \<noteq> 200 then throw (unexpected code ''GET'') else ret vals)
      | Call \<Rightarrow> call srv uri args False timeout
      | Listing \<Rightarrow> bnd (cinp_list srv uri fltr data 0 10 timeout) (\<lambda>r. ret (list_value r))
      | Update \<Rightarrow> bnd (update srv uri args False timeout) (\<lambda>d. ret (PDict d))
      | OtherMethod \<Rightarrow> throw ValueError)"

definition http_request :: "nat \<Rightarrow> server \<Rightarrow> (nat \<Rightarrow> real) \<Rightarrow> http_method \<Rightarrow> string \<Rightarrow> pyval option \<Rightarrow> string option
    \<Rightarrow> int \<Rightarrow> int \<Rightarrow> bool \<Rightarrow> (contractor, pyval) py" where
  "http_request fuel srv rnd mth uri data fltr timeout retry_count no_parse =
     retry_loop fuel (attempt srv mth uri data fltr timeout no_parse) (backOffDelay rnd) retry_count 0"

text \<open>A call as \<open>login\<close> and the signals make it: no retry, so one turn of the loop is enough.\<close>

definition job_call :: "server \<Rightarrow> (nat \<Rightarrow> real) \<Rightarrow> string \<Rightarrow> pyval \<Rightarrow> (contractor, pyval) py" where
  "job_call srv rnd uri args = http_request 1 srv rnd Call uri (Some args) None 30 0 False"

section \<open>Operations of the clients\<close>

definition login :: "server \<Rightarrow> (nat \<Rightarrow> real) \<Rightarrow> (contractor, unit) py" where
  "login srv rnd = bnd (gets ct_kind) (\<lambda>k. case k of
       HTTPClient \<Rightarrow>
         bnd (job_call srv rnd ''/api/v1/Auth/User(login)'' (PDict [(''username'', PStr ''jobsig''), (''password'', PStr ''jobsig'')]))
           (\<lambda>token. bnd (lift (str_of token)) (setAuth ''jobsig''))
     | _ \<Rightarrow> ret ())"

definition job_uri :: "string \<Rightarrow> string \<Rightarrow> string" where
  "job_uri jid action = ''/api/v1/Foreman/BaseJob:'' @ jid @ '':('' @ action @ '')''"

text \<open>What the three signals share: print, and for the HTTP client call the action on the job and warn when
  the answer is not the expected word.\<close>

definition signal :: "server \<Rightarrow> (nat \<Rightarrow> real) \<Rightarrow> string \<Rightarrow> string \<Rightarrow> (contractor, pyval) py \<Rightarrow> string \<Rightarrow> string
    \<Rightarrow> (contractor, unit) py" where
  "signal srv rnd line action args want warning =
     seq (print line)
     (bnd (gets ct_kind) (\<lambda>k. case k of
        HTTPClient \<Rightarrow>
          bnd (attr ct_job_id) (\<lambda>jid. bnd (lift (py_str jid)) (\<lambda>j. bnd args (\<lambda>a.
          bnd (job_call srv rnd (job_uri j action) a) (\<lambda>resp.
            whenM (resp \<noteq> PStr want) (print (''WARNING! '' @ warning @ '' Signaling Failed: '' @ quoted [] (msg_text resp) []))))))
      | _ \<Rightarrow> ret ()))"

definition postMessage :: "server \<Rightarrow> (nat \<Rightarrow> real) \<Rightarrow> string \<Rightarrow> (contractor, unit) py" where
  "postMessage srv rnd msg = signal srv rnd (''* '' @ msg @ '' *'') ''postMessage'' (ret (PDict [(''msg'', PStr msg)])) ''Posted'' ''Message''"

definition signalAlert :: "server \<Rightarrow> (nat \<Rightarrow> real) \<Rightarrow> string \<Rightarrow> (contractor, unit) py" where
  "signalAlert srv rnd msg = signal srv rnd (''! '' @ msg @ '' !'') ''signalAlert'' (ret (PDict [(''msg'', PStr msg)])) ''Alerted'' ''Alert''"

definition signalComplete :: "server \<Rightarrow> (nat \<Rightarrow> real) \<Rightarrow> (contractor, unit) py" where
  "signalComplete srv rnd = signal srv rnd ''### Complete ###'' ''signalComplete''
     (bnd (attr ct_cookie) (\<lambda>c. ret (PDict [(''cookie'', c)]))) ''Recieved'' ''Complete''"

definition config_uri :: "string option \<Rightarrow> string option \<Rightarrow> string" where
  "config_uri config_uuid foundation_locator = (case config_uuid of
       Some u \<Rightarrow> ''/config/config/c/'' @ u
     | None \<Rightarrow> (case foundation_locator of Some f \<Rightarrow> ''/config/config/f/'' @ f | None \<Rightarrow> ''/config/config/''))"

definition getConfig :: "server \<Rightarrow> (nat \<Rightarrow> real) \<Rightarrow> string option \<Rightarrow> (contractor, pyval) py" where
  "getConfig srv rnd foundation_locator = bnd (gets ct_kind) (\<lambda>k. case k of
       HTTPClient \<Rightarrow> bnd (gets ct_config_uuid) (\<lambda>u.
         http_request 3 srv rnd RawGet (config_uri u foundation_locator) None None 10 2 False)
     | NoConfigClient \<Rightarrow> ret (PDict [])
     | _ \<Rightarrow> bnd (gets ct_config) (\<lambda>c. ret (PDict c)))"

definition getDiskTemplate :: "server \<Rightarrow> (nat \<Rightarrow> real) \<Rightarrow> (contractor, pyval) py" where
  "getDiskTemplate srv rnd = bnd (gets ct_kind) (\<lambda>k. case k of
       HTTPClient \<Rightarrow> bnd (gets ct_config_uuid) (\<lambda>u.
         http_request 3 srv rnd RawGet (case u of Some c \<Rightarrow> ''/config/pxe_template/c/'' @ c | None \<Rightarrow> ''/config/pxe_template/'')
           None None 10 2 True)
     | _ \<Rightarrow> ret (PStr []))"

section \<open>Making a client\<close>

definition plain_client :: "client_kind \<Rightarrow> string option \<Rightarrow> (string, pyval) dict \<Rightarrow> contractor" where
  "plain_client k config_uuid config = \<lparr>ci_host = [], ci_root = [], ci_proxy = [], ci_headers = [], ci_log = [], ci_files = [],
     ct_kind = k, ct_config_uuid = config_uuid, ct_config = config, ct_job_id = None, ct_cookie = None, ct_out = [], ct_slept = []\<rparr>"

definition http_client :: "string \<Rightarrow> string \<Rightarrow> string option \<Rightarrow> contractor res" where
  "http_client host proxy config_uuid =
     rbnd (cinp_init host ''/api/v1/'' proxy) (\<lambda>c. Inr (cinp.extend c \<lparr>ct_kind = HTTPClient, ct_config_uuid = config_uuid,
       ct_config = [], ct_job_id = Some PNone, ct_cookie = None, ct_out = [], ct_slept = []\<rparr>))"

text \<open>The address of eth0; \<open>None\<close> where the file cannot be read.\<close>

definition staticConfigValues :: "string option \<Rightarrow> (string, string) dict" where
  "staticConfigValues mac = [(''**MAC**'', case mac of None \<Rightarrow> ''00:00:00:00:00:00'' | Some t \<Rightarrow> strip t)]"

definition replaceStaticConfigValues :: "string option \<Rightarrow> string \<Rightarrow> string" where
  "replaceStaticConfigValues mac config = fold (\<lambda>(k, v) c. replace k v c) (staticConfigValues mac) config"

text \<open>\<open>json\<close> is \<open>json.loads\<close>; \<open>ctime\<close> the change time of the file as text.\<close>

definition local_client :: "(string \<Rightarrow> pyval res) \<Rightarrow> string option \<Rightarrow> string res \<Rightarrow> string \<Rightarrow> string option \<Rightarrow> contractor res" where
  "local_client json mac content ctime config_uuid =
     rbnd content (\<lambda>t. rbnd (json (replaceStaticConfigValues mac t)) (\<lambda>v. rbnd (dict_of v) (\<lambda>d.
       Inr (plain_client LocalFileClient config_uuid (dset ''__last_modified'' (PStr ctime) d)))))"

text \<open>\<open>getClient\<close>: the kind of client is read off the host. A job file gives the job and the cookie.\<close>

definition with_job :: "pyval \<Rightarrow> contractor \<Rightarrow> contractor res" where
  "with_job v c =
     rbnd (dict_of v) (\<lambda>d. rbnd (dindex d ''job'') (\<lambda>j. rbnd (dict_of j) (\<lambda>job.
     rbnd (dindex job ''job_id'') (\<lambda>jid. rbnd (dindex job ''cookie'') (\<lambda>ck.
       Inr (c\<lparr>ct_job_id := Some jid, ct_cookie := Some ck\<rparr>))))))"

definition getClient :: "(string \<Rightarrow> pyval res) \<Rightarrow> (string \<Rightarrow> string res) \<Rightarrow> (string \<Rightarrow> string) \<Rightarrow> (string, string) dict
    \<Rightarrow> string option \<Rightarrow> contractor res" where
  "getClient json read_file ctime env job_config =
     (let host = (case map_of env ''contractor_host'' of None \<Rightarrow> ''http://contractor'' | Some h \<Rightarrow> h);
          uuid = map_of env ''config_uuid'' in
      rbnd (if startswith host ''none://'' then Inr (plain_client NoConfigClient uuid [])
            else if startswith host ''http://'' \<or> startswith host ''https://''
            then http_client host (case map_of env ''contractor_proxy'' of None \<Rightarrow> [] | Some p \<Rightarrow> p) uuid
            else local_client json (case read_file ''/sys/class/net/eth0/address'' of Inl _ \<Rightarrow> None | Inr t \<Rightarrow> Some t)
              (read_file host) (ctime host) uuid)
      (\<lambda>c. case job_config of
           None \<Rightarrow> Inr c
         | Some f \<Rightarrow> rbnd (read_file f) (\<lambda>t. rbnd (json t) (\<lambda>v. with_job v c))))"

end
