(* ===== verification/Contractor_Props.thy ===== *)
theory Contractor_Props
  imports Contractor_Client
begin

text \<open>
  What the Contractor client promises. The locale \<open>retrying\<close> holds the contract of the retry loop for
  any attempt and any pause that always ends; it is interpreted on the attempts and the delay
  of \<open>HTTPClient\<close>. On it rest the bounds on the tries of the readers of the configuration. The other
  properties are about the delays, the authentication and the signals to the job.
\<close>

section \<open>The retry loop\<close>

text \<open>The state before the n-th further try, when try \<open>r\<close> starts in the given one.\<close>

fun before_try :: "('s, 'a) py \<Rightarrow> (nat \<Rightarrow> ('s, unit) py) \<Rightarrow> nat \<Rightarrow> nat \<Rightarrow> 's \<Rightarrow> 's" where
  "before_try m pause r 0 s = s"
| "before_try m pause r (Suc n) s =
     before_try m pause (Suc r) n (snd (pause (Suc r) (snd (m s))))"

definition gives_up :: "'a res \<Rightarrow> bool" where
  "gives_up r = (case r of Inl e \<Rightarrow> \<not> may_retry e | Inr _ \<Rightarrow> True)"

locale retrying =
  fixes try_once :: "('s, 'a) py" and pause :: "nat \<Rightarrow> ('s, unit) py"
  assumes pause_ends: "fst (pause n s) = Inr ()"
begin

abbreviation at_try :: "nat \<Rightarrow> nat \<Rightarrow> 's \<Rightarrow> 's" where
  "at_try \<equiv> before_try try_once pause"

abbreviation result :: "nat \<Rightarrow> nat \<Rightarrow> 's \<Rightarrow> 'a res" where
  "result r n s \<equiv> fst (try_once (at_try r n s))"

lemma loop_step:
  "retry_loop (Suc fuel) try_once pause k r s =
     (if gives_up (fst (try_once s)) \<or> (k \<noteq> - 1 \<and> int r \<ge> k) then try_once s
      else retry_loop fuel try_once pause k (Suc r) (at_try r 1 s))"
proof (cases "try_once s")
  case (Pair x t)
  obtain u where "pause (Suc r) t = (Inr (), u)"
    using pause_ends[of "Suc r" t] by (cases "pause (Suc r) t") auto
  with Pair show ?thesis
    by (cases x) (auto simp: py_simps gives_up_def)
qed

text \<open>The loop gives the result of the first try that need not be repeated, once it has fuel for it.\<close>

lemma loop_first:
  "gives_up (result r n s) \<Longrightarrow> \<forall>i<n. \<not> gives_up (result r i s) \<Longrightarrow> k = - 1 \<or> int (r + n) \<le> k \<Longrightarrow> n < fuel
    \<Longrightarrow> retry_loop fuel try_once pause k r s = try_once (at_try r n s)"
proof (induction n arbitrary: fuel r s)
  case 0
  then show ?case by (cases fuel) (simp_all add: loop_step del: retry_loop.simps(2))
next
  case (Suc n)
  from Suc.prems(2) have g: "\<not> gives_up (fst (try_once s))" by force
  have "\<forall>i<n. \<not> gives_up (result (Suc r) i (at_try r 1 s))" using Suc.prems(2) by force
  with Suc.IH[of "Suc r" "at_try r 1 s"] Suc.prems g show ?case
    by (cases fuel) (auto simp: loop_step simp del: retry_loop.simps(2))
qed

text \<open>With a limit the last try is reached at worst.\<close>

lemma loop_limited:
  assumes "\<forall>i<n. \<not> gives_up (result r i s)" and "n < fuel" and "k = int (r + n)"
  shows "retry_loop fuel try_once pause k r s = try_once (at_try r n s)"
  using assms
proof (induction n arbitrary: fuel r s)
  case 0
  then show ?case by (cases fuel) (simp_all add: loop_step del: retry_loop.simps(2))
next
  case (Suc n)
  from Suc.prems(1) have g: "\<not> gives_up (fst (try_once s))" by force
  have "\<forall>i<n. \<not> gives_up (result (Suc r) i (at_try r 1 s))" using Suc.prems(1) by force
  with Suc.IH[of "Suc r" "at_try r 1 s"] Suc.prems g show ?case
    by (cases fuel) (auto simp: loop_step simp del: retry_loop.simps(2))
qed

lemma loop_outcome:
  assumes "n < fuel"
  obtains j where "j \<le> n" "\<forall>i<j. \<not> gives_up (result 0 i s)" "j < n \<longrightarrow> gives_up (result 0 j s)"
    "retry_loop fuel try_once pause (int n) 0 s = try_once (at_try 0 j s)"
proof (cases "\<exists>j<n. gives_up (result 0 j s)")
  case True
  define j where "j = (LEAST j. gives_up (result 0 j s))"
  have j: "gives_up (result 0 j s)" "\<forall>i<j. \<not> gives_up (result 0 i s)" "j < n"
    using True LeastI_ex[of "\<lambda>j. gives_up (result 0 j s)"] not_less_Least[of _ "\<lambda>j. gives_up (result 0 j s)"]
      Least_le[of "\<lambda>j. gives_up (result 0 j s)"] unfolding j_def by (auto intro: le_less_trans)
  from loop_first[OF j(1,2), of "int n" fuel] j(3) assms that[of j] j show thesis by auto
next
  case False
  with loop_limited[of n 0 s fuel "int n"] assms that[of n] show thesis by auto
qed

lemma loop_forever:
  assumes "\<forall>i. \<not> gives_up (result r i s)"
  shows "fst (retry_loop fuel try_once pause (- 1) r s) = Inl OutOfFuel"
  using assms
proof (induction fuel arbitrary: r s)
  case (Suc fuel)
  have "\<not> gives_up (fst (try_once s))" "\<forall>i. \<not> gives_up (result (Suc r) i (at_try r 1 s))"
    using Suc.prems[rule_format, of 0] Suc.prems[rule_format, of "Suc i" for i] by auto
  with Suc.IH show ?case by (simp add: loop_step del: retry_loop.simps(2))
qed (simp add: throw_apply)

end

interpretation http_retry: retrying "attempt srv mth uri data fltr timeout no_parse" "backOffDelay rnd"
  for srv mth uri data fltr timeout no_parse rnd
  by unfold_locales (simp add: backOffDelay_def modify_apply)

section \<open>Requests of the client\<close>

text \<open>One try sends one request at most, and neither sleeps nor changes the settings of the client.\<close>

lemma request_state:
  "snd (request srv v u d h t np s) = s \<or> (\<exists>rq. snd (request srv v u d h t np s) = s\<lparr>ci_log := ci_log s @ [rq]\<rparr>)"
proof (cases "checked_verb v")
  case True
  then show ?thesis by (auto simp: request_checked split: sum.split)
next
  case False
  then show ?thesis by (cases d) (auto simp: checked_verb_def request_def bnd_snd gets_apply throw_apply Let_def)
qed

lemma bnd_reads: "(\<And>x t. snd (f x t) = t) \<Longrightarrow> snd (bnd m f s) = snd (m s)"
  by (simp add: bnd_snd split: sum.split)

lemma attempt_cases:
  "\<exists>v a h b. snd (attempt srv mth u d f t np s) = s \<or> snd (attempt srv mth u d f t np s) = snd (request srv v u a h t b s)"
proof (cases mth)
  case RawGet
  have "snd (attempt srv mth u d f t np s) = snd (request srv ''RAWGET'' u NoData [] t np s)"
    unfolding RawGet attempt_def Let_def http_method.case
    by (rule bnd_reads) (auto simp: throw_apply ret_apply split: prod.splits)
  then show ?thesis by blast
next
  case Call
  let ?a = "case d of None \<Rightarrow> PNone | Some v \<Rightarrow> v"
  have "snd (attempt srv mth u d f t np s) = s \<or>
      snd (attempt srv mth u d f t np s) = snd (request srv ''CALL'' u (Json ?a) (multi_header False) t False s)"
    unfolding Call attempt_def Let_def http_method.case call_def
    by (auto simp: throw_apply intro!: bnd_reads) (auto simp: expect_def throw_apply ret_apply split: prod.splits)
  then show ?thesis by blast
next
  case Listing
  let ?v = "case d of None \<Rightarrow> PDict [] | Some v \<Rightarrow> v"
  let ?h = "[(''Position'', show_int 0), (''Count'', show_int 10)] @ (case f of None \<Rightarrow> [] | Some f \<Rightarrow> [(''Filter'', f)])"
  have "snd (cinp_list srv u f d 0 10 t s) = snd (request srv ''LIST'' u (Json ?v) ?h t False s)" if "is_dict ?v"
    unfolding cinp_list_def Let_def using that
    by (simp del: append.simps show_int_def) (rule bnd_reads; auto simp: throw_apply bnd_apply lift_apply ret_apply
        split: prod.splits pyval.splits sum.splits)
  then have "\<exists>a h. snd (cinp_list srv u f d 0 10 t s) = s \<or> snd (cinp_list srv u f d 0 10 t s) = snd (request srv ''LIST'' u a h t False s)"
    by (cases "is_dict ?v") (auto simp: cinp_list_def throw_apply)
  moreover have "snd (attempt srv mth u d f t np s) = snd (cinp_list srv u f d 0 10 t s)"
    unfolding Listing attempt_def Let_def http_method.case by (rule bnd_reads) (simp add: ret_apply)
  ultimately show ?thesis by metis
next
  case Update
  let ?a = "case d of None \<Rightarrow> PNone | Some v \<Rightarrow> v"
  have "snd (update srv u ?a False t s) = s \<or> snd (update srv u ?a False t s) = snd (request srv ''UPDATE'' u (Json ?a) (multi_header False) t False s)"
    unfolding update_def
    by (auto simp: throw_apply intro!: bnd_reads)
      (auto simp: expect_def throw_apply bnd_apply ret_apply split: prod.splits pyval.splits sum.splits)
  moreover have "snd (attempt srv mth u d f t np s) = snd (update srv u ?a False t s)"
    unfolding Update attempt_def Let_def http_method.case by (rule bnd_reads) (simp add: ret_apply)
  ultimately show ?thesis by metis
next
  case OtherMethod
  then show ?thesis by (simp add: attempt_def throw_apply)
qed

lemma attempt_state:
  obtains "snd (attempt srv mth u d f t np s) = s"
  | rq where "snd (attempt srv mth u d f t np s) = s\<lparr>ci_log := ci_log s @ [rq]\<rparr>"
  using attempt_cases[of srv mth u d f t np s] request_state by metis

definition delays :: "(nat \<Rightarrow> real) \<Rightarrow> nat \<Rightarrow> nat \<Rightarrow> int list" where
  "delays rnd r n = map (\<lambda>i. delay_of (int i) (rnd i)) [Suc r..<Suc r + n]"

lemma delays_Suc: "delays rnd r (Suc n) = delay_of (int (Suc r)) (rnd (Suc r)) # delays rnd (Suc r) n"
  unfolding delays_def by (subst upt_conv_Cons) simp_all

lemma tries_state:
  "\<exists>rqs. length rqs \<le> n \<and> before_try (attempt srv mth u d f t np) (backOffDelay rnd) r n s =
     s\<lparr>ci_log := ci_log s @ rqs, ct_slept := ct_slept s @ delays rnd r n\<rparr>"
proof (induction n arbitrary: r s)
  case 0
  then show ?case by (simp add: delays_def)
next
  case (Suc n)
  let ?a = "attempt srv mth u d f t np" and ?d = "delay_of (int (Suc r)) (rnd (Suc r))"
  have "\<exists>l. length l \<le> 1 \<and> snd (?a s) = s\<lparr>ci_log := ci_log s @ l\<rparr>"
  proof (rule attempt_state[of srv mth u d f t np s])
    assume "snd (?a s) = s"
    then show ?thesis by (intro exI[of _ "[]"]) simp
  next
    fix rq assume "snd (?a s) = s\<lparr>ci_log := ci_log s @ [rq]\<rparr>"
    then show ?thesis by (intro exI[of _ "[rq]"]) simp
  qed
  then obtain l where l: "length l \<le> 1" "snd (?a s) = s\<lparr>ci_log := ci_log s @ l\<rparr>" by blast
  let ?s1 = "s\<lparr>ci_log := ci_log s @ l, ct_slept := ct_slept s @ [?d]\<rparr>"
  obtain rqs where r: "length rqs \<le> n" "before_try ?a (backOffDelay rnd) (Suc r) n ?s1 =
      ?s1\<lparr>ci_log := ci_log ?s1 @ rqs, ct_slept := ct_slept ?s1 @ delays rnd (Suc r) n\<rparr>"
    using Suc.IH[of "Suc r" ?s1] by blast
  have "before_try ?a (backOffDelay rnd) r (Suc n) s = before_try ?a (backOffDelay rnd) (Suc r) n ?s1"
    by (simp add: l backOffDelay_def modify_apply)
  with l r show ?case by (intro exI[of _ "l @ rqs"]) (simp add: delays_Suc)
qed

abbreviation http_try :: "server \<Rightarrow> (nat \<Rightarrow> real) \<Rightarrow> http_method \<Rightarrow> string \<Rightarrow> pyval option \<Rightarrow> string option \<Rightarrow> int \<Rightarrow> bool
    \<Rightarrow> nat \<Rightarrow> contractor \<Rightarrow> contractor" where
  "http_try srv rnd mth u d f t np n s \<equiv> before_try (attempt srv mth u d f t np) (backOffDelay rnd) 0 n s"

text \<open>C22: \<open>HTTPClient.request\<close> with a retry count of n gives the result of one of its first n + 1 tries: every earlier one
  ended in a \<open>ResponseError\<close> or \<open>Timeout\<close>, and a try before the last is final only when it ended in neither; before try
  number k it slept k times, with the growing delays, and each try sent one request at most.\<close>

theorem request_retries:
  assumes "n < fuel"
  shows "\<exists>j rqs. j \<le> n \<and> length rqs \<le> j
     \<and> http_request fuel srv rnd mth u d f t (int n) np s = attempt srv mth u d f t np (http_try srv rnd mth u d f t np j s)
     \<and> http_try srv rnd mth u d f t np j s = s\<lparr>ci_log := ci_log s @ rqs, ct_slept := ct_slept s @ delays rnd 0 j\<rparr>
     \<and> (\<forall>i<j. \<not> gives_up (fst (attempt srv mth u d f t np (http_try srv rnd mth u d f t np i s))))
     \<and> (j < n \<longrightarrow> gives_up (fst (attempt srv mth u d f t np (http_try srv rnd mth u d f t np j s))))"
proof -
  obtain j where j: "j \<le> n" "\<forall>i<j. \<not> gives_up (fst (attempt srv mth u d f t np (http_try srv rnd mth u d f t np i s)))"
    "j < n \<longrightarrow> gives_up (fst (attempt srv mth u d f t np (http_try srv rnd mth u d f t np j s)))"
    "retry_loop fuel (attempt srv mth u d f t np) (backOffDelay rnd) (int n) 0 s = attempt srv mth u d f t np (http_try srv rnd mth u d f t np j s)"
    using http_retry.loop_outcome[OF assms] by metis
  moreover obtain rqs where "length rqs \<le> j" "http_try srv rnd mth u d f t np j s =
      s\<lparr>ci_log := ci_log s @ rqs, ct_slept := ct_slept s @ delays rnd 0 j\<rparr>"
    using tries_state by blast
  ultimately show ?thesis unfolding http_request_def by blast
qed

text \<open>With a retry count of -1 the request is repeated without end: it returns exactly when some try ends in something
  else than a \<open>ResponseError\<close> or \<open>Timeout\<close>, with the result of the first such try.\<close>

theorem unlimited_retry:
  "if \<exists>n. gives_up (fst (attempt srv mth u d f t np (http_try srv rnd mth u d f t np n s)))
   then \<exists>n. gives_up (fst (attempt srv mth u d f t np (http_try srv rnd mth u d f t np n s)))
     \<and> (\<forall>i<n. \<not> gives_up (fst (attempt srv mth u d f t np (http_try srv rnd mth u d f t np i s))))
     \<and> (\<forall>fuel>n. http_request fuel srv rnd mth u d f t (- 1) np s = attempt srv mth u d f t np (http_try srv rnd mth u d f t np n s))
   else \<forall>fuel. fst (http_request fuel srv rnd mth u d f t (- 1) np s) = Inl OutOfFuel"
proof -
  let ?ok = "\<lambda>n. gives_up (fst (attempt srv mth u d f t np (http_try srv rnd mth u d f t np n s)))"
  show ?thesis
  proof (cases "\<exists>n. ?ok n")
    case True
    then have "?ok (LEAST n. ?ok n)" "\<forall>i<(LEAST n. ?ok n). \<not> ?ok i" by (auto intro: LeastI_ex dest: not_less_Least)
    moreover from this have "\<forall>fuel>(LEAST n. ?ok n). http_request fuel srv rnd mth u d f t (- 1) np s =
        attempt srv mth u d f t np (http_try srv rnd mth u d f t np (LEAST n. ?ok n) s)"
      unfolding http_request_def by (auto intro!: http_retry.loop_first)
    ultimately show ?thesis using True by metis
  next
    case False
    then show ?thesis unfolding http_request_def using http_retry.loop_forever by simp
  qed
qed

definition new_client :: contractor where
  "new_client = plain_client HTTPClient None []"

theorem request_retries_witness:
  "\<exists>j rqs. j \<le> 2 \<and> length rqs \<le> j
     \<and> http_request 3 (\<lambda>_ _. ATimeout) (\<lambda>_. 0) RawGet ''/x'' None None 10 (int 2) False new_client
       = attempt (\<lambda>_ _. ATimeout) RawGet ''/x'' None None 10 False (new_client\<lparr>ci_log := ci_log new_client @ rqs,
           ct_slept := ct_slept new_client @ delays (\<lambda>_. 0) 0 j\<rparr>)"
proof -
  have "2 < (3::nat)" by simp
  from request_retries[OF this, of "\<lambda>_ _. ATimeout" "\<lambda>_. 0" RawGet "''/x''" None None 10 False new_client]
  obtain j rqs where "j \<le> 2" "length rqs \<le> j"
    "http_request 3 (\<lambda>_ _. ATimeout) (\<lambda>_. 0) RawGet ''/x'' None None 10 (int 2) False new_client = attempt (\<lambda>_ _. ATimeout) RawGet ''/x'' None None 10 False
       (http_try (\<lambda>_ _. ATimeout) (\<lambda>_. 0) RawGet ''/x'' None None 10 False j new_client)"
    "http_try (\<lambda>_ _. ATimeout) (\<lambda>_. 0) RawGet ''/x'' None None 10 False j new_client =
       new_client\<lparr>ci_log := ci_log new_client @ rqs, ct_slept := ct_slept new_client @ delays (\<lambda>_. 0) 0 j\<rparr>" by blast
  then show ?thesis by metis
qed

section \<open>The delays\<close>

lemma ln2_bounds: "2 / 3 \<le> ln (2 :: real)" "ln (2 :: real) < 11 / 15"
proof -
  have "exp (1 / 12 :: real) \<le> 1 + 1 / 12 + (1 / 12)\<^sup>2" by (rule exp_bound) auto
  then have "exp (1 / 12 :: real) ^ 8 \<le> (1 + 1 / 12 + (1 / 12)\<^sup>2) ^ 8" by (rule power_mono) simp
  also have "\<dots> \<le> (2 :: real)" by (simp add: power_divide field_simps)
  also have "exp (1 / 12 :: real) ^ 8 = exp (2 / 3)" by (simp flip: exp_of_nat_mult)
  finally show "2 / 3 \<le> ln (2 :: real)" by (subst ln_ge_iff) simp_all
  have "(2 :: real) < 1 + 11 / 15 + (11 / 15)\<^sup>2 / 2" by (simp add: power2_eq_square)
  also have "\<dots> \<le> exp (11 / 15)" by (rule exp_lower_Taylor_quadratic) simp
  finally show "ln (2 :: real) < 11 / 15" using ln_less_cancel_iff[of 2 "exp (11 / 15)"] by simp
qed

lemma delay_factor_12: "delay_factor 1 = 0" "delay_factor 2 = 10"
  using ln2_bounds by (simp_all add: delay_factor_def DELAY_MULTIPLIER_def) linarith

lemma delay_factor_nonneg: "0 \<le> delay_factor k"
  by (simp add: delay_factor_def DELAY_MULTIPLIER_def)

lemma delay_of_bounds:
  assumes "0 \<le> u" and "u < 1"
  shows "delay_factor k \<le> delay_of k u" and "delay_of k u \<le> 2 * delay_factor k"
    and "0 < delay_factor k \<Longrightarrow> delay_of k u < 2 * delay_factor k"
proof -
  let ?f = "delay_factor k"
  have n: "0 \<le> (of_int ?f :: real)" using delay_factor_nonneg by simp
  have lo: "0 \<le> u * of_int ?f" using assms(1) n by simp
  have hi: "u * of_int ?f \<le> of_int ?f" using assms n by (simp add: mult_left_le_one_le)
  show "?f \<le> delay_of k u" unfolding delay_of_def Let_def using lo by linarith
  show "delay_of k u \<le> 2 * ?f" unfolding delay_of_def Let_def using hi by linarith
  assume "0 < ?f"
  then have "u * of_int ?f < of_int ?f" using assms(2) by simp
  then show "delay_of k u < 2 * ?f" unfolding delay_of_def Let_def by linarith
qed

text \<open>The delay before a try is between the factor and twice the factor (never twice the factor itself, which the comment's
  table of the largest delays gives), the factor is 0 for the first repetition and 10 for the second, and it never
  falls from one try to the next; counts below 1 do as 1.\<close>

theorem backoff_bounds:
  assumes "0 \<le> u" and "u < 1"
  shows "delay_factor k \<le> delay_of k u \<and> delay_of k u \<le> 2 * delay_factor k
     \<and> (delay_of k u = 2 * delay_factor k \<longrightarrow> delay_of k u = 0)
     \<and> delay_factor k \<le> delay_factor (k + 1) \<and> delay_factor 1 = 0 \<and> delay_factor 2 = 10"
proof -
  have "delay_factor k \<le> delay_factor (k + 1)"
    unfolding delay_factor_def DELAY_MULTIPLIER_def by (intro floor_mono mult_left_mono) auto
  moreover have "delay_of k u = 2 * delay_factor k \<longrightarrow> delay_of k u = 0"
    using delay_of_bounds(3)[OF assms, of k] delay_factor_nonneg[of k] by (cases "delay_factor k = 0") auto
  ultimately show ?thesis using delay_of_bounds(1,2)[OF assms] delay_factor_12 by blast
qed

theorem backoff_bounds_witness: "10 \<le> delay_of 2 (1 / 2) \<and> delay_of 2 (1 / 2) < 20"
  using backoff_bounds[of "1 / 2" 2] by auto

section \<open>Reading the configuration\<close>

definition config_request :: "contractor \<Rightarrow> string \<Rightarrow> int \<Rightarrow> sent_request" where
  "config_request s u t = \<lparr>rq_verb = ''GET'', rq_url = ci_host s @ u, rq_data = NoData, rq_headers = ci_headers s, rq_timeout = t\<rparr>"

lemma raw_request: "request srv ''RAWGET'' u NoData [] t np s = send srv (config_request s u t) np s"
  by (simp add: request_def py_simps config_request_def)

lemma raw_attempt_log: "snd (attempt srv RawGet u d f t np s) = s\<lparr>ci_log := ci_log s @ [config_request s u t]\<rparr>"
proof -
  have "snd (attempt srv RawGet u d f t np s) = snd (request srv ''RAWGET'' u NoData [] t np s)"
    unfolding attempt_def Let_def http_method.case
    by (rule bnd_reads) (auto simp: throw_apply ret_apply split: prod.splits)
  then show ?thesis by (simp add: raw_request)
qed

lemma raw_tries: "before_try (attempt srv RawGet u d f t np) (backOffDelay rnd) r n s =
    s\<lparr>ci_log := ci_log s @ replicate n (config_request s u t), ct_slept := ct_slept s @ delays rnd r n\<rparr>"
proof (induction n arbitrary: r s)
  case 0
  then show ?case by (simp add: delays_def)
next
  case (Suc n)
  then show ?case
    by (simp add: raw_attempt_log backOffDelay_def modify_apply delays_Suc) (simp add: config_request_def)
qed

lemma delays_at_most_two:
  assumes "\<forall>i. 0 \<le> rnd i \<and> rnd i < 1" and "j \<le> 2"
  shows "sum_list (delays rnd 0 j) < 20"
proof -
  have d: "delay_of (int 1) (rnd 1) \<le> 0" "delay_of (int 2) (rnd 2) < 20"
    using delay_of_bounds(2)[of "rnd 1" 1] delay_of_bounds(3)[of "rnd 2" 2] assms(1) delay_factor_12 by simp_all
  from assms(2) consider "j = 0" | "j = 1" | "j = 2" by linarith
  then show ?thesis using d by cases (simp_all add: delays_def upt_rec numeral_2_eq_2)
qed

text \<open>Reading the configuration asks the same address three times at the most, with a timeout of 10 seconds each, sleeps less
  than 20 seconds in all, and then returns or raises: it does not hang when there is no Contractor.\<close>

theorem get_config_bounded:
  assumes "ct_kind s = HTTPClient" and "\<forall>i. 0 \<le> rnd i \<and> rnd i < 1"
  shows "\<exists>j \<le> 2. snd (getConfig srv rnd loc s) =
       s\<lparr>ci_log := ci_log s @ replicate (Suc j) (config_request s (config_uri (ct_config_uuid s) loc) 10),
         ct_slept := ct_slept s @ delays rnd 0 j\<rparr>
     \<and> sum_list (delays rnd 0 j) < 20 \<and> fst (getConfig srv rnd loc s) \<noteq> Inl OutOfFuel"
proof -
  let ?u = "config_uri (ct_config_uuid s) loc"
  let ?a = "attempt srv RawGet ?u None None 10 False"
  obtain j where j: "j \<le> 2"
    "retry_loop 3 ?a (backOffDelay rnd) (int 2) 0 s = ?a (before_try ?a (backOffDelay rnd) 0 j s)"
    using http_retry.loop_outcome[of 2 3] by (metis lessI numeral_3_eq_3 numeral_2_eq_2)
  have g: "getConfig srv rnd loc s = ?a (before_try ?a (backOffDelay rnd) 0 j s)"
    using j(2) assms(1) by (simp add: getConfig_def http_request_def bnd_apply gets_apply)
  have "fst (?a t) \<noteq> Inl OutOfFuel" for t
    by (auto simp: attempt_def bnd_apply raw_request throw_apply ret_apply send_unfold unexpected_def
        split: prod.splits sum.splits answer.splits bool.splits if_splits pyval.splits option.splits)
  moreover have "snd (getConfig srv rnd loc s) = s\<lparr>ci_log := ci_log s @ replicate (Suc j) (config_request s ?u 10),
         ct_slept := ct_slept s @ delays rnd 0 j\<rparr>"
    unfolding g raw_attempt_log raw_tries by (simp add: config_request_def replicate_append_same)
  ultimately show ?thesis using j(1) delays_at_most_two[OF assms(2) j(1)] g by metis
qed

theorem get_config_bounded_witness:
  "\<exists>j \<le> 2. ci_log (snd (getConfig (\<lambda>_ _. ATimeout) (\<lambda>_. 1 / 2) None new_client)) = replicate (Suc j) (config_request new_client ''/config/config/'' 10)"
proof -
  have "ct_kind new_client = HTTPClient" by (simp add: new_client_def plain_client_def)
  from get_config_bounded[OF this, of "\<lambda>_. 1 / 2" "\<lambda>_ _. ATimeout" None]
  obtain j where "j \<le> 2" "snd (getConfig (\<lambda>_ _. ATimeout) (\<lambda>_. 1 / 2) None new_client) =
       new_client\<lparr>ci_log := ci_log new_client @ replicate (Suc j) (config_request new_client (config_uri (ct_config_uuid new_client) None) 10),
         ct_slept := ct_slept new_client @ delays (\<lambda>_. 1 / 2) 0 j\<rparr>" by auto
  moreover have "ci_log new_client = []" "config_uri (ct_config_uuid new_client) None = ''/config/config/''"
    by (simp_all add: new_client_def plain_client_def config_uri_def)
  ultimately show ?thesis by (intro exI[of _ j]) simp
qed

section \<open>Signals to the job\<close>

lemma job_uri_built: "job_uri j a = req_uri ''/api/v1/'' ([''Foreman''], ''BaseJob'', Some a, [j])"
  by (simp add: job_uri_def req_uri_def uri_build_def slash_def)

lemma show_nat_id_ok: "id_ok (show_nat n)"
proof -
  have "in_cls False id_ranges c" if "is_digit c" for c
    using that by (auto simp: in_cls_def in_ranges_def id_ranges_def name_ranges_def is_digit_def less_eq_char_def)
  with show_nat_digits[of n] show ?thesis by (auto simp: id_ok_def list_all_iff)
qed

definition job_ready :: "contractor \<Rightarrow> nat \<Rightarrow> bool" where
  "job_ready s n = (ct_kind s = HTTPClient \<and> ci_root s = ''/api/v1/'' \<and> ct_job_id s = Some (PInt (int n)))"

lemma job_request_ok:
  assumes "name_ok a"
  shows "req_ok ([''Foreman''], ''BaseJob'', Some a, [show_int (int n)])"
    and "is_dict d \<Longrightarrow> checkRequest ''/api/v1/'' ''CALL'' (job_uri (show_int (int n)) a) (Some d) = Inr ()"
proof -
  have "name_ok ''Foreman''" "name_ok ''BaseJob''" by code_simp+
  then show r: "req_ok ([''Foreman''], ''BaseJob'', Some a, [show_int (int n)])"
    using assms show_nat_id_ok[of n] by (simp add: req_ok_def show_int_def)
  show "is_dict d \<Longrightarrow> checkRequest ''/api/v1/'' ''CALL'' (job_uri (show_int (int n)) a) (Some d) = Inr ()"
    unfolding job_uri_built by (simp add: checkRequest_def verbs_def uri_split_built[OF r])
qed

definition job_request :: "contractor \<Rightarrow> nat \<Rightarrow> string \<Rightarrow> pyval \<Rightarrow> sent_request" where
  "job_request s n a d = request_of s ''CALL'' (job_uri (show_int (int n)) a) (Json d) [] 30"

lemma job_call_once: "job_call srv rnd u d s = call srv u d False 30 s"
  by (cases "call srv u d False 30 s"; cases "fst (call srv u d False 30 s)")
    (auto simp: job_call_def http_request_def attempt_def catch_apply throw_apply)

lemma job_call_log:
  assumes "ci_root s = ''/api/v1/''" and "name_ok a" and "is_dict d"
  shows "snd (job_call srv rnd (job_uri (show_int (int n)) a) d s) = s\<lparr>ci_log := ci_log s @ [job_request s n a d]\<rparr>"
proof -
  have "snd (call srv (job_uri (show_int (int n)) a) d False 30 s) = s\<lparr>ci_log := ci_log s @ [job_request s n a d]\<rparr>"
    using assms job_request_ok(2)[OF assms(2,3), of n]
    by (subst call_def) (auto simp: bnd_snd request_checked checked_verb_def payload_json_def job_request_def multi_header_def
        expect_def throw_apply ret_apply split: sum.split)
  then show ?thesis by (simp add: job_call_once)
qed

lemma signal_log:
  assumes "job_ready s n" and "name_ok a" and "is_dict d"
    and "args (s\<lparr>ct_out := ct_out s @ [line]\<rparr>) = (Inr d, s\<lparr>ct_out := ct_out s @ [line]\<rparr>)"
  shows "ci_log (snd (signal srv rnd line a args want w s)) = ci_log s @ [job_request s n a d]"
proof -
  let ?s = "s\<lparr>ct_out := ct_out s @ [line]\<rparr>"
  have r: "ci_root ?s = ''/api/v1/''" using assms(1) by (simp add: job_ready_def)
  have l: "ci_log (snd (job_call srv rnd (job_uri (show_int (int n)) a) d ?s)) = ci_log s @ [job_request s n a d]"
    unfolding job_call_log[OF r assms(2,3)] by (simp add: job_request_def request_of_def)
  have "keeps ci_log (whenM b (print x))" for b x
    unfolding print_def by (intro keeps_intros) simp
  then have k: "ci_log (snd (bnd m (\<lambda>v. whenM (b v) (print (x v))) t)) = ci_log (snd (m t))" for m :: "(contractor, pyval) py" and b x t
    by (simp add: bnd_snd keeps_snd split: sum.split)
  show ?thesis
    using assms(1) l
    by (simp add: signal_def seq_apply print_def[of line] modify_apply bnd_apply[of "gets ct_kind"] gets_apply job_ready_def attr_def
        bnd_apply[of "lift _"] bnd_apply[of "bnd _ _"] bnd_apply[of "gets ct_job_id"] ret_apply lift_apply py_str_def assms(4) bnd_apply[of args] k)
qed

text \<open>For a job with a number, a message, an alert and the completion each send one call to that job, whatever the server answers
  and whether it answers; the URI splits into the namespace Foreman, the model BaseJob, the action and the id of the job,
  and the call carries the message or the cookie.\<close>

theorem signals_reach_job:
  assumes "job_ready s n" and "ct_cookie s = Some ck"
  shows "ci_log (snd (postMessage srv rnd msg s)) = ci_log s @ [job_request s n ''postMessage'' (PDict [(''msg'', PStr msg)])]
    \<and> ci_log (snd (signalAlert srv rnd msg s)) = ci_log s @ [job_request s n ''signalAlert'' (PDict [(''msg'', PStr msg)])]
    \<and> ci_log (snd (signalComplete srv rnd s)) = ci_log s @ [job_request s n ''signalComplete'' (PDict [(''cookie'', ck)])]
    \<and> (\<forall>a \<in> {''postMessage'', ''signalAlert'', ''signalComplete''}.
         uri_split ''/api/v1/'' (job_uri (show_int (int n)) a) False = Inr ([''Foreman''], Some ''BaseJob'', Some a, Some [show_int (int n)], False))"
proof -
  have n: "name_ok ''postMessage''" "name_ok ''signalAlert''" "name_ok ''signalComplete''" by code_simp+
  have d: "is_dict (PDict x)" for x by (simp add: is_dict_def)
  have u: "\<forall>a \<in> {''postMessage'', ''signalAlert'', ''signalComplete''}.
         uri_split ''/api/v1/'' (job_uri (show_int (int n)) a) False = Inr ([''Foreman''], Some ''BaseJob'', Some a, Some [show_int (int n)], False)"
    using n job_request_ok(1)[of _ n] by (auto simp: job_uri_built uri_split_built)
  show ?thesis
    unfolding postMessage_def signalAlert_def signalComplete_def
    by (intro conjI u signal_log[OF assms(1) n(1) d] signal_log[OF assms(1) n(2) d] signal_log[OF assms(1) n(3) d])
      (simp_all add: ret_apply attr_def bnd_apply gets_apply assms(2))
qed

theorem signals_reach_job_witness:
  "map rq_url (ci_log (snd (postMessage (\<lambda>_ _. ATimeout) (\<lambda>_. 0) ''hi''
      (new_client\<lparr>ci_host := ''http://c'', ci_root := ''/api/v1/'', ct_job_id := Some (PInt 7), ct_cookie := Some PNone\<rparr>))))
   = [''http://c/api/v1/Foreman/BaseJob:7:(postMessage)'']"
proof -
  let ?s = "new_client\<lparr>ci_host := ''http://c'', ci_root := ''/api/v1/'', ct_job_id := Some (PInt 7), ct_cookie := Some PNone\<rparr>"
  have "job_ready ?s 7" "ct_cookie ?s = Some PNone" by (simp_all add: job_ready_def new_client_def plain_client_def)
  from signals_reach_job[OF this, of "\<lambda>_ _. ATimeout" "\<lambda>_. 0" "''hi''"]
  have "ci_log (snd (postMessage (\<lambda>_ _. ATimeout) (\<lambda>_. 0) ''hi'' ?s)) =
      [job_request ?s 7 ''postMessage'' (PDict [(''msg'', PStr ''hi'')])]" by (simp add: new_client_def plain_client_def)
  moreover have "rq_url (job_request ?s 7 ''postMessage'' d) = ''http://c/api/v1/Foreman/BaseJob:7:(postMessage)''" for d
    by (simp add: job_request_def request_of_def) code_simp
  ultimately show ?thesis by simp
qed

text \<open>After a login that succeeds the client sends the token it got with every request; a login that fails leaves the headers
  alone and raises what the call raised.\<close>

theorem login_authenticates:
  assumes "ct_kind s = HTTPClient"
  shows "(case login srv rnd s of
       (Inr _, s') \<Rightarrow> \<exists>token h. ci_headers s' = ci_headers s @ [(''Auth-Id'', ''jobsig''), (''Auth-Token'', token)]
         \<and> fst (request srv ''CALL'' ''/api/v1/Auth/User(login)''
             (Json (PDict [(''username'', PStr ''jobsig''), (''password'', PStr ''jobsig'')])) [] 30 False s) = Inr (200, PStr token, h)
         \<and> (\<forall>v u d k t. rq_headers (request_of s' v u d k t) =
              ci_headers s @ [(''Auth-Id'', ''jobsig''), (''Auth-Token'', token)] @ dset ''Content-Type'' json_type k)
     | (Inl e, s') \<Rightarrow> ci_headers s' = ci_headers s)"
proof -
  let ?u = "''/api/v1/Auth/User(login)''" and ?d = "PDict [(''username'', PStr ''jobsig''), (''password'', PStr ''jobsig'')]"
  let ?r = "request srv ''CALL'' ?u (Json ?d) [] 30 False"
  have c: "job_call srv rnd ?u ?d s = bnd ?r (expect 200 ''CALL'') s"
    by (simp add: job_call_once call_def is_dict_def multi_header_def)
  obtain r t where rt: "?r s = (r, t)" by (cases "?r s")
  have h: "ci_headers t = ci_headers s" using request_state[of srv "''CALL''" ?u "Json ?d" "[]" 30 False s] rt by auto
  show ?thesis
  proof (cases "\<exists>token k. r = Inr (200, PStr token, k)")
    case True
    then obtain token k where "r = Inr (200, PStr token, k)" by blast
    with assms rt c h show ?thesis
      by (simp add: login_def bnd_apply gets_apply expect_def ret_apply lift_apply str_of_def setAuth_def modify_apply request_of_def)
  next
    case False
    show ?thesis
    proof (cases r)
      case (Inl e)
      with assms rt c h show ?thesis by (simp add: login_def bnd_apply gets_apply)
    next
      case (Inr p)
      obtain code v k where p: "p = (code, v, k)" by (cases p)
      then have "code \<noteq> 200 \<or> str_of v = Inl TypeError" using False Inr by (cases v) (auto simp: str_of_def)
      with assms rt c h Inr p show ?thesis
        by (cases "code = 200") (simp_all add: login_def bnd_apply gets_apply expect_def ret_apply throw_apply lift_apply)
    qed
  qed
qed

theorem login_authenticates_witness:
  "ci_headers (snd (login (\<lambda>_ _. AResponse 200 ''t'' (Some (PStr ''T'')) []) (\<lambda>_. 0) (new_client\<lparr>ci_root := ''/api/v1/''\<rparr>)))
     = [(''Auth-Id'', ''jobsig''), (''Auth-Token'', ''T'')]"
proof -
  let ?s = "new_client\<lparr>ci_root := ''/api/v1/''\<rparr>" and ?srv = "\<lambda>_ _. AResponse 200 ''t'' (Some (PStr ''T'')) []"
  let ?r = "request ?srv ''CALL'' ''/api/v1/Auth/User(login)'' (Json (PDict [(''username'', PStr ''jobsig''), (''password'', PStr ''jobsig'')])) [] 30 False"
  have k: "ct_kind ?s = HTTPClient" by (simp add: new_client_def plain_client_def)
  have h: "ci_headers ?s = []" by (simp add: new_client_def plain_client_def)
  have "strip ''t'' \<noteq> []"
    "checkRequest ''/api/v1/'' ''CALL'' ''/api/v1/Auth/User(login)'' (Some (PDict [(''username'', PStr ''jobsig''), (''password'', PStr ''jobsig'')])) = Inr ()"
    by code_simp+
  then obtain k t where r: "?r ?s = (Inr (200, PStr ''T'', k), t)"
    by (simp add: request_checked checked_verb_def payload_json_def send_unfold)
  then have "fst (login ?srv (\<lambda>_. 0) ?s) = Inr ()"
    using k by (simp add: login_def job_call_once call_def is_dict_def multi_header_def bnd_apply gets_apply expect_def ret_apply
        lift_apply str_of_def setAuth_def modify_apply)
  with login_authenticates[OF k, of ?srv "\<lambda>_. 0"] r h show ?thesis
    by (cases "login ?srv (\<lambda>_. 0) ?s") (auto split: sum.splits)
qed

end
