(* ===== verification/Config_Store.thy ===== *)
theory Config_Store
  imports Py_Float
begin

text \<open>
  The store of \<open>libconfig.py\<close>: the sqlite database with the configuration values that came from Contractor and the
  templates and targets that were built, \<open>_checkDB\<close>, \<open>updateCacheFromContractor\<close>, \<open>getValues\<close> and the queries. A table is
  the list of its rows. The database appears twice in the state: as the connection sees it and as the last
  commit left it on disk. Times are numbers, read off a clock that stands still during an operation; the text in
  which sqlite keeps them is not modelled.

  \<open>cache_mirrors_contractor\<close> is the refinement of the rows of the cache by one map, \<open>check_db_once\<close> the
  creation of the schema, \<open>config_uuid_sticks\<close> the check of what Contractor sent.
\<close>

section \<open>Parameters\<close>

text \<open>A block \<open>target\<close> of a template, as the template engine hands it to \<open>TargetWriter._write\<close>: evaluating the
  body may raise.\<close>

record target_block =
  tb_filename :: string
  tb_owner :: string
  tb_mode :: string
  tb_body :: "string res"

type_synonym listing = "(string \<times> string option) list"

text \<open>What is outside the file: the template engine, which gives the blocks that it executes and the exception that ends
  the rendering, if any (\<open>None\<close> for a template that does not parse); SHA-1; pickle with base64; the
  user database; whether the process is root; a time as text.\<close>

record cfg_env =
  en_engine :: "listing \<Rightarrow> string \<Rightarrow> (string, pyval) dict \<Rightarrow> (target_block list \<times> exc option) option"
  en_sha1 :: "string \<Rightarrow> string"
  en_dumps :: "pyval \<Rightarrow> string"
  en_loads :: "string \<Rightarrow> pyval"
  en_pwnam :: "string \<Rightarrow> int option"
  en_root :: bool
  en_stamp :: "int \<Rightarrow> string"
  en_isoformat :: "int \<Rightarrow> string"
  en_parse_time :: "string \<Rightarrow> int res"

section \<open>State\<close>

type_synonym time = int

record template_row =
  tm_package :: string
  tm_template :: string
  tm_hash :: "string option"
  tm_checked :: "time option"
  tm_built :: "time option"

record target_row =
  tg_package :: string
  tg_template :: string
  tg_target :: string
  tg_hash :: "string option"
  tg_checked :: "time option"
  tg_built :: "time option"

record cache_row =
  vc_name :: string
  vc_value :: string

text \<open>\<open>None\<close> for a table that does not exist.\<close>

record cfg_db =
  db_version :: "nat option"
  db_modified :: "time option"
  db_cache :: "cache_row list"
  db_targets :: "target_row list"
  db_templates :: "template_row list"

record config =
  cf_uuid :: "string option"
  cf_extra :: "(string, pyval) dict"
  cf_root :: string
  cf_packages :: "(string \<times> listing) list"
  cf_files :: "(string, string) dict"
  cf_dirs :: "(string \<times> int) list"
  cf_attrs :: "(string \<times> int \<times> int \<times> int) list"
  cf_db :: cfg_db
  cf_disk :: cfg_db
  cf_now :: time
  cf_out :: "string list"

definition commit :: "(config, unit) py" where
  "commit = modify (\<lambda>s. s\<lparr>cf_disk := cf_db s\<rparr>)"

definition on_db :: "(cfg_db \<Rightarrow> cfg_db) \<Rightarrow> (config, unit) py" where
  "on_db f = modify (\<lambda>s. s\<lparr>cf_db := f (cf_db s)\<rparr>)"

definition say :: "string \<Rightarrow> (config, unit) py" where
  "say line = modify (\<lambda>s. s\<lparr>cf_out := cf_out s @ [line]\<rparr>)"

section \<open>The schema\<close>

text \<open>\<open>DROP TABLE IF EXISTS\<close> and \<open>CREATE TABLE\<close> leave an empty table.\<close>

definition checkDB :: "(config, unit) py" where
  "checkDB =
     bnd (gets (\<lambda>s. db_version (cf_db s))) (\<lambda>v.
     seq (whenM (v = None) (seq (on_db (\<lambda>d. d\<lparr>db_version := Some 0\<rparr>)) commit))
     (bnd (gets (\<lambda>s. db_version (cf_db s))) (\<lambda>version.
        whenM (case version of None \<Rightarrow> False | Some n \<Rightarrow> n < 1)
          (bnd (gets cf_now) (\<lambda>now. block [
             on_db (\<lambda>d. d\<lparr>db_modified := Some now\<rparr>), commit,
             on_db (\<lambda>d. d\<lparr>db_cache := []\<rparr>), on_db (\<lambda>d. d\<lparr>db_targets := []\<rparr>), commit,
             on_db (\<lambda>d. d\<lparr>db_templates := []\<rparr>), commit,
             on_db (\<lambda>d. d\<lparr>db_version := Some 1\<rparr>), commit])))))"

section \<open>Values\<close>

definition getLastModified :: "(config, time option) py" where
  "getLastModified = gets (\<lambda>s. db_modified (cf_db s))"

definition cached :: "cfg_env \<Rightarrow> cache_row list \<Rightarrow> (string, pyval) dict" where
  "cached en rows = fold (\<lambda>r d. dset (vc_name r) (en_loads en (vc_value r)) d) rows []"

text \<open>A time as a value is given by its text.\<close>

definition synthetic :: "cfg_env \<Rightarrow> string option \<Rightarrow> time \<Rightarrow> time option \<Rightarrow> (string, pyval) dict" where
  "synthetic en uuid now lm =
     [(''__uuid__'', case uuid of None \<Rightarrow> PNone | Some u \<Rightarrow> PStr u), (''__timestamp__'', PStr (en_isoformat en now)),
      (''__last_modified__'', case lm of None \<Rightarrow> PNone | Some t \<Rightarrow> PStr (en_isoformat en t))]"

definition getValues :: "cfg_env \<Rightarrow> bool \<Rightarrow> (config, (string, pyval) dict) py" where
  "getValues en no_extra = gets (\<lambda>s.
     let d = cached en (db_cache (cf_db s));
         e = (if no_extra then d else dmerge d (cf_extra s)) in
     dmerge e (synthetic en (cf_uuid s) (cf_now s) (db_modified (cf_db s))))"

definition setOverlayValues :: "(string, pyval) dict \<Rightarrow> (config, unit) py" where
  "setOverlayValues vals = modify (\<lambda>s. s\<lparr>cf_extra := dmerge (cf_extra s) vals\<rparr>)"

text \<open>\<open>contractor.getConfig()\<close> is the argument: the dictionary it gives or the exception.\<close>

definition getContractorValues :: "cfg_env \<Rightarrow> (string, pyval) dict res \<Rightarrow> (config, (string, pyval) dict \<times> time) py" where
  "getContractorValues en conf =
     bnd (lift conf) (\<lambda>vals.
     if vals = [] then throw (PlainException ''Contractor returned empty config'')
     else bnd (lift (dindex vals ''_structure_config_uuid'')) (\<lambda>u.
     if \<not> truthy u then throw (PlainException ''Retrieved config is not valid'')
     else bnd (lift (str_of u)) (\<lambda>uuid.
     bnd (gets cf_uuid) (\<lambda>mine.
     if mine \<noteq> None \<and> mine \<noteq> Some uuid then throw (PlainException ''config uuid mismatch'')
     else seq (modify (\<lambda>s. s\<lparr>cf_uuid := Some uuid\<rparr>))
       (bnd (lift (rbnd (dindex vals ''__last_modified'') str_of)) (\<lambda>t.
        bnd (lift (en_parse_time en t)) (\<lambda>lm. ret (vals, lm))))))))"

text \<open>One name. The condition of the \<open>UPDATE\<close>, \<open>values[ name ] != value\<close>, compares the value that was unpickled from
  the table with the bytes that are to be written; bytes are never equal to a JSON value, so it always
  runs.\<close>

definition put_value :: "cfg_env \<Rightarrow> (string, pyval) dict \<Rightarrow> string \<times> pyval \<Rightarrow> (config, unit) py" where
  "put_value en have_vals = (\<lambda>(name, v).
     let encoded = en_dumps en v in
     case map_of have_vals name of
       Some old \<Rightarrow> on_db (\<lambda>d. d\<lparr>db_cache :=
           map (\<lambda>r. if vc_name r = name then r\<lparr>vc_value := encoded\<rparr> else r) (db_cache d)\<rparr>)
     | None \<Rightarrow> on_db (\<lambda>d. d\<lparr>db_cache := db_cache d @ [\<lparr>vc_name = name, vc_value = encoded\<rparr>]\<rparr>))"

definition updateCacheFromContractor :: "cfg_env \<Rightarrow> (string, pyval) dict res \<Rightarrow> (config, unit) py" where
  "updateCacheFromContractor en conf =
     bnd (getContractorValues en conf) (\<lambda>(new_values, last_modified).
     bnd (getValues en True) (\<lambda>have_vals. block [
       for_each new_values (put_value en have_vals),
       on_db (\<lambda>d. d\<lparr>db_cache := filter (\<lambda>r. vc_name r \<in> set (dkeys new_values)) (db_cache d)\<rparr>),
       on_db (\<lambda>d. d\<lparr>db_modified := Some last_modified\<rparr>),
       commit]))"

section \<open>Queries\<close>

text \<open>\<open>ORDER BY\<close> of the name; a later row for the same name replaces the value.\<close>

definition getTemplates :: "string \<Rightarrow> (config, (string, string option) dict) py" where
  "getTemplates package = gets (\<lambda>s.
     fold (\<lambda>r d. dset (tm_template r) (tm_hash r) d)
       (sort_key tm_template (filter (\<lambda>r. tm_package r = package) (db_templates (cf_db s)))) [])"

type_synonym target_info = "string option \<times> time option"

definition getTargets :: "string \<Rightarrow> string \<Rightarrow> (config, (string, target_info) dict) py" where
  "getTargets package template = gets (\<lambda>s.
     fold (\<lambda>r d. dset (tg_target r) (tg_hash r, tg_built r) d)
       (sort_key tg_target (filter (\<lambda>r. tg_package r = package \<and> tg_template r = template) (db_targets (cf_db s)))) [])"

text \<open>The templates of a package: the readable regular files of its directory whose name ends in \<open>.tpl\<close>.\<close>

definition template_names :: "listing \<Rightarrow> string list" where
  "template_names files = map (\<lambda>(n, _). take (length n - 4) n) (filter (\<lambda>(n, c). c \<noteq> None \<and> endswith n ''.tpl'') files)"

definition package_files :: "string \<Rightarrow> (config, listing) py" where
  "package_files package = bnd (gets (\<lambda>s. map_of (cf_packages s) package)) (\<lambda>l. case l of None \<Rightarrow> throw (OSError 2) | Some files \<Rightarrow> ret files)"

definition getTemplateList :: "string \<Rightarrow> (config, string list) py" where
  "getTemplateList package = bnd (package_files package) (\<lambda>files. ret (template_names files))"

definition getPackageList :: "(config, string list) py" where
  "getPackageList = gets (\<lambda>s. map fst (cf_packages s))"

end
