(* ===== verification/Config_Build.thy ===== *)
theory Config_Build
  imports Config_Store
begin

text \<open>
  Building the configuration files, the rest of \<open>libconfig.py\<close>: \<open>TargetWriter._write\<close>, which the template
  engine calls for every \<open>target\<close> block, \<open>_targetFiles\<close> and \<open>_renderTemplate\<close>, which render a template without and with
  writing, \<open>configPackage\<close> and \<open>getTargetStatus\<close>. Parsing the tag is left to the template engine. Regular files
  are a dictionary of paths; directories are recorded with the mode they were made with.
\<close>

unbundle bit_operations_syntax

section \<open>Writing a target\<close>

text \<open>\<open>int( s, 8 )\<close>: as \<open>int( s )\<close>, with an optional \<open>0o\<close> and digits below 8.\<close>

fun read_octal :: "bool \<Rightarrow> int \<Rightarrow> string \<Rightarrow> int option" where
  "read_octal d acc [] = (if d then Some acc else None)"
| "read_octal d acc (c # cs) =
     (if is_digit c \<and> digit_val c < 8 then read_octal True (8 * acc + int (digit_val c)) cs
      else if c = CHR ''_'' \<and> d then read_octal False acc cs
      else None)"

definition octal_digits :: "string \<Rightarrow> int option" where
  "octal_digits s = (if startswith s ''0o'' \<or> startswith s ''0O'' then read_octal (length s > 3 \<and> s ! 2 = CHR ''_'') 0 (drop 2 s) else read_octal False 0 s)"

definition octal :: "string \<Rightarrow> int res" where
  "octal s = (case (case strip s of
         [] \<Rightarrow> None
       | c # cs \<Rightarrow> if c = CHR ''-'' then map_option uminus (octal_digits cs)
           else if c = CHR ''+'' then octal_digits cs else octal_digits (c # cs)) of
       None \<Rightarrow> Inl ValueError | Some i \<Rightarrow> Inr i)"

text \<open>A number, or the uid that the user database gives for the name; the group goes through the same database.\<close>

definition id_of_name :: "cfg_env \<Rightarrow> string \<Rightarrow> int res" where
  "id_of_name en name = (case read_int name of
       Some i \<Rightarrow> Inr i
     | None \<Rightarrow> (case en_pwnam en name of None \<Rightarrow> Inl KeyError | Some i \<Rightarrow> Inr i))"

definition owner_ids :: "cfg_env \<Rightarrow> string \<Rightarrow> (int \<times> int) res" where
  "owner_ids en owner = (case split_chr (CHR ''.'') owner of
       [user, grp] \<Rightarrow> rbnd (id_of_name en user) (\<lambda>u. rbnd (id_of_name en grp) (\<lambda>g. Inr (u, g)))
     | _ \<Rightarrow> Inl ValueError)"

text \<open>The mode of a directory: where the file may be read, the directory may be searched.\<close>

definition dir_mode :: "int \<Rightarrow> int" where
  "dir_mode file_mode = file_mode OR drop_bit 2 (file_mode AND 0x124)"

text \<open>\<open>os.path.join( root_dir, *parts )\<close>.\<close>

definition join_parts :: "string \<Rightarrow> string list \<Rightarrow> string" where
  "join_parts base parts = foldl os_join base parts"

definition target_path :: "string \<Rightarrow> string \<Rightarrow> string" where
  "target_path base filename = join_parts base (split_chr slash filename)"

fun ancestors :: "nat \<Rightarrow> string \<Rightarrow> string list" where
  "ancestors 0 p = []"
| "ancestors (Suc n) p = (let d = os_dirname p in if d = p \<or> d = [] then [] else ancestors n d @ [d])"

definition is_dir :: "config \<Rightarrow> string \<Rightarrow> bool" where
  "is_dir s p = (p \<in> fst ` set (cf_dirs s))"

definition makedirs :: "string \<Rightarrow> int \<Rightarrow> (config, unit) py" where
  "makedirs p mode =
     (if p = [] then throw (OSError 2)
      else modify (\<lambda>s. s\<lparr>cf_dirs := cf_dirs s @
        filter (\<lambda>(d, _). \<not> is_dir s d) (map (\<lambda>d. (d, 0x1FF)) (ancestors (length p) p)) @ [(p, mode)]\<rparr>))"

definition save_file :: "string \<Rightarrow> string \<Rightarrow> (config, unit) py" where
  "save_file p t = modify (\<lambda>s. s\<lparr>cf_files := dset p t (cf_files s)\<rparr>)"

definition no_root_warning :: string where
  "no_root_warning = ''WARNING: not running as root, unable to set owner nor mode of target file''"

text \<open>The file is opened, and so emptied, before the body is evaluated.\<close>

definition write_block :: "cfg_env \<Rightarrow> bool \<Rightarrow> string \<Rightarrow> target_block \<Rightarrow> (config, unit) py" where
  "write_block en dry_run root_dir b =
     bnd (lift (octal (tb_mode b))) (\<lambda>mode.
     bnd (lift (owner_ids en (tb_owner b))) (\<lambda>(user, grp).
     whenM (\<not> dry_run) (
       let p = target_path root_dir (tb_filename b); d = os_dirname p in
       seq (bnd (gets (\<lambda>s. is_dir s d)) (\<lambda>there. whenM (\<not> there) (makedirs d (dir_mode mode))))
       (seq (save_file p [])
       (bnd (lift (tb_body b)) (\<lambda>text.
        seq (save_file p text)
        (if en_root en then modify (\<lambda>s. s\<lparr>cf_attrs := cf_attrs s @ [(p, user, grp, mode)]\<rparr>)
         else say no_root_warning)))))))"

text \<open>The blocks of a template in order; the names of those that were written are the target list.\<close>

definition run_blocks :: "cfg_env \<Rightarrow> bool \<Rightarrow> string \<Rightarrow> target_block list \<times> exc option \<Rightarrow> (config, string list) py" where
  "run_blocks en dry_run root_dir = (\<lambda>(bs, stop).
     seq (for_each bs (write_block en dry_run root_dir))
       (case stop of Some e \<Rightarrow> throw e | None \<Rightarrow> ret (map tb_filename bs)))"

definition tpl :: "string \<Rightarrow> string" where
  "tpl template = template @ ''.tpl''"

definition targetFiles :: "cfg_env \<Rightarrow> string \<Rightarrow> (string, pyval) dict \<Rightarrow> string \<Rightarrow> (config, string list) py" where
  "targetFiles en package value_map template =
     bnd (package_files package) (\<lambda>files.
     case en_engine en files (tpl template) value_map of
       None \<Rightarrow> throw ValueError
     | Some r \<Rightarrow> run_blocks en True [] r)"

definition renderTemplate :: "cfg_env \<Rightarrow> string \<Rightarrow> (string, pyval) dict \<Rightarrow> string \<Rightarrow> string \<Rightarrow> (config, string list) py" where
  "renderTemplate en package value_map template root_dir =
     bnd (package_files package) (\<lambda>files.
     bnd (gets cf_root) (\<lambda>rt.
     case en_engine en files (tpl template) value_map of
       None \<Rightarrow> throw (PlainException ''TemplateSyntaxError'')
     | Some r \<Rightarrow> run_blocks en False (os_join rt root_dir) r))"

definition getTargetFiles :: "cfg_env \<Rightarrow> string \<Rightarrow> string \<Rightarrow> (string, pyval) dict \<Rightarrow> (config, string list) py" where
  "getTargetFiles en package template value_map =
     (if value_map = [] then throw AttributeError else targetFiles en package value_map template)"

section \<open>configPackage\<close>

record build_opts =
  bo_force :: bool
  bo_dry_run :: bool
  bo_no_backups :: bool
  bo_re_generate :: bool
  bo_dest :: string

text \<open>\<open>last_modified > last_built\<close> of two columns: comparing with \<open>None\<close> raises.\<close>

definition later :: "time option \<Rightarrow> time option \<Rightarrow> bool res" where
  "later a b = (case (a, b) of (Some x, Some y) \<Rightarrow> Inr (x > y) | _ \<Rightarrow> Inl TypeError)"

text \<open>The digest of a file that is there.\<close>

definition file_hash :: "cfg_env \<Rightarrow> config \<Rightarrow> string \<Rightarrow> string option" where
  "file_hash en s p = map_option (en_sha1 en) (map_of (cf_files s) p)"

definition dest_path :: "string \<Rightarrow> string \<Rightarrow> string \<Rightarrow> string" where
  "dest_path base dest target =
     (if dest \<noteq> [] then join_parts base (split_chr slash dest @ split_chr slash target) else target_path base target)"

text \<open>What stands against building the target, with the need to build that is known so far.\<close>

definition look_at :: "time option \<Rightarrow> string option \<Rightarrow> target_info option \<Rightarrow> bool \<Rightarrow> (bool \<times> string option) res" where
  "look_at lm h rec_info need0 =
     (let need1 = (need0 \<or> h = None) in
      case rec_info of
        Some (rec_hash, built) \<Rightarrow>
          rbnd (later lm built) (\<lambda>l.
          let need2 = (need1 \<or> l) in
          Inr (if h = None \<or> h = Some [] then (True, None)
               else if h \<noteq> rec_hash then (True, Some ''has local changes'')
               else (need2, None)))
      | None \<Rightarrow> Inr (need1, if h \<noteq> None \<and> h \<noteq> Some [] then Some ''allready exists'' else None))"

definition target_line :: "string \<Rightarrow> string \<Rightarrow> string \<Rightarrow> string \<Rightarrow> string \<Rightarrow> string" where
  "target_line package template target msg what =
     ''Target '' @ [CHR 0x22] @ target @ [CHR 0x22] @ '' for Template '' @ [CHR 0x22] @ template @ [CHR 0x22] @ '' in package ''
       @ [CHR 0x22] @ package @ [CHR 0x22] @ '' '' @ msg @ what"

definition rename_file :: "string \<Rightarrow> string \<Rightarrow> (config, unit) py" where
  "rename_file p q = modify (\<lambda>s. case map_of (cf_files s) p of
       None \<Rightarrow> s | Some t \<Rightarrow> s\<lparr>cf_files := dset q t (AList.delete p (cf_files s))\<rparr>)"

definition check_target :: "cfg_env \<Rightarrow> build_opts \<Rightarrow> string \<Rightarrow> string \<Rightarrow> time option \<Rightarrow> (string, target_info) dict
    \<Rightarrow> string \<Rightarrow> bool \<times> bool \<Rightarrow> (config, bool \<times> bool) py" where
  "check_target en bo package template lm target_db target = (\<lambda>(need0, no_build).
     bnd (gets (\<lambda>s. dest_path (cf_root s) (bo_dest bo) target)) (\<lambda>p.
     bnd (gets (\<lambda>s. file_hash en s p)) (\<lambda>h.
     bnd (lift (look_at lm h (map_of target_db target) need0)) (\<lambda>(need, msg).
     case msg of
       None \<Rightarrow> ret (need, no_build)
     | Some m \<Rightarrow>
         if \<not> need then ret (need, no_build)
         else if \<not> bo_force bo then
           seq (say (target_line package template target m '', skipped.'')) (ret (need, True))
         else if bo_no_backups bo then
           seq (say (target_line package template target m '', forcefully overwritten.'')) (ret (need, no_build))
         else
           seq (say (target_line package template target m '', old file saved.''))
           (seq (whenM (\<not> bo_dry_run bo) (bnd (gets cf_now) (\<lambda>now. rename_file p (p @ ''.'' @ en_stamp en now))))
           (ret (need, no_build)))))))"

fun check_all_targets :: "cfg_env \<Rightarrow> build_opts \<Rightarrow> string \<Rightarrow> string \<Rightarrow> time option \<Rightarrow> (string, target_info) dict
    \<Rightarrow> string list \<Rightarrow> bool \<times> bool \<Rightarrow> (config, bool \<times> bool) py" where
  "check_all_targets en bo package template lm target_db [] acc = ret acc"
| "check_all_targets en bo package template lm target_db (t # ts) acc =
     bnd (check_target en bo package template lm target_db t acc) (check_all_targets en bo package template lm target_db ts)"

text \<open>The rows after a check without a build, and after a build.\<close>

definition same_template :: "string \<Rightarrow> string \<Rightarrow> template_row \<Rightarrow> bool" where
  "same_template package template r = (tm_package r = package \<and> tm_template r = template)"

definition same_target :: "string \<Rightarrow> string \<Rightarrow> string \<Rightarrow> target_row \<Rightarrow> bool" where
  "same_target package template target r = (tg_package r = package \<and> tg_template r = template \<and> tg_target r = target)"

definition new_target :: "string \<Rightarrow> string \<Rightarrow> string \<Rightarrow> string option \<Rightarrow> time \<Rightarrow> time option \<Rightarrow> target_row" where
  "new_target package template target h checked built =
     \<lparr>tg_package = package, tg_template = template, tg_target = target, tg_hash = h, tg_checked = Some checked, tg_built = built\<rparr>"

definition note_checked :: "string \<Rightarrow> string \<Rightarrow> bool \<Rightarrow> string list \<Rightarrow> (string, target_info) dict \<Rightarrow> (config, unit) py" where
  "note_checked package template known targets target_db =
     bnd (gets cf_now) (\<lambda>now.
     if \<not> known then
       seq (on_db (\<lambda>d. d\<lparr>db_templates := db_templates d @
           [\<lparr>tm_package = package, tm_template = template, tm_hash = None, tm_checked = Some now, tm_built = None\<rparr>]\<rparr>))
         (for_each targets (\<lambda>t. on_db (\<lambda>d. d\<lparr>db_targets := db_targets d @ [new_target package template t None now None]\<rparr>)))
     else
       seq (on_db (\<lambda>d. d\<lparr>db_templates := map (\<lambda>r. if same_template package template r then r\<lparr>tm_checked := Some now\<rparr> else r) (db_templates d)\<rparr>))
         (for_each targets (\<lambda>t.
           if t \<notin> set (dkeys target_db)
           then on_db (\<lambda>d. d\<lparr>db_targets := db_targets d @ [new_target package template t None now None]\<rparr>)
           else on_db (\<lambda>d. d\<lparr>db_targets := map (\<lambda>r. if same_target package template t r then r\<lparr>tg_checked := Some now\<rparr> else r) (db_targets d)\<rparr>))))"

definition note_template :: "string \<Rightarrow> string \<Rightarrow> bool \<Rightarrow> string \<Rightarrow> (config, unit) py" where
  "note_template package template known h =
     bnd (gets cf_now) (\<lambda>now.
     if known then
       on_db (\<lambda>d. d\<lparr>db_templates := map (\<lambda>r. if same_template package template r
         then r\<lparr>tm_checked := Some now, tm_hash := Some h, tm_built := Some now\<rparr> else r) (db_templates d)\<rparr>)
     else
       on_db (\<lambda>d. d\<lparr>db_templates := db_templates d @
         [\<lparr>tm_package = package, tm_template = template, tm_hash = Some h, tm_checked = Some now, tm_built = Some now\<rparr>]\<rparr>))"

definition note_target :: "cfg_env \<Rightarrow> string \<Rightarrow> string \<Rightarrow> bool \<Rightarrow> string \<Rightarrow> (config, unit) py" where
  "note_target en package template known t =
     bnd (gets cf_now) (\<lambda>now.
     bnd (gets (\<lambda>s. file_hash en s (target_path (cf_root s) t))) (\<lambda>h.
     if h = None then throw (OSError 2)
     else if known then
       on_db (\<lambda>d. d\<lparr>db_targets := map (\<lambda>r. if same_target package template t r
         then r\<lparr>tg_checked := Some now, tg_hash := h, tg_built := Some now\<rparr> else r) (db_targets d)\<rparr>)
     else
       on_db (\<lambda>d. d\<lparr>db_targets := db_targets d @ [new_target package template t h now (Some now)]\<rparr>)))"

definition template_line :: "string \<Rightarrow> string \<Rightarrow> string \<Rightarrow> string" where
  "template_line package template what =
     ''Template '' @ [CHR 0x22] @ template @ [CHR 0x22] @ '' in '' @ [CHR 0x22] @ package @ [CHR 0x22] @ what"

definition not_found_line :: "string \<Rightarrow> string \<Rightarrow> string" where
  "not_found_line package template =
     ''Template '' @ [CHR 0x22] @ template @ [CHR 0x22] @ '' for package '' @ [CHR 0x22] @ package @ [CHR 0x22] @ '' is not found, skipped...''"

definition building_line :: "string \<Rightarrow> string \<Rightarrow> string" where
  "building_line package template =
     ''(Re)Building '' @ [CHR 0x22] @ template @ [CHR 0x22] @ '' in '' @ [CHR 0x22] @ package @ [CHR 0x22] @ ''...''"

text \<open>After the targets: is the template built?\<close>

definition decide :: "build_opts \<Rightarrow> string \<Rightarrow> string \<Rightarrow> string option option \<Rightarrow> string \<Rightarrow> bool \<Rightarrow> (config, bool) py" where
  "decide bo package template rec_hash template_hash need0 =
     bnd (case rec_hash of
        None \<Rightarrow> seq (say (template_line package template '' is new, building.'')) (ret True)
      | Some h \<Rightarrow>
          if h \<noteq> Some template_hash
          then seq (say (template_line package template '' has been modified, rebuilding.'')) (ret True)
          else ret need0) (\<lambda>need.
     if \<not> need \<and> bo_re_generate bo
     then seq (say (template_line package template '' rebuild not required, but re-generate specified, rebuilding.'')) (ret True)
     else ret need)"

definition config_template :: "cfg_env \<Rightarrow> build_opts \<Rightarrow> string \<Rightarrow> (string, pyval) dict \<Rightarrow> time option \<Rightarrow> (string, string option) dict
    \<Rightarrow> string \<Rightarrow> (config, unit) py" where
  "config_template en bo package value_map lm template_db template =
     bnd (package_files package) (\<lambda>files.
     case map_of files (tpl template) of
       None \<Rightarrow> say (not_found_line package template)
     | Some None \<Rightarrow> say (not_found_line package template)
     | Some (Some content) \<Rightarrow>
     let template_hash = en_sha1 en content; rec_hash = map_of template_db template; known = (rec_hash \<noteq> None) in
     bnd (targetFiles en package value_map template) (\<lambda>targets.
     bnd (getTargets package template) (\<lambda>target_db.
     bnd (check_all_targets en bo package template lm target_db targets (False, False)) (\<lambda>(need0, no_build).
     if no_build then say (''Template '' @ [CHR 0x22] @ template @ [CHR 0x22] @ '' skipped.'')
     else bnd (decide bo package template rec_hash template_hash need0) (\<lambda>need.
       if bo_dry_run bo then ret ()
       else if \<not> need \<and> bo_dest bo = [] then seq (note_checked package template known targets target_db) commit
       else
         seq (whenM (bo_dest bo = []) (say (building_line package template)))
         (bnd (renderTemplate en package value_map template (bo_dest bo)) (\<lambda>_.
          whenM (bo_dest bo = [])
            (seq (note_template package template known template_hash)
            (seq (for_each targets (note_target en package template known)) commit)))))))))"

definition configPackage :: "cfg_env \<Rightarrow> build_opts \<Rightarrow> string \<Rightarrow> string list \<Rightarrow> (string, pyval) dict option \<Rightarrow> (config, unit) py" where
  "configPackage en bo package master_template_list value_map =
     bnd (case value_map of None \<Rightarrow> getValues en False | Some m \<Rightarrow> ret m) (\<lambda>vals.
     bnd getLastModified (\<lambda>lm.
     bnd (getTemplateList package) (\<lambda>template_list.
     bnd (getTemplates package) (\<lambda>template_db.
       for_each template_list (\<lambda>t. whenM (t \<in> set master_template_list) (config_template en bo package vals lm template_db t))))))"

section \<open>getTargetStatus\<close>

record target_status =
  st_template :: string
  st_target :: string
  st_need :: string
  st_built :: "time option option"
  st_refrenced :: string
  st_local :: string

text \<open>The file is looked for at \<open>os.path.join( root_dir, target )\<close>, not at the path it is written to.\<close>

definition status_of :: "cfg_env \<Rightarrow> config \<Rightarrow> string \<Rightarrow> string \<Rightarrow> time option \<Rightarrow> string option option \<Rightarrow> target_info option
    \<Rightarrow> string \<Rightarrow> target_status res" where
  "status_of en s template template_hash lm rec_template rec_target target =
     (case (rec_template, rec_target) of
        (Some th, Some (h, built)) \<Rightarrow>
          let now_hash = file_hash en s (os_join (cf_root s) target);
              loc = (case now_hash of None \<Rightarrow> ''Missing'' | Some x \<Rightarrow> if h \<noteq> Some x then ''Yes'' else ''No'') in
          rbnd (if lm = None then Inr ''Unknown''
                else rbnd (later lm built) (\<lambda>l. Inr (if l \<or> Some template_hash \<noteq> th then ''Yes'' else ''No'')))
          (\<lambda>need. Inr \<lparr>st_template = template, st_target = target, st_need = need, st_built = Some built,
             st_refrenced = ''Yes'', st_local = loc\<rparr>)
      | _ \<Rightarrow> Inr \<lparr>st_template = template, st_target = target, st_need = ''Yes'', st_built = None,
             st_refrenced = ''Yes'', st_local = ''Unknown''\<rparr>)"

definition unreferenced :: "string \<Rightarrow> string \<times> target_info \<Rightarrow> target_status" where
  "unreferenced template = (\<lambda>(target, (_, built)). \<lparr>st_template = template, st_target = target, st_need = ''Unknown'',
     st_built = Some built, st_refrenced = ''No'', st_local = ''Unknown''\<rparr>)"

definition listed_status :: "cfg_env \<Rightarrow> string \<Rightarrow> (string, pyval) dict \<Rightarrow> time option \<Rightarrow> (string, string option) dict \<Rightarrow> string
    \<Rightarrow> (config, target_status list) py" where
  "listed_status en package value_map lm template_db template =
     bnd (targetFiles en package value_map template) (\<lambda>targets.
     bnd (getTargets package template) (\<lambda>target_db.
     bnd (package_files package) (\<lambda>files.
     case map_of files (tpl template) of
       Some (Some content) \<Rightarrow>
         bnd (gets (\<lambda>s. collect targets (\<lambda>t. status_of en s template (en_sha1 en content) lm (map_of template_db template) (map_of target_db t) t))) lift
     | _ \<Rightarrow> throw (OSError 2))))"

definition old_status :: "cfg_env \<Rightarrow> string \<Rightarrow> (string, pyval) dict \<Rightarrow> string list \<Rightarrow> string \<Rightarrow> (config, target_status list) py" where
  "old_status en package value_map template_list template =
     bnd (getTargets package template) (\<lambda>target_db.
     if template \<notin> set template_list then ret (map (unreferenced template) target_db)
     else bnd (targetFiles en package value_map template) (\<lambda>targets.
       ret (map (unreferenced template) (filter (\<lambda>(t, _). t \<notin> set targets) target_db))))"

fun concat_each :: "'x list \<Rightarrow> ('x \<Rightarrow> ('s, 'a list) py) \<Rightarrow> ('s, 'a list) py" where
  "concat_each [] f = ret []"
| "concat_each (x # xs) f = bnd (f x) (\<lambda>a. bnd (concat_each xs f) (\<lambda>rest. ret (a @ rest)))"

definition getTargetStatus :: "cfg_env \<Rightarrow> string \<Rightarrow> (config, target_status list) py" where
  "getTargetStatus en package =
     bnd (getValues en False) (\<lambda>value_map.
     bnd getLastModified (\<lambda>lm.
     bnd (getTemplates package) (\<lambda>template_db.
     bnd (getTemplateList package) (\<lambda>template_list.
     bnd (concat_each template_list (listed_status en package value_map lm template_db)) (\<lambda>a.
     bnd (concat_each (dkeys template_db) (old_status en package value_map template_list)) (\<lambda>b.
       ret (a @ b)))))))"

end
