(* ===== verification/Config_Props.thy ===== *)
theory Config_Props
  imports Config_Build
begin

text \<open>
  What the configuration library promises. The locale \<open>store\<close> is the interface of something that refines a map: an
  invariant, the map it stands for, writing one key and dropping the keys that are not wanted; it is
  interpreted on the rows of the cache table and on the insertion-ordered dictionaries, and gives the contract of
  \<open>updateCacheFromContractor\<close>. The second part is about building: what a dry run, another destination and local
  changes leave alone, that a second run finds nothing to do, and where targets go.
\<close>

section \<open>Stores that refine a map\<close>

locale store =
  fixes inv :: "'c \<Rightarrow> bool" and abs :: "'c \<Rightarrow> 'k \<Rightarrow> 'v option" and put :: "'k \<Rightarrow> 'v \<Rightarrow> 'c \<Rightarrow> 'c"
    and only :: "'k set \<Rightarrow> 'c \<Rightarrow> 'c"
  assumes inv_put: "inv c \<Longrightarrow> inv (put k v c)"
    and abs_put: "inv c \<Longrightarrow> abs (put k v c) = (abs c)(k \<mapsto> v)"
    and inv_only: "inv c \<Longrightarrow> inv (only ks c)"
    and abs_only: "inv c \<Longrightarrow> abs (only ks c) = (abs c) |` ks"
begin

definition put_all :: "('k \<times> 'v) list \<Rightarrow> 'c \<Rightarrow> 'c" where
  "put_all kvs c = fold (\<lambda>(k, v). put k v) kvs c"

lemma put_all_simps [simp]: "put_all [] c = c" "put_all ((k, v) # kvs) c = put_all kvs (put k v c)"
  by (simp_all add: put_all_def)

lemma inv_put_all: "inv c \<Longrightarrow> inv (put_all kvs c)"
  by (induction kvs arbitrary: c) (auto simp: inv_put)

lemma abs_put_all: "inv c \<Longrightarrow> distinct (map fst kvs) \<Longrightarrow> abs (put_all kvs c) = abs c ++ map_of kvs"
proof (induction kvs arbitrary: c)
  case (Cons p kvs)
  obtain k v where p: "p = (k, v)" by (cases p)
  have "abs (put_all kvs (put k v c)) = (abs c)(k \<mapsto> v) ++ map_of kvs"
    using Cons p by (simp add: inv_put abs_put)
  moreover have "map_of kvs k = None" using Cons.prems(2) p by (simp add: map_of_eq_None_iff)
  ultimately show ?case using p by (auto simp: fun_eq_iff map_add_def split: option.split)
qed simp

text \<open>Writing all keys of a table and dropping the others leaves exactly the table.\<close>

theorem mirror:
  assumes "inv c" and "distinct (map fst kvs)"
  shows "abs (only (set (map fst kvs)) (put_all kvs c)) = map_of kvs" and "inv (only (set (map fst kvs)) (put_all kvs c))"
proof -
  have "(abs c ++ map_of kvs) |` set (map fst kvs) = map_of kvs"
  proof
    fix x
    show "((abs c ++ map_of kvs) |` set (map fst kvs)) x = map_of kvs x"
    proof (cases "map_of kvs x")
      case None
      then have "x \<notin> fst ` set kvs" by (simp add: map_of_eq_None_iff)
      with None show ?thesis by (simp add: restrict_map_def del: map_of_eq_None_iff)
    next
      case (Some v)
      then have "x \<in> fst ` set kvs" by (force dest: map_of_SomeD)
      with Some show ?thesis by (simp add: map_add_def)
    qed
  qed
  then show "abs (only (set (map fst kvs)) (put_all kvs c)) = map_of kvs"
    using assms by (simp add: abs_only inv_put_all abs_put_all)
  show "inv (only (set (map fst kvs)) (put_all kvs c))" using assms(1) by (simp add: inv_only inv_put_all)
qed

end

text \<open>A dictionary, and the rows of the cache.\<close>

interpretation py_dict: store "\<lambda>d. distinct (dkeys d)" map_of dset "\<lambda>ks d. filter (\<lambda>(k, _). k \<in> ks) d"
proof unfold_locales
  fix ks and d :: "('a, 'b) dict"
  show "map_of (filter (\<lambda>(k, _). k \<in> ks) d) = map_of d |` ks"
    by (induction d) (auto simp: restrict_map_def fun_eq_iff)
qed (auto simp: distinct_dset distinct_map_filter)

definition row_names :: "cache_row list \<Rightarrow> string list" where
  "row_names rows = map vc_name rows"

definition rows_map :: "cache_row list \<Rightarrow> string \<Rightarrow> string option" where
  "rows_map rows = map_of (map (\<lambda>r. (vc_name r, vc_value r)) rows)"

definition put_row :: "string \<Rightarrow> string \<Rightarrow> cache_row list \<Rightarrow> cache_row list" where
  "put_row name v rows =
     (if name \<in> set (row_names rows) then map (\<lambda>r. if vc_name r = name then r\<lparr>vc_value := v\<rparr> else r) rows
      else rows @ [\<lparr>vc_name = name, vc_value = v\<rparr>])"

definition keep_rows :: "string set \<Rightarrow> cache_row list \<Rightarrow> cache_row list" where
  "keep_rows names rows = filter (\<lambda>r. vc_name r \<in> names) rows"

lemma rows_map_simps [simp]: "rows_map [] = Map.empty" "rows_map (r # rows) = (rows_map rows)(vc_name r \<mapsto> vc_value r)"
  by (simp_all add: rows_map_def)

lemma row_names_simps [simp]: "row_names [] = []" "row_names (r # rows) = vc_name r # row_names rows"
  by (simp_all add: row_names_def)

lemma row_names_put: "row_names (put_row k v rows) = (if k \<in> set (row_names rows) then row_names rows else row_names rows @ [k])"
  by (simp add: put_row_def row_names_def comp_def if_distrib[of vc_name] cong: map_cong)

lemma update_other: "k \<notin> set (row_names rows) \<Longrightarrow> map (\<lambda>r. if vc_name r = k then r\<lparr>vc_value := v\<rparr> else r) rows = rows"
  by (induction rows) auto

lemma rows_map_update:
  "k \<in> set (row_names rows) \<Longrightarrow> distinct (row_names rows) \<Longrightarrow>
     rows_map (map (\<lambda>r. if vc_name r = k then r\<lparr>vc_value := v\<rparr> else r) rows) = (rows_map rows)(k \<mapsto> v)"
proof (induction rows)
  case (Cons r rows)
  then show ?case by (cases "vc_name r = k") (auto simp: update_other fun_upd_twist)
qed simp

lemma rows_map_append: "k \<notin> set (row_names rows) \<Longrightarrow> rows_map (rows @ [\<lparr>vc_name = k, vc_value = v\<rparr>]) = (rows_map rows)(k \<mapsto> v)"
  by (induction rows) (auto simp: fun_upd_twist)

interpretation cache_rows: store "\<lambda>rows. distinct (row_names rows)" rows_map put_row keep_rows
proof unfold_locales
  fix rows :: "cache_row list" and k v ks
  assume d: "distinct (row_names rows)"
  show "distinct (row_names (put_row k v rows))" using d by (simp add: row_names_put)
  show "rows_map (put_row k v rows) = (rows_map rows)(k \<mapsto> v)"
    using d by (simp add: put_row_def rows_map_update rows_map_append)
  show "distinct (row_names (keep_rows ks rows))" using d by (simp add: row_names_def keep_rows_def distinct_map_filter)
  show "rows_map (keep_rows ks rows) = rows_map rows |` ks"
    by (induction rows) (auto simp: keep_rows_def restrict_map_def fun_eq_iff)
qed

section \<open>The cache of values\<close>

text \<open>What the cache stands for: the values under their names.\<close>

definition abs_cache :: "cfg_env \<Rightarrow> config \<Rightarrow> string \<Rightarrow> pyval option" where
  "abs_cache en s name = map_option (en_loads en) (rows_map (db_cache (cf_db s)) name)"

text \<open>Unpickling gives back what was pickled.\<close>

definition pickles :: "cfg_env \<Rightarrow> (string, pyval) dict \<Rightarrow> bool" where
  "pickles en vals = list_all (\<lambda>(_, v). en_loads en (en_dumps en v) = v) vals"

definition synthetic_names :: "string set" where
  "synthetic_names = {''__uuid__'', ''__timestamp__'', ''__last_modified__''}"

lemma keys_dset [simp]: "fst ` set (dset k v d) = insert k (fst ` set d)"
  by (induction d) auto

lemma dkeys_fold_dset: "set (dkeys (fold (\<lambda>r d. dset (f r) (g r) d) rows d)) = f ` set rows \<union> set (dkeys d)"
  by (induction rows arbitrary: d) (auto simp: dkeys_dset)

lemma getValues_known:
  "name \<notin> synthetic_names \<Longrightarrow> map_of (dmerge (cached en rows) (synthetic en u n lm)) name = None \<longleftrightarrow> name \<notin> set (row_names rows)"
  using dkeys_fold_dset[of vc_name "\<lambda>r. en_loads en (vc_value r)" rows "[]"]
  by (auto simp: dget_dmerge synthetic_def synthetic_names_def cached_def row_names_def map_of_eq_None_iff split: option.splits)

definition set_cache :: "cache_row list \<Rightarrow> config \<Rightarrow> config" where
  "set_cache rows s = s\<lparr>cf_db := (cf_db s)\<lparr>db_cache := rows\<rparr>\<rparr>"

lemma put_value_row:
  "(map_of have_vals name = None) = (name \<notin> set (row_names (db_cache (cf_db s)))) \<Longrightarrow>
     put_value en have_vals (name, v) s = (Inr (), set_cache (put_row name (en_dumps en v) (db_cache (cf_db s))) s)"
  by (cases "map_of have_vals name") (auto simp: put_value_def on_db_def modify_apply set_cache_def put_row_def)

lemma put_values:
  "distinct (dkeys kvs) \<Longrightarrow> \<forall>k \<in> set (dkeys kvs). (map_of have_vals k = None) = (k \<notin> set (row_names (db_cache (cf_db s)))) \<Longrightarrow>
     for_each kvs (put_value en have_vals) s =
       (Inr (), set_cache (cache_rows.put_all (map (\<lambda>(k, v). (k, en_dumps en v)) kvs) (db_cache (cf_db s))) s)"
proof (induction kvs arbitrary: s)
  case (Cons p kvs)
  obtain k v where p: "p = (k, v)" by (cases p)
  let ?s = "set_cache (put_row k (en_dumps en v) (db_cache (cf_db s))) s"
  have "for_each kvs (put_value en have_vals) ?s =
      (Inr (), set_cache (cache_rows.put_all (map (\<lambda>(k, v). (k, en_dumps en v)) kvs) (db_cache (cf_db ?s))) ?s)"
    using Cons.prems p by (intro Cons.IH) (auto simp: set_cache_def row_names_put)
  moreover have "put_value en have_vals p s = (Inr (), ?s)" using Cons.prems(2) p by (simp add: put_value_row)
  ultimately show ?case using p by (simp add: seq_apply set_cache_def)
qed (simp add: ret_apply set_cache_def)

lemma getContractorValues_ok:
  assumes "getContractorValues en (Inr conf) s = (Inr (vals, lm), s')"
  obtains uuid t where "vals = conf" "s' = s\<lparr>cf_uuid := Some uuid\<rparr>" "cf_uuid s = None \<or> cf_uuid s = Some uuid"
    "map_of conf ''_structure_config_uuid'' = Some (PStr uuid)" "uuid \<noteq> []"
    "map_of conf ''__last_modified'' = Some (PStr t)" "en_parse_time en t = Inr lm"
proof -
  obtain u where u: "map_of conf ''_structure_config_uuid'' = Some u"
    using assms by (cases "map_of conf ''_structure_config_uuid''") (auto simp: getContractorValues_def py_simps dindex_def split: if_splits)
  obtain uuid where uuid: "u = PStr uuid" "uuid \<noteq> []" "cf_uuid s = None \<or> cf_uuid s = Some uuid"
    using assms u by (cases u) (auto simp: getContractorValues_def py_simps str_of_def split: if_splits)
  have "conf \<noteq> []" using u by auto
  with u uuid have g: "getContractorValues en (Inr conf) s =
      bnd (lift (rbnd (dindex conf ''__last_modified'') str_of)) (\<lambda>t. bnd (lift (en_parse_time en t)) (\<lambda>lm. ret (conf, lm))) (s\<lparr>cf_uuid := Some uuid\<rparr>)"
    by (auto simp: getContractorValues_def bnd_apply lift_apply gets_apply seq_apply modify_apply str_of_def)
  obtain t where t: "map_of conf ''__last_modified'' = Some (PStr t)" "en_parse_time en t = Inr lm" "vals = conf" "s' = s\<lparr>cf_uuid := Some uuid\<rparr>"
  proof (cases "map_of conf ''__last_modified''")
    case None
    with assms g show ?thesis by (simp add: bnd_apply lift_apply)
  next
    case (Some v)
    with assms g that show ?thesis
      by (cases v) (auto simp: bnd_apply lift_apply str_of_def ret_apply split: sum.splits)
  qed
  with u uuid that show thesis by blast
qed

text \<open>C3: \<open>updateCacheFromContractor\<close> refines one assignment: when it succeeds, the map that the rows stand for is the table that
  Contractor sent, whatever they held before, with one row for each name, committed with its time.\<close>

theorem cache_mirrors_contractor:
  assumes "pickles en conf" and "distinct (row_names (db_cache (cf_db s)))" and "distinct (dkeys conf)"
    and "set (dkeys conf) \<inter> synthetic_names = {}" and "fst (updateCacheFromContractor en (Inr conf) s) = Inr ()"
  shows "let s' = snd (updateCacheFromContractor en (Inr conf) s) in
     abs_cache en s' = map_of conf \<and> distinct (row_names (db_cache (cf_db s'))) \<and> cf_disk s' = cf_db s'
     \<and> (\<exists>t lm. map_of conf ''__last_modified'' = Some (PStr t) \<and> en_parse_time en t = Inr lm \<and> db_modified (cf_db s') = Some lm)"
proof -
  let ?rows = "db_cache (cf_db s)" and ?kvs = "map (\<lambda>(k, v). (k, en_dumps en v)) conf"
  obtain vals lm s1 where g: "getContractorValues en (Inr conf) s = (Inr (vals, lm), s1)"
    using assms(5) by (cases "getContractorValues en (Inr conf) s"; cases "fst (getContractorValues en (Inr conf) s)")
      (auto simp: updateCacheFromContractor_def bnd_apply)
  obtain uuid t where u: "vals = conf" "s1 = s\<lparr>cf_uuid := Some uuid\<rparr>"
    "map_of conf ''__last_modified'' = Some (PStr t)" "en_parse_time en t = Inr lm"
    using getContractorValues_ok[OF g] by metis
  let ?have = "dmerge (cached en ?rows) (synthetic en (Some uuid) (cf_now s) (db_modified (cf_db s)))"
  let ?new = "keep_rows (set (dkeys ?kvs)) (cache_rows.put_all ?kvs ?rows)"
  have "\<forall>k \<in> set (dkeys conf). (map_of ?have k = None) = (k \<notin> set (row_names ?rows))"
    using assms(4) getValues_known by blast
  with put_values[OF assms(3), of ?have s1 en] u(2)
  have p: "for_each conf (put_value en ?have) s1 = (Inr (), set_cache (cache_rows.put_all ?kvs ?rows) s1)" by simp
  have dk: "dkeys ?kvs = dkeys conf" by (auto simp: comp_def case_prod_beta)
  have "updateCacheFromContractor en (Inr conf) s =
     (Inr (), s1\<lparr>cf_db := (cf_db s)\<lparr>db_cache := ?new, db_modified := Some lm\<rparr>, cf_disk := (cf_db s)\<lparr>db_cache := ?new, db_modified := Some lm\<rparr>\<rparr>)"
    using g p u(1,2) unfolding dk
    by (simp add: updateCacheFromContractor_def bnd_apply getValues_def gets_apply Let_def block_simps seq_apply on_db_def
        modify_apply set_cache_def commit_def ret_apply keep_rows_def)
  moreover have "rows_map ?new = map_of ?kvs" "distinct (row_names ?new)"
    using cache_rows.mirror[of ?rows ?kvs] assms(2,3) unfolding dk by simp_all
  moreover have "map_option (en_loads en) (map_of ?kvs k) = map_of conf k" for k
    using assms(1) by (induction conf) (auto simp: pickles_def)
  ultimately show ?thesis using u(3,4) by (simp add: Let_def abs_cache_def fun_eq_iff)
qed

text \<open>An environment for examples: a template is the list of its targets, a value \<open>more\<close> adds one, and every target gets the
  value \<open>v\<close> as its text; text pickles to itself, and the digest is the text with a mark.\<close>

definition text_value :: "(string, pyval) dict \<Rightarrow> string \<Rightarrow> string" where
  "text_value vals k = (case map_of vals k of Some (PStr t) \<Rightarrow> t | _ \<Rightarrow> [])"

definition demo_block :: "(string, pyval) dict \<Rightarrow> string \<Rightarrow> target_block" where
  "demo_block vals t = \<lparr>tb_filename = t, tb_owner = ''root.root'', tb_mode = ''0644'', tb_body = Inr (text_value vals ''v'')\<rparr>"

definition demo_env :: cfg_env where
  "demo_env = \<lparr>en_engine = \<lambda>files name vals. (case map_of files name of
        Some (Some c) \<Rightarrow> Some (map (demo_block vals) (split_ws (c @ '' '' @ text_value vals ''more'')), None) | _ \<Rightarrow> None),
     en_sha1 = \<lambda>t. CHR ''#'' # t, en_dumps = \<lambda>v. case v of PStr t \<Rightarrow> t | _ \<Rightarrow> [], en_loads = PStr,
     en_pwnam = \<lambda>n. if n = ''root'' then Some 0 else None, en_root = True, en_stamp = show_int, en_isoformat = show_int,
     en_parse_time = int_str\<rparr>"

definition empty_db :: cfg_db where
  "empty_db = \<lparr>db_version = Some 1, db_modified = Some 10, db_cache = [], db_targets = [], db_templates = []\<rparr>"

definition demo_config :: "string \<Rightarrow> (string, string) dict \<Rightarrow> config" where
  "demo_config rt files = \<lparr>cf_uuid = None, cf_extra = [], cf_root = rt, cf_packages = [(''ntp'', [(''ntp.tpl'', Some ''/etc/ntp.conf'')])],
     cf_files = files, cf_dirs = [(''/'', 0x1FF)], cf_attrs = [], cf_db = empty_db, cf_disk = empty_db, cf_now = 20, cf_out = []\<rparr>"

definition demo_values :: "(string, pyval) dict" where
  "demo_values = [(''_structure_config_uuid'', PStr ''U''), (''__last_modified'', PStr ''15''), (''v'', PStr ''x'')]"

theorem cache_mirrors_contractor_witness:
  "abs_cache demo_env (snd (updateCacheFromContractor demo_env (Inr demo_values) (demo_config ''/'' []))) ''v'' = Some (PStr ''x'')"
proof -
  have "pickles demo_env demo_values" by code_simp
  moreover have "distinct (row_names (db_cache (cf_db (demo_config ''/'' []))))" "distinct (dkeys demo_values)" by code_simp+
  moreover have "set (dkeys demo_values) \<inter> synthetic_names = {}" by (simp add: demo_values_def synthetic_names_def)
  moreover have "fst (updateCacheFromContractor demo_env (Inr demo_values) (demo_config ''/'' [])) = Inr ()" by code_simp
  ultimately show ?thesis
    using cache_mirrors_contractor[of demo_env demo_values "demo_config ''/'' []"] by (simp add: Let_def demo_values_def)
qed

lemma put_values_end: "\<exists>rows. for_each kvs (put_value en have_vals) s = (Inr (), set_cache rows s)"
proof (induction kvs arbitrary: s)
  case Nil
  show ?case by (intro exI[of _ "db_cache (cf_db s)"]) (simp add: ret_apply set_cache_def)
next
  case (Cons p kvs)
  obtain k v where p: "p = (k, v)" by (cases p)
  have "\<exists>rows. put_value en have_vals p s = (Inr (), set_cache rows s)"
    by (cases "map_of have_vals k") (auto simp: p put_value_def on_db_def modify_apply set_cache_def)
  then obtain rows where r: "put_value en have_vals p s = (Inr (), set_cache rows s)" by blast
  obtain rows' where "for_each kvs (put_value en have_vals) (set_cache rows s) = (Inr (), set_cache rows' (set_cache rows s))"
    using Cons.IH by blast
  with r show ?case by (intro exI[of _ rows']) (simp add: seq_apply set_cache_def)
qed

lemma update_cache_rest:
  assumes "getContractorValues en (Inr conf) s = (Inr (vals, lm), s1)"
  shows "\<exists>s2. updateCacheFromContractor en (Inr conf) s = (Inr (), s2) \<and> cf_uuid s2 = cf_uuid s1"
proof -
  obtain have_vals where h: "getValues en True s1 = (Inr have_vals, s1)" by (simp add: getValues_def gets_apply)
  obtain rows where "for_each vals (put_value en have_vals) s1 = (Inr (), set_cache rows s1)" using put_values_end by blast
  with assms h show ?thesis
    by (simp add: updateCacheFromContractor_def bnd_apply block_simps seq_apply on_db_def modify_apply commit_def ret_apply set_cache_def)
qed

lemma getContractorValues_err:
  assumes "getContractorValues en (Inr conf) s = (Inl e, s')"
  shows "(cf_uuid s = None \<or> cf_uuid s' = cf_uuid s) \<and> cf_db s' = cf_db s \<and> cf_disk s' = cf_disk s"
  using assms
  by (auto simp: getContractorValues_def bnd_apply lift_apply throw_apply gets_apply seq_apply modify_apply ret_apply
      split: if_splits sum.splits prod.splits)

lemma bad_config:
  assumes "conf = [] \<or> map_of conf ''_structure_config_uuid'' = None \<or> (map_of conf ''_structure_config_uuid'' = Some (PStr u) \<and>
         (u = [] \<or> (cf_uuid s \<noteq> None \<and> cf_uuid s \<noteq> Some u)))"
  shows "\<exists>e. getContractorValues en (Inr conf) s = (Inl e, s)"
  using assms by (auto simp: getContractorValues_def py_simps str_of_def)

text \<open>Once it is known, the uuid of the configuration never changes: a table for another uuid, an empty one or one without a uuid is
  refused with nothing written, and what is accepted is for the uuid that is kept.\<close>

theorem config_uuid_sticks:
  "(case updateCacheFromContractor en (Inr conf) s of
      (Inr _, s') \<Rightarrow> (cf_uuid s = None \<or> cf_uuid s' = cf_uuid s) \<and>
         (\<exists>u. u \<noteq> [] \<and> map_of conf ''_structure_config_uuid'' = Some (PStr u) \<and> cf_uuid s' = Some u)
    | (Inl e, s') \<Rightarrow> (cf_uuid s = None \<or> cf_uuid s' = cf_uuid s) \<and> cf_db s' = cf_db s \<and> cf_disk s' = cf_disk s)
   \<and> (\<forall>u. conf = [] \<or> map_of conf ''_structure_config_uuid'' = None \<or> (map_of conf ''_structure_config_uuid'' = Some (PStr u) \<and>
         (u = [] \<or> (cf_uuid s \<noteq> None \<and> cf_uuid s \<noteq> Some u))) \<longrightarrow> (\<exists>e. updateCacheFromContractor en (Inr conf) s = (Inl e, s)))"
proof (rule conjI)
  show "case updateCacheFromContractor en (Inr conf) s of
      (Inr _, s') \<Rightarrow> (cf_uuid s = None \<or> cf_uuid s' = cf_uuid s) \<and>
         (\<exists>u. u \<noteq> [] \<and> map_of conf ''_structure_config_uuid'' = Some (PStr u) \<and> cf_uuid s' = Some u)
    | (Inl e, s') \<Rightarrow> (cf_uuid s = None \<or> cf_uuid s' = cf_uuid s) \<and> cf_db s' = cf_db s \<and> cf_disk s' = cf_disk s"
  proof (cases "getContractorValues en (Inr conf) s")
    case (Pair r s1)
    show ?thesis
    proof (cases r)
      case (Inl e)
      with Pair getContractorValues_err show ?thesis by (auto simp: updateCacheFromContractor_def bnd_apply)
    next
      case (Inr p)
      obtain vals lm where p: "p = (vals, lm)" by (cases p)
      with Pair Inr have g: "getContractorValues en (Inr conf) s = (Inr (vals, lm), s1)" by simp
      obtain s2 where s2: "updateCacheFromContractor en (Inr conf) s = (Inr (), s2)" "cf_uuid s2 = cf_uuid s1"
        using update_cache_rest[OF g] by blast
      from g show ?thesis by (rule getContractorValues_ok) (use s2 in auto)
    qed
  qed
  show "\<forall>u. conf = [] \<or> map_of conf ''_structure_config_uuid'' = None \<or> (map_of conf ''_structure_config_uuid'' = Some (PStr u) \<and>
         (u = [] \<or> (cf_uuid s \<noteq> None \<and> cf_uuid s \<noteq> Some u))) \<longrightarrow> (\<exists>e. updateCacheFromContractor en (Inr conf) s = (Inl e, s))"
    using bad_config[of conf _ s en] by (fastforce simp: updateCacheFromContractor_def bnd_apply)
qed

theorem config_uuid_sticks_witness:
  "\<exists>e. updateCacheFromContractor demo_env (Inr demo_values) ((demo_config ''/'' [])\<lparr>cf_uuid := Some ''V''\<rparr>) = (Inl e, (demo_config ''/'' [])\<lparr>cf_uuid := Some ''V''\<rparr>)"
  using conjunct2[OF config_uuid_sticks[where en = demo_env and conf = demo_values and s = "(demo_config ''/'' [])\<lparr>cf_uuid := Some ''V''\<rparr>"], rule_format, of "''U''"]
  by (simp add: demo_values_def)

text \<open>Opening the store makes the tables once: whatever was there before, after it the version is at least 1, opening again
  changes nothing, and what it made is committed; tables of a version that is current are left alone.\<close>

theorem check_db_once:
  "let s' = snd (checkDB s) in
     (\<exists>n \<ge> 1. db_version (cf_db s') = Some n) \<and> checkDB s' = (Inr (), s') \<and> (cf_db s' = cf_db s \<or> cf_disk s' = cf_db s')
     \<and> (case db_version (cf_db s) of Some (Suc n) \<Rightarrow> s' = s | _ \<Rightarrow> db_cache (cf_db s') = [] \<and> db_targets (cf_db s') = [] \<and> db_templates (cf_db s') = [])"
  by (cases "db_version (cf_db s)")
    (auto simp: checkDB_def py_simps on_db_def commit_def Let_def split: nat.splits)

section \<open>What building leaves alone\<close>

definition durable :: "config \<Rightarrow> (string, string) dict \<times> (string \<times> int) list \<times> (string \<times> int \<times> int \<times> int) list \<times> cfg_db \<times> cfg_db" where
  "durable s = (cf_files s, cf_dirs s, cf_attrs s, cf_db s, cf_disk s)"

definition records :: "config \<Rightarrow> cfg_db \<times> cfg_db" where
  "records s = (cf_db s, cf_disk s)"

lemma keeps_say [keeps_intros]: "keeps durable (say l)" "keeps records (say l)"
  unfolding say_def by (intro keeps_intros; simp add: durable_def records_def)+

lemma keeps_package_files [keeps_intros]: "keeps f (package_files p)"
  unfolding package_files_def by (auto intro!: keeps_intros split: option.split)

lemma keeps_dry_block [keeps_intros]: "keeps f (write_block en True rt b)"
  unfolding write_block_def by (auto intro!: keeps_intros split: prod.split)

lemma keeps_run_dry [keeps_intros]: "keeps f (run_blocks en True rt r)"
  unfolding run_blocks_def by (auto intro!: keeps_intros split: prod.split option.split)

lemma keeps_targetFiles [keeps_intros]: "keeps f (targetFiles en p m t)"
  unfolding targetFiles_def by (auto intro!: keeps_intros split: option.split)

lemma keeps_reads [keeps_intros]: "keeps f (getValues en b)" "keeps f getLastModified" "keeps f (getTemplates p)" "keeps f (getTargets p t)"
    "keeps f (getTemplateList p)"
  unfolding getValues_def getLastModified_def getTemplates_def getTargets_def getTemplateList_def by (intro keeps_intros)+

lemma keeps_decide [keeps_intros]: "keeps durable (decide bo p t r h n)" "keeps records (decide bo p t r h n)"
  unfolding decide_def by (auto intro!: keeps_intros split: option.split)

lemma keeps_check_dry: "bo_dry_run bo \<Longrightarrow> keeps durable (check_target en bo p t lm tdb x acc)"
  unfolding check_target_def whenM_def by (auto intro!: keeps_intros split: prod.split option.split)

lemma keeps_check_records: "keeps records (check_target en bo p t lm tdb x acc)"
  unfolding check_target_def whenM_def rename_file_def
  by (auto intro!: keeps_intros simp: records_def split: prod.split option.split)

lemma keeps_check_all_targets: "(\<And>x acc. keeps f (check_target en bo p t lm tdb x acc)) \<Longrightarrow> keeps f (check_all_targets en bo p t lm tdb xs acc)"
  by (induction xs arbitrary: acc) (auto intro!: keeps_intros)

lemma keeps_dry_template: "bo_dry_run bo \<Longrightarrow> keeps durable (config_template en bo p m lm tdb t)"
  unfolding config_template_def Let_def
  by (auto intro!: keeps_intros keeps_check_all_targets keeps_check_dry split: option.split prod.split)

text \<open>C28: a dry run of \<open>configPackage\<close> changes no file, directory, owner or mode and nothing in the database, whatever the other
  options, the templates and the state are, and whether it ends or raises.\<close>

theorem dry_run_changes_nothing:
  assumes "bo_dry_run bo"
  shows "durable (snd (configPackage en bo package templates vals s)) = durable s"
proof (rule keeps_snd)
  show "keeps durable (configPackage en bo package templates vals)"
    unfolding configPackage_def
    by (auto intro!: keeps_intros keeps_dry_template[OF assms] split: option.split)
qed

definition plain_opts :: build_opts where
  "plain_opts = \<lparr>bo_force = False, bo_dry_run = False, bo_no_backups = False, bo_re_generate = False, bo_dest = []\<rparr>"

theorem dry_run_changes_nothing_witness:
  "durable (snd (configPackage demo_env (plain_opts\<lparr>bo_dry_run := True, bo_force := True\<rparr>) ''ntp'' [''ntp''] None (demo_config ''/'' [(''/etc/ntp.conf'', ''mine'')])))
     = durable (demo_config ''/'' [(''/etc/ntp.conf'', ''mine'')])"
  by (rule dry_run_changes_nothing) (simp add: plain_opts_def)

lemma keeps_write_records [keeps_intros]: "keeps records (write_block en d rt b)"
  unfolding write_block_def Let_def makedirs_def save_file_def
  by (auto intro!: keeps_intros simp: records_def split: prod.split)

lemma keeps_render_records [keeps_intros]: "keeps records (renderTemplate en p m t d)"
  unfolding renderTemplate_def run_blocks_def by (auto intro!: keeps_intros split: prod.split option.split)

lemma keeps_dest_template: "bo_dest bo \<noteq> [] \<Longrightarrow> keeps records (config_template en bo p m lm tdb t)"
  unfolding config_template_def Let_def
  by (auto intro!: keeps_intros keeps_check_all_targets keeps_check_records split: option.split prod.split)

text \<open>Building into another root directory records nothing: the database stays what it was, on disk too.\<close>

theorem other_root_unrecorded:
  assumes "bo_dest bo \<noteq> []"
  shows "records (snd (configPackage en bo package templates vals s)) = records s"
proof (rule keeps_snd)
  show "keeps records (configPackage en bo package templates vals)"
    unfolding configPackage_def
    by (auto intro!: keeps_intros keeps_dest_template[OF assms] split: option.split)
qed

theorem other_root_unrecorded_witness:
  "records (snd (configPackage demo_env (plain_opts\<lparr>bo_dest := ''mnt''\<rparr>) ''ntp'' [''ntp''] None (demo_config ''/'' []))) = (empty_db, empty_db)
   \<and> map_of (cf_files (snd (configPackage demo_env (plain_opts\<lparr>bo_dest := ''mnt''\<rparr>) ''ntp'' [''ntp''] (Some demo_values) (demo_config ''/'' [])))) ''/mnt/etc/ntp.conf'' = Some ''x''"
proof
  have "bo_dest (plain_opts\<lparr>bo_dest := ''mnt''\<rparr>) \<noteq> []" by simp
  from other_root_unrecorded[OF this, of demo_env "''ntp''" "[''ntp'']" None "demo_config ''/'' []"]
  show "records (snd (configPackage demo_env (plain_opts\<lparr>bo_dest := ''mnt''\<rparr>) ''ntp'' [''ntp''] None (demo_config ''/'' []))) = (empty_db, empty_db)"
    by (simp add: records_def demo_config_def)
qed code_simp

section \<open>Where targets go\<close>

lemma os_join_under:
  assumes "slash \<notin> set b"
  shows "\<exists>r. os_join a b = a @ r \<and> (a = [] \<or> last a = slash \<or> r = [] \<or> hd r = slash)"
  using assms by (cases b) (auto simp: os_join_def)

lemma join_parts_under:
  "\<forall>x \<in> set parts. slash \<notin> set x \<Longrightarrow>
     \<exists>r. join_parts base parts = base @ r \<and> (base = [] \<or> last base = slash \<or> r = [] \<or> hd r = slash)"
proof (induction parts arbitrary: base)
  case (Cons x parts)
  obtain r1 where r1: "os_join base x = base @ r1" "base = [] \<or> last base = slash \<or> r1 = [] \<or> hd r1 = slash"
    using os_join_under[of x base] Cons.prems by auto
  have "\<forall>x \<in> set parts. slash \<notin> set x" using Cons.prems by simp
  from Cons.IH[OF this, of "base @ r1"] obtain r2 where r2: "join_parts (base @ r1) parts = (base @ r1) @ r2"
    "base @ r1 = [] \<or> last (base @ r1) = slash \<or> r2 = [] \<or> hd r2 = slash" by blast
  have "join_parts base (x # parts) = base @ r1 @ r2" using r1(1) r2(1) by (simp add: join_parts_def)
  moreover have "base = [] \<or> last base = slash \<or> r1 @ r2 = [] \<or> hd (r1 @ r2) = slash"
    using r1(2) r2(2) by (cases "r1 = []") simp_all
  ultimately show ?case by blast
qed (simp add: join_parts_def)

text \<open>A target is written below the directory it is built into, also when its name starts with a slash: its path is that
  directory followed by nothing or by a path component. The directory is the root directory itself, or a relative
  destination below it; an absolute destination replaces it, while the check before the build looks below the root
  directory.\<close>

theorem targets_below_root:
  "(\<exists>r. target_path (os_join rt dest) target = os_join rt dest @ r
       \<and> (os_join rt dest = [] \<or> last (os_join rt dest) = slash \<or> r = [] \<or> hd r = slash))
   \<and> (\<exists>r. dest_path rt dest target = rt @ r \<and> (rt = [] \<or> last rt = slash \<or> r = [] \<or> hd r = slash))
   \<and> (if dest \<noteq> [] \<and> hd dest = slash then os_join rt dest = dest else \<exists>r. os_join rt dest = rt @ r)"
proof (intro conjI)
  have s: "\<forall>x \<in> set (split_chr slash t). slash \<notin> set x" for t using split_chr_parts by blast
  show "\<exists>r. target_path (os_join rt dest) target = os_join rt dest @ r
       \<and> (os_join rt dest = [] \<or> last (os_join rt dest) = slash \<or> r = [] \<or> hd r = slash)"
    unfolding target_path_def using s by (intro join_parts_under)
  show "\<exists>r. dest_path rt dest target = rt @ r \<and> (rt = [] \<or> last rt = slash \<or> r = [] \<or> hd r = slash)"
    unfolding dest_path_def target_path_def using s[of dest] s[of target] by (auto intro!: join_parts_under)
qed (auto simp: os_join_def)

text \<open>The status looks elsewhere: it takes a target with a leading slash as it is. Here the file was just built into
  \<open>/mnt\<close>, and is reported missing.\<close>

definition built_in_mnt :: config where
  "built_in_mnt = snd (configPackage demo_env plain_opts ''ntp'' [''ntp''] (Some demo_values) (demo_config ''/mnt'' []))"

theorem status_ignores_root:
  "map_of (cf_files built_in_mnt) ''/mnt/etc/ntp.conf'' = Some ''x''
   \<and> fst (getTargetStatus demo_env ''ntp'' built_in_mnt) =
       Inr [\<lparr>st_template = ''ntp'', st_target = ''/etc/ntp.conf'', st_need = ''No'', st_built = Some (Some 20), st_refrenced = ''Yes'', st_local = ''Missing''\<rparr>]"
  by code_simp

text \<open>The directory made for a target may be searched by whom the file may be read, and has the other bits of the file.\<close>

lemma dir_mode_bit: "bit (dir_mode m) i \<longleftrightarrow> bit m i \<or> (i \<in> {0, 3, 6} \<and> bit m (i + 2))"
proof -
  have "bit (0x124 :: int) j \<longleftrightarrow> j \<in> {2, 5, 8}" for j
  proof (cases "j < 9")
    case True
    then have "j \<in> {0, 1, 2, 3, 4, 5, 6, 7, 8}" by auto
    then show ?thesis by (auto simp: bit_iff_odd)
  next
    case False
    then have "(0x124 :: int) < 2 ^ j" using power_increasing[of 9 j "2::int"] by simp
    with False show ?thesis by (auto simp: bit_iff_odd)
  qed
  from this[of "2 + i"] show ?thesis unfolding dir_mode_def bit_or_iff bit_drop_bit_eq comp_def bit_and_iff by auto
qed

section \<open>Local changes\<close>

definition seen :: "config \<Rightarrow> (string, string) dict \<times> string" where
  "seen s = (cf_files s, cf_root s)"

lemma seen_hash: "seen s = seen t \<Longrightarrow> file_hash en s p = file_hash en t p \<and> cf_root s = cf_root t"
  by (simp add: seen_def file_hash_def)

lemma keeps_unforced: "\<not> bo_force bo \<Longrightarrow> keeps durable (check_target en bo p t lm tdb x acc)"
    "\<not> bo_force bo \<Longrightarrow> keeps seen (check_target en bo p t lm tdb x acc)"
  unfolding check_target_def say_def by (auto intro!: keeps_intros simp: durable_def seen_def split: prod.split option.split)

text \<open>A target whose file is not the one that was recorded.\<close>

definition changed_locally :: "cfg_env \<Rightarrow> build_opts \<Rightarrow> (string, target_info) dict \<Rightarrow> config \<Rightarrow> string \<Rightarrow> bool" where
  "changed_locally en bo tdb s t =
     (case (map_of tdb t, file_hash en s (dest_path (cf_root s) (bo_dest bo) t)) of
        (Some (rec_hash, _), Some h) \<Rightarrow> h \<noteq> [] \<and> rec_hash \<noteq> Some h
      | _ \<Rightarrow> False)"

lemma check_target_blocks:
  assumes "\<not> bo_force bo" and "check_target en bo p tm lm tdb t (need, no) s = (Inr (need', no'), s')"
  shows "no \<Longrightarrow> no'" and "changed_locally en bo tdb s t \<Longrightarrow> no'"
  using assms
  by (auto simp: check_target_def py_simps say_def changed_locally_def look_at_def Let_def rbnd_def
      split: option.splits prod.splits if_splits sum.splits)

lemma check_all_targets_blocks:
  assumes "\<not> bo_force bo"
  shows "check_all_targets en bo p tm lm tdb ts acc s = (Inr (need', no'), s') \<Longrightarrow>
    snd acc \<or> (\<exists>t \<in> set ts. changed_locally en bo tdb s t) \<Longrightarrow> no'"
proof (induction ts arbitrary: acc s)
  case (Cons t ts)
  obtain need no where acc: "acc = (need, no)" by (cases acc)
  obtain need1 no1 s1 where c: "check_target en bo p tm lm tdb t (need, no) s = (Inr (need1, no1), s1)"
    "check_all_targets en bo p tm lm tdb ts (need1, no1) s1 = (Inr (need', no'), s')"
    using Cons.prems(1) unfolding check_all_targets.simps acc by (auto elim!: bnd_InrE)
  have "seen s1 = seen s" using keepsD[OF keeps_unforced(2)[OF assms] c(1)] .
  then have same: "changed_locally en bo tdb s1 x = changed_locally en bo tdb s x" for x
    using seen_hash[of s1 s en] by (simp add: changed_locally_def)
  have "no1 \<or> (\<exists>t \<in> set ts. changed_locally en bo tdb s1 t)"
    using Cons.prems(2) check_target_blocks[OF assms c(1)] acc same by auto
  with Cons.IH[OF c(2)] show ?case by simp
qed (simp add: ret_apply)

text \<open>C24: without \<open>force\<close>, a template one of whose targets was changed since it was built is not built at all: no file, directory,
  owner or mode and no record changes, whatever the reason to build was.\<close>

theorem local_changes_kept:
  assumes "\<not> bo_force bo" and "fst (targetFiles en package vals template s) = Inr targets"
    and "fst (getTargets package template s) = Inr tdb"
    and "t \<in> set targets" and "changed_locally en bo tdb s t"
  shows "durable (snd (config_template en bo package vals lm template_db template s)) = durable s"
proof -
  have tf: "targetFiles en package vals template s = (Inr targets, s)"
    using assms(2) keeps_snd[OF keeps_targetFiles[of "\<lambda>x. x"], of en package vals template s] by (cases "targetFiles en package vals template s") auto
  have gt: "getTargets package template s = (Inr tdb, s)"
    using assms(3) keeps_snd[OF keeps_reads(4)[of "\<lambda>x. x"], of package template s] by (cases "getTargets package template s") auto
  obtain files where pf: "package_files package s = (Inr files, s)"
    using tf by (cases "map_of (cf_packages s) package") (auto simp: targetFiles_def package_files_def py_simps)
  let ?c = "check_all_targets en bo package template lm tdb targets (False, False)"
  have k: "keeps durable ?c" by (rule keeps_check_all_targets) (rule keeps_unforced(1)[OF assms(1)])
  show ?thesis
  proof (cases "?c s")
    case (Pair r s1)
    have d: "durable s1 = durable s" using keepsD[OF k Pair] .
    have no: "no" if "r = Inr (need, no)" for need no
      using check_all_targets_blocks[OF assms(1), of en package template lm tdb targets "(False, False)" s need no s1] Pair that assms(4,5) by auto
    show ?thesis
      using Pair d no keeps_snd[OF keeps_say(1)]
      by (cases r) (auto simp: config_template_def bnd_apply pf tf gt Let_def split: option.split)
  qed
qed

theorem local_changes_kept_witness:
  "durable (snd (config_template demo_env plain_opts ''ntp'' demo_values (Some 15) [] ''ntp''
      ((demo_config ''/'' [(''/etc/ntp.conf'', ''mine'')])\<lparr>cf_db := empty_db\<lparr>db_targets := [new_target ''ntp'' ''ntp'' ''/etc/ntp.conf'' (Some ''#x'') 12 (Some 12)]\<rparr>\<rparr>)))
   = durable ((demo_config ''/'' [(''/etc/ntp.conf'', ''mine'')])\<lparr>cf_db := empty_db\<lparr>db_targets := [new_target ''ntp'' ''ntp'' ''/etc/ntp.conf'' (Some ''#x'') 12 (Some 12)]\<rparr>\<rparr>)"
proof -
  let ?r = "new_target ''ntp'' ''ntp'' ''/etc/ntp.conf'' (Some ''#x'') 12 (Some 12)"
  let ?s = "(demo_config ''/'' [(''/etc/ntp.conf'', ''mine'')])\<lparr>cf_db := empty_db\<lparr>db_targets := [?r]\<rparr>\<rparr>"
  have "fst (targetFiles demo_env ''ntp'' demo_values ''ntp'' ?s) = Inr [''/etc/ntp.conf'']"
    "fst (getTargets ''ntp'' ''ntp'' ?s) = Inr [(''/etc/ntp.conf'', Some ''#x'', Some 12)]"
    "changed_locally demo_env plain_opts [(''/etc/ntp.conf'', Some ''#x'', Some 12)] ?s ''/etc/ntp.conf''"
    by code_simp+
  moreover have "\<not> bo_force plain_opts" by (simp add: plain_opts_def)
  ultimately show ?thesis
    using local_changes_kept[of plain_opts demo_env "''ntp''" demo_values "''ntp''" ?s "[''/etc/ntp.conf'']"
      "[(''/etc/ntp.conf'', Some ''#x'', Some 12)]" "''/etc/ntp.conf''" "Some 15" "[]"] by simp
qed

end
