(* ===== verification/Config_Runs.thy ===== *)
theory Config_Runs
  imports Config_Props
begin

text \<open>
  Runs of the configuration library: after a template was built, a second run with the same values finds
  nothing to do (\<open>second_run_quiet\<close>), and the cases where the records or the checks fall short of what
  they are for, each on a small run.
\<close>

section \<open>Reading back the records\<close>

lemma map_of_fold_dset:
  "(\<forall>r \<in> set rows. f r = k \<longrightarrow> g r = v) \<Longrightarrow> map_of d k = Some v \<or> (\<exists>r \<in> set rows. f r = k) \<Longrightarrow>
     map_of (fold (\<lambda>r d. dset (f r) (g r) d) rows d) k = Some v"
  by (induction rows arbitrary: d) auto

lemma map_of_fold_dset_None:
  "map_of (fold (\<lambda>r d. dset (f r) (g r) d) rows []) k = None \<longleftrightarrow> (\<forall>r \<in> set rows. f r \<noteq> k)"
  using dkeys_fold_dset[of f g rows "[]"] by (auto simp: map_of_eq_None_iff)

definition template_records :: "string \<Rightarrow> config \<Rightarrow> (string, string option) dict" where
  "template_records package s = fold (\<lambda>r d. dset (tm_template r) (tm_hash r) d)
     (sort_key tm_template (filter (\<lambda>r. tm_package r = package) (db_templates (cf_db s)))) []"

definition target_records :: "string \<Rightarrow> string \<Rightarrow> config \<Rightarrow> (string, target_info) dict" where
  "target_records package template s = fold (\<lambda>r d. dset (tg_target r) (tg_hash r, tg_built r) d)
     (sort_key tg_target (filter (\<lambda>r. tg_package r = package \<and> tg_template r = template) (db_targets (cf_db s)))) []"

lemma getTemplates_eq: "getTemplates package s = (Inr (template_records package s), s)"
  by (simp add: getTemplates_def gets_apply template_records_def)

lemma getTargets_eq: "getTargets package template s = (Inr (target_records package template s), s)"
  by (simp add: getTargets_def gets_apply target_records_def)

lemma targetFiles_state: "snd (targetFiles en package vals template s) = s"
  by (rule keeps_snd[OF keeps_targetFiles[of "\<lambda>x. x"]])

text \<open>The records say that the template was built from this text, and every target at \<open>l\<close> or later with the file that is
  there now.\<close>

definition is_current :: "cfg_env \<Rightarrow> string \<Rightarrow> string \<Rightarrow> string \<Rightarrow> string list \<Rightarrow> time \<Rightarrow> config \<Rightarrow> bool" where
  "is_current en package template content targets l s =
     (map_of (template_records package s) template = Some (Some (en_sha1 en content))
      \<and> (\<forall>t \<in> set targets. \<exists>h b. map_of (target_records package template s) t = Some (Some h, Some b) \<and> l \<le> b
           \<and> file_hash en s (target_path (cf_root s) t) = Some h \<and> h \<noteq> []))"

section \<open>Nothing to do\<close>

definition quiet_opts :: "build_opts \<Rightarrow> bool" where
  "quiet_opts bo = (\<not> bo_dry_run bo \<and> \<not> bo_re_generate bo \<and> bo_dest bo = [])"

lemma check_current:
  assumes "quiet_opts bo" and "map_of tdb t = Some (Some h, Some b)" and "l \<le> b"
    and "file_hash en s (target_path (cf_root s) t) = Some h" and "h \<noteq> []"
  shows "check_target en bo package template (Some l) tdb t (False, False) s = (Inr (False, False), s)"
  using assms by (simp add: check_target_def py_simps dest_path_def quiet_opts_def look_at_def later_def)

lemma check_all_targets_current:
  assumes "quiet_opts bo"
  shows "\<forall>t \<in> set ts. \<exists>h b. map_of tdb t = Some (Some h, Some b) \<and> l \<le> b
       \<and> file_hash en s (target_path (cf_root s) t) = Some h \<and> h \<noteq> [] \<Longrightarrow>
     check_all_targets en bo package template (Some l) tdb ts (False, False) s = (Inr (False, False), s)"
proof (induction ts)
  case (Cons t ts)
  obtain h b where "map_of tdb t = Some (Some h, Some b)" "l \<le> b"
    "file_hash en s (target_path (cf_root s) t) = Some h" "h \<noteq> []" using Cons.prems by auto
  from check_current[OF assms this] Cons show ?case by (simp add: bnd_apply)
qed (simp add: ret_apply)

text \<open>What a run that has nothing to do leaves alone: everything but the database.\<close>

definition but_db :: "config \<Rightarrow> (string, string) dict \<times> (string \<times> int) list \<times> (string \<times> int \<times> int \<times> int) list \<times> string list" where
  "but_db s = (cf_files s, cf_dirs s, cf_attrs s, cf_out s)"

lemma keeps_note_checked: "keeps but_db (note_checked package template known targets tdb)"
  unfolding note_checked_def on_db_def
  by (auto intro!: keeps_intros simp: but_db_def)

lemma note_checked_ends: "fst (note_checked package template True targets tdb s) = Inr ()"
proof -
  have "fst (for_each ts (\<lambda>t. if P t then on_db (f t) else on_db (g t)) s) = Inr ()" for ts P f g s
    by (induction ts arbitrary: s) (auto simp: ret_apply seq_apply on_db_def modify_apply)
  then show ?thesis by (simp add: note_checked_def bnd_apply gets_apply seq_apply on_db_def modify_apply)
qed

lemma current_quiet:
  assumes q: "quiet_opts bo" and pf: "map_of (cf_packages s) package = Some files" "map_of files (tpl template) = Some (Some content)"
    and tf: "fst (targetFiles en package vals template s) = Inr targets"
    and cur: "is_current en package template content targets l s"
  shows "fst (config_template en bo package vals (Some l) (template_records package s) template s) = Inr ()
     \<and> but_db (snd (config_template en bo package vals (Some l) (template_records package s) template s)) = but_db s"
proof -
  have tf': "targetFiles en package vals template s = (Inr targets, s)"
    using tf targetFiles_state[of en package vals template s] by (cases "targetFiles en package vals template s") simp
  have ck: "check_all_targets en bo package template (Some l) (target_records package template s) targets (False, False) s = (Inr (False, False), s)"
    using cur unfolding is_current_def by (intro check_all_targets_current[OF q]) blast
  have th: "map_of (template_records package s) template = Some (Some (en_sha1 en content))" using cur by (simp add: is_current_def)
  let ?n = "note_checked package template True targets (target_records package template s)"
  have "config_template en bo package vals (Some l) (template_records package s) template s = seq ?n commit s"
    using q pf tf' ck th
    by (simp add: config_template_def bnd_apply package_files_def gets_apply ret_apply getTargets_eq Let_def decide_def quiet_opts_def)
  moreover obtain s1 where "?n s = (Inr (), s1)" "but_db s1 = but_db s"
    using note_checked_ends[of package template targets "target_records package template s" s]
      keeps_snd[OF keeps_note_checked, of package template True targets "target_records package template s" s]
    by (cases "?n s") auto
  ultimately show ?thesis by (simp add: seq_apply commit_def modify_apply but_db_def)
qed

section \<open>Building makes current\<close>

text \<open>The parts of the state that building does not change.\<close>

definition surroundings :: "config \<Rightarrow> string \<times> (string \<times> listing) list \<times> time" where
  "surroundings s = (cf_root s, cf_packages s, cf_now s)"

lemma keeps_surroundings [keeps_intros]: "keeps surroundings (say x)" "keeps surroundings (write_block en d rt b)" "keeps surroundings (rename_file p q)"
    "keeps surroundings (on_db f)"
  unfolding say_def write_block_def Let_def makedirs_def save_file_def rename_file_def on_db_def
  by (auto intro!: keeps_intros simp: surroundings_def split: prod.split option.split)

lemma keeps_surroundings_check [keeps_intros]: "keeps surroundings (check_all_targets en bo p t lm tdb xs acc)"
  by (rule keeps_check_all_targets) (auto simp: check_target_def intro!: keeps_intros split: prod.split option.split)

lemma keeps_surroundings_render [keeps_intros]: "keeps surroundings (renderTemplate en p m t d)"
  unfolding renderTemplate_def run_blocks_def by (auto intro!: keeps_intros split: prod.split option.split)

text \<open>The rows of the targets after a build of a template that was not recorded before.\<close>

definition target_rows :: "cfg_env \<Rightarrow> string \<Rightarrow> string \<Rightarrow> string list \<Rightarrow> config \<Rightarrow> target_row list" where
  "target_rows en package template targets s =
     map (\<lambda>t. new_target package template t (file_hash en s (target_path (cf_root s) t)) (cf_now s) (Some (cf_now s))) targets"

lemma note_targets_rows:
  "for_each targets (note_target en package template False) s = (Inr (), s') \<Longrightarrow>
     s' = s\<lparr>cf_db := (cf_db s)\<lparr>db_targets := db_targets (cf_db s) @ target_rows en package template targets s\<rparr>\<rparr>
     \<and> (\<forall>t \<in> set targets. file_hash en s (target_path (cf_root s) t) \<noteq> None)"
proof (induction targets arbitrary: s)
  case Nil
  then show ?case by (simp add: ret_apply target_rows_def)
next
  case (Cons t ts)
  let ?h = "file_hash en s (target_path (cf_root s) t)"
  let ?s = "s\<lparr>cf_db := (cf_db s)\<lparr>db_targets := db_targets (cf_db s) @ [new_target package template t ?h (cf_now s) (Some (cf_now s))]\<rparr>\<rparr>"
  have h: "?h \<noteq> None"
  proof
    assume "?h = None"
    then have "note_target en package template False t s = (Inl (OSError 2), s)"
      by (simp add: note_target_def bnd_apply gets_apply throw_apply)
    with Cons.prems show False by (simp add: seq_apply)
  qed
  then have "note_target en package template False t s = (Inr (), ?s)"
    by (auto simp: note_target_def bnd_apply gets_apply on_db_def modify_apply)
  with Cons.prems have "for_each ts (note_target en package template False) ?s = (Inr (), s')" by (simp add: seq_apply)
  from Cons.IH[OF this] h show ?case by (simp add: target_rows_def file_hash_def)
qed

text \<open>A template that has no records yet.\<close>

definition unrecorded :: "string \<Rightarrow> string \<Rightarrow> config \<Rightarrow> bool" where
  "unrecorded package template s =
     (list_all (\<lambda>r. \<not> same_template package template r) (db_templates (cf_db s))
      \<and> list_all (\<lambda>r. \<not> (tg_package r = package \<and> tg_template r = template)) (db_targets (cf_db s)))"

lemma build_new:
  assumes q: "quiet_opts bo" and pf: "map_of (cf_packages s) package = Some files" "map_of files (tpl template) = Some (Some content)"
    and tf: "fst (targetFiles en package vals template s) = Inr targets"
    and new: "unrecorded package template s"
    and run: "config_template en bo package vals lm (template_records package s) template s = (Inr (), s')"
    and built: "map_of (template_records package s') template \<noteq> None"
    and hash: "\<And>x. en_sha1 en x \<noteq> []"
  shows "is_current en package template content targets (cf_now s) s'" and "surroundings s' = surroundings s" and "cf_disk s' = cf_db s'"
proof -
  have tf': "targetFiles en package vals template s = (Inr targets, s)"
    using tf targetFiles_state[of en package vals template s] by (cases "targetFiles en package vals template s") simp
  have none: "map_of (template_records package s) template = None"
    using new by (auto simp: template_records_def map_of_fold_dset_None unrecorded_def same_template_def list_all_iff)
  let ?c = "check_all_targets en bo package template lm (target_records package template s) targets (False, False)"
  obtain r s1 where c: "?c s = (r, s1)" by (cases "?c s")
  have rec1: "records s1 = records s" using keepsD[OF keeps_check_all_targets[OF keeps_check_records] c] .
  have set1: "surroundings s1 = surroundings s" using keepsD[OF keeps_surroundings_check c] .
  obtain need no where r: "r = Inr (need, no)"
    using run c q pf tf' by (cases r) (auto simp: config_template_def bnd_apply package_files_def gets_apply ret_apply getTargets_eq Let_def)
  have no: "\<not> no"
  proof
    assume no
    with run c r q pf tf' have "s' = s1\<lparr>cf_out := cf_out s' \<rparr>"
      by (auto simp: config_template_def bnd_apply package_files_def gets_apply ret_apply getTargets_eq Let_def say_def modify_apply)
    then have "template_records package s' = template_records package s"
      using rec1 by (metis (no_types, lifting) template_records_def records_def prod.inject config.select_convs(8) config.surjective config.update_convs(11))
    with built none show False by simp
  qed
  let ?w = "template_line package template '' is new, building.''" and ?b = "building_line package template"
  let ?s2 = "s1\<lparr>cf_out := cf_out s1 @ [?w, ?b]\<rparr>"
  obtain r3 s3 where rd: "renderTemplate en package vals template [] ?s2 = (r3, s3)" by (cases "renderTemplate en package vals template [] ?s2")
  let ?trow = "\<lparr>tm_package = package, tm_template = template, tm_hash = Some (en_sha1 en content), tm_checked = Some (cf_now s3), tm_built = Some (cf_now s3)\<rparr>"
  let ?s4 = "s3\<lparr>cf_db := (cf_db s3)\<lparr>db_templates := db_templates (cf_db s3) @ [?trow]\<rparr>\<rparr>"
  have "config_template en bo package vals lm (template_records package s) template s =
     (case r3 of Inl e \<Rightarrow> (Inl e, s3) | Inr _ \<Rightarrow> seq (for_each targets (note_target en package template False)) commit ?s4)"
    using q pf tf' c r no none rd
    by (simp add: config_template_def bnd_apply package_files_def gets_apply ret_apply getTargets_eq Let_def decide_def seq_apply say_def modify_apply
        quiet_opts_def whenM_apply note_template_def on_db_def split: sum.split)
  with run obtain s5 where n: "for_each targets (note_target en package template False) ?s4 = (Inr (), s5)" "s' = s5\<lparr>cf_disk := cf_db s5\<rparr>"
    by (auto simp: seq_apply commit_def modify_apply split: sum.splits prod.splits)
  have s5: "s5 = ?s4\<lparr>cf_db := (cf_db ?s4)\<lparr>db_targets := db_targets (cf_db ?s4) @ target_rows en package template targets ?s4\<rparr>\<rparr>"
    "\<forall>t \<in> set targets. file_hash en ?s4 (target_path (cf_root ?s4) t) \<noteq> None"
    using note_targets_rows[OF n(1)] by blast+
  have rec3: "cf_db s3 = cf_db s" using keepsD[OF keeps_render_records rd] rec1 by (simp add: records_def)
  have set3: "surroundings s3 = surroundings s" using keepsD[OF keeps_surroundings_render rd] set1 by (simp add: surroundings_def)
  show "surroundings s' = surroundings s" using set3 n(2) s5(1) by (simp add: surroundings_def)
  show "cf_disk s' = cf_db s'" using n(2) by simp
  show "is_current en package template content targets (cf_now s) s'"
  proof -
    have db: "db_templates (cf_db s') = db_templates (cf_db s) @ [?trow]"
      "db_targets (cf_db s') = db_targets (cf_db s) @ target_rows en package template targets ?s4"
      using n(2) s5(1) rec3 by simp_all
    have now: "cf_now s3 = cf_now s" using set3 by (simp add: surroundings_def)
    have fh: "file_hash en s' p = file_hash en ?s4 p" "cf_root s' = cf_root ?s4" for p
      using n(2) s5(1) by (simp_all add: file_hash_def)
    have "map_of (template_records package s') template = Some (Some (en_sha1 en content))"
      unfolding template_records_def db using new
      by (intro map_of_fold_dset) (auto simp: unrecorded_def list_all_iff same_template_def)
    moreover have "map_of (target_records package template s') t = Some (file_hash en ?s4 (target_path (cf_root ?s4) t), Some (cf_now s))"
      if "t \<in> set targets" for t
      unfolding target_records_def db using new that now
      by (intro map_of_fold_dset) (auto simp: unrecorded_def list_all_iff target_rows_def new_target_def file_hash_def)
    moreover have "\<exists>h. file_hash en ?s4 (target_path (cf_root ?s4) t) = Some h \<and> h \<noteq> []" if "t \<in> set targets" for t
      using s5(2) that hash by (auto simp: file_hash_def)
    ultimately show ?thesis unfolding is_current_def fh by force
  qed
qed

text \<open>A rendering without writing does not depend on the files and records.\<close>

lemma dry_block_const: "\<exists>r. \<forall>s. write_block en True rt b s = (r, s)"
  by (cases "octal (tb_mode b)"; cases "owner_ids en (tb_owner b)")
    (auto simp: write_block_def bnd_apply lift_apply whenM_apply split: prod.split)

lemma dry_blocks_const: "\<exists>r. \<forall>s. for_each blocks (write_block en True rt) s = (r, s)"
proof (induction blocks)
  case (Cons b blocks)
  obtain r1 where r1: "\<And>s. write_block en True rt b s = (r1, s)" using dry_block_const[of en rt b] by blast
  obtain r2 where r2: "\<And>s. for_each blocks (write_block en True rt) s = (r2, s)" using Cons by blast
  show ?case by (cases r1) (auto simp: seq_apply r1 r2)
qed (simp add: ret_apply)

lemma targetFiles_reads:
  assumes "cf_packages s = cf_packages t"
  shows "fst (targetFiles en package vals template s) = fst (targetFiles en package vals template t)"
proof -
  have "fst (run_blocks en True [] r s) = fst (run_blocks en True [] r t)" for r
  proof -
    obtain x where "\<And>s. for_each (fst r) (write_block en True []) s = (x, s)" using dry_blocks_const[of "fst r" en "[]"] by blast
    then show ?thesis
      by (cases r; cases x) (auto simp: run_blocks_def seq_apply throw_apply ret_apply split: option.split)
  qed
  with assms show ?thesis
    by (auto simp: targetFiles_def bnd_apply package_files_def gets_apply ret_apply throw_apply split: option.split)
qed

text \<open>C23: after a new template was built, a second run at any later time, with the same values and no newer ones from Contractor, ends
  with nothing built: no file, directory, owner or mode changes, nothing is printed, and only the times of the last check are written.\<close>

theorem second_run_quiet:
  assumes "quiet_opts bo" and "map_of (cf_packages s) package = Some files" and "map_of files (tpl template) = Some (Some content)"
    and "fst (targetFiles en package vals template s) = Inr targets" and "unrecorded package template s"
    and "config_template en bo package vals (Some l) (template_records package s) template s = (Inr (), s')"
    and "map_of (template_records package s') template \<noteq> None" and "\<And>x. en_sha1 en x \<noteq> []"
    and "quiet_opts bo'" and "l \<le> cf_now s"
  shows "let s2 = s'\<lparr>cf_now := later_time\<rparr>; run2 = config_template en bo' package vals (Some l) (template_records package s2) template s2 in
     fst run2 = Inr () \<and> but_db (snd run2) = but_db s'"
proof -
  let ?s2 = "s'\<lparr>cf_now := later_time\<rparr>"
  note b = build_new[OF assms(1-7) assms(8)]
  have pk: "cf_packages ?s2 = cf_packages s" using b(2) by (simp add: surroundings_def)
  have "is_current en package template content targets l ?s2"
    using b(1) assms(10) by (fastforce simp: is_current_def template_records_def target_records_def file_hash_def)
  moreover have "fst (targetFiles en package vals template ?s2) = Inr targets"
    using targetFiles_reads[OF pk] assms(4) by simp
  ultimately show ?thesis
    using current_quiet[OF assms(9), of ?s2 package files template content en vals targets l] assms(2,3) pk
    by (simp add: Let_def but_db_def)
qed

definition first_run :: config where
  "first_run = snd (config_template demo_env plain_opts ''ntp'' demo_values (Some 15) [] ''ntp'' (demo_config ''/'' []))"

theorem second_run_quiet_witness:
  "but_db (snd (config_template demo_env plain_opts ''ntp'' demo_values (Some 15)
      (template_records ''ntp'' (first_run\<lparr>cf_now := 99\<rparr>)) ''ntp'' (first_run\<lparr>cf_now := 99\<rparr>))) = but_db first_run
   \<and> map_of (cf_files first_run) ''/etc/ntp.conf'' = Some ''x''"
proof
  let ?s = "demo_config ''/'' []"
  have q: "quiet_opts plain_opts" by (simp add: quiet_opts_def plain_opts_def)
  have pf: "map_of (cf_packages ?s) ''ntp'' = Some [(''ntp.tpl'', Some ''/etc/ntp.conf'')]"
    "map_of [(''ntp.tpl'', Some ''/etc/ntp.conf'')] (tpl ''ntp'') = Some (Some ''/etc/ntp.conf'')" by code_simp+
  have tf: "fst (targetFiles demo_env ''ntp'' demo_values ''ntp'' ?s) = Inr [''/etc/ntp.conf'']" by code_simp
  have un: "unrecorded ''ntp'' ''ntp'' ?s" by code_simp
  have "template_records ''ntp'' ?s = []" "fst (config_template demo_env plain_opts ''ntp'' demo_values (Some 15) [] ''ntp'' ?s) = Inr ()"
    by code_simp+
  then have run: "config_template demo_env plain_opts ''ntp'' demo_values (Some 15) (template_records ''ntp'' ?s) ''ntp'' ?s = (Inr (), first_run)"
    by (simp add: first_run_def prod_eq_iff)
  have rec: "map_of (template_records ''ntp'' first_run) ''ntp'' \<noteq> None" by code_simp
  have sha: "\<And>x. en_sha1 demo_env x \<noteq> []" by (simp add: demo_env_def)
  have l: "15 \<le> cf_now ?s" by (simp add: demo_config_def)
  from second_run_quiet[OF q pf tf un run rec sha q l, of 99]
  show "but_db (snd (config_template demo_env plain_opts ''ntp'' demo_values (Some 15)
      (template_records ''ntp'' (first_run\<lparr>cf_now := 99\<rparr>)) ''ntp'' (first_run\<lparr>cf_now := 99\<rparr>))) = but_db first_run"
    by (simp add: Let_def)
  show "map_of (cf_files first_run) ''/etc/ntp.conf'' = Some ''x''" by code_simp
qed

section \<open>Where the checks fall short\<close>

text \<open>A template that is new is built over a file that is there and is not its own, without \<open>force\<close> and without a backup, although
  the code has the message that the target already exists: the need to build is found only after the targets were checked.\<close>

theorem new_template_overwrites:
  "(let s = snd (configPackage demo_env plain_opts ''ntp'' [''ntp''] (Some demo_values) (demo_config ''/'' [(''/etc/ntp.conf'', ''mine'')])) in
     cf_files s = [(''/etc/ntp.conf'', ''x'')] \<and> cf_out s = [template_line ''ntp'' ''ntp'' '' is new, building.'', building_line ''ntp'' ''ntp''])"
  by code_simp

text \<open>A target that a recorded template gets later. When the template is built again, its row is updated, and there is none: it is
  never recorded. When nothing has to be built, a row without a time is inserted, and the next run fails on it.\<close>

definition grown :: "(string, pyval) dict" where
  "grown = demo_values @ [(''more'', PStr ''/etc/b'')]"

definition run_ntp :: "build_opts \<Rightarrow> (string, pyval) dict \<Rightarrow> config \<Rightarrow> config" where
  "run_ntp bo vals s = snd (configPackage demo_env bo ''ntp'' [''ntp''] (Some vals) s)"

definition run_grown :: "(string, string) dict \<Rightarrow> config" where
  "run_grown files = run_ntp plain_opts grown (run_ntp plain_opts demo_values (demo_config ''/'' files))"

definition file_and_rows :: "string \<Rightarrow> config \<Rightarrow> string option \<times> string list" where
  "file_and_rows p s = (map_of (cf_files s) p, map tg_target (db_targets (cf_db s)))"

theorem later_target_unrecorded: "file_and_rows ''/etc/b'' (run_grown []) = (Some ''x'', [''/etc/ntp.conf''])"
  by code_simp

theorem later_target_fails:
  "fst (configPackage demo_env plain_opts ''ntp'' [''ntp''] (Some grown) (run_grown [(''/etc/b'', ''old'')])) = Inl TypeError"
  by code_simp

text \<open>The group of a target is looked up among the users: a group that is no user raises.\<close>

theorem group_from_users: "owner_ids demo_env ''root.disk'' = Inl KeyError"
  by code_simp

end
