(* ===== verification/Firmware_Handler.thy ===== *)
theory Firmware_Handler
  imports Firmware_Planner
begin

text \<open>
  The base class of the firmware handlers, \<open>firmware/handler.py\<close>, and what the handlers are to the program that
  runs them. The state is the machine with what the update program keeps while it runs. A command is
  answered by the parameter \<open>en_proc\<close>, which may depend on the commands before it: the exit code and what
  the non-blocking reads of its two pipes give, or \<open>None\<close> for a command that cannot be started. The log of a command and the
  progress lines of the program are left out; what it prints on a branch is kept.

  \<open>output_tail\<close> says what of the output of a command a handler sees, \<open>output_lost\<close> what it does not see.
\<close>

section \<open>State and parameters\<close>

datatype pipe_read = NoData | IOErr | Data string

text \<open>How often \<open>poll()\<close> finds the process running, and the results of the reads, in order; then there is no data.\<close>

record proc_io =
  pi_ticks :: nat
  pi_out :: "pipe_read list"
  pi_err :: "pipe_read list"
  pi_code :: int

type_synonym command = "string \<times> string \<times> string"

type_synonym pci_entry = "(string, pyval) dict"

type_synonym dmi = "(string, (string, string) dict list) dict"

text \<open>What \<open>opener.open\<close> does: a body, \<open>HTTPError\<close>, or another \<open>URLError\<close>.\<close>

datatype http_answer = Body string | HttpError | Refused

record drive_info =
  dr_name :: string
  dr_model :: string
  dr_version :: string

record fw_env =
  en_proc :: "command list \<Rightarrow> string \<Rightarrow> proc_io option"
  en_http :: "string \<Rightarrow> http_answer"
  en_tmpname :: "nat \<Rightarrow> string"
  en_pci :: "(string, pci_entry) dict"
  en_dmi :: dmi
  en_drives :: "drive_info list"
  en_user :: "string option"
  en_password :: "string option"

datatype fw_target =
    DriveTarget string \<comment> \<open>the drive as text\<close>
  | PciTarget string
  | MegaTarget string string "string option" "string option" \<comment> \<open>id, model, package version, PCI address\<close>
  | AfudosTarget string string
  | SAABIOSTarget
  | SAABMCTarget

text \<open>A target in a message or a command.\<close>

definition quoted :: "string \<Rightarrow> string" where
  "quoted t = [CHR 0x22] @ t @ [CHR 0x22]"

fun target_str :: "fw_target \<Rightarrow> string" where
  "target_str (DriveTarget d) = d"
| "target_str (PciTarget a) = a"
| "target_str (MegaTarget i model ver pci) = ''MegaRAIDTarget id: '' @ quoted i"
| "target_str (AfudosTarget model ver) = ''AfudosTarget model: '' @ quoted model"
| "target_str SAABIOSTarget = ''SAABIOSTarget''"
| "target_str SAABMCTarget = ''SAABMCTarget''"

record fw =
  fw_cmds :: "command list"
  fw_files :: "(string, string) dict"
  fw_dirs :: "string list"
  fw_saa_model :: "string option"
  fw_out :: "string list"
  fw_slept :: "int list"
  fw_msgs :: "string list"
  fw_dirty :: bool
  fw_cache :: "(string, string) dict"
  fw_urls :: "string list"
  fw_seen :: "(string \<times> (fw_target \<times> string \<times> string option) list) list" \<comment> \<open>history: what the handlers listed\<close>
  fw_updated :: "(string \<times> fw_target) list" \<comment> \<open>history: the updates that succeeded\<close>

definition put_line :: "string \<Rightarrow> (fw, unit) py" where
  "put_line line = modify (\<lambda>s. s\<lparr>fw_out := fw_out s @ [line]\<rparr>)"

section \<open>Reading the output of a command\<close>

text \<open>\<open>printable.sub( b'', tmp )\<close>: the class is written from \<open>string.printable\<close>, in which the backslash comes before the closing
  bracket and so makes it a member instead of being one.\<close>

definition printable_chr :: "char \<Rightarrow> bool" where
  "printable_chr c = (let n = (of_char c :: nat) in (9 \<le> n \<and> n \<le> 13) \<or> (32 \<le> n \<and> n < 127 \<and> n \<noteq> 0x5C))"

definition last_chars :: "nat \<Rightarrow> string \<Rightarrow> string" where
  "last_chars n s = drop (length s - n) s"

definition absorb :: "string \<Rightarrow> string \<Rightarrow> string" where
  "absorb ret_lines chunk = last_chars 5000 (ret_lines @ filter printable_chr chunk)"

fun next_read :: "pipe_read list \<Rightarrow> pipe_read \<times> pipe_read list" where
  "next_read [] = (NoData, [])"
| "next_read (r # q) = (r, q)"

text \<open>The inner loop for stdout: until a read gives nothing.\<close>

fun drain_out :: "pipe_read list \<Rightarrow> string \<Rightarrow> (string \<times> pipe_read list) res" where
  "drain_out [] acc = Inr (acc, [])"
| "drain_out (r # q) acc = (case r of
       NoData \<Rightarrow> Inr (acc, q)
     | IOErr \<Rightarrow> Inl (OSError 11)
     | Data t \<Rightarrow> if t = [] then Inr (acc, q) else drain_out q (absorb acc t))"

text \<open>The inner loop for stderr goes on reading stdout, and what it reads is logged only.\<close>

fun skip_out :: "pipe_read list \<Rightarrow> pipe_read list res" where
  "skip_out [] = Inr []"
| "skip_out (r # q) = (case r of
       NoData \<Rightarrow> Inr q
     | IOErr \<Rightarrow> Inl (OSError 11)
     | Data t \<Rightarrow> if t = [] then Inr q else skip_out q)"

type_synonym pump = "string \<times> pipe_read list \<times> pipe_read list"

definition read_out :: "pump \<Rightarrow> (bool \<times> pump) res" where
  "read_out = (\<lambda>(acc, oq, eq). case next_read oq of
       (IOErr, oq1) \<Rightarrow> Inr (True, acc, oq1, eq)
     | (NoData, oq1) \<Rightarrow> Inr (False, acc, oq1, eq)
     | (Data t, oq1) \<Rightarrow>
         if t = [] then Inr (False, acc, oq1, eq)
         else rbnd (drain_out oq1 (absorb acc t)) (\<lambda>(acc', oq2). Inr (False, acc', oq2, eq)))"

definition read_err :: "pump \<Rightarrow> pump res" where
  "read_err = (\<lambda>(acc, oq, eq). case next_read eq of
       (Data t, eq1) \<Rightarrow> if t = [] then Inr (acc, oq, eq1) else rbnd (skip_out oq) (\<lambda>oq1. Inr (acc, oq1, eq1))
     | (_, eq1) \<Rightarrow> Inr (acc, oq, eq1))"

text \<open>One turn while the process runs; an error on the first read of stdout starts the next turn.\<close>

definition turn :: "pump \<Rightarrow> pump res" where
  "turn p = rbnd (read_out p) (\<lambda>(failed, p1). if failed then Inr p1 else read_err p1)"

fun turns :: "nat \<Rightarrow> pump \<Rightarrow> pump res" where
  "turns 0 p = Inr p"
| "turns (Suc n) p = rbnd (turn p) (turns n)"

definition collect_output :: "proc_io \<Rightarrow> string res" where
  "collect_output io =
     rbnd (turns (pi_ticks io) ([], pi_out io, pi_err io)) (\<lambda>p.
     rbnd (read_out p) (\<lambda>(_, p1). rbnd (read_err p1) (\<lambda>(acc, _, _). Inr acc)))"

definition exec_in :: "fw_env \<Rightarrow> string \<Rightarrow> string \<Rightarrow> string \<Rightarrow> (fw, int \<times> string list) py" where
  "exec_in en name cmd cwd =
     bnd (gets (\<lambda>s. en_proc en (fw_cmds s) cmd)) (\<lambda>io.
     seq (modify (\<lambda>s. s\<lparr>fw_cmds := fw_cmds s @ [(name, cmd, cwd)]\<rparr>))
     (case io of
        None \<Rightarrow> throw (OSError 2)
      | Some p \<Rightarrow> bnd (lift (collect_output p)) (\<lambda>t. ret (pi_code p, splitlines t))))"

definition exec :: "fw_env \<Rightarrow> string \<Rightarrow> string \<Rightarrow> (fw, int \<times> string list) py" where
  "exec en name cmd = exec_in en name cmd [slash]"

section \<open>The other helpers\<close>

definition work_dir :: string where
  "work_dir = ''/wrk''"

text \<open>\<open>os.makedirs\<close> fails on a directory that is there; it is then removed with all in it and made again.\<close>

definition under :: "string \<Rightarrow> string \<Rightarrow> bool" where
  "under d p = (p = d \<or> startswith p (d @ [slash]))"

definition prep_wrk_dir :: "(fw, unit) py" where
  "prep_wrk_dir = modify (\<lambda>s.
     if work_dir \<in> set (fw_dirs s)
     then s\<lparr>fw_dirs := filter (\<lambda>d. \<not> under work_dir d) (fw_dirs s) @ [work_dir],
            fw_files := filter (\<lambda>(p, _). \<not> under work_dir p) (fw_files s)\<rparr>
     else s\<lparr>fw_dirs := fw_dirs s @ [work_dir]\<rparr>)"

definition pci_line :: "(string, string) dict \<Rightarrow> string \<Rightarrow> (string, string) dict res" where
  "pci_line d line = (case split1 (CHR ''='') (strip line) of
       None \<Rightarrow> Inl ValueError
     | Some (k, v) \<Rightarrow>
         let d1 = dset (lower k) v d in
         if k = ''PCI_ID'' then
           (case split1 (CHR '':'') v of
              None \<Rightarrow> Inl ValueError
            | Some (vendor, product) \<Rightarrow> Inr (dset ''product_id'' product (dset ''vendor_id'' vendor d1)))
         else Inr d1)"

fun pci_lines :: "(string, string) dict \<Rightarrow> string list \<Rightarrow> (string, string) dict res" where
  "pci_lines d [] = Inr d"
| "pci_lines d (l # ls) = rbnd (pci_line d l) (\<lambda>d1. pci_lines d1 ls)"

definition get_pci_info :: "string \<Rightarrow> (fw, (string, string) dict) py" where
  "get_pci_info address =
     bnd (gets (\<lambda>s. map_of (fw_files s) (''/sys/bus/pci/devices/'' @ address @ ''/uevent''))) (\<lambda>c. case c of
       None \<Rightarrow> throw (OSError 2)
     | Some t \<Rightarrow> lift (pci_lines [] (file_lines t)))"

definition write_path :: "string \<Rightarrow> string \<Rightarrow> (fw, unit) py" where
  "write_path p t = modify (\<lambda>s. s\<lparr>fw_files := dset p t (fw_files s)\<rparr>)"

definition copy_path :: "string \<Rightarrow> string \<Rightarrow> (fw, unit) py" where
  "copy_path p q = bnd (gets (\<lambda>s. map_of (fw_files s) p)) (\<lambda>c. case c of None \<Rightarrow> throw (OSError 2) | Some t \<Rightarrow> write_path q t)"

definition autoexec :: "string \<Rightarrow> string" where
  "autoexec cmd = nl @ ''echo '' @ quoted ''Executing Task...'' @ nl @ nl @ cmd @ nl @ nl
     @ ''echo '' @ quoted ''Powering off....'' @ nl @ ''fdapm poweroff'' @ nl"

definition qemu_cmd :: "string list \<Rightarrow> string" where
  "qemu_cmd args = ''/qemu/qemu-system-x86_64 -machine pc -enable-kvm -m 512 -cpu host -kernel memdisk -initrd dosboot.img -net none -display none --option-rom sgabios.bin '' @ join '' '' args"

text \<open>\<open>_execute_quemu\<close>; \<open>pci\<close> has the keys vendor, product, driver and address. \<open>None\<close> when a command fails.\<close>

definition execute_quemu :: "fw_env \<Rightarrow> string \<Rightarrow> string \<Rightarrow> string list \<Rightarrow> (string, string) dict option \<Rightarrow> (fw, string list option) py" where
  "execute_quemu en name cmd filename_list pci =
     bnd (case pci of
        None \<Rightarrow> ret []
      | Some d \<Rightarrow>
          bnd (lift (collect [''vendor'', ''product'', ''driver'', ''address''] (dindex d))) (\<lambda>vs. case vs of
            [vendor, product, driver, address] \<Rightarrow>
              seq (put_line ''Unbinding PCI Devices...'')
              (seq (write_path ''/sys/bus/pci/drivers/pci-stub/new_id'' (vendor @ '' '' @ product))
              (seq (write_path (''/sys/bus/pci/drivers/'' @ driver @ ''/unbind'') address)
              (seq (write_path ''/sys/bus/pci/drivers/pci-stub/bind'' address)
                (ret [''-device pci-assign,host='' @ address]))))
          | _ \<Rightarrow> throw KeyError)) (\<lambda>pci_args.
     seq (put_line ''Building disk image...'')
     (seq (copy_path ''/qemu/dosboot.img.tpl'' ''/qemu/dosboot.img'')
     (bnd (exec en (name @ ''_mount'') ''mount -o loop /qemu/dosboot.img /target'') (\<lambda>(rc, _).
     if rc \<noteq> 0 then seq (put_line ''Error mounting dosboot.img'') (ret None)
     else
       seq (for_each filename_list (\<lambda>f. copy_path f (''/target/'' @ os_basename f)))
       (seq (write_path ''/target/autoexec.bat'' (autoexec cmd))
       (bnd (exec en (name @ ''_umount'') ''umount /target'') (\<lambda>(rc, _).
       if rc \<noteq> 0 then seq (put_line ''Error mounting dosboot.img'') (ret None)
       else
         seq (put_line ''Starting QEMU...'')
         (bnd (exec_in en (name @ ''_qemu'') (qemu_cmd (pci_args @ [''-serial file:/tmp/'' @ name @ ''_qemu_output''])) ''/qemu/'') (\<lambda>(rc, lines).
           seq (modify (\<lambda>s. s\<lparr>fw_files := AList.delete ''/qemu/dosboot.img'' (fw_files s)\<rparr>))
           (if rc \<noteq> 0 then seq (put_line ''Error in QEMU execution'') (ret None) else ret (Some lines)))))))))))"

section \<open>Handlers\<close>

text \<open>The methods of \<open>Handler\<close>; a version may be \<open>None\<close>.\<close>

record handler =
  h_setup :: "(fw, unit) py"
  h_getTargets :: "(fw, (fw_target \<times> string \<times> string option) list) py"
  h_updateTarget :: "fw_target \<Rightarrow> string \<Rightarrow> (fw, bool) py"
  h_beforeUpdates :: "(fw, unit) py"
  h_afterUpdates :: "(fw, unit) py"

definition base_handler :: handler where
  "base_handler = \<lparr>h_setup = ret (), h_getTargets = ret [], h_updateTarget = (\<lambda>t f. ret False), h_beforeUpdates = ret (), h_afterUpdates = ret ()\<rparr>"

text \<open>What the update program keeps for itself; a handler leaves it alone. This is the interface between the two.\<close>

definition main_part where
  "main_part s = (fw_dirty s, fw_cache s, fw_urls s, fw_seen s, fw_updated s, fw_msgs s)"

locale plugin =
  fixes h :: handler
  assumes setup_keeps: "keeps main_part (h_setup h)"
    and getTargets_keeps: "keeps main_part (h_getTargets h)"
    and updateTarget_keeps: "keeps main_part (h_updateTarget h t f)"
    and beforeUpdates_keeps: "keeps main_part (h_beforeUpdates h)"
    and afterUpdates_keeps: "keeps main_part (h_afterUpdates h)"
    and setup_raises: "raises no_exit (h_setup h)"
    and getTargets_raises: "raises no_exit (h_getTargets h)"
    and updateTarget_raises: "raises no_exit (h_updateTarget h t f)"
    and beforeUpdates_raises: "raises no_exit (h_beforeUpdates h)"
    and afterUpdates_raises: "raises no_exit (h_afterUpdates h)"
begin

lemmas keeps = setup_keeps getTargets_keeps updateTarget_keeps beforeUpdates_keeps afterUpdates_keeps
lemmas raises = setup_raises getTargets_raises updateTarget_raises beforeUpdates_raises afterUpdates_raises

end

lemma keeps_exec_in [keeps_intros]: "keeps main_part (exec_in en name cmd cwd)"
  unfolding exec_in_def by (auto intro!: keeps_intros split: option.split simp: main_part_def)

lemma keeps_exec [keeps_intros]: "keeps main_part (exec en name cmd)"
  unfolding exec_def by (rule keeps_exec_in)

lemma keeps_main_simple [keeps_intros]:
  "keeps main_part (put_line l)" "keeps main_part prep_wrk_dir" "keeps main_part (write_path p t)" "keeps main_part (copy_path p q)"
  unfolding put_line_def prep_wrk_dir_def copy_path_def write_path_def
  by (auto intro!: keeps_intros simp: main_part_def split: option.split)

lemma keeps_quemu [keeps_intros]: "keeps main_part (execute_quemu en name cmd fs pci)"
  unfolding execute_quemu_def
  by (auto intro!: keeps_intros simp: main_part_def split: option.split prod.split list.split)

lemma skip_out_errors: "skip_out q = Inl e \<Longrightarrow> e = OSError 11"
  by (induction q) (auto split: pipe_read.splits if_splits)

lemma drain_out_errors: "drain_out q acc = Inl e \<Longrightarrow> e = OSError 11"
  by (induction q acc rule: drain_out.induct) (auto split: pipe_read.splits if_splits)

lemma read_errors: "read_out p = Inl e \<Longrightarrow> e = OSError 11" "read_err p = Inl e \<Longrightarrow> e = OSError 11"
  by (auto simp: read_out_def read_err_def rbnd_def dest: drain_out_errors skip_out_errors
      split: prod.splits pipe_read.splits if_splits sum.splits)

lemma turns_errors: "turns n p = Inl e \<Longrightarrow> e = OSError 11"
  by (induction n arbitrary: p) (auto simp: turn_def rbnd_def dest: read_errors split: sum.splits prod.splits if_splits)

lemma collect_output_errors: "collect_output io = Inl e \<Longrightarrow> e = OSError 11"
  by (auto simp: collect_output_def rbnd_def dest: read_errors turns_errors split: sum.splits prod.splits)

lemma raises_exec_in [raises_intros]: "raises no_exit (exec_in en name cmd cwd)"
  unfolding exec_in_def by (auto intro!: raises_intros dest!: collect_output_errors split: option.split)

lemma raises_exec [raises_intros]: "raises no_exit (exec en name cmd)"
  unfolding exec_def by (rule raises_exec_in)

lemma raises_simple [raises_intros]: "raises E (put_line l)" "raises E prep_wrk_dir"
  unfolding put_line_def prep_wrk_dir_def by (intro raises_intros)+

interpretation base: plugin base_handler
  by unfold_locales (simp_all add: base_handler_def keeps_basic raises_basic)

section \<open>What is seen of the output\<close>

lemma last_chars_append: "last_chars n (last_chars n a @ b) = last_chars n (a @ b)"
proof (cases "length b \<ge> n")
  case True
  then show ?thesis by (simp add: last_chars_def)
next
  case False
  have "length a - n + (length (drop (length a - n) a @ b) - n) = length (a @ b) - n" using False by auto
  moreover have "drop k (drop (length a - n) a @ b) = drop (length a - n + k) (a @ b)" if "k \<le> length a - (length a - n)" for k
    using that by (simp add: add.commute)
  ultimately show ?thesis using False unfolding last_chars_def by (metis (no_types, lifting) drop_drop drop_append diff_is_0_eq' drop_0 diff_le_self add.commute)
qed

lemma absorb_absorb: "absorb (absorb acc a) b = absorb acc (a @ b)"
  unfolding absorb_def by (simp add: last_chars_append flip: append_assoc)

lemma absorb_nothing [simp]: "length acc \<le> 5000 \<Longrightarrow> absorb acc [] = acc"
  by (simp add: absorb_def last_chars_def)

lemma absorb_length [simp]: "length (absorb acc t) \<le> 5000"
  by (simp add: absorb_def last_chars_def)

text \<open>A read without data, after which the loop looks at the process again, and the text of the other reads.\<close>

fun gap :: "pipe_read \<Rightarrow> bool" where
  "gap NoData = True"
| "gap IOErr = False"
| "gap (Data t) = (t = [])"

fun data_of :: "pipe_read list \<Rightarrow> string" where
  "data_of [] = []"
| "data_of (Data t # q) = t @ data_of q"
| "data_of (_ # q) = data_of q"

lemma drain_out_data:
  "IOErr \<notin> set q \<Longrightarrow> length acc \<le> 5000 \<Longrightarrow> \<exists>acc' q'. drain_out q acc = Inr (acc', q') \<and> length acc' \<le> 5000
     \<and> absorb acc' (data_of q') = absorb acc (data_of q) \<and> IOErr \<notin> set q' \<and> length (filter gap q') = length (filter gap q) - 1
     \<and> (filter gap q = [] \<longrightarrow> q' = [])"
proof (induction q arbitrary: acc)
  case Nil
  then show ?case by simp
next
  case (Cons r q)
  show ?case
  proof (cases "gap r")
    case True
    with Cons.prems show ?thesis by (cases r) auto
  next
    case False
    with Cons.prems obtain t where r: "r = Data t" "t \<noteq> []" by (cases r) auto
    from Cons.IH[of "absorb acc t"] Cons.prems r show ?thesis by (auto simp: absorb_absorb)
  qed
qed

lemma read_out_data:
  assumes "IOErr \<notin> set oq" "length acc \<le> 5000"
  shows "\<exists>acc' oq'. read_out (acc, oq, eq) = Inr (False, acc', oq', eq) \<and> length acc' \<le> 5000
     \<and> absorb acc' (data_of oq') = absorb acc (data_of oq) \<and> IOErr \<notin> set oq' \<and> length (filter gap oq') = length (filter gap oq) - 1
     \<and> (filter gap oq = [] \<longrightarrow> oq' = [])"
proof (cases oq)
  case Nil
  then show ?thesis using assms by (simp add: read_out_def)
next
  case (Cons r q)
  show ?thesis
  proof (cases "gap r")
    case True
    with Cons assms show ?thesis by (cases r) (auto simp: read_out_def)
  next
    case False
    with Cons assms obtain t where r: "r = Data t" "t \<noteq> []" by (cases r) auto
    from drain_out_data[of q "absorb acc t"] Cons assms r show ?thesis by (auto simp: read_out_def absorb_absorb)
  qed
qed

definition silent :: "pipe_read list \<Rightarrow> bool" where
  "silent q = list_all (\<lambda>r. case r of Data t \<Rightarrow> t = [] | _ \<Rightarrow> True) q"

lemma read_err_silent: "silent eq \<Longrightarrow> \<exists>eq'. read_err (acc, oq, eq) = Inr (acc, oq, eq') \<and> silent eq'"
  by (cases eq) (auto simp: read_err_def silent_def split: pipe_read.split)

lemma turns_data:
  "IOErr \<notin> set oq \<Longrightarrow> length acc \<le> 5000 \<Longrightarrow> silent eq \<Longrightarrow> \<exists>acc' oq' eq'. turns n (acc, oq, eq) = Inr (acc', oq', eq')
     \<and> length acc' \<le> 5000 \<and> absorb acc' (data_of oq') = absorb acc (data_of oq) \<and> IOErr \<notin> set oq' \<and> silent eq'
     \<and> length (filter gap oq') = length (filter gap oq) - n"
proof (induction n arbitrary: acc oq eq)
  case 0
  then show ?case by simp
next
  case (Suc n)
  from read_out_data[OF Suc.prems(1,2), of eq] obtain acc1 oq1 where r: "read_out (acc, oq, eq) = Inr (False, acc1, oq1, eq)" "length acc1 \<le> 5000"
    "absorb acc1 (data_of oq1) = absorb acc (data_of oq)" "IOErr \<notin> set oq1" "length (filter gap oq1) = length (filter gap oq) - 1"
    by auto
  from read_err_silent[OF Suc.prems(3)] obtain eq1 where "read_err (acc1, oq1, eq) = Inr (acc1, oq1, eq1)" "silent eq1" by auto
  with r Suc.IH[of oq1 acc1 eq1] show ?case by (auto simp: turn_def)
qed

text \<open>When no read fails, nothing is written on stderr and the process is looked at often enough to read all it writes, the output
  of a command is the printable part of what it wrote, cut to its last 5000 characters.\<close>

theorem output_tail:
  assumes "IOErr \<notin> set (pi_out io)" and "silent (pi_err io)" and "length (filter gap (pi_out io)) \<le> pi_ticks io"
  shows "collect_output io = Inr (last_chars 5000 (filter printable_chr (data_of (pi_out io))))"
proof -
  from turns_data[OF assms(1) _ assms(2), of "[]" "pi_ticks io"] obtain acc oq eq where
    t: "turns (pi_ticks io) ([], pi_out io, pi_err io) = Inr (acc, oq, eq)" "length acc \<le> 5000"
      "absorb acc (data_of oq) = absorb [] (data_of (pi_out io))" "IOErr \<notin> set oq" "silent eq" "filter gap oq = []"
    using assms(3) by auto
  from read_out_data[OF t(4,2), of eq] t(6) obtain acc' where
    "read_out (acc, oq, eq) = Inr (False, acc', [], eq)" "length acc' \<le> 5000" "absorb acc' (data_of []) = absorb acc (data_of oq)"
    by auto
  moreover from read_err_silent[OF t(5)] obtain eq' where "read_err (acc', [], eq) = Inr (acc', [], eq')" by auto
  moreover have "absorb acc' [] = acc'" using calculation(2) by (rule absorb_nothing)
  moreover have "absorb [] = (\<lambda>t. last_chars 5000 (filter printable_chr t))" by (simp add: absorb_def fun_eq_iff)
  ultimately show ?thesis using t(1,3) by (simp add: collect_output_def)
qed

definition demo_io :: proc_io where
  "demo_io = \<lparr>pi_ticks = 2, pi_out = [Data ''ab'', Data [CHR 0x00, CHR ''c''], NoData, Data ''d''], pi_err = [NoData, NoData], pi_code = 0\<rparr>"

theorem output_tail_witness: "collect_output demo_io = Inr ''abcd''"
proof -
  have "IOErr \<notin> set (pi_out demo_io)" "silent (pi_err demo_io)" "length (filter gap (pi_out demo_io)) \<le> pi_ticks demo_io" by code_simp+
  from output_tail[OF this] have "collect_output demo_io = Inr (last_chars 5000 (filter printable_chr (data_of (pi_out demo_io))))" .
  moreover have "data_of (pi_out demo_io) = [CHR ''a'', CHR ''b'', CHR 0x00, CHR ''c'', CHR ''d'']" by code_simp
  moreover have "filter printable_chr [CHR ''a'', CHR ''b'', CHR 0x00, CHR ''c'', CHR ''d''] = ''abcd''" by code_simp
  ultimately show ?thesis by (simp add: last_chars_def)
qed

text \<open>What a command writes on stdout while it also writes on stderr is lost: the loop that reads stderr goes on with stdout.\<close>

theorem output_lost:
  "collect_output \<lparr>pi_ticks = 1, pi_out = [Data ''start'', NoData, Data ''result''], pi_err = [Data ''warning''], pi_code = 0\<rparr> = Inr ''start''"
  by code_simp

end
