(* ===== verification/Firmware_Run.thy ===== *)
theory Firmware_Run
  imports Firmware_Plugins
begin

text \<open>
  The firmware program, \<open>disks/firmware/root/firmware.py\<close>, from the configuration on: setting the handlers up, looking for updates
  handler by handler, and the exit code, 20 for a reboot. The configuration is read as typed data: the firmware maps of
  \<open>planner.py\<close> by handler and model, and the wanted versions. \<open>fw_seen\<close> and \<open>fw_updated\<close> are a history for the statements below and
  nothing reads them. Logging in and a failing \<open>postMessage\<close> are in the theories of the contractor client.

  The handlers are arbitrary, as long as they keep to the interface \<open>plugin\<close>. The theorems say what exit codes 0 and 20 mean.
\<close>

section \<open>The program\<close>

record fw_config =
  fc_location :: "string option"
  fc_firmware :: "(string, (string, firmware_map) dict) dict option"
  fc_targets :: "(string, (string, string) dict) dict option"

definition fw_exit :: "int \<Rightarrow> (fw, 'a) py" where
  "fw_exit code = throw (SysExit code)"

definition post :: "string \<Rightarrow> (fw, unit) py" where
  "post msg = modify (\<lambda>s. s\<lparr>fw_msgs := fw_msgs s @ [msg]\<rparr>)"

text \<open>\<open>findStep\<close> for a version that may be \<open>None\<close>, which \<open>re.match\<close> refuses.\<close>

definition find_step :: "string option \<Rightarrow> string \<Rightarrow> firmware_map \<Rightarrow> string option res" where
  "find_step version target_version fm = (case version of
       Some v \<Rightarrow> findStep v target_version fm
     | None \<Rightarrow>
         rbnd (collect fm (\<lambda>(_, vermap). dindex vermap ''from'')) (\<lambda>patterns. case sortPatterns patterns of
           [] \<Rightarrow> Inr None
         | p # _ \<Rightarrow> Inl (if re_compile p = None then re_error else TypeError)))"

definition fetch :: "fw_env \<Rightarrow> string \<Rightarrow> string \<Rightarrow> (fw, string) py" where
  "fetch en loc filename =
     bnd (gets (\<lambda>s. map_of (fw_cache s) filename)) (\<lambda>c. case c of
       Some l \<Rightarrow> ret l
     | None \<Rightarrow>
         seq (modify (\<lambda>s. s\<lparr>fw_urls := fw_urls s @ [loc @ filename]\<rparr>))
         (case en_http en (loc @ filename) of
            HttpError \<Rightarrow> seq (put_line (''error retreiving '' @ quoted (loc @ filename))) (fw_exit 1)
          | Refused \<Rightarrow> throw (PlainException ''URLError'')
          | Body t \<Rightarrow>
              bnd (gets (\<lambda>s. en_tmpname en (length (fw_cache s)))) (\<lambda>l.
              seq (modify (\<lambda>s. s\<lparr>fw_files := dset l t (fw_files s)\<rparr>))
              (seq (put_line (''Downloaded '' @ quoted filename @ '' to '' @ quoted l))
              (seq (modify (\<lambda>s. s\<lparr>fw_cache := dset filename l (fw_cache s)\<rparr>))
                (ret l))))))"

text \<open>One target: nothing for a model without a wanted version or one that has it.\<close>

definition look_target :: "fw_env \<Rightarrow> string \<Rightarrow> string \<Rightarrow> handler \<Rightarrow> (string, string) dict \<Rightarrow> (string, firmware_map) dict \<Rightarrow>
    fw_target \<times> string \<times> string option \<Rightarrow> (fw, unit) py" where
  "look_target en loc name h version_map fmap = (\<lambda>(target, model, version).
     case map_of version_map model of
       None \<Rightarrow> put_line (''Model '' @ quoted model @ '' not found in version_map'')
     | Some target_version \<Rightarrow>
         if version = Some target_version then put_line ''    All Good Skipping...''
         else
           bnd (gets fw_dirty) (\<lambda>dirty.
           seq (whenM (\<not> dirty) (h_beforeUpdates h))
           (case map_of fmap model of
              None \<Rightarrow> seq (put_line (''Error getting Model '' @ quoted model @ '' from firmware_map'')) (fw_exit 1)
            | Some model_map \<Rightarrow>
                bnd (lift (find_step version target_version model_map)) (\<lambda>filename.
                case filename of
                  None \<Rightarrow> seq (put_line ''Unable to find next step'') (fw_exit 1)
                | Some f \<Rightarrow>
                    if f = [] then seq (put_line ''Unable to find next step'') (fw_exit 1)
                    else
                      bnd (fetch en loc f) (\<lambda>local.
                      seq (post (''Updating '' @ quoted (target_str target) @ '' with '' @ quoted f))
                      (bnd (h_updateTarget h target local) (\<lambda>ok.
                      if \<not> ok then seq (put_line ''Firmware update Failed'') (fw_exit 1)
                      else modify (\<lambda>s. s\<lparr>fw_dirty := True, fw_updated := fw_updated s @ [(name, target)]\<rparr>))))))))"

text \<open>One handler. The loop over the handlers ends after the first that updated something.\<close>

definition check_handler :: "fw_env \<Rightarrow> string \<Rightarrow> (string, (string, firmware_map) dict) dict \<Rightarrow> (string, (string, string) dict) dict \<Rightarrow>
    string \<Rightarrow> handler \<Rightarrow> (fw, unit) py" where
  "check_handler en loc firmware targets name h = (case map_of targets name of
       None \<Rightarrow> put_line (''No Firmware Target for Handler '' @ quoted name @ '', skipping...'')
     | Some version_map \<Rightarrow> (case map_of firmware name of
         None \<Rightarrow> seq (put_line (''Error: No Firmware for Handler, however there is a version for it '' @ quoted name)) (fw_exit 1)
       | Some fmap \<Rightarrow>
           bnd (on_any (h_getTargets h) (seq (put_line ''Error getting Target list'') (fw_exit 1))) (\<lambda>target_list.
           seq (modify (\<lambda>s. s\<lparr>fw_seen := fw_seen s @ [(name, target_list)]\<rparr>))
             (for_each target_list (look_target en loc name h version_map fmap)))))"

fun update_loop :: "fw_env \<Rightarrow> string \<Rightarrow> (string, (string, firmware_map) dict) dict \<Rightarrow> (string, (string, string) dict) dict \<Rightarrow>
    (string \<times> handler) list \<Rightarrow> (fw, unit) py" where
  "update_loop en loc firmware targets [] = ret ()"
| "update_loop en loc firmware targets ((name, h) # hs) =
     seq (check_handler en loc firmware targets name h)
     (bnd (gets fw_dirty) (\<lambda>dirty.
       if dirty then h_afterUpdates h else update_loop en loc firmware targets hs))"

definition required :: "'a option \<Rightarrow> ('a \<Rightarrow> bool) \<Rightarrow> string \<Rightarrow> (fw, 'a) py" where
  "required v missing name = (case v of
       None \<Rightarrow> seq (put_line (name @ '' not defined.'')) (fw_exit 1)
     | Some x \<Rightarrow> if missing x then seq (put_line (name @ '' not defined.'')) (fw_exit 1) else ret x)"

definition firmware_main :: "fw_env \<Rightarrow> fw_config \<Rightarrow> (string \<times> handler) list \<Rightarrow> (fw, unit) py" where
  "firmware_main en cfg handlers =
     bnd (required (fc_location cfg) (\<lambda>l. l = []) ''firmware_resource_location'') (\<lambda>loc.
     bnd (required (fc_firmware cfg) (\<lambda>m. m = []) ''firmware'') (\<lambda>firmware.
     bnd (required (fc_targets cfg) (\<lambda>m. m = []) ''firmware_targets'') (\<lambda>targets.
     seq (post ''Setting up handlers...'')
     (seq (for_each handlers (\<lambda>(name, h). h_setup h))
     (seq (post ''Checking for Updates....'')
     (seq (update_loop en loc firmware targets handlers)
     (bnd (gets fw_dirty) (\<lambda>dirty.
       if dirty then seq (post ''Firmware Changed, rebooting.'') (fw_exit 20)
       else seq (put_line ''Done!'') (fw_exit 0)))))))))"

end
