(* ===== verification/Firmware_Props.thy ===== *)
theory Firmware_Props
  imports Firmware_Run
begin

text \<open>
  What the exit codes of the firmware program mean, for any handlers that keep to the interface \<open>plugin\<close>: \<open>reboot_after_updates\<close> and
  \<open>done_means_current\<close>; no file is asked for twice (\<open>files_fetched_once\<close>); and a run of the planner, the Mellanox handler and the
  program together.
\<close>

section \<open>What one target does to the history\<close>

definition hist :: "fw \<Rightarrow> bool \<times> (string \<times> (fw_target \<times> string \<times> string option) list) list \<times> (string \<times> fw_target) list" where
  "hist s = (fw_dirty s, fw_seen s, fw_updated s)"

definition outdated :: "(string, string) dict \<Rightarrow> fw_target \<times> string \<times> string option \<Rightarrow> bool" where
  "outdated version_map = (\<lambda>(target, model, version). case map_of version_map model of
       None \<Rightarrow> False | Some target_version \<Rightarrow> version \<noteq> Some target_version)"

definition exit_1 :: "exc \<Rightarrow> bool" where
  "exit_1 e = (\<forall>n. e = SysExit n \<longrightarrow> n = 1)"

lemma exit_1_simps [simp]: "no_exit e \<Longrightarrow> exit_1 e" "exit_1 (SysExit n) \<longleftrightarrow> n = 1"
  by (auto simp: exit_1_def no_exit_def)

lemma hist_of_main: "keeps main_part m \<Longrightarrow> keeps hist m"
  by (simp add: keeps_def main_part_def hist_def)

lemma keeps_hist [keeps_intros]: "keeps hist (put_line l)" "keeps hist (post t)"
  by (simp_all add: put_line_def post_def keeps_modify hist_def)

lemma raises_post [raises_intros]: "raises E (post t)" "E (SysExit n) \<Longrightarrow> raises E (fw_exit n)"
  unfolding post_def fw_exit_def by (intro raises_intros; simp)+

lemma keeps_exit [keeps_intros]: "keeps f (fw_exit n)"
  unfolding fw_exit_def by (rule keeps_basic)

lemma keeps_fetch [keeps_intros]: "keeps hist (fetch en loc f)"
  unfolding fetch_def by (auto intro!: keeps_intros simp: hist_def split: option.split http_answer.split)

lemma raises_fetch [raises_intros]: "raises exit_1 (fetch en loc f)"
  unfolding fetch_def by (auto intro!: raises_intros split: option.split http_answer.split)

lemma matches_errors: "matches t p = Inl e \<Longrightarrow> no_exit e"
  by (auto simp: matches_def re_error_def split: if_splits option.splits)

lemma collect_errors: "collect xs f = Inl e \<Longrightarrow> (\<And>x e. f x = Inl e \<Longrightarrow> no_exit e) \<Longrightarrow> no_exit e"
  by (induction xs) (auto split: sum.splits)

lemma file_for_errors: "file_for p t fm = Inl e \<Longrightarrow> no_exit e"
  by (induction p t fm rule: file_for.induct) (auto elim!: rbnd_errors dest: res_errors split: if_splits)

lemma try_patterns_errors: "try_patterns ps t fm = Inl e \<Longrightarrow> no_exit e"
  by (induction ps) (auto elim!: rbnd_errors dest: file_for_errors split: option.splits)

lemma find_step_errors: "find_step v t fm = Inl e \<Longrightarrow> no_exit e"
  unfolding find_step_def findStep_def findMatchs_def re_error_def
  by (auto elim!: rbnd_errors collect_errors dest: res_errors matches_errors try_patterns_errors split: option.splits list.splits if_splits)

lemma triple_hist: "keeps hist m \<Longrightarrow> raises exit_1 m \<Longrightarrow> triple (\<lambda>s. hist s = c) m (\<lambda>_ s. hist s = c) (\<lambda>e _. exit_1 e)"
  by (rule triple_keeps[where R = exit_1]) auto

lemma raises_weaken: "raises no_exit m \<Longrightarrow> raises exit_1 m"
  by (auto simp: raises_def)

lemma raises_disj: "raises E m \<Longrightarrow> raises (\<lambda>e. p e \<or> E e) m"
  by (auto simp: raises_def)

context plugin
begin

lemmas hist_keeps = keeps[THEN hist_of_main]
lemmas exit_1_raises = raises[THEN raises_weaken]

lemma look_target_hist:
  "triple (\<lambda>s. hist s = (d, seen, upd)) (look_target en loc name h vm fmap x)
     (\<lambda>_ s. hist s = (if outdated vm x then (True, seen, upd @ [(name, fst x)]) else (d, seen, upd))) (\<lambda>e _. exit_1 e)"
proof -
  obtain target model version where x: "x = (target, model, version)" by (cases x)
  show ?thesis
  proof (cases "map_of vm model")
    case None
    then show ?thesis unfolding x look_target_def by (simp add: outdated_def triple_hist keeps_hist raises_simple)
  next
    case (Some w)
    show ?thesis
    proof (cases "version = Some w")
      case True
      then show ?thesis using Some unfolding x look_target_def by (simp add: outdated_def triple_hist keeps_hist raises_simple)
    next
      case False
      let ?P = "\<lambda>s. hist s = (d, seen, upd)"
      have upd: "triple ?P (modify (\<lambda>s. s\<lparr>fw_dirty := True, fw_updated := fw_updated s @ [(name, target)]\<rparr>))
          (\<lambda>_ s. hist s = (True, seen, upd @ [(name, target)])) (\<lambda>e _. exit_1 e)"
        by (rule triple_modify) (simp add: hist_def)
      have fail: "triple ?P (seq (put_line t) (fw_exit 1)) Q (\<lambda>e _. exit_1 e)" for t Q
        by (rule triple_seq[where R = ?P]) (simp_all add: triple_hist keeps_hist raises_simple fw_exit_def triple_throw)
      have run: "triple ?P (bnd (fetch en loc f) (\<lambda>local. seq (post t) (bnd (h_updateTarget h target local) (\<lambda>ok.
             if \<not> ok then seq (put_line ''Firmware update Failed'') (fw_exit 1)
             else modify (\<lambda>s. s\<lparr>fw_dirty := True, fw_updated := fw_updated s @ [(name, target)]\<rparr>)))))
          (\<lambda>_ s. hist s = (True, seen, upd @ [(name, target)])) (\<lambda>e _. exit_1 e)" for f t
      proof (rule triple_bnd, rule triple_hist[OF keeps_fetch raises_fetch], rule triple_seq, rule triple_hist)
        show "keeps hist (post t)" "raises exit_1 (post t)" by (rule keeps_hist, rule raises_post)
        show "triple ?P (bnd (h_updateTarget h target local) (\<lambda>ok.
             if \<not> ok then seq (put_line ''Firmware update Failed'') (fw_exit 1)
             else modify (\<lambda>s. s\<lparr>fw_dirty := True, fw_updated := fw_updated s @ [(name, target)]\<rparr>)))
          (\<lambda>_ s. hist s = (True, seen, upd @ [(name, target)])) (\<lambda>e _. exit_1 e)" for local
          by (rule triple_bnd, rule triple_hist[OF hist_keeps(3) exit_1_raises(3)]) (simp add: fail upd)
      qed
      have before: "keeps hist (whenM b (h_beforeUpdates h))" "raises exit_1 (whenM b (h_beforeUpdates h))" for b
        using hist_keeps(4) exit_1_raises(4) by (simp_all add: whenM_def keeps_basic raises_basic)
      have "triple ?P (look_target en loc name h vm fmap x) (\<lambda>_ s. hist s = (True, seen, upd @ [(name, target)])) (\<lambda>e _. exit_1 e)"
        unfolding x look_target_def using Some False
        apply simp
        apply (rule triple_gets)
        apply (rule triple_seq[where R = ?P])
         apply (rule triple_conseq[OF triple_hist[OF before, of "(d, seen, upd)"]]; simp)
        apply (cases "map_of fmap model")
         apply (simp add: fail)
        apply simp
        apply (rule triple_lift)
         apply (blast dest: find_step_errors exit_1_simps(1))
        subgoal for v fn by (cases fn) (simp_all add: fail run)
        done
      then show ?thesis using Some False x by (simp add: outdated_def)
    qed
  qed
qed

lemma look_all_hist:
  "triple (\<lambda>s. hist s = (d, seen, upd)) (for_each ts (look_target en loc name h vm fmap))
     (\<lambda>_ s. hist s = (d \<or> filter (outdated vm) ts \<noteq> [], seen, upd @ map (\<lambda>x. (name, fst x)) (filter (outdated vm) ts))) (\<lambda>e _. exit_1 e)"
proof (induction ts arbitrary: d upd)
  case Nil
  show ?case by (simp add: triple_ret)
next
  case (Cons x ts)
  show ?case
    unfolding for_each.simps
    by (rule triple_seq, rule look_target_hist, cases "outdated vm x")
      (auto intro: triple_conseq[OF Cons.IH[of True "upd @ [(name, fst x)]"]] triple_conseq[OF Cons.IH[of d upd]])
qed

lemma check_handler_hist:
  "triple (\<lambda>s. hist s = (False, seen, [])) (check_handler en loc firmware targets name h)
     (\<lambda>_ s. case map_of targets name of
        None \<Rightarrow> hist s = (False, seen, [])
      | Some vm \<Rightarrow> \<exists>ts. hist s = (filter (outdated vm) ts \<noteq> [], seen @ [(name, ts)], map (\<lambda>x. (name, fst x)) (filter (outdated vm) ts)))
     (\<lambda>e _. exit_1 e)"
proof -
  let ?P = "\<lambda>s. hist s = (False, seen, [])"
  have fail: "triple ?P (seq (put_line t) (fw_exit 1)) Q (\<lambda>e _. exit_1 e)" for t Q
    by (rule triple_seq[where R = ?P]) (simp_all add: triple_hist keeps_hist raises_simple fw_exit_def triple_throw)
  have ask: "keeps hist (on_any (h_getTargets h) (seq (put_line t) (fw_exit 1)))"
    "raises exit_1 (on_any (h_getTargets h) (seq (put_line t) (fw_exit 1)))" for t
    using hist_keeps(2) by (auto intro!: keeps_intros raises_intros raises_disj[OF raises_weaken[OF getTargets_raises]])
  have walk: "triple ?P (seq (modify (\<lambda>s. s\<lparr>fw_seen := fw_seen s @ [(name, ts)]\<rparr>)) (for_each ts (look_target en loc name h vm fmap)))
      (\<lambda>_ s. \<exists>ts. hist s = (filter (outdated vm) ts \<noteq> [], seen @ [(name, ts)], map (\<lambda>x. (name, fst x)) (filter (outdated vm) ts)))
      (\<lambda>e _. exit_1 e)" for ts vm fmap
    by (rule triple_seq[where R = "\<lambda>s. hist s = (False, seen @ [(name, ts)], [])"])
      (auto intro!: triple_modify triple_conseq[OF look_all_hist] simp: hist_def)
  show ?thesis
  proof (cases "map_of targets name")
    case None
    then show ?thesis unfolding check_handler_def by (simp add: triple_hist keeps_hist raises_simple)
  next
    case (Some vm)
    then show ?thesis
      unfolding check_handler_def
      by (cases "map_of firmware name") (auto simp: fail intro!: triple_bnd[OF triple_hist[OF ask]] walk)
  qed
qed

end

section \<open>The loop over the handlers\<close>

lemma triple_ex: "(\<And>x. triple (P x) m Q E) \<Longrightarrow> triple (\<lambda>s. \<exists>x. P x s) m Q E"
  unfolding triple_def by metis

lemma triple_false: "(\<And>s. \<not> P s) \<Longrightarrow> triple P m Q E"
  by (simp add: triple_def)

definition current :: "(string, (string, string) dict) dict \<Rightarrow> string \<times> (fw_target \<times> string \<times> string option) list \<Rightarrow> bool" where
  "current targets = (\<lambda>(name, ts). case map_of targets name of None \<Rightarrow> False | Some vm \<Rightarrow> filter (outdated vm) ts = [])"

definition asked :: "(string, (string, string) dict) dict \<Rightarrow> (string \<times> handler) list \<Rightarrow> string list" where
  "asked targets hs = filter (\<lambda>n. map_of targets n \<noteq> None) (map fst hs)"

definition all_current :: "(string, (string, string) dict) dict \<Rightarrow> (string \<times> handler) list \<Rightarrow>
    (string \<times> (fw_target \<times> string \<times> string option) list) list \<Rightarrow> bool" where
  "all_current targets hs seen = (map fst seen = asked targets hs \<and> list_all (current targets) seen)"

definition one_updated :: "(string, (string, string) dict) dict \<Rightarrow> (string \<times> handler) list \<Rightarrow>
    (string \<times> (fw_target \<times> string \<times> string option) list) list \<Rightarrow> (string \<times> fw_target) list \<Rightarrow> bool" where
  "one_updated targets hs seen updated =
     (\<exists>before name ts vm. seen = before @ [(name, ts)] \<and> prefix (map fst seen) (asked targets hs) \<and> list_all (current targets) before
        \<and> map_of targets name = Some vm \<and> updated \<noteq> [] \<and> updated = map (\<lambda>x. (name, fst x)) (filter (outdated vm) ts))"

lemma asked_Cons: "asked targets ((n, h) # hs) = (if map_of targets n = None then asked targets hs else n # asked targets hs)"
  by (simp add: asked_def)

lemma all_current_more:
  "all_current targets hs seen \<Longrightarrow> map_of targets n = Some vm \<Longrightarrow> filter (outdated vm) ts = [] \<Longrightarrow> all_current targets ((n, h) # hs) ((n, ts) # seen)"
  by (simp add: all_current_def asked_Cons current_def)

lemma one_updated_more:
  assumes "one_updated targets hs seen updated" "map_of targets n = Some vm" "filter (outdated vm) ts = []"
  shows "one_updated targets ((n, h) # hs) ((n, ts) # seen) updated"
proof -
  from assms(1) obtain before name ts' vm' where "seen = before @ [(name, ts')]" "prefix (map fst seen) (asked targets hs)"
    "list_all (current targets) before" "map_of targets name = Some vm'" "updated \<noteq> []"
    "updated = map (\<lambda>x. (name, fst x)) (filter (outdated vm') ts')"
    unfolding one_updated_def by blast
  then show ?thesis
    using assms(2,3) unfolding one_updated_def
    by (intro exI[of _ "(n, ts) # before"] exI[of _ name] exI[of _ ts'] exI[of _ vm']) (simp add: asked_Cons current_def)
qed

definition loop_post :: "(string, (string, string) dict) dict \<Rightarrow> (string \<times> handler) list \<Rightarrow>
    (string \<times> (fw_target \<times> string \<times> string option) list) list \<Rightarrow> fw \<Rightarrow> bool" where
  "loop_post targets hs seen0 s = (\<exists>seen. fw_seen s = seen0 @ seen \<and>
     (if fw_dirty s then one_updated targets hs seen (fw_updated s) else fw_updated s = [] \<and> all_current targets hs seen))"

lemma update_loop_hist:
  "\<forall>(n, h) \<in> set hs. plugin h \<Longrightarrow> triple (\<lambda>s. hist s = (False, seen0, [])) (update_loop en loc firmware targets hs)
     (\<lambda>_. loop_post targets hs seen0) (\<lambda>e _. exit_1 e)"
proof (induction hs arbitrary: seen0)
  case Nil
  show ?case by (simp add: triple_ret hist_def loop_post_def all_current_def asked_def)
next
  case (Cons nh hs)
  obtain n h where nh: "nh = (n, h)" by (cases nh)
  have p: "plugin h" and ps: "\<forall>(n, h) \<in> set hs. plugin h" using Cons.prems nh by auto
  let ?E = "\<lambda>e (_ :: fw). exit_1 e"
  let ?Q = "\<lambda>hs (_ :: unit). loop_post targets hs seen0"
  show ?case
  proof (cases "map_of targets n")
    case None
    have "loop_post targets (nh # hs) = loop_post targets hs"
      using None nh by (simp add: fun_eq_iff loop_post_def one_updated_def all_current_def asked_Cons)
    with Cons.IH[OF ps, of seen0] have loop: "triple (\<lambda>s. hist s = (False, seen0, [])) (update_loop en loc firmware targets hs) (?Q (nh # hs)) ?E"
      by simp
    show ?thesis
      unfolding nh update_loop.simps
      by (rule triple_seq, rule plugin.check_handler_hist[OF p], rule triple_gets)
        (auto simp: None triple_false hist_def intro: triple_conseq[OF loop[unfolded nh hist_def]] split: if_splits)
  next
    case (Some vm)
    have step: "triple (\<lambda>s. hist s = (u, seen0 @ [(n, ts)], map (\<lambda>x. (n, fst x)) (filter (outdated vm) ts)) \<and> v = fw_dirty s)
        (if v then h_afterUpdates h else update_loop en loc firmware targets hs) (?Q (nh # hs)) ?E"
      if u: "u = (filter (outdated vm) ts \<noteq> [])" for ts u v
    proof (cases "v = u")
      case False
      then show ?thesis by (intro triple_false) (auto simp: hist_def)
    next
      case v: True
      show ?thesis
      proof (cases u)
        case True
        have "triple (\<lambda>s. hist s = (True, seen0 @ [(n, ts)], map (\<lambda>x. (n, fst x)) (filter (outdated vm) ts))) (h_afterUpdates h)
            (\<lambda>_ s. hist s = (True, seen0 @ [(n, ts)], map (\<lambda>x. (n, fst x)) (filter (outdated vm) ts))) ?E"
          by (rule triple_hist[OF plugin.hist_keeps(5)[OF p] plugin.exit_1_raises(5)[OF p]])
        moreover have "one_updated targets (nh # hs) [(n, ts)] (map (\<lambda>x. (n, fst x)) (filter (outdated vm) ts))"
          using True u Some unfolding one_updated_def nh
          by (intro exI[of _ "[]"] exI[of _ n] exI[of _ ts] exI[of _ vm]) (simp add: asked_Cons)
        ultimately show ?thesis using True v by (auto simp: hist_def loop_post_def elim!: triple_conseq)
      next
        case False
        with u have none: "filter (outdated vm) ts = []" by simp
        have "triple (\<lambda>s. hist s = (False, seen0 @ [(n, ts)], [])) (update_loop en loc firmware targets hs) (?Q (nh # hs)) ?E"
          using one_updated_more[OF _ Some none] all_current_more[OF _ Some none]
          by (intro triple_conseq[OF Cons.IH[OF ps, of "seen0 @ [(n, ts)]"]]) (auto simp: nh loop_post_def split: if_splits)
        then show ?thesis using False none v by (auto elim!: triple_conseq)
      qed
    qed
    show ?thesis
      unfolding nh update_loop.simps
      by (rule triple_seq, rule plugin.check_handler_hist[OF p], rule triple_gets, rule triple_conseq[OF triple_ex[OF step[OF refl]]])
        (auto simp: Some nh)
  qed
qed

section \<open>Exit codes\<close>

definition fresh :: "fw \<Rightarrow> bool" where
  "fresh s = (\<not> fw_dirty s \<and> fw_cache s = [] \<and> fw_urls s = [] \<and> fw_seen s = [] \<and> fw_updated s = [])"

lemma fail_hist: "triple (\<lambda>s. hist s = c) (seq (put_line t) (fw_exit 1)) Q (\<lambda>e _. exit_1 e)"
  by (rule triple_seq[where R = "\<lambda>s. hist s = c"]) (simp_all add: triple_hist keeps_hist raises_simple fw_exit_def triple_throw)

lemma triple_required:
  assumes "\<And>x. v = Some x \<Longrightarrow> triple (\<lambda>s. hist s = c) (k x) Q E" and "\<And>e s. exit_1 e \<Longrightarrow> E e s"
  shows "triple (\<lambda>s. hist s = c) (bnd (required v missing name) k) Q E"
proof -
  have f: "triple (\<lambda>s. hist s = c) (seq (put_line t) (fw_exit 1)) R E" for t :: string and R :: "'a \<Rightarrow> fw \<Rightarrow> bool"
    by (rule triple_conseq[OF fail_hist[of c t "\<lambda>_ _. False"]]) (use assms(2) in auto)
  have "triple (\<lambda>s. hist s = c) (required v missing name) (\<lambda>x s. hist s = c \<and> v = Some x) E"
    unfolding required_def
    by (auto split: option.split intro!: triple_ret f)
  then show ?thesis by (rule triple_bnd) (use assms(1) in \<open>auto simp: triple_def\<close>)
qed

lemma main_codes:
  assumes "\<forall>(n, h) \<in> set hs. plugin h"
  shows "triple (\<lambda>s. hist s = (False, [], [])) (firmware_main en cfg hs) (\<lambda>_ _. False)
    (\<lambda>e s. exit_1 e \<or> (\<exists>targets. fc_targets cfg = Some targets \<and>
        (e = SysExit 0 \<and> fw_updated s = [] \<and> all_current targets hs (fw_seen s)
         \<or> e = SysExit 20 \<and> one_updated targets hs (fw_seen s) (fw_updated s))))"
    (is "triple ?P _ _ ?E")
proof -
  have keep: "triple ?P m (\<lambda>_. ?P) ?E" if "keeps hist m" "raises exit_1 m" for m :: "(fw, unit) py"
    by (rule triple_conseq[OF triple_hist[OF that]]) auto
  have init: "keeps hist (for_each hs (\<lambda>(n, h). h_setup h))"
    using assms by (intro keeps_for_each) (auto dest: plugin.hist_keeps(1))
  have "raises exit_1 (for_each xs (\<lambda>(n, h). h_setup h))" if "set xs \<subseteq> set hs" for xs
    using that assms by (induction xs) (auto intro!: raises_intros dest: plugin.exit_1_raises(1))
  then have init': "raises exit_1 (for_each hs (\<lambda>(n, h). h_setup h))" by simp
  note say = keep[OF keeps_hist(2) raises_post(1)]
  have final: "triple (\<lambda>s. loop_post targets hs [] s \<and> dirty = fw_dirty s)
      (if dirty then seq (post ''Firmware Changed, rebooting.'') (fw_exit 20) else seq (put_line ''Done!'') (fw_exit 0)) (\<lambda>_ _. False) ?E"
    if "fc_targets cfg = Some targets" for targets dirty
    using that by (auto simp: triple_def py_simps post_def put_line_def fw_exit_def loop_post_def)
  have loop: "triple ?P (update_loop en loc firmware targets hs) (\<lambda>_. loop_post targets hs []) ?E" for loc firmware targets
    by (rule triple_conseq[OF update_loop_hist[OF assms, of "[]"]]) auto
  show ?thesis
    unfolding firmware_main_def
    by (intro triple_required triple_seq[OF say] triple_seq[OF keep[OF init init']] triple_seq[OF loop] triple_gets final) auto
qed

lemma exit_1_not [simp]: "\<not> exit_1 (SysExit 20)" "\<not> exit_1 (SysExit 0)"
  by simp_all

lemma fresh_hist: "fresh s \<Longrightarrow> hist s = (False, [], [])"
  by (simp add: fresh_def hist_def)

text \<open>C4: the program exits with 20 only after updates. The handlers that have wanted versions were asked in order up to the one that was
  updated; all targets of those before it had their wanted versions, and of that one exactly the targets that had not were updated, in
  the order in which it listed them.\<close>

theorem reboot_after_updates:
  assumes "\<forall>(n, h) \<in> set hs. plugin h" and "fresh s" and "firmware_main en cfg hs s = (Inl (SysExit 20), t)"
  shows "\<exists>targets. fc_targets cfg = Some targets \<and> one_updated targets hs (fw_seen t) (fw_updated t)"
  using triple_InlD[OF main_codes[OF assms(1)] assms(3) fresh_hist[OF assms(2)]] by auto

text \<open>C5: the program exits with 0 only when it updated nothing and every handler that has wanted versions was asked and listed no
  target without its wanted version.\<close>

theorem done_means_current:
  assumes "\<forall>(n, h) \<in> set hs. plugin h" and "fresh s" and "firmware_main en cfg hs s = (Inl (SysExit 0), t)"
  shows "\<exists>targets. fc_targets cfg = Some targets \<and> fw_updated t = [] \<and> all_current targets hs (fw_seen t)"
  using triple_InlD[OF main_codes[OF assms(1)] assms(3) fresh_hist[OF assms(2)]] by auto

text \<open>A run never ends without an exception or an exit code, and the only exit codes are 0, 1 and
  20.\<close>

theorem exit_codes:
  assumes "\<forall>(n, h) \<in> set hs. plugin h" and "fresh s"
  shows "\<exists>e t. firmware_main en cfg hs s = (Inl e, t) \<and> (\<forall>n. e = SysExit n \<longrightarrow> n \<in> {0, 1, 20})"
proof -
  obtain r t where m: "firmware_main en cfg hs s = (r, t)" by (cases "firmware_main en cfg hs s")
  show ?thesis
  proof (cases r)
    case (Inl e)
    with triple_InlD[OF main_codes[OF assms(1)] _ fresh_hist[OF assms(2)]] m show ?thesis by (fastforce simp: exit_1_def)
  next
    case (Inr x)
    with triple_InrD[OF main_codes[OF assms(1)] _ fresh_hist[OF assms(2)]] m show ?thesis by blast
  qed
qed

section \<open>Downloads\<close>

definition downloads :: "string \<Rightarrow> fw \<Rightarrow> bool" where
  "downloads loc s = (distinct (dkeys (fw_cache s)) \<and> fw_urls s = map ((@) loc) (dkeys (fw_cache s)))"

definition once :: "string \<Rightarrow> (fw, 'a) py \<Rightarrow> bool" where
  "once loc m = triple (downloads loc) m (\<lambda>_. downloads loc) (\<lambda>_ s. distinct (fw_urls s))"

lemma distinct_prefixed: "distinct (map ((@) p) ks) \<longleftrightarrow> distinct ks"
  by (simp add: distinct_map inj_on_def)

lemma downloads_distinct: "downloads loc s \<Longrightarrow> distinct (fw_urls s)"
  by (simp add: downloads_def distinct_prefixed del: map_map)

definition net :: "fw \<Rightarrow> (string, string) dict \<times> string list" where
  "net s = (fw_cache s, fw_urls s)"

named_theorems once_intros

lemma once_keeps: "keeps net m \<Longrightarrow> once loc m"
  unfolding once_def
  by (rule triple_keeps[where R = "\<lambda>_. True"]) (auto simp: raises_def dest: downloads_distinct, simp add: net_def downloads_def)

lemma once_main: "keeps main_part m \<Longrightarrow> once loc m"
  by (rule once_keeps) (simp add: keeps_def main_part_def net_def)

lemma keeps_net [keeps_intros]: "keeps net (put_line l)" "keeps net (post t)"
  by (simp_all add: put_line_def post_def keeps_modify net_def)

lemma once_simple [once_intros]:
  "once loc (put_line l)" "once loc (post t)" "once loc (ret x)" "once loc (throw e)" "once loc (fw_exit n)" "once loc (gets f)" "once loc (lift r)"
  by (intro once_keeps keeps_intros)+

lemma once_bnd [once_intros]: "once loc m \<Longrightarrow> (\<And>x. once loc (k x)) \<Longrightarrow> once loc (bnd m k)"
  unfolding once_def by (rule triple_bnd)

lemma once_seq [once_intros]: "once loc m \<Longrightarrow> once loc k \<Longrightarrow> once loc (seq m k)"
  unfolding seq_def by (rule once_bnd)

lemma once_for_each [once_intros]: "(\<And>x. x \<in> set xs \<Longrightarrow> once loc (body x)) \<Longrightarrow> once loc (for_each xs body)"
  by (induction xs) (simp_all add: once_intros)

lemma once_fetch [once_intros]: "once loc (fetch en loc f)"
  unfolding once_def triple_def
proof (intro allI impI)
  fix s assume d: "downloads loc s"
  have new: "distinct (fw_urls s @ [loc @ f])" "fw_urls s @ [loc @ f] = map ((@) loc) (dkeys (dset f l (fw_cache s)))"
    "distinct (dkeys (dset f l (fw_cache s)))" if "map_of (fw_cache s) f = None" for l
  proof -
    from that have n: "f \<notin> set (dkeys (fw_cache s))" by (simp add: map_of_eq_None_iff)
    then show "fw_urls s @ [loc @ f] = map ((@) loc) (dkeys (dset f l (fw_cache s)))"
      using d by (simp only: dkeys_dset if_False map_append list.map downloads_def)
    show k: "distinct (dkeys (dset f l (fw_cache s)))" using d by (intro distinct_dset) (simp add: downloads_def)
    then show "distinct (fw_urls s @ [loc @ f])"
      unfolding \<open>fw_urls s @ [loc @ f] = map ((@) loc) (dkeys (dset f l (fw_cache s)))\<close> distinct_prefixed .
  qed
  show "case fetch en loc f s of (Inl e, t) \<Rightarrow> distinct (fw_urls t) | (Inr x, t) \<Rightarrow> downloads loc t"
  proof (cases "map_of (fw_cache s) f")
    case None
    then show ?thesis using new
      by (cases "en_http en (loc @ f)") (simp_all add: fetch_def py_simps put_line_def fw_exit_def downloads_def del: map_map distinct_append)
  qed (simp add: fetch_def py_simps d)
qed

context plugin
begin

lemma once_look_target [once_intros]: "once loc (look_target en loc name h vm fmap x)"
  unfolding look_target_def whenM_def
  using keeps(3,4)[THEN once_main]
  by (auto intro!: once_intros once_keeps[OF keeps_modify] simp: net_def split: option.split prod.split)

lemma once_check_handler: "once loc (check_handler en loc firmware targets name h)"
proof -
  have "keeps main_part (on_any (h_getTargets h) (seq (put_line t) (fw_exit 1)))" for t
    using keeps(2) by (intro keeps_intros)
  then show ?thesis
    unfolding check_handler_def
    by (auto intro!: once_intros once_keeps[OF keeps_modify] dest: once_main simp: net_def split: option.split)
qed

end

lemma once_update_loop: "\<forall>(n, h) \<in> set hs. plugin h \<Longrightarrow> once loc (update_loop en loc firmware targets hs)"
proof (induction hs)
  case (Cons nh hs)
  then show ?case
    by (cases nh) (auto intro!: once_bnd once_seq plugin.once_check_handler once_main[OF plugin.keeps(5)] once_simple)
qed (simp add: once_simple)

text \<open>Whatever happens, the program never asks the server for the same file twice.\<close>

theorem files_fetched_once:
  assumes "\<forall>(n, h) \<in> set hs. plugin h" and "fresh s"
  shows "distinct (fw_urls (snd (firmware_main en cfg hs s)))"
proof (cases "fc_location cfg")
  case None
  then show ?thesis using assms(2) by (simp add: firmware_main_def required_def py_simps put_line_def fw_exit_def fresh_def)
next
  case (Some loc)
  have init: "once loc (for_each hs (\<lambda>(n, h). h_setup h))"
    using assms(1) by (intro once_for_each) (auto intro!: once_main plugin.keeps(1))
  have req: "once loc (required v missing name)" for v :: "'c option" and missing name
    unfolding required_def by (auto intro!: once_intros split: option.split)
  have given: "bnd (required (Some loc) missing name) k = (if missing loc then bnd (seq (put_line (name @ '' not defined.'')) (fw_exit 1)) k else k loc)"
    for missing name and k :: "string \<Rightarrow> (fw, unit) py"
    by (simp add: required_def fun_eq_iff py_simps)
  have run: "once loc (firmware_main en cfg hs)"
  proof (cases "loc = []")
    case True
    then show ?thesis
      unfolding firmware_main_def Some given
      by (auto simp: once_def triple_def py_simps put_line_def fw_exit_def dest: downloads_distinct)
  next
    case False
    then show ?thesis
      unfolding firmware_main_def Some given
      by (auto intro!: once_intros req init[simplified] once_update_loop assms(1))
  qed
  obtain r t where m: "firmware_main en cfg hs s = (r, t)" by (cases "firmware_main en cfg hs s")
  have "downloads loc s" using assms(2) by (simp add: fresh_def downloads_def)
  with run m show ?thesis
    unfolding once_def by (cases r) (auto dest: triple_InlD triple_InrD downloads_distinct)
qed

section \<open>A run\<close>

definition demo_cfg :: fw_config where
  "demo_cfg = \<lparr>fc_location = Some ''http://fw/'', fc_firmware = Some [(''mellanox'', [(''MT_1'', demo_map)])],
     fc_targets = Some [(''mellanox'', [(''MT_1'', ''2.0'')])]\<rparr>"

definition demo_done :: fw_config where
  "demo_done = demo_cfg\<lparr>fc_targets := Some [(''mellanox'', [(''MT_1'', ''1.1'')])]\<rparr>"

definition demo_handlers :: "(string \<times> handler) list" where
  "demo_handlers = [(''mellanox'', mellanox demo_env), (''harddrive'', harddrive demo_env)]"

lemma demo_plugins: "\<forall>(n, h) \<in> set demo_handlers. plugin h"
  by (simp add: demo_handlers_def mellanox.plugin_axioms harddrive.plugin_axioms)

lemma demo_fresh: "fresh demo_fw"
  by (simp add: fresh_def demo_fw_def)

lemma demo_run: "fst (firmware_main demo_env demo_cfg demo_handlers demo_fw) = Inl (SysExit 20)"
  "fw_updated (snd (firmware_main demo_env demo_cfg demo_handlers demo_fw)) = [(''mellanox'', PciTarget ''0000:01:00.0'')]"
  "fst (firmware_main demo_env demo_done demo_handlers demo_fw) = Inl (SysExit 0)"
  by code_simp+

theorem reboot_after_updates_witness:
  "\<exists>targets. fc_targets demo_cfg = Some targets
     \<and> one_updated targets demo_handlers (fw_seen (snd (firmware_main demo_env demo_cfg demo_handlers demo_fw))) [(''mellanox'', PciTarget ''0000:01:00.0'')]"
proof -
  have "firmware_main demo_env demo_cfg demo_handlers demo_fw
      = (Inl (SysExit 20), snd (firmware_main demo_env demo_cfg demo_handlers demo_fw))"
    using demo_run(1) by (simp add: prod_eq_iff)
  from reboot_after_updates[OF demo_plugins demo_fresh this] show ?thesis unfolding demo_run(2) .
qed

theorem done_means_current_witness:
  "fw_updated (snd (firmware_main demo_env demo_done demo_handlers demo_fw)) = []"
proof -
  have "firmware_main demo_env demo_done demo_handlers demo_fw
      = (Inl (SysExit 0), snd (firmware_main demo_env demo_done demo_handlers demo_fw))"
    using demo_run(3) by (simp add: prod_eq_iff)
  from done_means_current[OF demo_plugins demo_fresh this] show ?thesis by blast
qed

theorem exit_codes_witness: "\<exists>e t. firmware_main demo_env demo_cfg demo_handlers demo_fw = (Inl e, t)"
  using exit_codes[OF demo_plugins demo_fresh, of demo_env demo_cfg] by blast

theorem files_fetched_once_witness:
  "distinct (fw_urls (snd (firmware_main demo_env demo_cfg demo_handlers demo_fw)))
   \<and> fw_urls (snd (firmware_main demo_env demo_cfg demo_handlers demo_fw)) = [''http://fw/exact.bin'']"
proof -
  have "fw_urls (snd (firmware_main demo_env demo_cfg demo_handlers demo_fw)) = [''http://fw/exact.bin'']" by code_simp
  with files_fetched_once[OF demo_plugins demo_fresh] show ?thesis by blast
qed

text \<open>A pattern need only match the start of a version.\<close>

theorem pattern_matches_longer: "matches ''1.10'' ''1.1'' = Inr True"
  by code_simp

end
