(* ===== verification/Dtest_Manager.thy ===== *)
theory Dtest_Manager
  imports Firmware_Handler
begin

text \<open>
  The drive list of the disk test, \<open>disk-test/root/pylib/DriveManager.py\<close>. The state holds the manager's lists and two dictionaries
  of reasons, and the histories of what the program did to the drives, the machine and the Plato server. What the
  drive library, the machine and the server answer comes from the environment; an answer of the server may depend on the
  calls before it. The order of Python 2's dictionaries is arbitrary; here it is the order of insertion. Progress lines are left out.

  A drive is tested only while it is in \<open>good_list\<close>; the invariant \<open>manager_ok\<close> says that every drive is in exactly one of the
  good list, the skipped and the bad drives, and \<open>prune\<close> moves it for good.
\<close>

section \<open>State and environment\<close>

record tdrive =
  td_name :: string
  td_location :: string
  td_serial :: string
  td_model :: string
  td_block :: "string option"
  td_libdrive :: string
  td_virtual :: bool

definition block_path :: "tdrive \<Rightarrow> string option" where
  "block_path d = map_option (\<lambda>b. ''/dev/'' @ b) (td_block d)"

datatype plato_rq =
    ReportStatus string string
  | CheckStatus string
  | CheckThrashed string
  | RemoveDrive string bool \<comment> \<open>location, store\<close>
  | MarkThrashed string

record plato_env =
  pe_status :: "plato_rq list \<Rightarrow> tdrive \<Rightarrow> bool option"
  pe_thrashed :: "plato_rq list \<Rightarrow> tdrive \<Rightarrow> bool option"
  pe_report :: "plato_rq list \<Rightarrow> tdrive \<Rightarrow> bool \<times> string"
  pe_answer :: "plato_rq list \<Rightarrow> plato_rq \<Rightarrow> string res"

text \<open>A process: its pipes and what \<open>poll()\<close> gives in each round of the waiting loop and at last, and after \<open>terminate()\<close>.\<close>

record tproc =
  tp_rc :: "nat \<Rightarrow> int option"
  tp_last :: "int option"
  tp_after_term :: "int option"
  tp_reads :: "nat \<Rightarrow> pipe_read list \<times> pipe_read list" \<comment> \<open>stdout, stderr, by round\<close>

record test_env =
  te_smart :: "nat \<Rightarrow> tdrive \<Rightarrow> string + (int, int) dict" \<comment> \<open>the text of the exception, or id and raw value\<close>
  te_status :: "nat \<Rightarrow> tdrive \<Rightarrow> string + unit"
  te_plato :: "plato_env option"
  te_mtab :: string
  te_partitions :: string
  te_removable :: "string \<Rightarrow> string option"
  te_run :: "string list \<Rightarrow> string \<Rightarrow> string option \<Rightarrow> int \<times> string \<times> string"
  te_proc :: "string list \<Rightarrow> string \<Rightarrow> tproc"
  te_clock :: "string list \<Rightarrow> nat \<Rightarrow> rat"
  te_write :: "tdrive \<Rightarrow> bool"
  te_time :: string
  te_stdin :: "nat \<Rightarrow> string"

record dtest =
  dt_all :: "tdrive list"
  dt_good :: "tdrive list"
  dt_skip :: "(tdrive, string) dict"
  dt_bad :: "(tdrive, string) dict"
  dt_fault :: "(tdrive \<times> bool) list"
  dt_calls :: "plato_rq list"
  dt_scans :: nat
  dt_initial :: "(tdrive, (int, int) dict) dict"
  dt_cmds :: "string list" \<comment> \<open>the commands started, in order\<close>
  dt_ran :: "(tdrive \<times> string) list" \<comment> \<open>history: the drive each was started for\<close>
  dt_killed :: "(tdrive \<times> bool) list" \<comment> \<open>history: terminated, and whether killed\<close>
  dt_slept :: "int list"
  dt_written :: "(string \<times> string) list" \<comment> \<open>block path and what was written at its end\<close>
  dt_lit :: "string list"
  dt_inputs :: nat
  dt_out :: "string list"

definition tell :: "string \<Rightarrow> (dtest, unit) py" where
  "tell line = modify (\<lambda>s. s\<lparr>dt_out := dt_out s @ [line]\<rparr>)"

definition nap :: "int \<Rightarrow> (dtest, unit) py" where
  "nap t = modify (\<lambda>s. s\<lparr>dt_slept := dt_slept s @ [t]\<rparr>)"

section \<open>Calls of the server\<close>

definition plato_call :: "plato_rq \<Rightarrow> (plato_rq list \<Rightarrow> 'a) \<Rightarrow> (dtest, 'a) py" where
  "plato_call c f = bnd (gets (\<lambda>s. f (dt_calls s))) (\<lambda>a. seq (modify (\<lambda>s. s\<lparr>dt_calls := dt_calls s @ [c]\<rparr>)) (ret a))"

text \<open>The callbacks of the two evaluators: the local one does nothing, the reporting one asks Plato.\<close>

definition reportFail :: "test_env \<Rightarrow> tdrive \<Rightarrow> string \<Rightarrow> (dtest, unit) py" where
  "reportFail en d reason = (case te_plato en of
       None \<Rightarrow> ret ()
     | Some pe \<Rightarrow> bnd (plato_call (ReportStatus (td_serial d) (''Drive Test Fail: '' @ quoted reason)) (\<lambda>h. pe_report pe h d)) (\<lambda>_. ret ()))"

definition allreadyDead :: "test_env \<Rightarrow> tdrive \<Rightarrow> (dtest, bool) py" where
  "allreadyDead en d = (case te_plato en of
       None \<Rightarrow> ret False
     | Some pe \<Rightarrow> bnd (plato_call (CheckStatus (td_serial d)) (\<lambda>h. pe_status pe h d)) (\<lambda>st. ret (st = Some False)))"

definition allreadyThrashed :: "test_env \<Rightarrow> tdrive \<Rightarrow> (dtest, bool) py" where
  "allreadyThrashed en d = (case te_plato en of
       None \<Rightarrow> ret False
     | Some pe \<Rightarrow> bnd (plato_call (CheckThrashed (td_serial d)) (\<lambda>h. pe_thrashed pe h d)) (\<lambda>st. ret (st = Some True)))"

definition saved :: "plato_env \<Rightarrow> string \<Rightarrow> plato_rq \<Rightarrow> (dtest, unit) py" where
  "saved pe msg c = bnd (bnd (plato_call c (\<lambda>h. pe_answer pe h c)) lift) (\<lambda>r. if r \<noteq> ''Saved'' then throw (PlainException (msg @ r)) else ret ())"

definition markThrashed :: "plato_env \<Rightarrow> tdrive \<Rightarrow> (dtest, unit) py" where
  "markThrashed pe d = saved pe ''Error Marking Drive Thrashed: '' (MarkThrashed (td_serial d))"

definition removeDrive :: "plato_env \<Rightarrow> string option \<Rightarrow> bool \<Rightarrow> (dtest, unit) py" where
  "removeDrive pe port st = saved pe ''Error Removing Drive From Machine: ''
     (RemoveDrive (case port of None \<Rightarrow> ''-ALL-'' | Some l \<Rightarrow> l) st)"

definition mark_thrashed :: "test_env \<Rightarrow> tdrive \<Rightarrow> (dtest, unit) py" where
  "mark_thrashed en d = (case te_plato en of None \<Rightarrow> ret () | Some pe \<Rightarrow> markThrashed pe d)"

definition store_drive :: "test_env \<Rightarrow> tdrive \<Rightarrow> (dtest, unit) py" where
  "store_drive en d = (case te_plato en of None \<Rightarrow> ret () | Some pe \<Rightarrow> removeDrive pe (Some (td_location d)) True)"

section \<open>The manager\<close>

text \<open>The constructor, for the ports and the drives the library found, each with whether its information can be read; the order of the
  drives is a parameter.\<close>

definition new_manager :: "(tdrive list \<Rightarrow> tdrive list) \<Rightarrow> (tdrive \<times> bool) list \<Rightarrow> dtest" where
  "new_manager sort_drives found =
     (let ds = sort_drives (map fst (filter snd found)) in
      \<lparr>dt_all = ds, dt_good = ds, dt_skip = [], dt_bad = [], dt_fault = map (\<lambda>d. (fst d, False)) found, dt_calls = [], dt_scans = 0,
       dt_initial = [], dt_cmds = [], dt_ran = [], dt_killed = [], dt_slept = [], dt_written = [], dt_lit = [], dt_inputs = 0, dt_out = []\<rparr>)"

definition prune :: "test_env \<Rightarrow> tdrive \<Rightarrow> string \<Rightarrow> bool \<Rightarrow> bool \<Rightarrow> (dtest, unit) py" where
  "prune en d reason report skip =
     seq (modify (\<lambda>s. s\<lparr>dt_good := remove1 d (dt_good s)\<rparr>))
     (seq (if skip then modify (\<lambda>s. s\<lparr>dt_skip := dset d reason (dt_skip s)\<rparr>)
           else modify (\<lambda>s. s\<lparr>dt_bad := dset d reason (dt_bad s), dt_fault := dt_fault s @ [(d, True)]\<rparr>))
       (whenM (\<not> skip \<and> report) (reportFail en d reason)))"

definition on_good :: "(tdrive \<Rightarrow> (dtest, unit) py) \<Rightarrow> (dtest, unit) py" where
  "on_good body = bnd (gets dt_good) (\<lambda>ds. for_each ds body)"

definition pruneAllreadyDead :: "test_env \<Rightarrow> (dtest, unit) py" where
  "pruneAllreadyDead en = on_good (\<lambda>d. bnd (allreadyDead en d) (\<lambda>b. whenM b (prune en d ''Allready Dead'' False False)))"

definition skipAllreadyThrashed :: "test_env \<Rightarrow> (dtest, unit) py" where
  "skipAllreadyThrashed en = on_good (\<lambda>d. bnd (allreadyThrashed en d) (\<lambda>b. whenM b (prune en d ''Allready Thrashed'' False True)))"

text \<open>The names of the mounted devices: the digits at the end are taken off one by one, and a name of digits only raises.\<close>

definition mounted_name :: "string \<Rightarrow> string res" where
  "mounted_name line = (case split_ws line of
       [] \<Rightarrow> Inl IndexError
     | w # _ \<Rightarrow>
         let n = rstrip_p is_digit (replace ''/dev/'' [] w) in
         if n = [] then Inl IndexError else Inr n)"

definition mount_names :: "string \<Rightarrow> string list res" where
  "mount_names mtab = collect (filter (\<lambda>l. startswith l ''/dev/'') (file_lines mtab)) mounted_name"

definition no_thrash_models :: "string list" where
  "no_thrash_models = [''SATADOM-SL 3ME'']"

definition is_removable :: "test_env \<Rightarrow> tdrive \<Rightarrow> bool" where
  "is_removable en d = (case td_block d of
       None \<Rightarrow> False
     | Some b \<Rightarrow> b \<noteq> [] \<and> (case te_removable en b of None \<Rightarrow> False | Some t \<Rightarrow> strip t \<noteq> ''0''))"

text \<open>The block path is looked up among names without the directory.\<close>

definition is_mounted :: "string list \<Rightarrow> tdrive \<Rightarrow> bool" where
  "is_mounted mount_list d = (case td_block d of None \<Rightarrow> False | Some b \<Rightarrow> b \<noteq> [] \<and> the (block_path d) \<in> set mount_list)"

definition skip_unthrashable :: "test_env \<Rightarrow> string list \<Rightarrow> tdrive \<Rightarrow> (dtest, unit) py" where
  "skip_unthrashable en mount_list d =
     (if is_removable en d then prune en d ''Is Removable'' False True
      else if is_mounted mount_list d then prune en d ''Is Mounted'' False True
      else if td_model d \<in> set no_thrash_models then seq (prune en d ''No Thrash Disk'' False True) (mark_thrashed en d)
      else if td_virtual d then prune en d ''Is Virtual Disk'' False True
      else ret ())"

definition skipUnThrashable :: "test_env \<Rightarrow> (dtest, unit) py" where
  "skipUnThrashable en = bnd (lift (mount_names (te_mtab en))) (\<lambda>ms. on_good (skip_unthrashable en ms))"

definition partition_re :: re where
  "partition_re = cats [Bol, lit ''sd'', Plus (Cls False [(CHR ''a'', CHR ''z'')]), Cls False digit_ranges, Eol]"

definition partitioned :: "string \<Rightarrow> string list" where
  "partitioned t = map butlast (filter (\<lambda>item. re_match partition_re item \<noteq> None)
     (map (\<lambda>line. last (split_chr (CHR '' '') (strip line))) (splitlines t)))"

definition skipWithFilesystems :: "test_env \<Rightarrow> (dtest, unit) py" where
  "skipWithFilesystems en = on_good (\<lambda>d. case td_block d of
       None \<Rightarrow> ret ()
     | Some b \<Rightarrow> whenM (b \<noteq> [] \<and> b \<in> set (partitioned (te_partitions en))) (prune en d ''Has Partitions'' False True))"

definition with_tab :: "(tdrive, string) dict \<Rightarrow> string" where
  "with_tab reasons = concat (map (\<lambda>(d, r). td_name d @ ''-'' @ td_location d @ ''('' @ td_serial d @ '')'' @ [CHR 0x09] @ r @ nl) reasons)"

definition summary :: "dtest \<Rightarrow> string" where
  "summary s = join '' '' (map (\<lambda>d. td_name d @ ''('' @ td_location d @ '')'') (dt_all s))"

definition bad_summary :: "dtest \<Rightarrow> string" where
  "bad_summary s = (if dt_bad s = [] then ''-- No Bad Drives --'' else ''==== Bad Drives ===='' @ nl @ with_tab (dt_bad s))"

definition skip_summary :: "dtest \<Rightarrow> string" where
  "skip_summary s = (if dt_skip s = [] then ''-- No Skipped Drives --'' else ''==== Skipped Drives ===='' @ nl @ with_tab (dt_skip s))"

section \<open>Evaluation of the SMART attributes\<close>

datatype drive_type = Seagate | WesternDigital | Samsung | Hitachi | IntelSSD | SATADOM | UnknownType

definition getType :: "string \<Rightarrow> drive_type" where
  "getType model = (let m = lower model in
     if startswith m ''st'' then Seagate
     else if startswith m ''wd'' then WesternDigital
     else if startswith m ''hd'' \<or> startswith m ''samsung'' then Samsung
     else if startswith m ''hu'' \<or> startswith m ''hitachi'' then Hitachi
     else if startswith m ''intel ssd'' then IntelSSD
     else if startswith m ''satadom'' then SATADOM
     else UnknownType)"

type_synonym smart_limits = "(int, string \<times> int \<times> int) dict"

text \<open>The table has no entry for Samsung and Intel drives.\<close>

fun smart_attribs :: "drive_type \<Rightarrow> smart_limits option" where
  "smart_attribs Seagate = Some [
     (10, ''Spin Retry Count'', 5, 1), (184, ''End-to-End error Count'', 2, 1), (193, ''Load Cycle Count'', 400000, 60),
     (194, ''Temperature'', 45, 30), (197, ''Current Pending Sector Count'', 2, 2), (198, ''Uncorrectable Sctor Count'', 15, 10)]"
| "smart_attribs WesternDigital = Some [
     (1, ''Read Error Rate'', 1000, 500), (5, ''Relocated Sector Count'', 10, 5), (7, ''Seek Error Rate'', 1000, 500),
     (10, ''Spin Retry Count'', 1, 1), (11, ''Calibration Retry Count'', 1, 1), (193, ''Load Cycle Count'', 400000, 60),
     (194, ''Temperature'', 45, 30), (196, ''Relocate Event Count'', 10, 5), (197, ''Current Pending Sector Count'', 2, 2),
     (198, ''Uncorrectable Sctor Count'', 10, 5), (200, ''Multi Zone Error Rate'', 15, 10)]"
| "smart_attribs Hitachi = Some [
     (5, ''Relocated Sector Count'', 10, 5), (10, ''Spin Retry Count'', 1, 1), (193, ''Load Cycle Count'', 400000, 60),
     (194, ''Temperature'', 45, 30), (196, ''Relocate Event Count'', 10, 5), (197, ''Current Pending Sector Count'', 2, 2),
     (198, ''Uncorrectable Sctor Count'', 10, 5)]"
| "smart_attribs SATADOM = Some [(198, ''Program Fail Count Chip'', 20, 0)]"
| "smart_attribs UnknownType = Some [
     (1, ''Read Error Rate'', 2000, 1000), (5, ''Relocated Sector Count'', 10, 5), (7, ''Seek Error Rate'', 2000, 1000),
     (10, ''Spin Retry Count'', 1, 1), (11, ''Calibration Retry Count'', 1, 1), (184, ''End-to-End error Count'', 2, 1),
     (188, ''Command Timeout Cont (Potential power/Comm problems)'', 2, 1), (193, ''Load Cycle Count'', 400000, 60),
     (194, ''Temperature'', 45, 30), (195, ''Hardware ECC Recovered'', 2000, 1000), (196, ''Relocate Event Count'', 10, 5),
     (197, ''Current Pending Sector Count'', 2, 2), (198, ''Uncorrectable Sctor Count'', 10, 5),
     (200, ''Multi Zone / Write Error Rate'', 15, 10), (201, ''Soft Read Error Rate'', 2000, 1000), (221, ''G-Sense Error Rate'', 10, 5),
     (223, ''Load/Unload Retry Count'', 10, 5), (225, ''Load/Unload Cycle Count'', 300000, 40)]"
| "smart_attribs _ = None"

text \<open>The loop over the attributes, with those of the first scan: the reason to prune the drive.\<close>

definition above :: "string \<Rightarrow> int \<Rightarrow> string \<Rightarrow> string \<Rightarrow> int \<Rightarrow> string \<Rightarrow> int \<Rightarrow> string" where
  "above operation attrib desc what v limit_name limit =
     operation @ '': smart Attrib ('' @ show_int attrib @ '')'' @ quoted desc @ '' '' @ what @ '' '' @ quoted (show_int v)
     @ '' above '' @ limit_name @ '' of '' @ quoted (show_int limit)"

fun check_attribs :: "string \<Rightarrow> smart_limits option \<Rightarrow> (int, int) dict \<Rightarrow> (int, int) dict \<Rightarrow> string option res" where
  "check_attribs operation limits initial [] = Inr None"
| "check_attribs operation limits initial ((attrib, v) # rest) = (case limits of
       None \<Rightarrow> Inl KeyError
     | Some tbl \<Rightarrow> (case map_of tbl attrib of
           None \<Rightarrow> check_attribs operation limits initial rest
         | Some (desc, max_value, max_rate) \<Rightarrow>
             if v > max_value then Inr (Some (above operation attrib desc ''value'' v ''threshold'' max_value))
             else (case map_of initial attrib of
                 None \<Rightarrow> check_attribs operation limits initial rest
               | Some v0 \<Rightarrow>
                   if v - v0 > max_rate then Inr (Some (above operation attrib desc ''rate'' (v - v0) ''rate'' max_rate))
                   else check_attribs operation limits initial rest)))"

definition evaluate_local :: "test_env \<Rightarrow> tdrive \<Rightarrow> string \<Rightarrow> (dtest, unit) py" where
  "evaluate_local en d operation =
     bnd (gets (\<lambda>s. te_smart en (dt_scans s) d)) (\<lambda>r.
     seq (modify (\<lambda>s. s\<lparr>dt_scans := Suc (dt_scans s)\<rparr>))
     (case r of
        Inl e \<Rightarrow> prune en d (''Exception '' @ quoted e @ '' while getting SMART attrs for '' @ quoted (td_name d)) True False
      | Inr attrib_list \<Rightarrow>
          seq (modify (\<lambda>s. if map_of (dt_initial s) d = None then s\<lparr>dt_initial := dset d attrib_list (dt_initial s)\<rparr> else s))
          (bnd (gets (\<lambda>s. the (map_of (dt_initial s) d))) (\<lambda>initial.
           bnd (lift (check_attribs operation (smart_attribs (getType (td_model d))) initial attrib_list)) (\<lambda>reason. case reason of
             None \<Rightarrow> ret ()
           | Some t \<Rightarrow> prune en d t False False)))))"

definition evaluate_report :: "test_env \<Rightarrow> plato_env \<Rightarrow> tdrive \<Rightarrow> string \<Rightarrow> (dtest, unit) py" where
  "evaluate_report en pe d operation =
     bnd (gets (\<lambda>s. te_status en (dt_scans s) d)) (\<lambda>r.
     seq (modify (\<lambda>s. s\<lparr>dt_scans := Suc (dt_scans s)\<rparr>))
     (case r of
        Inl e \<Rightarrow> prune en d (''Exception '' @ quoted e @ '' getting Disk info after '' @ quoted operation) True False
      | Inr _ \<Rightarrow>
          bnd (plato_call (ReportStatus (td_serial d) (''Drive Test: '' @ quoted operation)) (\<lambda>h. pe_report pe h d)) (\<lambda>(ok, health).
          whenM (\<not> ok) (prune en d (''Plato Reports as bad, Health: '' @ health) False False))))"

definition evaluate :: "test_env \<Rightarrow> tdrive \<Rightarrow> string \<Rightarrow> (dtest, unit) py" where
  "evaluate en d operation = (case te_plato en of
       None \<Rightarrow> evaluate_local en d operation
     | Some pe \<Rightarrow> evaluate_report en pe d operation)"

definition getEvaluator :: "test_env \<Rightarrow> (dtest, unit) py" where
  "getEvaluator en = (case te_plato en of None \<Rightarrow> ret () | Some pe \<Rightarrow> removeDrive pe None False)"

definition evaluate_all :: "test_env \<Rightarrow> string \<Rightarrow> (dtest, unit) py" where
  "evaluate_all en operation = on_good (\<lambda>d. evaluate en d operation)"

definition mark_good_thrashed :: "test_env \<Rightarrow> (dtest, unit) py" where
  "mark_good_thrashed en = on_good (mark_thrashed en)"

definition store_good :: "test_env \<Rightarrow> (dtest, unit) py" where
  "store_good en = on_good (store_drive en)"

text \<open>An answer that the drive is not known (a 404) is passed over.\<close>

definition store_skipped :: "test_env \<Rightarrow> (dtest, unit) py" where
  "store_skipped en = bnd (gets (\<lambda>s. dkeys (dt_skip s))) (\<lambda>ds. for_each ds (\<lambda>d. on_exc (\<lambda>e. e = NotFound) (store_drive en d) (ret ())))"

end
