(* ===== verification/Dtest_Run.thy ===== *)
theory Dtest_Run
  imports Dtest_Manager
begin

text \<open>
  The commands of the disk test: \<open>procutils.py\<close>, which runs one command on every good drive, one after the other or all at once,
  \<open>testutils.py\<close> with the tests, \<open>miscutils.py\<close>, and the program \<open>drivetest\<close> itself. Log files are left out.

  A waiting loop sees the processes in rounds: \<open>tp_rc\<close> is what \<open>poll()\<close> gives in a round and \<open>te_clock\<close> the time before it. The loop
  with no time limit ends only when all processes do, so it takes fuel.
\<close>

section \<open>Commands as templates\<close>

text \<open>\<open>template % values\<close> with named fields of the conversions \<open>s\<close> and \<open>d\<close>; another character after \<open>%\<close> raises.\<close>

definition render_value :: "char \<Rightarrow> pyval \<Rightarrow> string res" where
  "render_value conv v =
     (if conv = CHR ''d'' then (case v of PInt i \<Rightarrow> Inr (show_int i) | _ \<Rightarrow> Inl TypeError)
      else if conv = CHR ''s'' then (case v of PNone \<Rightarrow> Inr ''None'' | PStr t \<Rightarrow> Inr t | PInt i \<Rightarrow> Inr (show_int i) | _ \<Rightarrow> Inl TypeError)
      else Inl ValueError)"

function py_format :: "string \<Rightarrow> (string, pyval) dict \<Rightarrow> string res" where
  "py_format [] vals = Inr []"
| "py_format (c # rest) vals =
     (if c \<noteq> CHR ''%'' then rbnd (py_format rest vals) (\<lambda>t. Inr (c # t))
      else (case rest of
          [] \<Rightarrow> Inl ValueError
        | d # rest1 \<Rightarrow>
            if d = CHR ''%'' then rbnd (py_format rest1 vals) (\<lambda>t. Inr (c # t))
            else if d = CHR ''('' then
              (case split1 (CHR '')'') rest1 of
                 None \<Rightarrow> Inl ValueError
               | Some (name, rest2) \<Rightarrow> (case rest2 of
                     [] \<Rightarrow> Inl ValueError
                   | conv # rest3 \<Rightarrow>
                       rbnd (dindex vals name) (\<lambda>v. rbnd (render_value conv v) (\<lambda>x.
                       rbnd (py_format rest3 vals) (\<lambda>t. Inr (x @ t))))))
            else Inl ValueError))"
  by pat_completeness auto
termination
  by (relation "measure (\<lambda>(t, v). length t)") (auto dest: split1_SomeD)

definition opt_str :: "string option \<Rightarrow> pyval" where
  "opt_str v = (case v of None \<Rightarrow> PNone | Some t \<Rightarrow> PStr t)"

definition drive_fields :: "tdrive \<Rightarrow> (string, pyval) dict" where
  "drive_fields d = [(''block_name'', opt_str (td_block d)), (''block_path'', opt_str (block_path d)), (''libdrive_name'', PStr (td_libdrive d))]"

definition needs_block :: "string \<Rightarrow> bool" where
  "needs_block cmd = (contains ''%(block_name)'' cmd \<or> contains ''%(block_path)'' cmd)"

section \<open>One drive after the other\<close>

text \<open>The choice common to both loops: a drive without a block device, or with one that an earlier drive had, is passed over.\<close>

definition has_block :: "tdrive \<Rightarrow> bool" where
  "has_block d = (case td_block d of None \<Rightarrow> False | Some b \<Rightarrow> b \<noteq> [])"

definition passed_over :: "string \<Rightarrow> string option list \<Rightarrow> tdrive \<Rightarrow> bool" where
  "passed_over cmd block_list d = (\<not> has_block d \<and> needs_block cmd \<or> has_block d \<and> td_block d \<in> set block_list)"

definition start :: "tdrive \<Rightarrow> string \<Rightarrow> (dtest, unit) py" where
  "start d cmd = modify (\<lambda>s. s\<lparr>dt_cmds := dt_cmds s @ [cmd], dt_ran := dt_ran s @ [(d, cmd)]\<rparr>)"

definition failed :: "string \<Rightarrow> int \<Rightarrow> string \<Rightarrow> string \<Rightarrow> string" where
  "failed cmd rc out err = quoted cmd @ '' failed. rc: '' @ show_int rc @ '', out: '' @ quoted (last_chars 60 out) @ '', err: '' @ quoted (last_chars 60 err)"

definition run_one :: "test_env \<Rightarrow> string option \<Rightarrow> tdrive \<Rightarrow> string \<Rightarrow> (dtest, unit) py" where
  "run_one en inp d cmd =
     bnd (gets (\<lambda>s. te_run en (dt_cmds s) cmd inp)) (\<lambda>(rc, out, err).
     seq (start d cmd)
     (if rc \<noteq> 0
      then seq (tell '' Failed'')
        (prune en d (failed cmd rc (filter printable_chr (strip out)) (filter printable_chr (strip err))) True False)
      else ret ()))"

fun each_drive :: "test_env \<Rightarrow> string \<Rightarrow> string option \<Rightarrow> string option list \<Rightarrow> tdrive list \<Rightarrow> (dtest, unit) py" where
  "each_drive en cmd inp block_list [] = ret ()"
| "each_drive en cmd inp block_list (d # ds) =
     (if passed_over cmd block_list d then each_drive en cmd inp block_list ds
      else
        bnd (lift (py_format cmd (drive_fields d))) (\<lambda>tmpcmd.
        seq (run_one en inp d tmpcmd) (each_drive en cmd inp (block_list @ [td_block d]) ds)))"

definition runOnEachDrive :: "test_env \<Rightarrow> string \<Rightarrow> string option \<Rightarrow> (dtest, unit) py" where
  "runOnEachDrive en cmd inp = bnd (gets dt_good) (\<lambda>ds. if ds = [] then ret () else each_drive en cmd inp [] ds)"

section \<open>All drives at once\<close>

record wproc =
  wp_drive :: tdrive
  wp_cmd :: string
  wp_proc :: tproc
  wp_out :: string
  wp_err :: string

fun start_all :: "test_env \<Rightarrow> string \<Rightarrow> string option list \<Rightarrow> tdrive list \<Rightarrow> (dtest, wproc list) py" where
  "start_all en cmd block_list [] = ret []"
| "start_all en cmd block_list (d # ds) =
     (if passed_over cmd block_list d then start_all en cmd block_list ds
      else
        bnd (lift (py_format cmd (drive_fields d))) (\<lambda>tmpcmd.
        bnd (gets (\<lambda>s. te_proc en (dt_cmds s) tmpcmd)) (\<lambda>p.
        seq (start d tmpcmd)
        (seq (nap 2)
        (bnd (start_all en cmd (block_list @ [td_block d]) ds) (\<lambda>ps.
          ret (\<lparr>wp_drive = d, wp_cmd = tmpcmd, wp_proc = p, wp_out = [], wp_err = []\<rparr> # ps)))))))"

text \<open>Reading a pipe until it gives nothing or raises; the last hundred characters are kept.\<close>

fun slurp :: "pipe_read list \<Rightarrow> string \<Rightarrow> string" where
  "slurp [] acc = acc"
| "slurp (r # q) acc = (case r of
       Data t \<Rightarrow> if t = [] then acc else slurp q (last_chars 100 (acc @ filter printable_chr t))
     | _ \<Rightarrow> acc)"

definition read_round :: "nat \<Rightarrow> wproc \<Rightarrow> wproc" where
  "read_round k p = p\<lparr>wp_out := slurp (fst (tp_reads (wp_proc p) k)) (wp_out p), wp_err := slurp (snd (tp_reads (wp_proc p) k)) (wp_err p)\<rparr>"

definition all_done :: "nat \<Rightarrow> wproc list \<Rightarrow> bool" where
  "all_done k ps = list_all (\<lambda>p. tp_rc (wp_proc p) k \<noteq> None) ps"

text \<open>The rounds from number \<open>k\<close> on, with the time of the start in seconds; \<open>maxTime\<close> is in minutes. The result is the number of rounds.\<close>

fun wait_rounds :: "nat \<Rightarrow> (nat \<Rightarrow> rat) \<Rightarrow> rat \<Rightarrow> int \<Rightarrow> bool \<Rightarrow> nat \<Rightarrow> wproc list \<Rightarrow> (dtest, nat \<times> wproc list) py" where
  "wait_rounds 0 clock start_time maxTime finished k ps = throw OutOfFuel"
| "wait_rounds (Suc fuel) clock start_time maxTime finished k ps =
     (if finished \<or> (maxTime > 0 \<and> clock k \<ge> start_time + of_int (maxTime * 60)) then ret (k, ps)
      else seq (nap 60) (wait_rounds fuel clock start_time maxTime (all_done k ps) (Suc k) (map (read_round k) ps)))"

definition after_last_newline :: "string \<Rightarrow> string" where
  "after_last_newline t =
     (if newline \<in> set t then rev (takeWhile (\<lambda>c. c \<noteq> newline) (rev t))
      else if t = [] then [] else [last t])"

text \<open>The result of a process; the position \<open>-1\<close> of a missing newline is used as an index.\<close>

definition settle :: "test_env \<Rightarrow> nat \<Rightarrow> wproc \<Rightarrow> (dtest, tdrive \<times> string) py" where
  "settle en k p0 =
     (let p = read_round k p0; d = wp_drive p in
      seq (case tp_last (wp_proc p) of
          None \<Rightarrow>
            seq (tell (''Timed out for '' @ td_name d))
            (seq (prune en d (quoted (wp_cmd p) @ '' did not complete in time'') True False)
            (seq (nap 10)
              (modify (\<lambda>s. s\<lparr>dt_killed := dt_killed s @ [(d, tp_after_term (wp_proc p) = None)]\<rparr>))))
        | Some rc \<Rightarrow>
            if rc \<noteq> 0 then
              seq (tell (''Failed on '' @ td_name d))
              (seq (tell (''Error: '' @ quoted (strip (wp_err p))))
                (prune en d (failed (wp_cmd p) rc (strip (wp_out p)) (strip (wp_err p))) True False))
            else ret ())
        (ret (d, strip (after_last_newline (strip (wp_out p))))))"

fun settle_all :: "test_env \<Rightarrow> nat \<Rightarrow> wproc list \<Rightarrow> (dtest, (tdrive \<times> string) list) py" where
  "settle_all en k [] = ret []"
| "settle_all en k (p # ps) = bnd (settle en k p) (\<lambda>r. bnd (settle_all en k ps) (\<lambda>rs. ret (r # rs)))"

definition runOnEachDriveWait :: "nat \<Rightarrow> test_env \<Rightarrow> string \<Rightarrow> int \<Rightarrow> (dtest, (tdrive \<times> string) list) py" where
  "runOnEachDriveWait fuel en cmd maxTime =
     bnd (gets dt_good) (\<lambda>ds.
     if ds = [] then ret []
     else
       bnd (start_all en cmd [] ds) (\<lambda>ps.
       bnd (gets (\<lambda>s. te_clock en (dt_cmds s))) (\<lambda>clock.
       bnd (wait_rounds fuel clock (clock 0) maxTime False 0 ps) (\<lambda>(k, ps1).
         settle_all en k ps1))))"

section \<open>The tests\<close>

definition fdisk_cmd :: string where "fdisk_cmd = ''/sbin/sfdisk %(block_path)s''"
definition format_cmd :: string where "format_cmd = ''/sbin/mke2fs -q -m 0 -t ext3 %(block_path)s1''"
definition fsck_cmd :: string where "fsck_cmd = ''/sbin/fsck.ext3 -p -f %(block_path)s1''"
definition mkdir_cmd :: string where "mkdir_cmd = ''/bin/mkdir /mnt/%(block_name)s''"
definition mount_fs_cmd :: string where "mount_fs_cmd = ''/bin/mount %(block_path)s1 /mnt/%(block_name)s''"
definition unmount_cmd :: string where "unmount_cmd = ''/bin/umount /mnt/%(block_name)s''"
definition clear_cmd :: string where "clear_cmd = ''/sbin/clrparttable %(block_path)s''"
definition suspend_cmd :: string where "suspend_cmd = ''/bin/drivepower -i %(libdrive_name)s''"
definition wake_cmd :: string where "wake_cmd = ''/bin/drivepower -a %(libdrive_name)s''"
definition wipe_cmd :: string where "wipe_cmd = ''/sbin/wipedrive -k 61440 -z -i 120 %(libdrive_name)s''"
definition selftest_cmd :: string where "selftest_cmd = ''/sbin/selftest -k -i 120 --long-or-short %(libdrive_name)s''"
definition short_cmd :: string where "short_cmd = ''/sbin/selftest -k -i 120 --short %(libdrive_name)s''"
definition conveyance_cmd :: string where "conveyance_cmd = ''/sbin/selftest -k -i 120 --conveyance-or-short %(libdrive_name)s''"

record test_parms =
  thrash_cmd :: string
  munch_cmd :: string
  bonnie_cmd :: string

definition setTestParms :: "bool \<Rightarrow> bool \<Rightarrow> string \<Rightarrow> test_parms" where
  "setTestParms destructive muncher_dma bonnie =
     \<lparr>thrash_cmd = (if destructive then ''/sbin/thrash -v -c%(count)d %(block_path)s -w'' else ''/sbin/thrash -v -c%(count)d %(block_path)s''),
      munch_cmd = (if destructive then ''/sbin/muncher -b -a%(rand)d -p%(sweep)d -f%(full)d -c%(count)d -toff''
                   else ''/sbin/muncher     -a%(rand)d -p%(sweep)d -f%(full)d -c%(count)d -toff'')
        @ (if muncher_dma then '' -d'' else []) @ '' %(libdrive_name)s'',
      bonnie_cmd = ''/sbin/bonnie -r 0 -d /mnt/%(block_name)s -u root '' @ bonnie\<rparr>"

definition keep_fields :: "(string, pyval) dict" where
  "keep_fields = [(''libdrive_name'', PStr ''%(libdrive_name)s''), (''block_name'', PStr ''%(block_name)s''), (''block_path'', PStr ''%(block_path)s'')]"

definition tell_lastlines :: "(tdrive \<times> string) list \<Rightarrow> (dtest, unit) py" where
  "tell_lastlines ls = for_each ls (\<lambda>(d, l). tell (td_name d @ '': '' @ l))"

definition quiet_wait :: "nat \<Rightarrow> test_env \<Rightarrow> string \<Rightarrow> int \<Rightarrow> (dtest, unit) py" where
  "quiet_wait fuel en cmd maxTime = bnd (runOnEachDriveWait fuel en cmd maxTime) (\<lambda>_. ret ())"

definition doThrash :: "nat \<Rightarrow> test_env \<Rightarrow> test_parms \<Rightarrow> int \<Rightarrow> int \<Rightarrow> (dtest, unit) py" where
  "doThrash fuel en tp n maxTime =
     bnd (lift (py_format (thrash_cmd tp) ((''count'', PInt n) # keep_fields))) (\<lambda>cmd.
     bnd (runOnEachDriveWait fuel en cmd maxTime) tell_lastlines)"

definition doMunch :: "nat \<Rightarrow> test_env \<Rightarrow> test_parms \<Rightarrow> int \<Rightarrow> int \<Rightarrow> (dtest, unit) py" where
  "doMunch fuel en tp n maxTime =
     (let rounds = 2; tmp = n div (100 * rounds) in
      bnd (lift (py_format (munch_cmd tp)
        ([(''rand'', PInt (tmp * 58)), (''sweep'', PInt (tmp * 10)), (''full'', PInt tmp), (''count'', PInt rounds)] @ keep_fields))) (\<lambda>cmd.
      bnd (runOnEachDriveWait fuel en cmd maxTime) tell_lastlines))"

definition doSpinDownSleep :: "test_env \<Rightarrow> int \<Rightarrow> (dtest, unit) py" where
  "doSpinDownSleep en delay =
     seq (runOnEachDrive en suspend_cmd None)
     (bnd (gets dt_good) (\<lambda>ds.
      if ds = [] then ret ()
      else seq (nap (delay * 60)) (seq (runOnEachDrive en wake_cmd None) (nap 120))))"

definition doPartitionFormatMount :: "nat \<Rightarrow> test_env \<Rightarrow> int \<Rightarrow> (dtest, unit) py" where
  "doPartitionFormatMount fuel en maxTime =
     seq (runOnEachDrive en fdisk_cmd (Some (''0,,L'' @ nl @ nl)))
     (bnd (gets dt_good) (\<lambda>ds.
      if ds = [] then ret ()
      else seq (nap 120)
        (seq (quiet_wait fuel en format_cmd maxTime)
        (seq (runOnEachDrive en mkdir_cmd None) (runOnEachDrive en mount_fs_cmd None)))))"

definition doUnmountCheckFilesystem :: "nat \<Rightarrow> test_env \<Rightarrow> int \<Rightarrow> (dtest, unit) py" where
  "doUnmountCheckFilesystem fuel en maxTime = seq (runOnEachDrive en unmount_cmd None) (quiet_wait fuel en fsck_cmd maxTime)"

definition doFilesystemTest :: "nat \<Rightarrow> test_env \<Rightarrow> test_parms \<Rightarrow> int \<Rightarrow> (dtest, unit) py" where
  "doFilesystemTest fuel en tp maxTime = quiet_wait fuel en (bonnie_cmd tp) maxTime"

definition doClearPartitionTable :: "nat \<Rightarrow> test_env \<Rightarrow> int \<Rightarrow> (dtest, unit) py" where
  "doClearPartitionTable fuel en maxTime = quiet_wait fuel en clear_cmd maxTime"

definition doWipeDrive :: "nat \<Rightarrow> test_env \<Rightarrow> int \<Rightarrow> (dtest, unit) py" where
  "doWipeDrive fuel en maxTime = quiet_wait fuel en wipe_cmd maxTime"

definition doConveyanceTest :: "nat \<Rightarrow> test_env \<Rightarrow> int \<Rightarrow> (dtest, unit) py" where
  "doConveyanceTest fuel en maxTime = quiet_wait fuel en conveyance_cmd maxTime"

definition doShortSelfTest :: "nat \<Rightarrow> test_env \<Rightarrow> int \<Rightarrow> (dtest, unit) py" where
  "doShortSelfTest fuel en maxTime = quiet_wait fuel en short_cmd maxTime"

definition doSelfTest :: "nat \<Rightarrow> test_env \<Rightarrow> int \<Rightarrow> (dtest, unit) py" where
  "doSelfTest fuel en maxTime = quiet_wait fuel en selftest_cmd maxTime"

section \<open>Results\<close>

text \<open>What is written 512 bytes before the end of a block device, cut to 510 characters; a good result is filled up with zeros.\<close>

definition fail_record :: "string \<Rightarrow> string \<Rightarrow> string" where
  "fail_record time reason = take 510 (''FAIL'' @ nl @ time @ nl @ reason)"

function fill :: "string \<Rightarrow> string" where
  "fill msg = (if length msg < 510 then fill (msg @ replicate 8 (CHR 0x00)) else msg)"
  by pat_completeness auto
termination
  by (relation "measure (\<lambda>msg. 510 - length msg)") auto

declare fill.simps [simp del]

definition pass_record :: "string \<Rightarrow> string" where
  "pass_record time = take 510 (fill (''PASS'' @ nl @ time @ nl))"

definition save_bad :: "test_env \<Rightarrow> tdrive \<Rightarrow> string \<Rightarrow> (dtest, unit) py" where
  "save_bad en d reason = (case block_path d of
       None \<Rightarrow> ret ()
     | Some p \<Rightarrow>
         if te_write en d then modify (\<lambda>s. s\<lparr>dt_written := dt_written s @ [(p, fail_record (te_time en) reason)]\<rparr>)
         else tell (''Error writing status to drive '' @ quoted (td_name d) @ '', this drive was allready flagged as bad''))"

definition save_good :: "test_env \<Rightarrow> tdrive \<Rightarrow> (dtest, unit) py" where
  "save_good en d = (case block_path d of
       None \<Rightarrow> ret ()
     | Some p \<Rightarrow>
         if te_write en d then modify (\<lambda>s. s\<lparr>dt_written := dt_written s @ [(p, pass_record (te_time en))]\<rparr>)
         else
           seq (tell (''Error writing status to drive '' @ quoted (td_name d) @ '', this drive was suposed to be good.  Shame Shame.''))
             (prune en d ''Exception when saving results to drive: '' True False))"

definition doSaveResults :: "test_env \<Rightarrow> (dtest, unit) py" where
  "doSaveResults en =
     seq (bnd (gets dt_bad) (\<lambda>bad. for_each bad (\<lambda>(d, reason). save_bad en d reason)))
       (on_good (save_good en))"

text \<open>Waiting for a line of input; the number of lines read is kept.\<close>

fun await :: "nat \<Rightarrow> test_env \<Rightarrow> string \<Rightarrow> (dtest, unit) py" where
  "await 0 en w = throw OutOfFuel"
| "await (Suc fuel) en w =
     seq (tell (''Type '' @ quoted w @ '' and press <Enter> to Continue...''))
     (bnd (gets (\<lambda>s. strip (te_stdin en (dt_inputs s)))) (\<lambda>l.
      seq (modify (\<lambda>s. s\<lparr>dt_inputs := Suc (dt_inputs s)\<rparr>))
        (if l = w then ret () else await fuel en w)))"

definition doLightupDrives :: "nat \<Rightarrow> test_env \<Rightarrow> (dtest, unit) py" where
  "doLightupDrives fuel en =
     bnd (gets dt_good) (\<lambda>ds.
     if ds = [] then seq (tell ''There are no good drives'') (await fuel en ''Opps'')
     else
       seq (await fuel en ''Lights'')
       (seq (modify (\<lambda>s. s\<lparr>dt_lit := dt_lit s @ List.map_filter (map_option (\<lambda>p. ''/bin/dd if='' @ p @ '' of=/dev/null bs=512'') \<circ> block_path) ds\<rparr>))
         (await fuel en ''All Done'')))"

end
