(* ===== verification/Dtest_Main.thy ===== *)
theory Dtest_Main
  imports Dtest_Run
begin

text \<open>
  The program \<open>disk-test/root/drivetest\<close>: its options and the order of its steps. The remaining times it prints and the messages it
  posts are left out.
\<close>

record test_options =
  op_destructive :: bool
  op_thrash :: bool
  op_dma :: bool
  op_round1 :: int
  op_round1_time :: int
  op_rdelay :: int
  op_round2 :: int
  op_round2_time :: int
  op_pdelay :: int
  op_bonnie :: string
  op_bonnie_time :: int
  op_bdelay :: int
  op_no_wipe :: bool
  op_wdelay :: int
  op_fdelay :: int
  op_no_conveyance :: bool
  op_no_selftest :: bool
  op_short_selftest :: bool
  op_no_saveresults :: bool
  op_no_lightup :: bool
  op_no_partition_check :: bool
  op_re_thrash :: bool

definition maxFormatTime :: int where "maxFormatTime = 100"
definition maxFsckTime :: int where "maxFsckTime = 100"
definition maxWipeTime :: int where "maxWipeTime = 1200"
definition maxConveyanceTestTime :: int where "maxConveyanceTestTime = 540"
definition maxSelfTestTime :: int where "maxSelfTestTime = 1200"

definition drive_exit :: "int \<Rightarrow> (dtest, unit) py" where
  "drive_exit code = throw (SysExit code)"

text \<open>A cooling phase, when a delay is set and drives are left.\<close>

definition cooldown :: "test_env \<Rightarrow> int \<Rightarrow> (dtest, unit) py" where
  "cooldown en delay = bnd (gets dt_good) (\<lambda>ds. whenM (delay > 0 \<and> ds \<noteq> []) (doSpinDownSleep en delay))"

definition cooldown_scan :: "test_env \<Rightarrow> int \<Rightarrow> string \<Rightarrow> (dtest, unit) py" where
  "cooldown_scan en delay operation =
     bnd (gets dt_good) (\<lambda>ds. whenM (delay > 0 \<and> ds \<noteq> []) (seq (doSpinDownSleep en delay) (evaluate_all en operation)))"

definition round_of :: "nat \<Rightarrow> test_env \<Rightarrow> test_options \<Rightarrow> test_parms \<Rightarrow> int \<Rightarrow> int \<Rightarrow> string \<Rightarrow> (dtest, unit) py" where
  "round_of fuel en op tp n maxTime operation =
     whenM (n > 0) (seq (if op_thrash op then doThrash fuel en tp n maxTime else doMunch fuel en tp n maxTime) (evaluate_all en operation))"

definition before_tests :: "test_env \<Rightarrow> test_options \<Rightarrow> (dtest, unit) py" where
  "before_tests en op = block [
     pruneAllreadyDead en,
     whenM (\<not> op_re_thrash op) (skipAllreadyThrashed en),
     evaluate_all en ''Initial'',
     skipUnThrashable en,
     whenM (\<not> op_no_partition_check op) (skipWithFilesystems en)]"

definition filesystem_tests :: "nat \<Rightarrow> test_env \<Rightarrow> test_options \<Rightarrow> test_parms \<Rightarrow> (dtest, unit) py" where
  "filesystem_tests fuel en op tp = block [
     doPartitionFormatMount fuel en maxFormatTime,
     evaluate_all en ''Partition/Format/Mount'',
     doFilesystemTest fuel en tp (op_bonnie_time op),
     evaluate_all en ''Filesystem Test'',
     doUnmountCheckFilesystem fuel en maxFsckTime,
     evaluate_all en ''Unmount/Check FileSystem Test'',
     whenM (op_bdelay op > 0) (seq (doSpinDownSleep en (op_bdelay op)) (evaluate_all en ''Post Filesystem Check Cooldown''))]"

definition wipe_tests :: "nat \<Rightarrow> test_env \<Rightarrow> test_options \<Rightarrow> (dtest, unit) py" where
  "wipe_tests fuel en op = block [
     doWipeDrive fuel en maxWipeTime,
     evaluate_all en ''Wipe Drive'',
     cooldown_scan en (op_wdelay op) ''Post Wipe Cooldown'']"

definition the_tests :: "nat \<Rightarrow> test_env \<Rightarrow> test_options \<Rightarrow> test_parms \<Rightarrow> (dtest, unit) py" where
  "the_tests fuel en op tp = block [
     whenM (\<not> op_no_conveyance op) (seq (doConveyanceTest fuel en maxConveyanceTestTime) (evaluate_all en ''Conveyance Test'')),
     round_of fuel en op tp (op_round1 op) (op_round1_time op) ''Round One'',
     cooldown_scan en (op_rdelay op) ''Mid-Round Cooldown'',
     round_of fuel en op tp (op_round2 op) (op_round2_time op) ''Round Two'',
     cooldown_scan en (op_pdelay op) ''Post Round Cooldown'',
     whenM (op_destructive op \<and> op_bonnie op \<noteq> ''0'') (filesystem_tests fuel en op tp),
     whenM (op_destructive op \<and> \<not> op_no_wipe op) (wipe_tests fuel en op),
     whenM (op_destructive op \<and> op_no_wipe op) (seq (doClearPartitionTable fuel en 10) (evaluate_all en ''Clear Partition Table'')),
     whenM (\<not> op_no_selftest op)
       (seq (if op_short_selftest op then doShortSelfTest fuel en maxSelfTestTime else doSelfTest fuel en maxSelfTestTime)
         (evaluate_all en ''Self Test'')),
     cooldown en (op_fdelay op),
     evaluate_all en ''Final'']"

definition finish :: "nat \<Rightarrow> test_env \<Rightarrow> test_options \<Rightarrow> (dtest, unit) py" where
  "finish fuel en op = block [
     whenM (op_destructive op \<and> \<not> op_no_saveresults op) (doSaveResults en),
     bnd (gets skip_summary) tell,
     bnd (gets bad_summary) tell,
     whenM (\<not> op_no_lightup op) (doLightupDrives fuel en),
     mark_good_thrashed en,
     store_good en,
     store_skipped en,
     tell ''All Done!'',
     drive_exit 0]"

definition drivetest :: "nat \<Rightarrow> test_env \<Rightarrow> test_options \<Rightarrow> (dtest, unit) py" where
  "drivetest fuel en op =
     seq (getEvaluator en)
     (bnd (gets dt_good) (\<lambda>ds.
      if ds = [] then seq (tell ''*** No Drives to test ***'') (drive_exit 1)
      else
        seq (bnd (gets summary) tell)
        (seq (before_tests en op)
        (seq (the_tests fuel en op (setTestParms (op_destructive op) (op_dma op) (op_bonnie op)))
          (finish fuel en op)))))"

end
