(* ===== verification/Dtest_Props.thy ===== *)
theory Dtest_Props
  imports Dtest_Main
begin

text \<open>
  What the disk test keeps: every drive is at all times in exactly one of the good, the skipped and the bad drives
  (\<open>drives_partitioned\<close>), however the run ends. \<open>Dtest_Safety\<close> and \<open>Dtest_Waits\<close> build on it.
\<close>

section \<open>The lists of the manager\<close>

definition manager_ok :: "dtest \<Rightarrow> bool" where
  "manager_ok s = (distinct (dt_good s) \<and> distinct (dkeys (dt_skip s)) \<and> distinct (dkeys (dt_bad s))
     \<and> set (dt_all s) = set (dt_good s) \<union> set (dkeys (dt_skip s)) \<union> set (dkeys (dt_bad s))
     \<and> set (dt_good s) \<inter> set (dkeys (dt_skip s)) = {} \<and> set (dt_good s) \<inter> set (dkeys (dt_bad s)) = {}
     \<and> set (dkeys (dt_skip s)) \<inter> set (dkeys (dt_bad s)) = {})"

definition mgr_lists :: "dtest \<Rightarrow> tdrive list \<times> tdrive list \<times> (tdrive, string) dict \<times> (tdrive, string) dict" where
  "mgr_lists s = (dt_all s, dt_good s, dt_skip s, dt_bad s)"

definition pruned :: "bool \<Rightarrow> tdrive \<Rightarrow> string \<Rightarrow> dtest \<Rightarrow> dtest \<Rightarrow> bool" where
  "pruned sk d r s t = (mgr_lists t = (dt_all s, remove1 d (dt_good s),
     if sk then dset d r (dt_skip s) else dt_skip s, if sk then dt_bad s else dset d r (dt_bad s)))"

text \<open>A computation that leaves the lists alone or prunes one drive.\<close>

definition moves :: "bool \<Rightarrow> tdrive \<Rightarrow> (dtest, 'a) py \<Rightarrow> bool" where
  "moves sk d m = (\<forall>s. mgr_lists (snd (m s)) = mgr_lists s \<or> (\<exists>r. pruned sk d r s (snd (m s))))"

named_theorems moves_intros

lemma moves_keeps: "keeps mgr_lists m \<Longrightarrow> moves sk d m"
  by (simp add: moves_def keeps_def)

lemma pruned_lists: "mgr_lists s' = mgr_lists s \<Longrightarrow> mgr_lists t' = mgr_lists t \<Longrightarrow> pruned sk d r s t \<Longrightarrow> pruned sk d r s' t'"
  by (simp add: pruned_def mgr_lists_def)

lemma moves_bnd: "keeps mgr_lists m \<Longrightarrow> (\<And>x. moves sk d (k x)) \<Longrightarrow> moves sk d (bnd m k)"
  unfolding moves_def bnd_snd by (auto split: sum.split simp: keeps_snd) (metis keeps_snd pruned_lists)

lemma moves_seq: "keeps mgr_lists m \<Longrightarrow> moves sk d k \<Longrightarrow> moves sk d (seq m k)"
  unfolding seq_def by (rule moves_bnd)

lemma moves_then: "moves sk d m \<Longrightarrow> (\<And>x. keeps mgr_lists (k x)) \<Longrightarrow> moves sk d (bnd m k)"
  unfolding moves_def bnd_snd by (auto split: sum.split simp: keeps_snd) (metis keeps_snd pruned_lists)

lemma moves_seq_then: "moves sk d m \<Longrightarrow> keeps mgr_lists k \<Longrightarrow> moves sk d (seq m k)"
  unfolding seq_def by (rule moves_then)

lemma moves_if: "(b \<Longrightarrow> moves sk d m) \<Longrightarrow> (\<not> b \<Longrightarrow> moves sk d k) \<Longrightarrow> moves sk d (if b then m else k)"
  by simp

lemma moves_whenM: "moves sk d m \<Longrightarrow> moves sk d (whenM b m)"
  unfolding whenM_def by (auto intro: moves_keeps keeps_basic)

lemma keeps_plato_call [keeps_intros]: "keeps mgr_lists (plato_call c f)"
  unfolding plato_call_def by (intro keeps_intros) (simp add: mgr_lists_def)

lemma keeps_lists_simple [keeps_intros]:
  "keeps mgr_lists (tell l)" "keeps mgr_lists (nap t)" "keeps mgr_lists (reportFail en d r)" "keeps mgr_lists (allreadyDead en d)"
  "keeps mgr_lists (allreadyThrashed en d)" "keeps mgr_lists (saved pe msg c)" "keeps mgr_lists (mark_thrashed en d)" "keeps mgr_lists (store_drive en d)"
  "keeps mgr_lists (start d cmd)"
  unfolding tell_def nap_def reportFail_def allreadyDead_def allreadyThrashed_def saved_def mark_thrashed_def store_drive_def markThrashed_def
    removeDrive_def start_def
  by (auto intro!: keeps_intros simp: mgr_lists_def split: option.split)

lemma moves_prune: "moves sk d (prune en d r rep sk)"
proof -
  have "keeps mgr_lists (whenM b (reportFail en d r))" for b by (intro keeps_intros)
  from keeps_snd[OF this] show ?thesis
    unfolding moves_def prune_def seq_def bnd_snd by (auto simp: py_simps mgr_lists_def pruned_def)
qed

lemmas moves_rules = moves_prune moves_if moves_whenM

section \<open>Phases\<close>

text \<open>What may happen to the lists from one state to a later one; \<open>sk\<close> tells whether drives may be skipped.\<close>

definition shrinks :: "bool \<Rightarrow> dtest \<Rightarrow> dtest \<Rightarrow> bool" where
  "shrinks sk s t = (dt_all t = dt_all s \<and> set (dt_good t) \<subseteq> set (dt_good s) \<and> (\<not> sk \<longrightarrow> dt_skip t = dt_skip s)
     \<and> set (dkeys (dt_skip s)) \<subseteq> set (dkeys (dt_skip t)) \<and> set (dkeys (dt_bad s)) \<subseteq> set (dkeys (dt_bad t)) \<and> (manager_ok s \<longrightarrow> manager_ok t))"

lemma shrinks_refl: "mgr_lists t = mgr_lists s \<Longrightarrow> shrinks sk s t"
  by (simp add: shrinks_def mgr_lists_def manager_ok_def)

lemma shrinks_trans: "shrinks sk s t \<Longrightarrow> shrinks sk t u \<Longrightarrow> shrinks sk s u"
  unfolding shrinks_def by (elim conjE, intro conjI impI) (metis | rule subset_trans; assumption)+

lemma set_dkeys_dset: "set (dkeys (dset k v d)) = insert k (set (dkeys d))"
  by (auto simp: dkeys_dset simp del: set_map)

lemma pruned_ok:
  assumes "manager_ok s" and "d \<in> set (dt_good s)" and "pruned sk d r s t"
  shows "manager_ok t" and "set (dt_good t) = set (dt_good s) - {d}"
proof -
  from assms(1) have g: "distinct (dt_good s)" by (simp add: manager_ok_def)
  from assms(3) have t: "dt_all t = dt_all s" "dt_good t = remove1 d (dt_good s)" "dt_skip t = (if sk then dset d r (dt_skip s) else dt_skip s)"
    "dt_bad t = (if sk then dt_bad s else dset d r (dt_bad s))"
    by (simp_all add: pruned_def mgr_lists_def)
  show s: "set (dt_good t) = set (dt_good s) - {d}" using g t(2) by simp
  have n: "d \<notin> set (dkeys (dt_skip s))" "d \<notin> set (dkeys (dt_bad s))" using assms(1,2) unfolding manager_ok_def by blast+
  have ok: "distinct (dkeys (dt_skip s))" "distinct (dkeys (dt_bad s))"
    "set (dt_all s) = set (dt_good s) \<union> set (dkeys (dt_skip s)) \<union> set (dkeys (dt_bad s))"
    "set (dt_good s) \<inter> set (dkeys (dt_skip s)) = {}" "set (dt_good s) \<inter> set (dkeys (dt_bad s)) = {}"
    "set (dkeys (dt_skip s)) \<inter> set (dkeys (dt_bad s)) = {}"
    using assms(1) unfolding manager_ok_def by blast+
  have k: "set (dkeys (dt_skip t)) = (if sk then insert d (set (dkeys (dt_skip s))) else set (dkeys (dt_skip s)))"
    "set (dkeys (dt_bad t)) = (if sk then set (dkeys (dt_bad s)) else insert d (set (dkeys (dt_bad s))))"
    unfolding t by (simp_all only: set_dkeys_dset split: if_split) simp_all
  have "distinct (dt_good t)" "distinct (dkeys (dt_skip t))" "distinct (dkeys (dt_bad t))"
    using ok(1,2) g unfolding t by (auto intro: distinct_dset)
  moreover have "set (dt_all t) = set (dt_good t) \<union> set (dkeys (dt_skip t)) \<union> set (dkeys (dt_bad t))"
    using ok(3) assms(2) unfolding s k t(1) by auto
  moreover have "set (dt_good t) \<inter> set (dkeys (dt_skip t)) = {}" "set (dt_good t) \<inter> set (dkeys (dt_bad t)) = {}"
    using ok(4,5) unfolding s k by auto
  moreover have "set (dkeys (dt_skip t)) \<inter> set (dkeys (dt_bad t)) = {}"
    using ok(6) n unfolding k by auto
  ultimately show "manager_ok t" unfolding manager_ok_def by blast
qed

lemma moves_shrinks:
  assumes "moves sk d m" and "manager_ok s" and "d \<in> set (dt_good s)"
  shows "shrinks sk s (snd (m s))" and "set (dt_good s) - {d} \<subseteq> set (dt_good (snd (m s)))"
proof -
  from assms(1) consider "mgr_lists (snd (m s)) = mgr_lists s" | r where "pruned sk d r s (snd (m s))" unfolding moves_def by blast
  then have "shrinks sk s (snd (m s)) \<and> set (dt_good s) - {d} \<subseteq> set (dt_good (snd (m s)))"
  proof cases
    case 1
    then show ?thesis by (auto simp: shrinks_refl mgr_lists_def)
  next
    case (2 r)
    from pruned_ok[OF assms(2,3) 2] 2 show ?thesis
      by (auto simp: shrinks_def pruned_def mgr_lists_def set_dkeys_dset simp del: set_map split: if_splits)
  qed
  then show "shrinks sk s (snd (m s))" "set (dt_good s) - {d} \<subseteq> set (dt_good (snd (m s)))" by auto
qed

definition phase :: "bool \<Rightarrow> (dtest, 'a) py \<Rightarrow> bool" where
  "phase sk m = (\<forall>s. manager_ok s \<longrightarrow> shrinks sk s (snd (m s)))"

named_theorems phase_intros

lemma phase_keeps: "keeps mgr_lists m \<Longrightarrow> phase sk m"
  by (simp add: phase_def keeps_snd shrinks_refl)

lemma phase_bnd [phase_intros]: "phase sk m \<Longrightarrow> (\<And>x. phase sk (k x)) \<Longrightarrow> phase sk (bnd m k)"
  unfolding phase_def bnd_snd by (auto split: sum.split) (meson shrinks_def shrinks_trans)

lemma phase_seq [phase_intros]: "phase sk m \<Longrightarrow> phase sk k \<Longrightarrow> phase sk (seq m k)"
  unfolding seq_def by (rule phase_bnd)

lemma phase_basic [phase_intros]: "phase sk (ret x)" "phase sk (throw e)" "phase sk (lift r)" "phase sk (gets f)" "phase sk (tell l)" "phase sk (nap t)"
  by (intro phase_keeps keeps_intros)+

lemma phase_whenM [phase_intros]: "(b \<Longrightarrow> phase sk m) \<Longrightarrow> phase sk (whenM b m)"
  by (simp add: whenM_def phase_basic)

lemma phase_if [phase_intros]: "(b \<Longrightarrow> phase sk m) \<Longrightarrow> (\<not> b \<Longrightarrow> phase sk k) \<Longrightarrow> phase sk (if b then m else k)"
  by simp

lemma phase_block [phase_intros]: "phase sk (block [])" "phase sk m \<Longrightarrow> phase sk (block ms) \<Longrightarrow> phase sk (block (m # ms))"
  by (simp_all add: block_simps phase_intros)

lemma phase_on_exc [phase_intros]: "phase sk m \<Longrightarrow> phase sk h \<Longrightarrow> phase sk (on_exc p m h)"
  unfolding phase_def by (auto simp: on_exc_apply split: prod.split sum.split) (metis shrinks_def shrinks_trans snd_conv)+

lemma for_each_snd: "snd (for_each (x # xs) body s) = (case fst (body x s) of Inl _ \<Rightarrow> snd (body x s) | Inr _ \<Rightarrow> snd (for_each xs body (snd (body x s))))"
  by (simp add: seq_def bnd_snd)

lemma for_each_shrinks:
  "(\<And>d. moves sk d (body d)) \<Longrightarrow> manager_ok s \<Longrightarrow> set ds \<subseteq> set (dt_good s) \<Longrightarrow> distinct ds \<Longrightarrow> shrinks sk s (snd (for_each ds body s))"
proof (induction ds arbitrary: s)
  case Nil
  show ?case by (simp add: py_simps shrinks_refl)
next
  case (Cons d ds)
  let ?t = "snd (body d s)"
  from Cons.prems have d: "d \<in> set (dt_good s)" by simp
  from moves_shrinks[OF Cons.prems(1,2) d] have t: "shrinks sk s ?t" "set (dt_good s) - {d} \<subseteq> set (dt_good ?t)" by auto
  with Cons.prems have "shrinks sk ?t (snd (for_each ds body ?t))" by (intro Cons.IH) (auto simp: shrinks_def)
  with t(1) show ?case unfolding for_each_snd by (auto split: sum.split intro: shrinks_trans)
qed

lemma phase_on_good [phase_intros]: "(\<And>d. moves sk d (body d)) \<Longrightarrow> phase sk (on_good body)"
  unfolding phase_def on_good_def by (auto simp: bnd_snd py_simps manager_ok_def intro!: for_each_shrinks)

section \<open>The operations move drives only down\<close>

lemma moves_evaluate: "moves False d (evaluate en d operation)"
  unfolding evaluate_def evaluate_local_def evaluate_report_def
  by (auto intro!: moves_bnd moves_seq moves_prune moves_whenM keeps_intros moves_keeps[OF keeps_basic(1)] simp: mgr_lists_def
      split: option.split sum.split prod.split)

lemma moves_skip: "moves True d (skip_unthrashable en ms d)"
  unfolding skip_unthrashable_def by (intro moves_if moves_prune moves_seq_then keeps_lists_simple moves_keeps[OF keeps_basic(1)])

lemma moves_save_good: "moves False d (save_good en d)"
  unfolding save_good_def
  by (auto intro!: moves_if moves_seq moves_prune keeps_lists_simple moves_keeps[OF keeps_modify] moves_keeps[OF keeps_basic(1)]
      simp: mgr_lists_def split: option.split)

lemma moves_run_one: "moves False d (run_one en inp d cmd)"
  unfolding run_one_def
  by (auto intro!: moves_bnd moves_seq moves_if moves_prune keeps_lists_simple keeps_basic moves_keeps[OF keeps_basic(1)] split: prod.split)

lemma moves_settle: "moves False (wp_drive p) (settle en k p)"
proof -
  let ?d = "wp_drive p"
  have kill: "keeps mgr_lists (seq (nap t) (modify (\<lambda>s. s\<lparr>dt_killed := dt_killed s @ x\<rparr>)))" for x t
    by (intro keeps_intros) (simp add: mgr_lists_def)
  have none: "moves False ?d (seq (tell t) (seq (prune en ?d r True False) (seq (nap n) (modify (\<lambda>s. s\<lparr>dt_killed := dt_killed s @ x\<rparr>)))))" for t r x n
    by (intro moves_seq[OF keeps_lists_simple(1)] moves_seq_then[OF moves_prune kill])
  have bad: "moves False ?d (seq (tell t) (seq (tell u) (prune en ?d r True False)))" for t u r
    by (intro moves_seq[OF keeps_lists_simple(1)] moves_prune)
  show ?thesis
    unfolding settle_def Let_def read_round_def
    by (rule moves_seq_then[OF _ keeps_basic(1)])
      (auto intro: none bad moves_keeps[OF keeps_basic(1)] split: option.split)
qed

lemma phase_calls [phase_intros]: "phase sk (mark_thrashed en d)" "phase sk (store_drive en d)" "phase sk (getEvaluator en)"
  by (rule phase_keeps, intro keeps_intros)
    (rule phase_keeps, intro keeps_intros, rule phase_keeps,
      auto simp: getEvaluator_def removeDrive_def intro!: keeps_intros split: option.split)

lemma phase_weaken: "phase False m \<Longrightarrow> phase sk m"
  unfolding phase_def shrinks_def by (metis order_refl)

lemma phase_scans [phase_intros]: "phase sk (evaluate_all en operation)"
  unfolding evaluate_all_def by (intro phase_weaken[OF phase_on_good] moves_evaluate)

lemma phase_before [phase_intros]: "phase True (before_tests en op)"
proof -
  have "phase True (pruneAllreadyDead en)"
    unfolding pruneAllreadyDead_def by (rule phase_weaken, intro phase_on_good moves_bnd moves_whenM moves_prune keeps_lists_simple)
  moreover have "phase True (skipAllreadyThrashed en)"
    unfolding skipAllreadyThrashed_def by (intro phase_on_good moves_bnd moves_whenM moves_prune keeps_lists_simple)
  moreover have "phase True (skipUnThrashable en)"
    unfolding skipUnThrashable_def by (intro phase_intros moves_skip)
  moreover have "phase True (skipWithFilesystems en)"
    unfolding skipWithFilesystems_def
    by (auto intro!: phase_on_good moves_whenM moves_prune moves_keeps[OF keeps_basic(1)] split: option.split)
  ultimately show ?thesis unfolding before_tests_def by (intro phase_intros)
qed

lemma each_drive_shrinks:
  "manager_ok s \<Longrightarrow> set ds \<subseteq> set (dt_good s) \<Longrightarrow> distinct ds \<Longrightarrow> shrinks False s (snd (each_drive en cmd inp bl ds s))"
proof (induction ds arbitrary: s bl)
  case Nil
  show ?case by (simp add: py_simps shrinks_refl)
next
  case (Cons d ds)
  show ?case
  proof (cases "passed_over cmd bl d")
    case True
    with Cons show ?thesis by simp
  next
    case False
    show ?thesis
    proof (cases "py_format cmd (drive_fields d)")
      case (Inl e)
      with False show ?thesis by (simp add: py_simps shrinks_refl)
    next
      case (Inr c)
      obtain q t where q: "run_one en inp d c s = (q, t)" by (cases "run_one en inp d c s")
      have d: "d \<in> set (dt_good s)" using Cons.prems by simp
      from moves_shrinks[OF moves_run_one[of d en inp c] Cons.prems(1) d] q
      have t: "shrinks False s t" "set (dt_good s) - {d} \<subseteq> set (dt_good t)" by auto
      with Cons.prems have "shrinks False t (snd (each_drive en cmd inp (bl @ [td_block d]) ds t))" by (intro Cons.IH) (auto simp: shrinks_def)
      with t(1) False Inr q show ?thesis by (cases q) (auto simp: py_simps intro: shrinks_trans)
    qed
  qed
qed

lemma phase_each [phase_intros]: "phase False (runOnEachDrive en cmd inp)"
  unfolding phase_def runOnEachDrive_def by (auto simp: bnd_snd py_simps manager_ok_def shrinks_refl intro!: each_drive_shrinks)

lemma keeps_start_all [keeps_intros]: "keeps mgr_lists (start_all en cmd bl ds)"
  by (induction ds arbitrary: bl) (auto intro!: keeps_intros)

lemma keeps_wait_rounds [keeps_intros]: "keeps mgr_lists (wait_rounds fuel clock t0 mt fin k ps)"
  by (induction fuel arbitrary: fin k ps) (auto intro!: keeps_intros)

lemma subseq_distinct: "subseq xs ys \<Longrightarrow> distinct ys \<Longrightarrow> distinct xs"
  by (induction rule: list_emb.induct) (auto dest: list_emb_set)

lemma started_drives: "start_all en cmd bl ds s = (Inr ps, t) \<Longrightarrow> subseq (map wp_drive ps) ds"
proof (induction ds arbitrary: bl s ps t)
  case Nil
  then show ?case by (simp add: py_simps)
next
  case (Cons d ds)
  show ?case
  proof (cases "passed_over cmd bl d")
    case True
    with Cons show ?thesis by (auto intro: subseq_Cons')
  next
    case False
    with Cons.prems obtain ps' bl' s' t' where "map wp_drive ps = d # map wp_drive ps'" "start_all en cmd bl' ds s' = (Inr ps', t')"
      by (fastforce simp: ret_apply elim!: bnd_InrE seq_InrE)
    then show ?thesis using Cons.IH by simp
  qed
qed

lemma waited_drives: "wait_rounds fuel clock t0 mt fin k ps s = (Inr (k', ps'), t) \<Longrightarrow> map wp_drive ps' = map wp_drive ps"
proof (induction fuel arbitrary: fin k ps s)
  case 0
  then show ?case by (simp add: py_simps)
next
  case (Suc fuel)
  from Suc.prems show ?case
    by (auto simp: ret_apply read_round_def comp_def split: if_splits elim!: seq_InrE dest!: Suc.IH)
qed

lemma settle_shrinks:
  "manager_ok s \<Longrightarrow> set (map wp_drive ps) \<subseteq> set (dt_good s) \<Longrightarrow> distinct (map wp_drive ps) \<Longrightarrow> shrinks False s (snd (settle_all en k ps s))"
proof (induction ps arbitrary: s)
  case Nil
  show ?case by (simp add: py_simps shrinks_refl)
next
  case (Cons p ps)
  obtain q t where q: "settle en k p s = (q, t)" by (cases "settle en k p s")
  have d: "wp_drive p \<in> set (dt_good s)" using Cons.prems by simp
  from moves_shrinks[OF moves_settle[of p en k] Cons.prems(1) d] q
  have t: "shrinks False s t" "set (dt_good s) - {wp_drive p} \<subseteq> set (dt_good t)" by auto
  have "set (map wp_drive ps) \<subseteq> set (dt_good s) - {wp_drive p}" using Cons.prems(2,3) by (auto simp del: set_map)
  then have sub: "set (map wp_drive ps) \<subseteq> set (dt_good t)" using t(2) by (rule subset_trans)
  have "manager_ok t" using t(1) Cons.prems(1) by (simp add: shrinks_def)
  then have u: "shrinks False t (snd (settle_all en k ps t))" using sub Cons.prems(3) by (intro Cons.IH) simp_all
  with t(1) q show ?case by (cases q) (auto simp: py_simps split: prod.splits sum.splits intro: shrinks_trans)
qed

lemma phase_wait [phase_intros]: "phase False (runOnEachDriveWait fuel en cmd mt)"
  unfolding phase_def
proof (intro allI impI)
  fix s assume ok: "manager_ok s"
  show "shrinks False s (snd (runOnEachDriveWait fuel en cmd mt s))"
  proof (cases "dt_good s = []")
    case True
    then show ?thesis by (simp add: runOnEachDriveWait_def py_simps shrinks_refl)
  next
    case good: False
    obtain q u where q: "start_all en cmd [] (dt_good s) s = (q, u)" by (cases "start_all en cmd [] (dt_good s) s")
    have l1: "mgr_lists u = mgr_lists s" using keepsD[OF keeps_start_all q] .
    show ?thesis
    proof (cases q)
      case (Inl e)
      with good l1 q show ?thesis by (simp add: runOnEachDriveWait_def py_simps shrinks_refl)
    next
      case (Inr ps)
      let ?c = "te_clock en (dt_cmds u)"
      obtain w v where w: "wait_rounds fuel ?c (?c 0) mt False 0 ps u = (w, v)" by (cases "wait_rounds fuel ?c (?c 0) mt False 0 ps u")
      have l2: "mgr_lists v = mgr_lists s" using keepsD[OF keeps_wait_rounds w] l1 by simp
      show ?thesis
      proof (cases w)
        case (Inl e)
        with good q Inr w l2 show ?thesis by (simp add: runOnEachDriveWait_def py_simps shrinks_refl)
      next
        case kp: (Inr kp)
        obtain k ps' where k: "kp = (k, ps')" by (cases kp)
        have same: "map wp_drive ps' = map wp_drive ps" using waited_drives w kp k by blast
        have sub: "subseq (map wp_drive ps) (dt_good s)" using started_drives q Inr by blast
        have "shrinks False v (snd (settle_all en k ps' v))"
        proof (rule settle_shrinks)
          show "manager_ok v" using ok shrinks_refl[OF l2] by (simp add: shrinks_def)
          have g: "dt_good v = dt_good s" using l2 by (simp add: mgr_lists_def)
          show "set (map wp_drive ps') \<subseteq> set (dt_good v)" unfolding same g by (auto simp del: set_map dest: list_emb_set[OF sub])
          have "distinct (dt_good s)" using ok by (simp add: manager_ok_def)
          then show "distinct (map wp_drive ps')" unfolding same by (rule subseq_distinct[OF sub])
        qed
        with good q Inr w kp k l2 show ?thesis
          by (auto simp: runOnEachDriveWait_def py_simps intro: shrinks_trans[OF shrinks_refl])
      qed
    qed
  qed
qed

lemma keeps_await [keeps_intros]: "keeps mgr_lists (await fuel en w)"
proof (induction fuel)
  case (Suc fuel)
  show ?case unfolding await.simps by (intro keeps_intros Suc) (simp add: mgr_lists_def)
qed (simp add: keeps_basic)

lemma phase_lines [phase_intros]: "phase sk (tell_lastlines ls)"
  unfolding tell_lastlines_def by (rule phase_keeps) (auto intro!: keeps_for_each keeps_lists_simple)

lemma phase_save: "phase False (doSaveResults en)"
proof -
  have "keeps mgr_lists (for_each bad (\<lambda>(d, reason). save_bad en d reason))" for bad
    by (intro keeps_for_each) (auto simp: save_bad_def mgr_lists_def intro!: keeps_intros split: option.split)
  then show ?thesis
    unfolding doSaveResults_def by (intro phase_seq phase_bnd phase_basic phase_keeps phase_on_good moves_save_good)
qed

lemma phase_light: "phase False (doLightupDrives fuel en)"
  unfolding doLightupDrives_def by (rule phase_keeps) (auto intro!: keeps_intros simp: mgr_lists_def)

lemmas test_defs = doThrash_def doMunch_def doSpinDownSleep_def doPartitionFormatMount_def doUnmountCheckFilesystem_def doFilesystemTest_def
  doClearPartitionTable_def doWipeDrive_def doConveyanceTest_def doShortSelfTest_def doSelfTest_def quiet_wait_def Let_def

lemma phase_tests: "phase False (the_tests fuel en op tp)"
  unfolding the_tests_def filesystem_tests_def wipe_tests_def cooldown_def cooldown_scan_def round_of_def test_defs
  by (intro phase_intros)

lemma phase_finish: "phase False (finish fuel en op)"
proof -
  have "phase False (on_good (mark_thrashed en))" "phase False (on_good (store_drive en))"
    by (intro phase_on_good moves_keeps keeps_lists_simple)+
  moreover have "phase False (store_skipped en)"
    unfolding store_skipped_def by (rule phase_keeps) (intro keeps_intros)
  ultimately show ?thesis
    unfolding finish_def mark_good_thrashed_def store_good_def drive_exit_def
    by (intro phase_intros phase_save phase_light moves_keeps keeps_lists_simple)
qed

lemma phase_drivetest: "phase True (drivetest fuel en op)"
  unfolding drivetest_def drive_exit_def by (intro phase_intros phase_weaken[OF phase_tests] phase_weaken[OF phase_finish])

text \<open>The library's drives, each found once, in some order.\<close>

definition found_ok :: "(tdrive list \<Rightarrow> tdrive list) \<Rightarrow> (tdrive \<times> bool) list \<Rightarrow> bool" where
  "found_ok sort_drives found = (distinct (map fst found) \<and> mset (sort_drives (map fst (filter snd found))) = mset (map fst (filter snd found)))"

lemma distinct_usable: "distinct (map fst found) \<Longrightarrow> distinct (map fst (filter snd found))"
  by (induction found) auto

lemma new_manager_ok:
  assumes "found_ok sort_drives found"
  shows "manager_ok (new_manager sort_drives found)" and "set (dt_all (new_manager sort_drives found)) = {d. (d, True) \<in> set found}"
proof -
  let ?ds = "map fst (filter snd found)"
  from assms have "distinct ?ds" "mset (sort_drives ?ds) = mset ?ds" by (auto simp: found_ok_def intro: distinct_usable)
  then have "distinct (sort_drives ?ds)" "set (sort_drives ?ds) = set ?ds"
    using mset_eq_imp_distinct_iff mset_eq_setD by blast+
  then show "manager_ok (new_manager sort_drives found)" "set (dt_all (new_manager sort_drives found)) = {d. (d, True) \<in> set found}"
    by (auto simp: manager_ok_def new_manager_def Let_def image_iff)
qed

text \<open>C11: however a run of the disk test ends, the drives it found are shared out among the good, the skipped and the bad drives: every one
  is in exactly one of them, once.\<close>

theorem drives_partitioned:
  assumes "found_ok sort_drives found"
  shows "let t = snd (drivetest fuel en op (new_manager sort_drives found)) in
     manager_ok t \<and> set (dt_all t) = {d. (d, True) \<in> set found}"
proof -
  have "shrinks True (new_manager sort_drives found) (snd (drivetest fuel en op (new_manager sort_drives found)))"
    using phase_drivetest new_manager_ok(1)[OF assms] by (auto simp: phase_def)
  then show ?thesis using new_manager_ok[OF assms] by (auto simp: shrinks_def Let_def)
qed

end
