(* ===== verification/Dtest_Safety.thy ===== *)
theory Dtest_Safety
  imports Dtest_Props
begin

text \<open>
  Which drives the disk test runs commands on, and which commands: \<open>skipped_never_tested\<close> and \<open>nondestructive\<close>.
\<close>

section \<open>The commands that were run\<close>

text \<open>A property of every drive and command that is recorded, and of the drives that are still good, and, unless \<open>W\<close> holds, nothing
  written.\<close>

definition traced :: "(tdrive \<Rightarrow> bool) \<Rightarrow> (tdrive \<Rightarrow> string \<Rightarrow> bool) \<Rightarrow> bool \<Rightarrow> dtest \<Rightarrow> bool" where
  "traced G C W s = (list_all G (dt_good s) \<and> list_all (\<lambda>(d, c). G d \<and> C d c) (dt_ran s) \<and> (W \<or> dt_written s = []))"

definition trace :: "dtest \<Rightarrow> tdrive list \<times> (tdrive \<times> string) list \<times> (string \<times> string) list" where
  "trace s = (dt_good s, dt_ran s, dt_written s)"

lemma traced_trace: "trace t = trace s \<Longrightarrow> traced G C W s \<Longrightarrow> traced G C W t"
  by (simp add: traced_def trace_def)

lemma keeps_trace [keeps_intros]:
  "keeps trace (tell l)" "keeps trace (nap t)" "keeps trace (plato_call c f)" "keeps trace (await fuel en w)"
proof -
  show t: "keeps trace (tell l)" for l unfolding tell_def by (rule keeps_modify) (simp add: trace_def)
  show "keeps trace (nap t)" unfolding nap_def by (rule keeps_modify) (simp add: trace_def)
  show "keeps trace (plato_call c f)" unfolding plato_call_def by (intro keeps_intros) (simp add: trace_def)
  show "keeps trace (await fuel en w)"
  proof (induction fuel)
    case (Suc fuel)
    show ?case unfolding await.simps by (intro keeps_intros Suc t) (simp add: trace_def)
  qed (simp add: keeps_basic)
qed

lemma keeps_trace_calls [keeps_intros]:
  "keeps trace (reportFail en d r)" "keeps trace (allreadyDead en d)" "keeps trace (allreadyThrashed en d)" "keeps trace (saved pe msg c)"
  "keeps trace (mark_thrashed en d)" "keeps trace (store_drive en d)" "keeps trace (getEvaluator en)" "keeps trace (tell_lastlines ls)"
  unfolding reportFail_def allreadyDead_def allreadyThrashed_def saved_def mark_thrashed_def store_drive_def markThrashed_def removeDrive_def
    getEvaluator_def tell_lastlines_def
  by (auto intro!: keeps_intros split: option.split)

lemmas traced_keeps = preserves_keeps[where f = trace, OF _ traced_trace]

lemma traced_simple [preserves_intros]:
  "preserves (traced G C W) (tell l)" "preserves (traced G C W) (nap t)" "preserves (traced G C W) (mark_thrashed en d)"
  "preserves (traced G C W) (store_drive en d)" "preserves (traced G C W) (getEvaluator en)" "preserves (traced G C W) (tell_lastlines ls)"
  "preserves (traced G C W) (await fuel en w)" "preserves (traced G C W) (plato_call c f)"
  by (auto intro!: traced_keeps intro: keeps_trace keeps_trace_calls)

lemma traced_prune [preserves_intros]: "preserves (traced G C W) (prune en d r rep sk)"
  unfolding prune_def
  by (intro preserves_intros preserves_modify traced_keeps[OF keeps_trace_calls(1)])
    (auto simp: traced_def list_all_iff dest: notin_set_remove1 set_remove1_subset[THEN subsetD])

lemma traced_on_good [preserves_intros]:
  assumes "\<And>d. G d \<Longrightarrow> preserves (traced G C W) (body d)"
  shows "preserves (traced G C W) (on_good body)"
  unfolding on_good_def
proof (rule preserves_gets)
  fix ds s assume "traced G C W s" "ds = dt_good s"
  then have "\<forall>d \<in> set ds. G d" by (simp add: traced_def list_all_iff)
  then have "preserves (traced G C W) (for_each ds body)" using assms by (intro preserves_intros) auto
  with \<open>traced G C W s\<close> show "traced G C W (snd (for_each ds body s))" by (rule preservesD[rotated])
qed

lemma traced_start: "G d \<Longrightarrow> C d cmd \<Longrightarrow> preserves (traced G C W) (start d cmd)"
  unfolding start_def by (rule preserves_modify) (simp add: traced_def)

lemma traced_run_one: "G d \<Longrightarrow> C d cmd \<Longrightarrow> preserves (traced G C W) (run_one en inp d cmd)"
  unfolding run_one_def by (auto intro!: preserves_intros traced_start split: prod.split)

text \<open>What a template may become.\<close>

definition renders :: "(tdrive \<Rightarrow> bool) \<Rightarrow> (tdrive \<Rightarrow> string \<Rightarrow> bool) \<Rightarrow> string \<Rightarrow> bool" where
  "renders G C cmd = (\<forall>d c. G d \<longrightarrow> py_format cmd (drive_fields d) = Inr c \<longrightarrow> C d c)"

lemma traced_each_drive: "renders G C cmd \<Longrightarrow> \<forall>d \<in> set ds. G d \<Longrightarrow> preserves (traced G C W) (each_drive en cmd inp bl ds)"
proof (induction ds arbitrary: bl)
  case (Cons d ds)
  then show ?case
    by (auto simp: renders_def intro!: preserves_if preserves_lift preserves_seq traced_run_one)
qed (simp add: preserves_basic)

lemma traced_start_all: "renders G C cmd \<Longrightarrow> \<forall>d \<in> set ds. G d \<Longrightarrow> preserves (traced G C W) (start_all en cmd bl ds)"
proof (induction ds arbitrary: bl)
  case (Cons d ds)
  then show ?case
    by (auto simp: renders_def intro!: preserves_if preserves_lift preserves_bnd preserves_seq preserves_basic traced_simple traced_start)
qed (simp add: preserves_basic)

lemma traced_wait_rounds [preserves_intros]: "preserves (traced G C W) (wait_rounds fuel clock t0 mt fin k ps)"
  by (induction fuel arbitrary: fin k ps) (auto intro!: preserves_intros)

lemma traced_settle [preserves_intros]: "preserves (traced G C W) (settle en k p)"
proof -
  have "preserves (traced G C W) (modify (\<lambda>s. s\<lparr>dt_killed := dt_killed s @ x\<rparr>))" for x
    by (rule preserves_modify) (simp add: traced_def)
  then show ?thesis unfolding settle_def Let_def by (auto intro!: preserves_intros split: option.split)
qed

lemma traced_settle_all [preserves_intros]: "preserves (traced G C W) (settle_all en k ps)"
  by (induction ps) (auto intro!: preserves_intros)

lemma good_all: "traced G C W s \<Longrightarrow> \<forall>d \<in> set (dt_good s). G d"
  by (simp add: traced_def list_all_iff)

lemma traced_each [preserves_intros]: "renders G C cmd \<Longrightarrow> preserves (traced G C W) (runOnEachDrive en cmd inp)"
  unfolding runOnEachDrive_def
  by (intro preserves_gets) (auto simp: ret_apply intro!: preservesD[OF traced_each_drive] dest: good_all)

lemma traced_wait [preserves_intros]: "renders G C cmd \<Longrightarrow> preserves (traced G C W) (runOnEachDriveWait fuel en cmd mt)"
  unfolding runOnEachDriveWait_def
proof (rule preserves_gets)
  fix ds s assume r: "renders G C cmd" and t: "traced G C W s" "ds = dt_good s"
  have "preserves (traced G C W) (bnd (start_all en cmd [] ds) (\<lambda>ps. bnd (gets (\<lambda>s. te_clock en (dt_cmds s))) (\<lambda>clock.
       bnd (wait_rounds fuel clock (clock 0) mt False 0 ps) (\<lambda>(k, ps1). settle_all en k ps1))))"
    using r good_all[OF t(1)] t(2) by (auto intro!: preserves_intros traced_start_all split: prod.split)
  then show "traced G C W (snd ((if ds = [] then ret [] else
       bnd (start_all en cmd [] ds) (\<lambda>ps. bnd (gets (\<lambda>s. te_clock en (dt_cmds s))) (\<lambda>clock.
       bnd (wait_rounds fuel clock (clock 0) mt False 0 ps) (\<lambda>(k, ps1). settle_all en k ps1)))) s))"
    using t(1) by (auto simp: ret_apply preserves_def)
qed

lemma traced_evaluate [preserves_intros]: "preserves (traced G C W) (evaluate en d operation)"
proof -
  have "preserves (traced G C W) (modify (\<lambda>s. s\<lparr>dt_scans := f s\<rparr>))" for f
    by (rule preserves_modify) (simp add: traced_def)
  moreover have "preserves (traced G C W) (modify (\<lambda>s. if g s then s\<lparr>dt_initial := f s\<rparr> else s))" for f g
    by (rule preserves_modify) (simp add: traced_def)
  ultimately show ?thesis
    unfolding evaluate_def evaluate_local_def evaluate_report_def
    by (auto intro!: preserves_intros split: option.split sum.split prod.split)
qed

lemma traced_scan [preserves_intros]: "preserves (traced G C W) (evaluate_all en operation)"
  unfolding evaluate_all_def by (intro preserves_intros)

section \<open>The whole program\<close>

text \<open>The templates that a run with some options can use.\<close>

definition uses :: "test_options \<Rightarrow> test_parms \<Rightarrow> string \<Rightarrow> bool" where
  "uses op tp cmd = (cmd \<in> {suspend_cmd, wake_cmd, conveyance_cmd, short_cmd, selftest_cmd}
     \<or> (\<exists>n \<in> {op_round1 op, op_round2 op}. py_format (thrash_cmd tp) ((''count'', PInt n) # keep_fields) = Inr cmd)
     \<or> (\<exists>n \<in> {op_round1 op, op_round2 op}. let tmp = n div 200 in
          py_format (munch_cmd tp) ([(''rand'', PInt (tmp * 58)), (''sweep'', PInt (tmp * 10)), (''full'', PInt tmp), (''count'', PInt 2)] @ keep_fields) = Inr cmd)
     \<or> (op_destructive op \<and> cmd \<in> {fdisk_cmd, format_cmd, mkdir_cmd, mount_fs_cmd, unmount_cmd, fsck_cmd, clear_cmd, wipe_cmd, bonnie_cmd tp}))"

lemma traced_tests:
  assumes "\<And>cmd. uses op tp cmd \<Longrightarrow> renders G C cmd"
  shows "preserves (traced G C W) (the_tests fuel en op tp)"
proof -
  have r: "renders G C suspend_cmd" "renders G C wake_cmd" "renders G C conveyance_cmd" "renders G C short_cmd" "renders G C selftest_cmd"
    by (rule assms, simp add: uses_def)+
  have d: "renders G C fdisk_cmd" "renders G C format_cmd" "renders G C mkdir_cmd" "renders G C mount_fs_cmd" "renders G C unmount_cmd"
    "renders G C fsck_cmd" "renders G C clear_cmd" "renders G C wipe_cmd" "renders G C (bonnie_cmd tp)" if "op_destructive op"
    by (rule assms, simp add: uses_def that)+
  have cool: "preserves (traced G C W) (doSpinDownSleep en delay)" for delay
    unfolding doSpinDownSleep_def by (intro preserves_intros r)
  have scan: "preserves (traced G C W) (cooldown_scan en delay operation)" "preserves (traced G C W) (cooldown en delay)" for delay operation
    unfolding cooldown_scan_def cooldown_def by (intro preserves_intros cool)+
  have thrash: "preserves (traced G C W) (doThrash fuel en tp n mt)" if "n \<in> {op_round1 op, op_round2 op}" for n mt
    using that unfolding doThrash_def by (rule_tac preserves_lift, intro preserves_intros assms) (auto simp: uses_def)
  have munch: "preserves (traced G C W) (doMunch fuel en tp n mt)" if "n \<in> {op_round1 op, op_round2 op}" for n mt
    using that unfolding doMunch_def Let_def by (rule_tac preserves_lift, intro preserves_intros assms) (auto simp: uses_def Let_def)
  have rounds: "preserves (traced G C W) (round_of fuel en op tp n mt operation)" if "n \<in> {op_round1 op, op_round2 op}" for n mt operation
    using that unfolding round_of_def by (intro preserves_intros thrash munch)
  show ?thesis
    unfolding the_tests_def filesystem_tests_def wipe_tests_def doPartitionFormatMount_def doUnmountCheckFilesystem_def doFilesystemTest_def
      doClearPartitionTable_def doWipeDrive_def doConveyanceTest_def doShortSelfTest_def doSelfTest_def quiet_wait_def
    by (intro preserves_intros cool scan rounds r d insertI1 insertI2) auto
qed

lemma traced_finish:
  assumes "op_destructive op \<longrightarrow> W"
  shows "preserves (traced G C W) (finish fuel en op)"
proof -
  have l: "preserves (traced G C W) (modify (\<lambda>s. s\<lparr>dt_lit := f s\<rparr>))" for f
    by (rule preserves_modify) (simp add: traced_def)
  have w: "preserves (traced G C True) (modify (\<lambda>s. s\<lparr>dt_written := f s\<rparr>))" for f
    by (rule preserves_modify) (simp add: traced_def)
  have "preserves (traced G C True) (save_bad en d r)" "preserves (traced G C True) (save_good en d)" for d r
    unfolding save_bad_def save_good_def by (auto intro!: preserves_intros w split: option.split)
  then have "preserves (traced G C True) (doSaveResults en)"
    unfolding doSaveResults_def by (auto intro!: preserves_intros)
  then have "preserves (traced G C W) (doSaveResults en)" if W using that by (cases W) simp_all
  with assms show ?thesis
    unfolding finish_def doLightupDrives_def mark_good_thrashed_def store_good_def store_skipped_def drive_exit_def
    by (auto intro!: preserves_intros l)
qed

lemma traced_before: "preserves (traced G C W) (before_tests en op)"
proof -
  have "preserves (traced G C W) (skip_unthrashable en ms d)" for ms d
    unfolding skip_unthrashable_def by (intro preserves_intros)
  moreover have "preserves (traced G C W) (allreadyDead en d)" "preserves (traced G C W) (allreadyThrashed en d)" for d
    by (auto intro!: traced_keeps intro: keeps_trace_calls)
  ultimately show ?thesis
    unfolding before_tests_def pruneAllreadyDead_def skipAllreadyThrashed_def skipUnThrashable_def skipWithFilesystems_def
    by (auto intro!: preserves_intros split: option.split)
qed

text \<open>The state before the tests, and what remains of the run.\<close>

lemma drivetest_parts:
  "\<exists>v. mgr_lists v = mgr_lists s \<and> trace v = trace s \<and>
     (snd (drivetest fuel en op s) = v \<or> snd (drivetest fuel en op s) = snd (before_tests en op v)
      \<or> snd (drivetest fuel en op s) = snd (seq (the_tests fuel en op (setTestParms (op_destructive op) (op_dma op) (op_bonnie op)))
           (finish fuel en op) (snd (before_tests en op v))))"
proof -
  obtain q t where q: "getEvaluator en s = (q, t)" by (cases "getEvaluator en s")
  have k: "keeps mgr_lists (getEvaluator en)" "keeps trace (getEvaluator en)"
    by (auto simp: getEvaluator_def removeDrive_def intro!: keeps_intros split: option.split)
  have t: "mgr_lists t = mgr_lists s" "trace t = trace s" using keepsD[OF k(1) q] keepsD[OF k(2) q] .
  have out: "mgr_lists (t\<lparr>dt_out := x\<rparr>) = mgr_lists s" "trace (t\<lparr>dt_out := x\<rparr>) = trace s" for x
    using t by (simp_all add: mgr_lists_def trace_def)
  let ?v = "t\<lparr>dt_out := dt_out t @ [summary t]\<rparr>"
  obtain b u where b: "before_tests en op ?v = (b, u)" by (cases "before_tests en op ?v")
  consider (stop) e where "q = Inl e" | (empty) "q = Inr ()" "dt_good t = []" | (run) "q = Inr ()" "dt_good t \<noteq> []"
    by (cases q) auto
  then show ?thesis
  proof cases
    case stop
    with q t show ?thesis by (intro exI[of _ t]) (simp add: drivetest_def py_simps)
  next
    case empty
    with q out show ?thesis by (intro exI[of _ "t\<lparr>dt_out := dt_out t @ [''*** No Drives to test ***'']\<rparr>"])
        (simp add: drivetest_def drive_exit_def tell_def py_simps)
  next
    case run
    then have d: "snd (drivetest fuel en op s) = snd (seq (before_tests en op) (seq (the_tests fuel en op
        (setTestParms (op_destructive op) (op_dma op) (op_bonnie op))) (finish fuel en op)) ?v)"
      using q by (simp add: drivetest_def tell_def bnd_apply seq_apply gets_apply modify_apply)
    show ?thesis
    proof (intro exI[of _ ?v] conjI out)
      show "snd (drivetest fuel en op s) = ?v \<or> snd (drivetest fuel en op s) = snd (before_tests en op ?v)
        \<or> snd (drivetest fuel en op s) = snd (seq (the_tests fuel en op (setTestParms (op_destructive op) (op_dma op) (op_bonnie op)))
           (finish fuel en op) (snd (before_tests en op ?v)))"
        unfolding d seq_apply[of "before_tests en op"] b by (cases b) simp_all
    qed
  qed
qed

lemma new_manager_trace: "trace (new_manager sort_drives found) = (dt_good (new_manager sort_drives found), [], [])"
  by (simp add: trace_def new_manager_def Let_def)

lemma traced_nothing: "traced (\<lambda>_. True) (\<lambda>_ _. False) True s \<longleftrightarrow> dt_ran s = []"
  by (cases "dt_ran s") (auto simp: traced_def list_all_iff)


section \<open>Without the destructive option\<close>

lemma py_format_plain: "CHR ''%'' \<notin> set a \<Longrightarrow> py_format (a @ b) vals = rbnd (py_format b vals) (\<lambda>t. Inr (a @ t))"
  by (induction a) (auto simp: rbnd_def split: sum.split)

definition shown_block :: "tdrive \<Rightarrow> string" where
  "shown_block d = (case block_path d of None \<Rightarrow> ''None'' | Some p \<Rightarrow> p)"

text \<open>The commands that leave what is on a drive alone.\<close>

definition thrash_line :: "int \<Rightarrow> tdrive \<Rightarrow> string" where
  "thrash_line n d = ''/sbin/thrash -v -c'' @ show_int n @ '' '' @ shown_block d"

definition munch_line :: "bool \<Rightarrow> int \<Rightarrow> tdrive \<Rightarrow> string" where
  "munch_line dma n d = (let tmp = n div 200 in
     ''/sbin/muncher     -a'' @ show_int (tmp * 58) @ '' -p'' @ show_int (tmp * 10) @ '' -f'' @ show_int tmp @ '' -c2 -toff''
       @ (if dma then '' -d '' else '' '') @ td_libdrive d)"

definition harmless :: "test_options \<Rightarrow> tdrive \<Rightarrow> string \<Rightarrow> bool" where
  "harmless op d c = (c \<in> set (
     map (\<lambda>p. p @ td_libdrive d) [''/bin/drivepower -i '', ''/bin/drivepower -a '', ''/sbin/selftest -k -i 120 --long-or-short '',
       ''/sbin/selftest -k -i 120 --short '', ''/sbin/selftest -k -i 120 --conveyance-or-short '']
     @ map (\<lambda>n. thrash_line n d) [op_round1 op, op_round2 op] @ map (\<lambda>n. munch_line (op_dma op) n d) [op_round1 op, op_round2 op]))"

lemma show_int_plain: "CHR ''%'' \<notin> set (show_int n)"
proof -
  have "CHR ''%'' \<notin> set (show_nat k)" for k
    using show_nat_digits[of k] by (auto simp: list_all_iff is_digit_def)
  then show ?thesis by (simp add: show_int_def)
qed

lemmas field_simps_cmd = py_format_plain[OF show_int_plain] rbnd_def render_value_def dindex_def drive_fields_def opt_str_def keep_fields_def

lemma thrash_rendered:
  assumes "py_format (thrash_cmd (setTestParms False dma b)) ((''count'', PInt n) # keep_fields) = Inr cmd" and "py_format cmd (drive_fields d) = Inr c"
  shows "c = thrash_line n d"
proof -
  have c: "cmd = ''/sbin/thrash -v -c'' @ (show_int n @ '' %(block_path)s'')"
    using assms(1) by (simp add: setTestParms_def field_simps_cmd)
  show ?thesis using assms(2) unfolding c
    by (simp add: field_simps_cmd thrash_line_def shown_block_def split: option.splits)
qed

lemma munch_rendered:
  assumes "py_format (munch_cmd (setTestParms False dma b)) ([(''rand'', PInt (n div 200 * 58)), (''sweep'', PInt (n div 200 * 10)),
     (''full'', PInt (n div 200)), (''count'', PInt 2)] @ keep_fields) = Inr cmd"
    and "py_format cmd (drive_fields d) = Inr c"
  shows "c = munch_line dma n d"
proof -
  have two: "show_int 2 = ''2''" by code_simp
  have c: "cmd = ''/sbin/muncher     -a'' @ show_int (n div 200 * 58) @ '' -p'' @ show_int (n div 200 * 10) @ '' -f'' @ show_int (n div 200)
      @ '' -c2 -toff'' @ (if dma then '' -d'' else []) @ '' %(libdrive_name)s''"
    using assms(1) by (cases dma) (simp_all add: setTestParms_def field_simps_cmd two)
  show ?thesis using assms(2) unfolding c
    by (cases dma) (simp_all add: field_simps_cmd munch_line_def Let_def)
qed

lemma uses_harmless:
  assumes "\<not> op_destructive op" and "uses op (setTestParms False (op_dma op) b) cmd"
  shows "renders G (harmless op) cmd"
proof -
  consider (fixed) "cmd \<in> {suspend_cmd, wake_cmd, conveyance_cmd, short_cmd, selftest_cmd}"
    | (thrash) n where "n \<in> {op_round1 op, op_round2 op}" "py_format (thrash_cmd (setTestParms False (op_dma op) b)) ((''count'', PInt n) # keep_fields) = Inr cmd"
    | (munch) n where "n \<in> {op_round1 op, op_round2 op}" "py_format (munch_cmd (setTestParms False (op_dma op) b))
        ([(''rand'', PInt (n div 200 * 58)), (''sweep'', PInt (n div 200 * 10)), (''full'', PInt (n div 200)), (''count'', PInt 2)] @ keep_fields) = Inr cmd"
    using assms unfolding uses_def Let_def by blast
  then show ?thesis
  proof cases
    case fixed
    have fields: "dindex (drive_fields d) ''libdrive_name'' = Inr (PStr (td_libdrive d))" for d
      by (simp add: drive_fields_def dindex_def)
    from fixed show ?thesis
      by (auto simp: renders_def harmless_def suspend_cmd_def wake_cmd_def conveyance_cmd_def short_cmd_def selftest_cmd_def fields render_value_def)
  next
    case thrash
    have "c = thrash_line n d" if "py_format cmd (drive_fields d) = Inr c" for d c
      using thrash(2) that by (rule thrash_rendered)
    with thrash(1) show ?thesis unfolding renders_def harmless_def by auto
  next
    case munch
    have "c = munch_line (op_dma op) n d" if "py_format cmd (drive_fields d) = Inr c" for d c
      using munch(2) that by (rule munch_rendered)
    with munch(1) show ?thesis unfolding renders_def harmless_def by auto
  qed
qed

lemma new_manager_untouched: "traced (\<lambda>_. True) C False (new_manager sort_drives found)"
  by (simp add: traced_def new_manager_def Let_def list_all_iff)


end
