(* ===== verification/Dtest_Waits.thy ===== *)
theory Dtest_Waits
  imports Dtest_Props
begin

text \<open>
  Commands on all drives at once: the waiting loop with a time limit ends (\<open>wait_ends\<close>), and afterwards the good drives are those whose
  command ended in time and with code 0 (\<open>late_or_failed_pruned\<close>); and the SMART scans: which attributes make a drive bad
  (\<open>scan_prunes_exactly\<close>).
\<close>

section \<open>Waiting\<close>

text \<open>The waiting loop with a limit: when every round takes a minute at least, there are at most \<open>maxTime\<close> of them.\<close>

lemma wait_rounds_end:
  assumes "\<forall>k. clock (Suc k) \<ge> clock k + 60" and "maxTime > 0" and "clock k \<ge> t0 + of_nat k * 60" and "k \<le> nat maxTime" and "nat maxTime < fuel + k"
  shows "\<exists>k' ps'. wait_rounds fuel clock t0 maxTime fin k ps s = (Inr (k', ps'), s\<lparr>dt_slept := dt_slept s @ replicate (k' - k) 60\<rparr>) \<and> k \<le> k' \<and> k' \<le> nat maxTime"
  using assms(3,4,5)
proof (induction fuel arbitrary: fin k ps s)
  case 0
  then show ?case by simp
next
  case (Suc fuel)
  show ?case
  proof (cases "fin \<or> (maxTime > 0 \<and> clock k \<ge> t0 + of_int (maxTime * 60))")
    case True
    then show ?thesis using Suc.prems by (intro exI[of _ k] exI[of _ ps]) (simp add: ret_apply)
  next
    case False
    have "k \<noteq> nat maxTime"
    proof
      assume "k = nat maxTime"
      then have "of_nat k * 60 = (of_int (maxTime * 60) :: rat)" using assms(2) by (simp add: of_nat_nat)
      with Suc.prems(1) False assms(2) show False by simp
    qed
    then have le: "Suc k \<le> nat maxTime" using Suc.prems(2) by simp
    have "clock (Suc k) \<ge> t0 + of_nat (Suc k) * 60" using Suc.prems(1) spec[OF assms(1), of k] by (simp add: algebra_simps)
    from Suc.IH[OF this le, of "all_done k ps" "map (read_round k) ps" "s\<lparr>dt_slept := dt_slept s @ [60]\<rparr>"] Suc.prems(3)
    obtain k' ps' where k: "wait_rounds fuel clock t0 maxTime (all_done k ps) (Suc k) (map (read_round k) ps) (s\<lparr>dt_slept := dt_slept s @ [60]\<rparr>)
        = (Inr (k', ps'), s\<lparr>dt_slept := (dt_slept s @ [60]) @ replicate (k' - Suc k) 60\<rparr>)" "Suc k \<le> k'" "k' \<le> nat maxTime"
      by auto
    have "[60] @ replicate (k' - Suc k) (60::int) = replicate (k' - k) 60" using k(2)
      by (metis Suc_diff_le append_Cons append_Nil diff_Suc_Suc replicate_Suc)
    with k False show ?thesis
      by (intro exI[of _ k'] exI[of _ ps']) (simp add: nap_def seq_apply modify_apply)
  qed
qed

text \<open>C19: on a machine where every round of sixty seconds takes a minute at least, the waiting loop with a limit of n minutes is left after
  at most n rounds, whatever the processes do, with all drives still listed.\<close>

theorem wait_ends:
  assumes "\<forall>k. clock (Suc k) \<ge> clock k + 60" and "maxTime > 0" and "nat maxTime < fuel"
  shows "\<exists>k ps'. wait_rounds fuel clock (clock 0) maxTime False 0 ps s = (Inr (k, ps'), s\<lparr>dt_slept := dt_slept s @ replicate k 60\<rparr>)
     \<and> k \<le> nat maxTime \<and> map wp_drive ps' = map wp_drive ps"
proof -
  from wait_rounds_end[OF assms(1,2), where k = 0 and ?t0.0 = "clock 0" and fuel = fuel and fin = False and ps = ps and s = s] assms(3) obtain k ps' where
    k: "wait_rounds fuel clock (clock 0) maxTime False 0 ps s = (Inr (k, ps'), s\<lparr>dt_slept := dt_slept s @ replicate k 60\<rparr>)" "k \<le> nat maxTime"
    by auto
  with waited_drives[OF k(1)] show ?thesis by blast
qed


text \<open>What the end of a process does to its drive.\<close>

lemma prune_good: "\<exists>t. prune en d r rep False s = (Inr (), t) \<and> dt_good t = remove1 d (dt_good s) \<and> dt_ran t = dt_ran s"
  by (cases "te_plato en") (auto simp: prune_def reportFail_def plato_call_def py_simps)

lemma settle_good:
  "\<exists>l t. settle en k p s = (Inr (wp_drive p, l), t) \<and> dt_ran t = dt_ran s
     \<and> dt_good t = (if tp_last (wp_proc p) = Some 0 then dt_good s else remove1 (wp_drive p) (dt_good s))"
proof -
  have q: "\<exists>t. prune en d r rep False u = (Inr (), t) \<and> dt_good t = remove1 d (dt_good u) \<and> dt_ran t = dt_ran u" for d r rep u
    by (rule prune_good)
  show ?thesis
  proof (cases "tp_last (wp_proc p)")
    case None
    obtain t where "prune en (wp_drive p) (quoted (wp_cmd p) @ '' did not complete in time'') True False
        (s\<lparr>dt_out := dt_out s @ [''Timed out for '' @ td_name (wp_drive p)]\<rparr>) = (Inr (), t)"
      "dt_good t = remove1 (wp_drive p) (dt_good s)" "dt_ran t = dt_ran s"
      using q[of "wp_drive p" _ True "s\<lparr>dt_out := dt_out s @ [''Timed out for '' @ td_name (wp_drive p)]\<rparr>"] by fastforce
    then show ?thesis by (simp add: settle_def Let_def read_round_def None tell_def nap_def py_simps)
  next
    case (Some rc)
    show ?thesis
    proof (cases "rc = 0")
      case True
      then show ?thesis by (simp add: settle_def Let_def read_round_def Some py_simps)
    next
      case False
      let ?p = "read_round k p"
      let ?u = "s\<lparr>dt_out := dt_out s @ [''Failed on '' @ td_name (wp_drive p), ''Error: '' @ quoted (strip (wp_err ?p))]\<rparr>"
      obtain t where "prune en (wp_drive p) (failed (wp_cmd p) rc (strip (wp_out ?p)) (strip (wp_err ?p))) True False ?u = (Inr (), t)"
        "dt_good t = remove1 (wp_drive p) (dt_good s)" "dt_ran t = dt_ran s"
        using q[of "wp_drive p" _ True ?u] by fastforce
      then show ?thesis using False by (simp add: settle_def Let_def read_round_def Some tell_def py_simps)
    qed
  qed
qed

lemma settle_all_good:
  assumes "distinct (dt_good s)" and "settle_all en k ps s = (Inr ls, t)"
  shows "dt_ran t = dt_ran s \<and> map fst ls = map wp_drive ps
     \<and> set (dt_good t) = set (dt_good s) - {wp_drive p | p. p \<in> set ps \<and> tp_last (wp_proc p) \<noteq> Some 0} \<and> distinct (dt_good t)"
  using assms
proof (induction ps arbitrary: s ls)
  case Nil
  then show ?case by (simp add: py_simps)
next
  case (Cons p ps)
  from settle_good[of en k p s] obtain l u where u: "settle en k p s = (Inr (wp_drive p, l), u)" "dt_ran u = dt_ran s"
    "dt_good u = (if tp_last (wp_proc p) = Some 0 then dt_good s else remove1 (wp_drive p) (dt_good s))" by blast
  with Cons.prems(2) obtain ls' where ls: "ls = (wp_drive p, l) # ls'" "settle_all en k ps u = (Inr ls', t)"
    by (auto simp: bnd_apply ret_apply split: prod.splits sum.splits)
  have "distinct (dt_good u)" using u(3) Cons.prems(1) by simp
  from Cons.IH[OF this ls(2)] show ?case using u(2,3) ls(1) Cons.prems(1) by auto
qed

lemma start_all_ran:
  assumes "\<And>h c. te_proc en h c = P c" and "start_all en cmd bl ds s = (Inr ps, t)"
  shows "dt_ran t = dt_ran s @ map (\<lambda>p. (wp_drive p, wp_cmd p)) ps \<and> dt_good t = dt_good s \<and> (\<forall>p \<in> set ps. wp_proc p = P (wp_cmd p))"
  using assms(2)
proof (induction ds arbitrary: bl s ps)
  case Nil
  then show ?case by (simp add: py_simps)
next
  case (Cons d ds)
  show ?case
  proof (cases "passed_over cmd bl d")
    case True
    with Cons show ?thesis by simp
  next
    case False
    with Cons.prems obtain c ps' u where c: "start_all en cmd (bl @ [td_block d]) ds u = (Inr ps', t)" "dt_ran u = dt_ran s @ [(d, c)]"
      "dt_good u = dt_good s" "ps = \<lparr>wp_drive = d, wp_cmd = c, wp_proc = P c, wp_out = [], wp_err = []\<rparr> # ps'"
      by (fastforce simp: ret_apply gets_apply lift_apply start_def nap_def modify_apply assms(1) elim!: bnd_InrE seq_InrE)
    from Cons.IH[OF c(1)] c show ?thesis by auto
  qed
qed

lemma wait_rounds_same:
  "wait_rounds fuel clock t0 mt fin k ps s = (Inr (k', ps'), t) \<Longrightarrow>
     map (\<lambda>p. (wp_drive p, wp_cmd p, wp_proc p)) ps' = map (\<lambda>p. (wp_drive p, wp_cmd p, wp_proc p)) ps \<and> dt_ran t = dt_ran s \<and> dt_good t = dt_good s"
proof (induction fuel arbitrary: fin k ps s)
  case 0
  then show ?case by (simp add: py_simps)
next
  case (Suc fuel)
  from Suc.prems show ?case
    by (auto simp: ret_apply read_round_def comp_def nap_def modify_apply split: if_splits elim!: seq_InrE dest!: Suc.IH)
qed

text \<open>C18: after a command was run on all drives at once, the good drives are exactly those that were good before and for which every process
  that was started ended in time and with code 0.\<close>

theorem late_or_failed_pruned:
  assumes "manager_ok s" and "\<And>h c. te_proc en h c = P c" and "runOnEachDriveWait fuel en cmd maxTime s = (Inr ls, t)"
  shows "\<exists>ran. dt_ran t = dt_ran s @ ran \<and> map fst ls = map fst ran
     \<and> set (dt_good t) = {d \<in> set (dt_good s). \<forall>c. (d, c) \<in> set ran \<longrightarrow> tp_last (P c) = Some 0}"
proof (cases "dt_good s = []")
  case True
  with assms(3) show ?thesis by (simp add: runOnEachDriveWait_def py_simps)
next
  case False
  with assms(3) obtain ps u k ps' v where s: "start_all en cmd [] (dt_good s) s = (Inr ps, u)"
    and w: "wait_rounds fuel (te_clock en (dt_cmds u)) (te_clock en (dt_cmds u) 0) maxTime False 0 ps u = (Inr (k, ps'), v)"
    and e: "settle_all en k ps' v = (Inr ls, t)"
    by (auto simp: runOnEachDriveWait_def gets_apply elim!: bnd_InrE)
  note s' = start_all_ran[OF assms(2) s] and w' = wait_rounds_same[OF w]
  have "distinct (dt_good v)" using assms(1) s' w' by (simp add: manager_ok_def)
  note e' = settle_all_good[OF this e]
  let ?t = "\<lambda>p. (wp_drive p, wp_cmd p, wp_proc p)"
  have ps: "map ?t ps' = map ?t ps" using w' by simp
  have "map wp_drive ps' = map fst (map ?t ps')" by simp
  then have d: "map wp_drive ps' = map wp_drive ps" unfolding ps by simp
  have i: "{wp_drive p | p. p \<in> set ps' \<and> tp_last (wp_proc p) \<noteq> Some 0} = {d. \<exists>c q. (d, c, q) \<in> set (map ?t ps') \<and> tp_last q \<noteq> Some 0}"
    by (auto simp: image_iff)
  have "{wp_drive p | p. p \<in> set ps' \<and> tp_last (wp_proc p) \<noteq> Some 0}
      = {d. \<exists>c. (d, c) \<in> set (map (\<lambda>p. (wp_drive p, wp_cmd p)) ps) \<and> tp_last (P c) \<noteq> Some 0}"
    unfolding i ps using s' by (auto simp: image_iff)
  then show ?thesis using s' w' e' d by (intro exI[of _ "map (\<lambda>p. (wp_drive p, wp_cmd p)) ps"]) auto
qed


section \<open>SMART scans\<close>

definition offends :: "smart_limits \<Rightarrow> (int, int) dict \<Rightarrow> int \<times> int \<Rightarrow> bool" where
  "offends limits initial = (\<lambda>(attrib, v). case map_of limits attrib of
       None \<Rightarrow> False
     | Some (desc, max_value, max_rate) \<Rightarrow> v > max_value \<or> (case map_of initial attrib of None \<Rightarrow> False | Some v0 \<Rightarrow> v - v0 > max_rate))"

lemma check_attribs_spec:
  "\<exists>r. check_attribs operation (Some limits) initial attrs = Inr r \<and> (r = None \<longleftrightarrow> \<not> list_ex (offends limits initial) attrs)"
proof (induction attrs)
  case (Cons x attrs)
  obtain a v where x: "x = (a, v)" by (cases x)
  have "offends limits initial (a, v) = (case map_of limits a of None \<Rightarrow> False
     | Some (desc, max_value, max_rate) \<Rightarrow> v > max_value \<or> (case map_of initial a of None \<Rightarrow> False | Some v0 \<Rightarrow> v - v0 > max_rate))"
    by (simp add: offends_def)
  with Cons show ?case unfolding x by (auto split: option.splits)
qed simp

text \<open>C20: A SMART scan of a good drive by the local evaluator makes the drive bad exactly when a reported attribute is above its limit or has
  grown since the first scan by more than its rate; otherwise nothing moves, and the values of the first scan are kept.\<close>

theorem scan_prunes_exactly:
  assumes "te_plato en = None" and "te_smart en (dt_scans s) d = Inr attrs" and "smart_attribs (getType (td_model d)) = Some limits"
    and "manager_ok s" and "d \<in> set (dt_good s)"
  defines "initial \<equiv> (case map_of (dt_initial s) d of None \<Rightarrow> attrs | Some a \<Rightarrow> a)"
  shows "\<exists>t. evaluate en d operation s = (Inr (), t) \<and> dt_calls t = dt_calls s \<and> map_of (dt_initial t) d = Some initial
     \<and> (if list_ex (offends limits initial) attrs then set (dt_good t) = set (dt_good s) - {d} \<and> d \<in> set (dkeys (dt_bad t))
        else dt_good t = dt_good s \<and> dt_bad t = dt_bad s)"
proof -
  from check_attribs_spec[of operation limits initial attrs] obtain r where
    r: "check_attribs operation (Some limits) initial attrs = Inr r" "r = None \<longleftrightarrow> \<not> list_ex (offends limits initial) attrs" by blast
  have g: "distinct (dt_good s)" using assms(4) by (simp add: manager_ok_def)
  have k: "d \<in> set (dkeys (dset d x (dt_bad s)))" for x by (simp only: set_dkeys_dset insertI1)
  show ?thesis
  proof (cases "map_of (dt_initial s) d")
    case None
    then have i: "initial = attrs" by (simp add: initial_def)
    show ?thesis using r g k unfolding i
      by (cases r) (auto simp: evaluate_def evaluate_local_def assms(1,2,3) py_simps None prune_def)
  next
    case (Some a)
    then have i: "initial = a" by (simp add: initial_def)
    show ?thesis using r g k unfolding i
      by (cases r) (auto simp: evaluate_def evaluate_local_def assms(1,2,3) py_simps Some prune_def)
  qed
qed

end
