(* ===== verification/Dtest_Runs.thy ===== *)
theory Dtest_Runs
  imports Dtest_Safety Dtest_Waits
begin

text \<open>
  Runs of the disk test on a machine with three drives: \<open>sda\<close>, which passes, \<open>sdb\<close>, which is virtual, and \<open>sdc\<close>, whose
  self test fails; and what goes wrong in the code.
\<close>

definition test_drive :: "string \<Rightarrow> bool \<Rightarrow> tdrive" where
  "test_drive b virt = \<lparr>td_name = b, td_location = b, td_serial = b, td_model = ''HUA72'', td_block = Some b, td_libdrive = b, td_virtual = virt\<rparr>"

definition three :: "(tdrive \<times> bool) list" where
  "three = [(test_drive ''sda'' False, True), (test_drive ''sdb'' True, True), (test_drive ''sdc'' False, True)]"

definition ended :: "int \<Rightarrow> tproc" where
  "ended rc = \<lparr>tp_rc = \<lambda>k. Some rc, tp_last = Some rc, tp_after_term = Some rc, tp_reads = \<lambda>k. ([], [])\<rparr>"

definition calm :: test_env where
  "calm = \<lparr>te_smart = \<lambda>n d. Inr [(194, 30)], te_status = \<lambda>n d. Inr (), te_plato = None, te_mtab = [], te_partitions = [],
     te_removable = \<lambda>b. None, te_run = \<lambda>h c i. (0, [], []), te_proc = \<lambda>h c. ended (if contains ''sdc'' c then 4 else 0),
     te_clock = \<lambda>h k. 0, te_write = \<lambda>d. True, te_time = [], te_stdin = \<lambda>n. []\<rparr>"

definition selftest_only :: test_options where
  "selftest_only = \<lparr>op_destructive = False, op_thrash = False, op_dma = False, op_round1 = 0, op_round1_time = 0, op_rdelay = 0,
     op_round2 = 0, op_round2_time = 0, op_pdelay = 0, op_bonnie = ''0'', op_bonnie_time = 0, op_bdelay = 0, op_no_wipe = True,
     op_wdelay = 0, op_fdelay = 0, op_no_conveyance = True, op_no_selftest = False, op_short_selftest = False, op_no_saveresults = True,
     op_no_lightup = True, op_no_partition_check = False, op_re_thrash = False\<rparr>"

definition ran_all :: dtest where
  "ran_all = snd (drivetest 2 calm selftest_only (new_manager id three))"


lemma three_found: "found_ok id three"
  by (simp add: found_ok_def three_def test_drive_def)

definition outcome :: "dtest \<Rightarrow> (tdrive \<times> string) list \<times> tdrive list \<times> tdrive list \<times> tdrive list" where
  "outcome s = (dt_ran s, dt_good s, dkeys (dt_skip s), dkeys (dt_bad s))"

lemma ran_all_outcome:
  "outcome ran_all = (map (\<lambda>b. (test_drive b False, ''/sbin/selftest -k -i 120 --long-or-short '' @ b)) [''sda'', ''sdc''],
     [test_drive ''sda'' False], [test_drive ''sdb'' True], [test_drive ''sdc'' False])"
  by code_simp

lemma ran_all_facts: "dt_ran ran_all = map (\<lambda>b. (test_drive b False, ''/sbin/selftest -k -i 120 --long-or-short '' @ b)) [''sda'', ''sdc'']"
  "dt_good ran_all = [test_drive ''sda'' False]" "dkeys (dt_skip ran_all) = [test_drive ''sdb'' True]"
  "dkeys (dt_bad ran_all) = [test_drive ''sdc'' False]"
  using ran_all_outcome by (simp_all add: outcome_def)

theorem drives_partitioned_witness:
  "manager_ok ran_all \<and> set (dt_all ran_all) = {test_drive ''sda'' False, test_drive ''sdb'' True, test_drive ''sdc'' False}"
  using drives_partitioned[OF three_found, of 2 calm selftest_only] by (simp add: ran_all_def Let_def three_def) auto



definition minute_clock :: "nat \<Rightarrow> rat" where
  "minute_clock k = of_nat k * 60"

definition hanging :: wproc where
  "hanging = \<lparr>wp_drive = test_drive ''sda'' False, wp_cmd = [], wp_proc = (ended 0)\<lparr>tp_rc := \<lambda>k. None, tp_last := None\<rparr>, wp_out = [], wp_err = []\<rparr>"

theorem wait_ends_witness:
  "\<exists>k ps'. wait_rounds 6 minute_clock (minute_clock 0) 5 False 0 [hanging] ran_all = (Inr (k, ps'), ran_all\<lparr>dt_slept := dt_slept ran_all @ replicate k 60\<rparr>)
     \<and> k \<le> nat 5 \<and> map wp_drive ps' = map wp_drive [hanging]"
  by (rule wait_ends) (simp_all add: minute_clock_def algebra_simps)

definition before_wait :: dtest where
  "before_wait = new_manager id [(test_drive ''sdc'' False, True)]"

definition after_wait :: "(tdrive \<times> string) list res \<times> dtest" where
  "after_wait = runOnEachDriveWait 2 calm selftest_cmd 10 before_wait"

lemma one_found: "found_ok id [(test_drive ''sdc'' False, True)]"
  by (simp add: found_ok_def)

lemma after_wait_ends: "after_wait = (Inr (map (\<lambda>b. (b, [] :: string)) [test_drive ''sdc'' False]), snd after_wait)"
proof (rule prod_eqI)
  show "fst after_wait = fst (Inr (map (\<lambda>b. (b, [] :: string)) [test_drive ''sdc'' False]), snd after_wait)"
    unfolding fst_conv by code_simp
qed simp

theorem late_or_failed_pruned_witness:
  "\<exists>ran. dt_ran (snd after_wait) = dt_ran before_wait @ ran
     \<and> map fst (map (\<lambda>b. (b, [] :: string)) [test_drive ''sdc'' False]) = map fst ran
     \<and> set (dt_good (snd after_wait)) = {d \<in> set (dt_good before_wait). \<forall>c. (d, c) \<in> set ran \<longrightarrow> tp_last (ended (if contains ''sdc'' c then 4 else 0)) = Some 0}"
proof (rule late_or_failed_pruned[where P = "\<lambda>c. ended (if contains ''sdc'' c then 4 else 0)"])
  show "manager_ok before_wait" unfolding before_wait_def by (rule new_manager_ok[OF one_found])
  show "te_proc calm h c = ended (if contains ''sdc'' c then 4 else 0)" for h c by (simp add: calm_def)
  show "runOnEachDriveWait 2 calm selftest_cmd 10 before_wait
      = (Inr (map (\<lambda>b. (b, [] :: string)) [test_drive ''sdc'' False]), snd after_wait)"
    using after_wait_ends by (simp only: after_wait_def)
qed

lemma hitachi_limits: "smart_attribs (getType ''HUA72'') = smart_attribs Hitachi"
  by code_simp

definition hot :: test_env where
  "hot = calm\<lparr>te_smart := \<lambda>n d. Inr [(1, 99999), (194, 50)]\<rparr>"

theorem scan_prunes_exactly_witness:
  "\<exists>t. evaluate hot (test_drive ''sdc'' False) ''Initial'' before_wait = (Inr (), t) \<and> set (dt_good t) = set (dt_good before_wait) - {test_drive ''sdc'' False}"
proof -
  let ?d = "test_drive ''sdc'' False"
  have "offends (the (smart_attribs Hitachi)) i (194, 50)" "\<not> offends (the (smart_attribs Hitachi)) i (1, 99999)" for i
    by (simp_all add: offends_def)
  moreover have "smart_attribs (getType (td_model ?d)) = Some (the (smart_attribs Hitachi))"
    by (simp add: test_drive_def hitachi_limits)
  moreover have "te_plato hot = None" "te_smart hot (dt_scans before_wait) ?d = Inr [(1, 99999), (194, 50)]"
    by (simp_all add: hot_def calm_def)
  moreover have "manager_ok before_wait" "?d \<in> set (dt_good before_wait)"
    unfolding before_wait_def using new_manager_ok(1)[OF one_found] by (auto simp: new_manager_def Let_def)
  ultimately show ?thesis
    using scan_prunes_exactly[of hot before_wait ?d "[(1, 99999), (194, 50)]" "the (smart_attribs Hitachi)" "''Initial''"] by fastforce
qed

section \<open>Where the code falls short\<close>

text \<open>The root disk is not recognised as mounted: the names of the mounted devices have lost their directory, the block path has not.\<close>

theorem mounted_never_skipped:
  "mount_names (''/dev/sda1 / ext4 rw 0 0'' @ nl) = Inr [''sda''] \<and> block_path (test_drive ''sda'' False) = Some ''/dev/sda''
     \<and> \<not> is_mounted [''sda''] (test_drive ''sda'' False)"
  by code_simp

text \<open>The last line of an output of one line is its last character.\<close>

theorem last_line_of_one: "newline \<notin> set t \<Longrightarrow> t \<noteq> [] \<Longrightarrow> after_last_newline t = [last t]"
  by (simp add: after_last_newline_def)

text \<open>The scan of a Samsung or an Intel drive raises, and with it the program ends in the middle of the test.\<close>

theorem no_limits_raises:
  assumes "te_plato en = None" and "te_smart en (dt_scans s) d = Inr (a # attrs)" and "getType (td_model d) \<in> {Samsung, IntelSSD}"
  shows "fst (evaluate en d operation s) = Inl KeyError"
proof -
  have "smart_attribs (getType (td_model d)) = None" using assms(3) by auto
  then show ?thesis by (cases a) (simp add: evaluate_def evaluate_local_def assms(1,2) py_simps)
qed

text \<open>What is saved on a good drive has one length.\<close>

lemma fill_length: "510 \<le> length (fill msg)"
proof (induction msg rule: fill.induct)
  case (1 msg)
  then show ?case by (subst fill.simps) auto
qed

lemma pass_record_length: "length (pass_record t) = 510"
  using fill_length by (simp add: pass_record_def)

end
