(* ===== verification/Bootstrapping.thy ===== *)
theory Bootstrapping
  imports Mounting_Props
begin

text \<open>
  The first content of the target, \<open>installer/bootstrap.py\<close>: by debootstrap, from a Red Hat live image or from a tar archive.
  A \<open>ConfigParser\<close> substitutes values for \<open>%\<close> in what it reads; \<open>w_ini\<close> gives the values as they are read.

  \<open>pick_rpms_complete\<close> describes the search for the two packages in the directory page, \<open>redhat_packages_installed\<close> the commands
  of a Red Hat bootstrap, and \<open>bootstrap_confined\<close> where it writes.
\<close>

section \<open>The package names in a directory page\<close>

definition rpm_re :: "string \<Rightarrow> re" where
  "rpm_re pfx = cats [lit [CHR 0x22], Grp 1 (cats [lit pfx, Star (Cls True [(CHR 0x22, CHR 0x22)]), lit ''.rpm'']), lit [CHR 0x22]]"

definition rpm_in :: "string \<Rightarrow> string \<Rightarrow> string option" where
  "rpm_in pfx line = (case re_search (rpm_re pfx) line of None \<Rightarrow> None | Some c \<Rightarrow> map_of c 1)"

definition yum_in :: "string \<Rightarrow> string option" where
  "yum_in = rpm_in ''yum-''"

definition release_in :: "string \<Rightarrow> string option" where
  "release_in = rpm_in ''centos-release-''"

definition keep_last :: "'a option \<Rightarrow> 'a option \<Rightarrow> 'a option" where
  "keep_last old new = (case new of None \<Rightarrow> old | Some x \<Rightarrow> Some x)"

text \<open>A later line replaces a name, until both are known; a name that was found is not empty.\<close>

fun pick_rpms :: "string option \<Rightarrow> string option \<Rightarrow> string list \<Rightarrow> string option \<times> string option" where
  "pick_rpms yum rel [] = (yum, rel)"
| "pick_rpms yum rel (line # lines) =
     (let y = keep_last yum (yum_in line); r = keep_last rel (release_in line) in
      if r \<noteq> None \<and> y \<noteq> None then (y, r) else pick_rpms y r lines)"

section \<open>The three kinds\<close>

definition shown_name :: "string option \<Rightarrow> string" where
  "shown_name f = (case f of None \<Rightarrow> ''None'' | Some n \<Rightarrow> n)"

definition copy_file :: "world \<Rightarrow> string \<Rightarrow> string \<Rightarrow> ('a proc_state_scheme, unit) py" where
  "copy_file w src dst = file_op w dst (CopyFile src dst)"

definition debbootstrap :: "world \<Rightarrow> string \<Rightarrow> string \<Rightarrow> string \<Rightarrow> profile \<Rightarrow> ('a proc_state_scheme, unit) py" where
  "debbootstrap w packages mount_point source p =
     bnd (lift (pget p ''bootstrap'' ''distro'')) (\<lambda>distro.
       execute w (''/usr/sbin/debootstrap --arch amd64 '' @ (if packages = [] then [] else ''--include '' @ packages @ '' '')
         @ distro @ '' '' @ mount_point @ '' '' @ source))"

text \<open>The root file system inside the live image of CentOS 7.\<close>

definition live_rootfs :: "world \<Rightarrow> string \<Rightarrow> ('a proc_state_scheme, unit) py" where
  "live_rootfs w mount_point = block [
     file_op w (mount_point @ ''/rootfs.img'') (Rename (mount_point @ ''/LiveOS/rootfs.img'') (mount_point @ ''/rootfs.img'')),
     file_op w (mount_point @ ''/LiveOS'') (RemoveDir (mount_point @ ''/LiveOS'')),
     file_op w ''/tmp/mnt'' (MakeDir ''/tmp/mnt''),
     execute w (''/bin/mount -oloop,ro '' @ mount_point @ ''/rootfs.img /tmp/mnt''),
     execute w (''/bin/cp -ar /tmp/mnt/. '' @ mount_point),
     execute w ''/bin/umount /tmp/mnt'',
     file_op w (mount_point @ ''/rootfs.img'') (Unlink (mount_point @ ''/rootfs.img'')),
     file_op w ''/tmp/mnt'' (RemoveDir ''/tmp/mnt''),
     copy_file w ''/etc/resolv.conf'' (os_join mount_point ''etc/resolv.conf'')]"

definition install_rpm :: "world \<Rightarrow> string \<Rightarrow> string \<Rightarrow> string option \<Rightarrow> ('a proc_state_scheme, unit) py" where
  "install_rpm w mount_point repo_root filename = block [
     execute w (''/bin/wget -q -O '' @ os_join mount_point ''tmp.rpm'' @ '' '' @ repo_root @ ''Packages/'' @ shown_name filename),
     chroot_execute w ''/usr/bin/rpm -i --nodeps /tmp.rpm'',
     chroot_execute w ''rm /tmp.rpm'']"

definition redhat_rpms :: "world \<Rightarrow> string \<Rightarrow> string \<Rightarrow> ('a proc_state_scheme, unit) py" where
  "redhat_rpms w mount_point repo_root =
     seq (execute w (''/bin/wget -q -O /tmp/pkglist '' @ repo_root @ ''Packages/''))
     (bnd (read_file w ''/tmp/pkglist'') (\<lambda>page.
      let (yum, rel) = pick_rpms None None (file_lines page) in
      seq (execute w ''rm /tmp/pkglist'')
      (seq (install_rpm w mount_point repo_root yum)
        (install_rpm w mount_point repo_root rel))))"

definition redhat_image :: "world \<Rightarrow> string \<Rightarrow> string \<Rightarrow> ('a proc_state_scheme, unit) py" where
  "redhat_image w mount_point repo_root =
     seq (execute w (''/bin/wget -O /tmp/treeinfo '' @ repo_root @ ''.treeinfo''))
     (bnd (gets (\<lambda>s. w_ini w (events s) ''/tmp/treeinfo'')) (\<lambda>treeinfo.
      bnd (lift (pget treeinfo ''stage2'' ''mainimage'')) (\<lambda>image.
      seq (execute w (''/bin/wget -O '' @ mount_point @ ''/bootstrap.img '' @ repo_root @ image))
      (bnd (execute_lines w (''/bin/unsquashfs -d . -ls '' @ mount_point @ ''/bootstrap.img'')) (\<lambda>file_list.
       seq (execute w (''/bin/unsquashfs -f -d '' @ mount_point @ '' '' @ mount_point @ ''/bootstrap.img''))
       (seq (file_op w (mount_point @ ''/bootstrap.img'') (Unlink (mount_point @ ''/bootstrap.img'')))
         (if file_list = [] then throw IndexError
          else whenM (last file_list = ''./LiveOS/rootfs.img'') (live_rootfs w mount_point))))))))"

definition redhatimg :: "world \<Rightarrow> string \<Rightarrow> string \<Rightarrow> profile \<Rightarrow> ('a proc_state_scheme, unit) py" where
  "redhatimg w mount_point source p =
     seq (copy_file w ''/etc/hostname'' (os_join mount_point ''etc/hostname''))
     (seq (copy_file w ''/etc/resolv.conf'' (os_join mount_point ''etc/resolv.conf''))
     (bnd (lift (pget p ''bootstrap'' ''version'')) (\<lambda>version.
      let repo_root = source @ version @ ''/os/x86_64/'' in
      seq (redhat_image w mount_point repo_root) (redhat_rpms w mount_point repo_root))))"

definition tarxz :: "world \<Rightarrow> string \<Rightarrow> string \<Rightarrow> profile \<Rightarrow> ('a proc_state_scheme, unit) py" where
  "tarxz w mount_point source p =
     bnd (lift (pget p ''bootstrap'' ''image'')) (\<lambda>image. block [
       execute w (''/bin/wget -O '' @ mount_point @ ''/bootstrap.tar.xz '' @ source @ image),
       execute w (''/bin/tar -xJf '' @ mount_point @ ''/bootstrap.tar.xz -C '' @ mount_point),
       execute w (''/bin/rm '' @ mount_point @ ''/bootstrap.tar.xz''),
       copy_file w ''/etc/hostname'' (os_join mount_point ''etc/hostname''),
       file_op w (os_join mount_point ''run/systemd/resolve'') (MakeDirs (os_join mount_point ''run/systemd/resolve'')),
       copy_file w ''/etc/resolv.conf'' (os_join mount_point ''run/systemd/resolve/stub-resolv.conf'')])"

definition bootstrap_packages :: "profile \<Rightarrow> string res" where
  "bootstrap_packages p = (case pget p ''bootstrap'' ''packages'' of
       Inl NoOptionError \<Rightarrow> Inr []
     | r \<Rightarrow> r)"

definition bootstrap :: "world \<Rightarrow> string \<Rightarrow> string \<Rightarrow> profile \<Rightarrow> ('a proc_state_scheme, unit) py" where
  "bootstrap w mount_point source p =
     bnd (lift (pget p ''bootstrap'' ''type'')) (\<lambda>bootstrap_type.
     bnd (lift (bootstrap_packages p)) (\<lambda>packages.
       if bootstrap_type = ''debbootstrap'' then debbootstrap w packages mount_point source p
       else if bootstrap_type = ''redhatimg'' then redhatimg w mount_point source p
       else if bootstrap_type = ''tarxz'' then tarxz w mount_point source p
       else throw (PlainException (''Unknown \"'' @ bootstrap_type @ ''\" type''))))"

section \<open>The search\<close>

lemma pick_rpms_some: "fst (pick_rpms (Some y) rel ls) \<noteq> None" "snd (pick_rpms yum (Some r) ls) \<noteq> None"
  by (induction ls arbitrary: y rel yum r) (auto simp: Let_def keep_last_def split: option.splits)

text \<open>Both packages are found exactly when the page has a line for each.\<close>

lemma pick_rpms_complete:
  "fst (pick_rpms yum rel ls) = None \<longleftrightarrow> yum = None \<and> (\<forall>l \<in> set ls. yum_in l = None)"
  "snd (pick_rpms yum rel ls) = None \<longleftrightarrow> rel = None \<and> (\<forall>l \<in> set ls. release_in l = None)"
  by (induction ls arbitrary: yum rel) (auto simp: Let_def keep_last_def split: option.splits)

text \<open>What is found stands on the page.\<close>

lemma pick_rpms_on_page:
  "fst (pick_rpms yum rel ls) = Some y \<Longrightarrow> yum = Some y \<or> (\<exists>l \<in> set ls. yum_in l = Some y)"
  "snd (pick_rpms yum rel ls) = Some r \<Longrightarrow> rel = Some r \<or> (\<exists>l \<in> set ls. release_in l = Some r)"
  by (induction ls arbitrary: yum rel) (simp_all add: Let_def keep_last_def split: if_splits option.splits; metis option.inject option.distinct(1))+

section \<open>Where the bootstrap writes\<close>

text \<open>The paths that an effect other than a command creates, changes or removes.\<close>

fun touched :: "event \<Rightarrow> string list" where
  "touched (WriteFile p t) = [p]"
| "touched (AppendFile p t) = [p]"
| "touched (MakeDirs p) = [p]"
| "touched (MakeDir p) = [p]"
| "touched (RemoveDir p) = [p]"
| "touched (Unlink p) = [p]"
| "touched (Rename p q) = [p, q]"
| "touched (CopyFile src p) = [p]"
| "touched (CopyTree src p) = [p]"
| "touched (AddExec p) = [p]"
| "touched _ = []"

definition confined :: "string \<Rightarrow> event \<Rightarrow> bool" where
  "confined mount_point e = list_all (\<lambda>p. startswith p mount_point \<or> startswith p ''/tmp/'') (touched e)"

lemma startswith_join: "b \<noteq> [] \<Longrightarrow> hd b \<noteq> slash \<Longrightarrow> startswith (os_join a b) a"
  by (auto simp: os_join_def startswith_def)

lemma confined_simps:
  "confined mp (CopyFile src (mp @ x))" "confined mp (Rename (mp @ x) (mp @ y))" "confined mp (RemoveDir (mp @ x))"
  "confined mp (Unlink (mp @ x))" "confined mp (MakeDir ''/tmp/mnt'')" "confined mp (RemoveDir ''/tmp/mnt'')"
  by (simp_all add: confined_def startswith_def)

lemma confined_join:
  assumes "b \<noteq> []" and "hd b \<noteq> slash"
  shows "confined mp (CopyFile src (os_join mp b))" and "confined mp (MakeDirs (os_join mp b))"
  using startswith_join[OF assms] by (simp_all add: confined_def)

lemma confined_commands: "commands \<subseteq> {e. confined mp e}"
  by (auto simp: commands_def confined_def)

lemmas confined_rules = appends_intros confined_commands CollectI confined_simps confined_join

lemma appends_install_rpm: "appends {e. confined mp e} (install_rpm w mp repo f)"
  unfolding install_rpm_def by (intro confined_rules)

lemma appends_redhat_rpms: "appends {e. confined mp e} (redhat_rpms w mp repo)"
  unfolding redhat_rpms_def Let_def by (intro confined_rules appends_install_rpm)

lemma appends_live_rootfs: "appends {e. confined mp e} (live_rootfs w mp)"
  unfolding live_rootfs_def copy_file_def by (intro confined_rules) (simp_all add: slash_def)

lemma appends_redhat_image: "appends {e. confined mp e} (redhat_image w mp repo)"
  unfolding redhat_image_def by (intro confined_rules appends_live_rootfs)

lemma appends_redhatimg: "appends {e. confined mp e} (redhatimg w mp source p)"
  unfolding redhatimg_def copy_file_def Let_def
  by (intro confined_rules appends_redhat_image appends_redhat_rpms) (simp_all add: slash_def)

lemma appends_tarxz: "appends {e. confined mp e} (tarxz w mp source p)"
  unfolding tarxz_def copy_file_def by (intro confined_rules) (simp_all add: slash_def)

lemma bootstrap_writes: "appends {e. confined mp e} (bootstrap w mp source p)"
  unfolding bootstrap_def debbootstrap_def by (intro confined_rules appends_redhatimg appends_tarxz)


section \<open>A Red Hat bootstrap\<close>

text \<open>The page that was downloaded decides which packages are installed; a package that is not on it is asked for as \<open>None\<close>.\<close>

lemma redhat_rpms_commands:
  assumes "all_ok w" and "output_open s" and "\<And>t. w_read w t ''/tmp/pkglist'' = Inr page" and "pick_rpms None None (file_lines page) = (yum, rel)"
  shows "redhat_rpms w mp repo s = (Inr (), ran_all ((''/bin/wget -q -O /tmp/pkglist '' @ repo @ ''Packages/'') # ''rm /tmp/pkglist''
     # concat (map (\<lambda>f. [''/bin/wget -q -O '' @ os_join mp ''tmp.rpm'' @ '' '' @ repo @ ''Packages/'' @ shown_name f,
         chroot_cmd (chroot_path s) ''/usr/bin/rpm -i --nodeps /tmp.rpm'', chroot_cmd (chroot_path s) ''rm /tmp.rpm'']) [yum, rel])) s)"
  using assms by (simp add: redhat_rpms_def install_rpm_def py_simps read_file_def ran_all_def ran_def given_def execute_all_ok chroot_execute_all_ok)


text \<open>On a machine where the commands succeed, a Red Hat bootstrap downloads and installs two packages, first a yum and then a
  centos-release package, each one named on a line of the page, whenever the page names one of each.\<close>

theorem redhat_packages_installed:
  assumes "all_ok w" and "output_open s" and "\<And>t. w_read w t ''/tmp/pkglist'' = Inr page"
    and "\<exists>l \<in> set (file_lines page). yum_in l \<noteq> None" and "\<exists>l \<in> set (file_lines page). release_in l \<noteq> None"
  shows "\<exists>y r ly lr. ly \<in> set (file_lines page) \<and> yum_in ly = Some y \<and> lr \<in> set (file_lines page) \<and> release_in lr = Some r
     \<and> redhat_rpms w mp repo s = (Inr (), ran_all ((''/bin/wget -q -O /tmp/pkglist '' @ repo @ ''Packages/'') # ''rm /tmp/pkglist''
         # concat (map (\<lambda>f. [''/bin/wget -q -O '' @ os_join mp ''tmp.rpm'' @ '' '' @ repo @ ''Packages/'' @ f,
             chroot_cmd (chroot_path s) ''/usr/bin/rpm -i --nodeps /tmp.rpm'', chroot_cmd (chroot_path s) ''rm /tmp.rpm'']) [y, r])) s)"
proof -
  obtain yum rel where p: "pick_rpms None None (file_lines page) = (yum, rel)" by fastforce
  obtain y where y: "yum = Some y" using pick_rpms_complete(1)[of None None "file_lines page"] assms(4) p by (cases yum) auto
  obtain r where r: "rel = Some r" using pick_rpms_complete(2)[of None None "file_lines page"] assms(5) p by (cases rel) auto
  obtain ly where ly: "ly \<in> set (file_lines page)" "yum_in ly = Some y" using pick_rpms_on_page(1)[of None None "file_lines page" y] p y by auto
  obtain lr where lr: "lr \<in> set (file_lines page)" "release_in lr = Some r" using pick_rpms_on_page(2)[of None None "file_lines page" r] p r by auto
  from ly lr redhat_rpms_commands[OF assms(1,2,3) p, of mp repo] show ?thesis
    by (intro exI[of _ y] exI[of _ r] exI[of _ ly] exI[of _ lr]) (simp add: y r shown_name_def)
qed

definition centos_page :: string where
  "centos_page = ''href=\"yum-3.rpm\"'' @ nl @ ''href=\"centos-release-7.rpm\"''"

definition centos_world :: world where
  "centos_world = ok_world\<lparr>w_read := \<lambda>t p. Inr centos_page\<rparr>"

theorem redhat_packages_installed_witness:
  "\<exists>y r ly lr. ly \<in> set (file_lines centos_page) \<and> yum_in ly = Some y \<and> lr \<in> set (file_lines centos_page) \<and> release_in lr = Some r
     \<and> redhat_rpms centos_world ''/target'' ''http://c/'' blank_fs = (Inr (), ran_all (''/bin/wget -q -O /tmp/pkglist http://c/Packages/'' # ''rm /tmp/pkglist''
         # concat (map (\<lambda>f. [''/bin/wget -q -O /target/tmp.rpm http://c/Packages/'' @ f,
             ''/sbin/chroot /target /usr/bin/rpm -i --nodeps /tmp.rpm'', ''/sbin/chroot /target rm /tmp.rpm'']) [y, r])) blank_fs)"
proof -
  have "list_ex (\<lambda>l. yum_in l \<noteq> None) (file_lines centos_page)" "list_ex (\<lambda>l. release_in l \<noteq> None) (file_lines centos_page)" by code_simp+
  then have e: "\<exists>l \<in> set (file_lines centos_page). yum_in l \<noteq> None" "\<exists>l \<in> set (file_lines centos_page). release_in l \<noteq> None"
    by (auto simp: list_ex_iff)
  have w: "all_ok centos_world" "output_open blank_fs" "w_read centos_world t ''/tmp/pkglist'' = Inr centos_page" for t
    by (simp_all add: centos_world_def all_ok_def ok_world_def blank_fs_def)
  from redhat_packages_installed[OF w e, of "''/target''" "''http://c/''"] show ?thesis
    by (simp add: os_join_def chroot_cmd_def blank_fs_def slash_def)
qed

end
