(* ===== verification/Installer_Main.thy ===== *)
theory Installer_Main
  imports Bootstrapping Contractor_Props Config_Props
begin

text \<open>
  The Linux installer, \<open>linux-installer/root/installer.py\<close>, with the part of \<open>installer/config.py\<close> that joins it to the library
  \<open>libconfig\<close>: the program that calls the steps of the other theories in their order. Its state puts their states side by side:
  the installer's own, the Contractor client's, and that of the configuration library with the overlay of the installer.
  \<open>in_msgs\<close> is the history of the messages that were posted; nothing reads it.

  The template engine is a parameter, as is the reading of the rendered profile. Values that the overlay takes are dictionaries, in which
  the order of the keys has no meaning.

  \<open>progress_messages\<close> ties the messages to the steps, \<open>nothing_before_checks\<close> says that the installer does nothing to the machine until
  its own files and its target were found right.
\<close>

section \<open>State and environment\<close>

record installer =
  in_fs :: fs_state
  in_client :: contractor
  in_config :: config
  in_overlay :: "(string, pyval) dict"
  in_msgs :: "string list"

record inst_env =
  ie_world :: world
  ie_cfg :: cfg_env
  ie_server :: server
  ie_rnd :: "nat \<Rightarrow> real"
  ie_bridge_client :: "contractor res" \<comment> \<open>\<open>getClient()\<close> without a job, for the configuration library\<close>
  ie_new_config :: config \<comment> \<open>as the assignments of the constructor leave it\<close>
  ie_template :: "unit res"
  ie_profile :: "(string, pyval) dict \<Rightarrow> profile res"
  ie_executable :: "trace \<Rightarrow> string \<Rightarrow> bool"
  ie_fuel :: nat

definition on_fs :: "(fs_state, 'a) py \<Rightarrow> (installer, 'a) py" where
  "on_fs m = (\<lambda>s. case m (in_fs s) of (r, t) \<Rightarrow> (r, s\<lparr>in_fs := t\<rparr>))"

definition on_client :: "(contractor, 'a) py \<Rightarrow> (installer, 'a) py" where
  "on_client m = (\<lambda>s. case m (in_client s) of (r, t) \<Rightarrow> (r, s\<lparr>in_client := t\<rparr>))"

definition on_config :: "(config, 'a) py \<Rightarrow> (installer, 'a) py" where
  "on_config m = (\<lambda>s. case m (in_config s) of (r, t) \<Rightarrow> (r, s\<lparr>in_config := t\<rparr>))"

definition message :: "inst_env \<Rightarrow> string \<Rightarrow> (installer, unit) py" where
  "message en msg = seq (on_client (postMessage (ie_server en) (ie_rnd en) msg)) (modify (\<lambda>s. s\<lparr>in_msgs := in_msgs s @ [msg]\<rparr>))"

definition inst_exit :: "(installer, 'a) py" where
  "inst_exit = throw (SysExit 1)"

section \<open>config.py\<close>

definition bridge_config :: "inst_env \<Rightarrow> (string, pyval) dict res" where
  "bridge_config en = rbnd (ie_bridge_client en) (\<lambda>c. rbnd (fst (getConfig (ie_server en) (ie_rnd en) None c)) dict_of)"

definition initConfig :: "inst_env \<Rightarrow> (installer, unit) py" where
  "initConfig en =
     seq (lift (rbnd (ie_bridge_client en) (\<lambda>_. Inr ())))
     (seq (modify (\<lambda>s. s\<lparr>in_config := ie_new_config en\<rparr>))
     (seq (on_config checkDB)
     (seq (on_config (updateCacheFromContractor (ie_cfg en) (bridge_config en)))
       (lift (ie_template en)))))"

definition config_values :: "inst_env \<Rightarrow> (installer, (string, pyval) dict) py" where
  "config_values en = on_config (getValues (ie_cfg en) False)"

definition getProfile :: "inst_env \<Rightarrow> (installer, profile) py" where
  "getProfile en = bnd (config_values en) (\<lambda>values. lift (ie_profile en values))"

definition updateConfig :: "string \<Rightarrow> pyval \<Rightarrow> (installer, unit) py" where
  "updateConfig category newvals =
     seq (modify (\<lambda>s. s\<lparr>in_overlay := dset category newvals (in_overlay s)\<rparr>))
     (bnd (gets in_overlay) (\<lambda>ov. on_config (setOverlayValues [(''_installer'', PDict ov)])))"

definition fullConfig :: "inst_env \<Rightarrow> (installer, unit) py" where
  "fullConfig en = bnd (on_config (getTemplateList [])) (\<lambda>ts. on_fs (renderTemplates (ie_world en) ts))"

definition present :: "string \<Rightarrow> string option \<Rightarrow> (string, pyval) dict" where
  "present k v = (case v of None \<Rightarrow> [] | Some x \<Rightarrow> [(k, PStr x)])"

definition fs_dict :: "fs_values \<Rightarrow> pyval" where
  "fs_dict v = PDict ([(''mount_points'', PDict (map (\<lambda>(m, d). (m, PStr d)) (fv_mount_points v))), (''boot_drives'', PList (map PStr (fv_boot_drives v)))]
     @ present ''root_uuid'' (fv_root_uuid v) @ present ''block_device'' (fv_block_device v))"

definition grub_dict :: "grub_values \<Rightarrow> pyval" where
  "grub_dict v = PDict ((''grub_root'', PStr (gv_grub_root v)) # present ''kernel_path'' (gv_kernel v) @ present ''initrd_path'' (gv_initrd v))"

definition update_fs :: "(installer, unit) py" where
  "update_fs = bnd (on_fs fsConfigValues) (\<lambda>v. updateConfig ''filesystem'' (fs_dict v))"

definition update_grub :: "inst_env \<Rightarrow> (installer, unit) py" where
  "update_grub en = bnd (on_fs (grubConfigValues (ie_world en) ''/target'')) (\<lambda>v. updateConfig ''bootloader'' (grub_dict v))"

section \<open>The program\<close>

text \<open>A step: its message, then what it does.\<close>

definition step :: "inst_env \<Rightarrow> string \<Rightarrow> (installer, unit) py \<Rightarrow> (installer, unit) py" where
  "step en msg m = seq (message en msg) m"

definition is_missing_drives :: "exc \<Rightarrow> bool" where
  "is_missing_drives e = (case e of MissingDrives d \<Rightarrow> True | _ \<Rightarrow> False)"

definition load_modules :: "world \<Rightarrow> profile \<Rightarrow> (installer, unit) py" where
  "load_modules w p = on_fs (for_items p ''kernel'' ''load_module_'' (\<lambda>m. execute w (''/sbin/modprobe '' @ m)))"

definition lay_out :: "inst_env \<Rightarrow> profile \<Rightarrow> value_map \<Rightarrow> (installer, unit) py" where
  "lay_out en p value_map = block [
     step en ''Loading Kernel Modules...'' (load_modules (ie_world en) p),
     step en ''Partitioning....'' (on_exc is_missing_drives (on_fs (Partition_Run.partition (ie_world en) p value_map)) inst_exit),
     step en ''Making Filesystems....'' (on_fs (mkfs (ie_world en))),
     update_fs]"

text \<open>The option \<open>type\<close> is compared with \<open>None\<close>, which \<open>get\<close> never gives.\<close>

definition fill_target :: "inst_env \<Rightarrow> (string, pyval) dict \<Rightarrow> profile \<Rightarrow> (installer, unit) py" where
  "fill_target en conf p =
     seq (step en ''Mounting....'' (on_fs (mount (ie_world en) ''/target'' p)))
     (bnd (lift (pget p ''bootstrap'' ''type'')) (\<lambda>_.
      let source = (case map_of conf ''bootstrap_source'' of None \<Rightarrow> PNone | Some v \<Rightarrow> v) in
      if \<not> truthy source then inst_exit
      else step en ''Bootstrapping....''
        (bnd (lift (py_str source)) (\<lambda>src.
         seq (on_fs (bootstrap (ie_world en) ''/target'' src p)) (on_fs (remount (ie_world en)))))))"

definition base_system :: "inst_env \<Rightarrow> profile \<Rightarrow> value_map \<Rightarrow> (installer, unit) py" where
  "base_system en p value_map = (let w = ie_world en in block [
     step en ''Writing fstab....'' (on_fs (writefstab w ''/target'' p)),
     bnd (config_values en) (\<lambda>values. on_fs (writeShellHelper w values)),
     step en ''Setting Up Package Manager...'' (on_fs (configSources w ''/target'' p value_map)),
     step en ''Writing Base OS Config...'' (on_fs (baseConfig w p)),
     step en ''Setting up Diverts....'' (on_fs (divert w p)),
     step en ''Before Base Setup....'' (on_fs (preBaseSetup w p value_map)),
     step en ''Installing Base...'' (seq (on_fs (installBase w ''/target'' p)) (on_fs (remount w))),
     step en ''Setting Up Users....'' (on_fs (setupUsers w ''/target'' p value_map)),
     update_grub en])"

definition packages_and_boot :: "inst_env \<Rightarrow> profile \<Rightarrow> value_map \<Rightarrow> (installer, unit) py" where
  "packages_and_boot en p value_map = (let w = ie_world en in block [
     step en ''Installing Kernel/Boot Loader...'' (on_fs (installBoot w ''/target'' p)),
     step en ''Installing Packages...'' (on_fs (installOtherPackages w p value_map)),
     step en ''Installing Filesystem Utils...'' (on_fs (installFilesystemUtils w p)),
     step en ''Updating Packages...'' (on_fs (updatePackages w)),
     update_grub en,
     step en ''Writing Full Config...'' (fullConfig en),
     step en ''Post Install...'' (on_fs (postInstall w ''/target'' p value_map)),
     step en ''Removing Diverts...'' (on_fs (undivert w p)),
     step en ''Cleaning up...'' (on_fs (cleanPackaging w ''/target'')),
     on_fs (file_op w ''/target/config_data'' (Unlink ''/target/config_data''))])"

definition run_curator :: "inst_env \<Rightarrow> (installer, unit) py" where
  "run_curator en = (let w = ie_world en; templates = ''/target/var/lib/config-curator/templates/linux-installer/'' in
     bnd (gets (\<lambda>s. ie_executable en (events (in_fs s)) ''/target/usr/sbin/config-curator'')) (\<lambda>x.
       whenM x (step en ''Running config-curator...''
         (seq (on_fs (file_op w templates (CopyTree ''/templates'' templates)))
           (on_fs (chroot_execute w ''/usr/sbin/config-curator -c -a -f -b''))))))"

definition finish_target :: "inst_env \<Rightarrow> profile \<Rightarrow> (installer, unit) py" where
  "finish_target en p = (let w = ie_world en in block [
     on_fs (copy_file w ''/tmp/output.log'' ''/target/root/install.log''),
     on_fs (copy_file w ''/tmp/detail.log'' ''/target/root/install.detail.log''),
     step en ''Unmounting...'' (on_fs (unmount (ie_fuel en) w ''/target'' p)),
     message en ''Done!''])"

definition read_config :: "inst_env \<Rightarrow> (installer, (string, pyval) dict) py" where
  "read_config en =
     seq (on_client (login (ie_server en) (ie_rnd en)))
       (bnd (on_client (getConfig (ie_server en) (ie_rnd en) None)) (\<lambda>c. lift (dict_of c)))"

definition install_target :: "(string, pyval) dict \<Rightarrow> pyval" where
  "install_target conf = (case map_of conf ''install_target'' of None \<Rightarrow> PStr ''drive'' | Some v \<Rightarrow> v)"

definition check_start :: "inst_env \<Rightarrow> (string, pyval) dict \<Rightarrow> (installer, unit) py" where
  "check_start en conf =
     seq (on_fs open_output)
     (bnd (on_fs (path_exists (ie_world en) ''/profile'')) (\<lambda>has_profile.
      if \<not> has_profile then inst_exit
      else bnd (on_fs (path_exists (ie_world en) ''/templates'')) (\<lambda>has_templates.
        if \<not> has_templates then inst_exit
        else if install_target conf \<noteq> PStr ''drive'' then inst_exit
        else on_fs (set_chroot ''/target''))))"

definition the_install :: "inst_env \<Rightarrow> (string, pyval) dict \<Rightarrow> (installer, unit) py" where
  "the_install en conf =
     seq (step en ''Setting Up Configurator...'' (seq (initConfig en) update_fs))
     (bnd (config_values en) (\<lambda>value_map.
      bnd (getProfile en) (\<lambda>first_profile.
      seq (lay_out en first_profile value_map)
      (bnd (getProfile en) (\<lambda>p.
       seq (fill_target en conf p)
       (seq (base_system en p value_map)
       (seq (packages_and_boot en p value_map)
       (seq (run_curator en)
         (finish_target en p)))))))))"

definition installer_main :: "inst_env \<Rightarrow> (installer, unit) py" where
  "installer_main en = bnd (read_config en) (\<lambda>conf. seq (check_start en conf) (the_install en conf))"

section \<open>The messages of a run\<close>

definition said_at :: "string list \<Rightarrow> (installer, 'a) py \<Rightarrow> installer \<Rightarrow> bool" where
  "said_at ls m s = (\<exists>j. in_msgs (snd (m s)) = in_msgs s @ take j ls \<and> (\<forall>x. fst (m s) = Inr x \<longrightarrow> length ls \<le> j))"

definition said :: "string list \<Rightarrow> (installer, 'a) py \<Rightarrow> bool" where
  "said ls m = (\<forall>s. said_at ls m s)"

definition says :: "(bool \<Rightarrow> string list) \<Rightarrow> (installer, 'a) py \<Rightarrow> bool" where
  "says f m = (\<forall>s. \<exists>c. said_at (f c) m s)"

lemma said_at_bnd:
  assumes "said_at a m s" and "\<And>x. fst (m s) = Inr x \<Longrightarrow> said_at b (k x) (snd (m s))"
  shows "said_at (a @ b) (bnd m k) s"
proof -
  obtain r t where m: "m s = (r, t)" by (cases "m s")
  from assms(1) m obtain i where i: "in_msgs t = in_msgs s @ take i a" "\<And>x. r = Inr x \<Longrightarrow> length a \<le> i" by (auto simp: said_at_def)
  show ?thesis
  proof (cases r)
    case (Inl e)
    have "take i a = take (min i (length a)) (a @ b)" by (simp add: min_def)
    with m i(1) Inl show ?thesis unfolding said_at_def by (intro exI[of _ "min i (length a)"]) (simp add: bnd_apply)
  next
    case (Inr x)
    with assms(2) m have "said_at b (k x) t" by simp
    then obtain j where "in_msgs (snd (k x t)) = in_msgs t @ take j b" "\<forall>y. fst (k x t) = Inr y \<longrightarrow> length b \<le> j" by (auto simp: said_at_def)
    with m i Inr show ?thesis unfolding said_at_def by (intro exI[of _ "length a + j"]) (simp add: bnd_apply)
  qed
qed

named_theorems said_intros

lemma said_bnd [said_intros]: "said a m \<Longrightarrow> (\<And>x. said b (k x)) \<Longrightarrow> said (a @ b) (bnd m k)"
  unfolding said_def by (intro allI said_at_bnd) simp_all

lemma said_seq [said_intros]: "said a m \<Longrightarrow> said b k \<Longrightarrow> said (a @ b) (seq m k)"
  unfolding seq_def by (rule said_bnd)

lemma said_same: "in_msgs (snd (m s)) = in_msgs s \<Longrightarrow> said_at [] m s"
  by (simp add: said_at_def)

lemma said_quiet [said_intros]:
  "said [] (on_fs f)" "said [] (on_client g)" "said [] (on_config h)" "said [] (lift r)" "said [] (gets q)" "said [] (ret x)"
  unfolding said_def by (auto intro!: said_same simp: on_fs_def on_client_def on_config_def py_simps split: prod.split)

lemma said_throw: "said ls (throw e)"
  unfolding said_def said_at_def by (auto intro: exI[of _ 0] simp: py_simps)

lemma said_exit [said_intros]: "said ls inst_exit"
  unfolding inst_exit_def by (rule said_throw)

lemma said_on_exc [said_intros]: "said [] m \<Longrightarrow> said [] h \<Longrightarrow> said [] (on_exc p m h)"
  unfolding said_def said_at_def by (auto simp: on_exc_apply split: prod.split sum.split) (metis snd_conv)+

lemma said_if [said_intros]: "(b \<Longrightarrow> said ls m) \<Longrightarrow> (\<not> b \<Longrightarrow> said ls k) \<Longrightarrow> said ls (if b then m else k)"
  by simp

lemma said_block [said_intros]: "said [] (block [])" "said a m \<Longrightarrow> said b (block ms) \<Longrightarrow> said (a @ b) (block (m # ms))"
  by (simp_all add: block_simps said_intros)

lemma said_message [said_intros]: "said [msg] (message en msg)"
proof -
  have "said [msg] (modify (\<lambda>s. s\<lparr>in_msgs := in_msgs s @ [msg]\<rparr>))"
    unfolding said_def said_at_def by (auto intro: exI[of _ 1] simp: py_simps)
  from said_seq[OF said_quiet(2) this] show ?thesis unfolding message_def by simp
qed

lemma said_modify: "(\<And>s. in_msgs (f s) = in_msgs s) \<Longrightarrow> said [] (modify f)"
  unfolding said_def by (auto intro: said_same simp: py_simps)

lemma said_eq: "said a m \<Longrightarrow> a = b \<Longrightarrow> said b m"
  by simp

lemma said_step [said_intros]: "said [] m \<Longrightarrow> said [msg] (step en msg m)"
  unfolding step_def using said_seq[OF said_message] by simp

lemma said_assign [said_intros]: "said [] (modify (\<lambda>s. s\<lparr>in_config := f s\<rparr>))" "said [] (modify (\<lambda>s. s\<lparr>in_overlay := g s\<rparr>))"
  by (rule said_modify, simp)+

lemma said_nil_seq: "said [] m \<Longrightarrow> said [] k \<Longrightarrow> said [] (seq m k)"
  using said_seq[of "[]" m "[]" k] by simp

lemma said_update: "said [] (updateConfig c v)"
  unfolding updateConfig_def by (rule said_eq, (rule said_intros)+, simp_all)

lemma said_config [said_intros]: "said [] (initConfig en)" "said [] (getProfile en)" "said [] (config_values en)" "said [] update_fs" "said [] (update_grub en)"
  "said [] (fullConfig en)" "said [] (read_config en)" "said [] (check_start en conf)"
proof -
  show c: "said [] (config_values en)" unfolding config_values_def by (rule said_intros)
  show "said [] (initConfig en)" unfolding initConfig_def by (rule said_eq, (rule said_intros)+, simp_all)
  show "said [] (getProfile en)" unfolding getProfile_def by (rule said_eq, (rule said_intros c)+, simp_all)
  show "said [] update_fs" unfolding update_fs_def by (rule said_eq, (rule said_intros said_update)+, simp_all)
  show "said [] (update_grub en)" unfolding update_grub_def by (rule said_eq, (rule said_intros said_update)+, simp_all)
  show "said [] (fullConfig en)" unfolding fullConfig_def by (rule said_eq, (rule said_intros)+, simp_all)
  show "said [] (read_config en)" unfolding read_config_def by (rule said_eq, (rule said_intros)+, simp_all)
  show "said [] (check_start en conf)" unfolding check_start_def by (rule said_eq, (rule said_intros)+, simp_all)
qed

text \<open>The messages, in the order in which the steps follow each other.\<close>

definition disk_messages :: "string list" where
  "disk_messages = [''Loading Kernel Modules...'', ''Partitioning....'', ''Making Filesystems....'']"

definition fill_messages :: "string list" where
  "fill_messages = [''Mounting....'', ''Bootstrapping....'']"

definition base_messages :: "string list" where
  "base_messages = [''Writing fstab....'', ''Setting Up Package Manager...'', ''Writing Base OS Config...'', ''Setting up Diverts....'',
     ''Before Base Setup....'', ''Installing Base...'', ''Setting Up Users....'']"

definition package_messages :: "string list" where
  "package_messages = [''Installing Kernel/Boot Loader...'', ''Installing Packages...'', ''Installing Filesystem Utils...'', ''Updating Packages...'',
     ''Writing Full Config...'', ''Post Install...'', ''Removing Diverts...'', ''Cleaning up...'']"

definition all_messages :: "bool \<Rightarrow> string list" where
  "all_messages curator = ''Setting Up Configurator...'' # disk_messages @ fill_messages @ base_messages @ package_messages
     @ (if curator then [''Running config-curator...''] else []) @ [''Unmounting...'', ''Done!'']"

lemma said_parts:
  "said disk_messages (lay_out en p vm)" "said fill_messages (fill_target en conf p)" "said base_messages (base_system en p vm)"
  "said package_messages (packages_and_boot en p vm)" "said [''Unmounting...'', ''Done!''] (finish_target en p)"
proof -
  show "said disk_messages (lay_out en p vm)"
    unfolding lay_out_def load_modules_def disk_messages_def by (rule said_eq, (rule said_intros)+, simp_all)
  have b: "said [] (bnd (lift (py_str source)) (\<lambda>src.
         seq (on_fs (bootstrap (ie_world en) ''/target'' src p)) (on_fs (remount (ie_world en)))))" for source
    by (rule said_eq, (rule said_intros)+, simp_all)
  have "said [''Bootstrapping....''] (bnd (lift (pget p ''bootstrap'' ''type'')) (\<lambda>_.
      let source = (case map_of conf ''bootstrap_source'' of None \<Rightarrow> PNone | Some v \<Rightarrow> v) in
      if \<not> truthy source then inst_exit
      else step en ''Bootstrapping....''
        (bnd (lift (py_str source)) (\<lambda>src.
         seq (on_fs (bootstrap (ie_world en) ''/target'' src p)) (on_fs (remount (ie_world en)))))))"
    unfolding Let_def by (rule said_eq, rule said_bnd, rule said_quiet, rule said_if, rule said_exit, rule said_step, rule b, simp)
  from said_seq[OF said_step[OF said_quiet(1)] this] show "said fill_messages (fill_target en conf p)"
    unfolding fill_target_def fill_messages_def by simp
  show "said base_messages (base_system en p vm)"
    unfolding base_system_def base_messages_def Let_def
    by (rule said_eq, (rule said_intros said_nil_seq[OF said_quiet(1) said_quiet(1)])+, simp_all)
  show "said package_messages (packages_and_boot en p vm)"
    unfolding packages_and_boot_def package_messages_def Let_def by (rule said_eq, (rule said_intros)+, simp_all)
  show "said [''Unmounting...'', ''Done!''] (finish_target en p)"
    unfolding finish_target_def Let_def by (rule said_eq, (rule said_intros)+, simp_all)
qed


lemma says_bnd: "said a m \<Longrightarrow> (\<And>x. says f (k x)) \<Longrightarrow> says (\<lambda>c. a @ f c) (bnd m k)"
  unfolding says_def said_def
proof
  fix s assume m: "\<forall>s. said_at a m s" and k: "\<And>x. \<forall>s. \<exists>c. said_at (f c) (k x) s"
  show "\<exists>c. said_at (a @ f c) (bnd m k) s"
  proof (cases "fst (m s)")
    case (Inl e)
    have "said_at (a @ f True) (bnd m k) s" by (rule said_at_bnd) (use m Inl in auto)
    then show ?thesis ..
  next
    case (Inr x)
    from k obtain c where "said_at (f c) (k x) (snd (m s))" by blast
    then have "said_at (a @ f c) (bnd m k) s" using Inr by (intro said_at_bnd) (use m in auto)
    then show ?thesis ..
  qed
qed

lemma says_seq: "said a m \<Longrightarrow> says f k \<Longrightarrow> says (\<lambda>c. a @ f c) (seq m k)"
  unfolding seq_def by (rule says_bnd)

lemma says_eq: "says f m \<Longrightarrow> f = g \<Longrightarrow> says g m"
  by simp

lemma says_tail:
  "says (\<lambda>c. (if c then [''Running config-curator...''] else []) @ [''Unmounting...'', ''Done!'']) (seq (run_curator en) (finish_target en p))"
  unfolding says_def
proof
  fix s :: installer
  let ?x = "ie_executable en (events (in_fs s)) ''/target/usr/sbin/config-curator''"
  let ?ls = "if ?x then [''Running config-curator...''] else []"
  have body: "said [''Running config-curator...''] (step en ''Running config-curator...''
      (seq (on_fs (file_op (ie_world en) d (CopyTree ''/templates'' d))) (on_fs (chroot_execute (ie_world en) c))))" for d c
    by (intro said_step said_nil_seq said_quiet)
  have at_gets: "said_at ls (k (g s)) s \<Longrightarrow> said_at ls (bnd (gets g) k) s" for ls and g :: "installer \<Rightarrow> bool" and k :: "bool \<Rightarrow> (installer, unit) py"
    by (simp add: said_at_def bnd_apply gets_apply)
  have w: "said_at ?ls (whenM ?x m) s" if "said [''Running config-curator...''] m" for m
    using that by (auto simp: said_def whenM_def said_at_def ret_apply)
  have "said_at ?ls (run_curator en) s"
    unfolding run_curator_def Let_def by (intro at_gets w body)
  then have "said_at (?ls @ [''Unmounting...'', ''Done!'']) (seq (run_curator en) (finish_target en p)) s"
    unfolding seq_def by (rule said_at_bnd) (use said_parts(5) in \<open>simp add: said_def\<close>)
  then show "\<exists>c. said_at ((if c then [''Running config-curator...''] else []) @ [''Unmounting...'', ''Done!'']) (seq (run_curator en) (finish_target en p)) s"
    by (rule exI[of _ ?x])
qed

lemma says_install: "says all_messages (the_install en conf)"
  unfolding the_install_def
  by (rule says_eq, rule says_seq[OF said_step[OF said_nil_seq[OF said_config(1) said_config(4)]]], rule says_bnd[OF said_config(3)],
      rule says_bnd[OF said_config(2)], rule says_seq[OF said_parts(1)], rule says_bnd[OF said_config(2)], rule says_seq[OF said_parts(2)],
      rule says_seq[OF said_parts(3)], rule says_seq[OF said_parts(4)], rule says_tail) (simp add: all_messages_def fun_eq_iff)


section \<open>The checks at the start\<close>

lemma events_untouched: "in_fs (snd (on_client m s)) = in_fs s" "in_msgs (snd (on_client m s)) = in_msgs s"
  by (simp_all add: on_client_def split: prod.split)

text \<open>C17: without its profile or its templates the installer does not return and has posted nothing, run no command and changed no file.\<close>

theorem nothing_before_checks:
  assumes "\<not> w_exists (ie_world en) (events (in_fs s)) ''/profile'' \<or> \<not> w_exists (ie_world en) (events (in_fs s)) ''/templates''"
  shows "(\<exists>e. fst (installer_main en s) = Inl e) \<and> events (in_fs (snd (installer_main en s))) = events (in_fs s)
     \<and> in_msgs (snd (installer_main en s)) = in_msgs s"
proof -
  obtain r t where r: "read_config en s = (r, t)" by (cases "read_config en s")
  have t: "in_fs t = in_fs s" "in_msgs t = in_msgs s"
  proof -
    have "keeps in_fs (read_config en)" "keeps in_msgs (read_config en)"
      unfolding read_config_def by (intro keeps_intros; simp add: keeps_def events_untouched)+
    from this[THEN keepsD, OF r] show "in_fs t = in_fs s" "in_msgs t = in_msgs s" .
  qed
  show ?thesis
  proof (cases r)
    case (Inl e)
    with r t show ?thesis by (simp add: installer_main_def bnd_apply)
  next
    case (Inr conf)
    have "\<exists>u. check_start en conf t = (Inl (SysExit 1), u) \<and> events (in_fs u) = events (in_fs t) \<and> in_msgs u = in_msgs t"
      using assms t by (auto simp: check_start_def on_fs_def open_output_def path_exists_def inst_exit_def py_simps)
    with r t Inr show ?thesis by (auto simp: installer_main_def bnd_apply seq_apply)
  qed
qed


definition static_client :: contractor where
  "static_client = plain_client StaticConfigClient None [(''_structure_config_uuid'', PStr ''u1''), (''__last_modified'', PStr ''now'')]"

definition bare_inst :: inst_env where
  "bare_inst = \<lparr>ie_world = ok_world, ie_cfg = demo_env, ie_server = empty_page_server, ie_rnd = \<lambda>n. 0, ie_bridge_client = Inr static_client,
     ie_new_config = demo_config ''/target'' [], ie_template = Inr (), ie_profile = \<lambda>v. Inr fs_profile, ie_executable = \<lambda>t p. False, ie_fuel = 3\<rparr>"

definition inst_start :: installer where
  "inst_start = \<lparr>in_fs = blank_fs, in_client = static_client, in_config = demo_config ''/target'' [], in_overlay = [], in_msgs = []\<rparr>"

theorem nothing_before_checks_witness:
  "events (in_fs (snd (installer_main bare_inst inst_start))) = [] \<and> in_msgs (snd (installer_main bare_inst inst_start)) = []"
proof -
  have "\<not> w_exists (ie_world bare_inst) (events (in_fs inst_start)) ''/profile''"
    by (simp add: bare_inst_def ok_world_def apt_world_def)
  then have "\<not> w_exists (ie_world bare_inst) (events (in_fs inst_start)) ''/profile'' \<or> \<not> w_exists (ie_world bare_inst) (events (in_fs inst_start)) ''/templates''" ..
  from nothing_before_checks[OF this] show ?thesis by (simp add: inst_start_def blank_fs_def)
qed

end
