(* ===== verification/Hardware.thy ===== *)
theory Hardware
  imports Firmware_Handler
begin

text \<open>
  The hardware tables of \<open>libhardware.py\<close>. The C library is a parameter: what it writes into the list of DMI entries and the list of PCI
  entries, and, for the vital product data, what it makes of the one list that is handed to it again for every device. A fixed-size entry
  that was not written has an empty type, vendor 0 or an empty id.

  \<open>dmi_grouping\<close> says that \<open>dmiInfo\<close> is the grouping of the entries by number and then by type; \<open>vpd_leaks\<close> that one device can
  get data of the device before it.
\<close>

section \<open>Collecting values by key\<close>

definition add_to :: "'k \<Rightarrow> 'v \<Rightarrow> ('k, 'v list) dict \<Rightarrow> ('k, 'v list) dict" where
  "add_to k v d = dset k ((case map_of d k of None \<Rightarrow> [] | Some l \<Rightarrow> l) @ [v]) d"

definition collect_by :: "('k \<times> 'v) list \<Rightarrow> ('k, 'v list) dict" where
  "collect_by xs = fold (\<lambda>(k, v). add_to k v) xs []"

definition values_of :: "'k \<Rightarrow> ('k \<times> 'v) list \<Rightarrow> 'v list" where
  "values_of k xs = map snd (filter (\<lambda>x. fst x = k) xs)"

lemma add_to_get: "map_of (add_to a v d) k = (if k = a then Some ((case map_of d a of None \<Rightarrow> [] | Some l \<Rightarrow> l) @ [v]) else map_of d k)"
  by (simp add: add_to_def)

lemma values_of_Cons: "values_of k ((a, v) # xs) = (if a = k then v # values_of k xs else values_of k xs)"
  by (simp add: values_of_def)

lemma fold_add_to:
  "map_of (fold (\<lambda>(k, v). add_to k v) xs d) k =
     (if k \<in> set (map fst xs) then Some ((case map_of d k of None \<Rightarrow> [] | Some l \<Rightarrow> l) @ values_of k xs) else map_of d k)"
proof (induction xs arbitrary: d)
  case (Cons x xs)
  obtain a v where x: "x = (a, v)" by (cases x)
  have "k \<notin> set (map fst xs) \<Longrightarrow> values_of k xs = []"
    by (auto simp: values_of_def filter_empty_conv)
  then show ?case unfolding x by (auto simp: Cons.IH add_to_get values_of_Cons split: option.split)
qed simp

lemma collect_by_values: "map_of (collect_by xs) k = (if k \<in> set (map fst xs) then Some (values_of k xs) else None)"
  by (simp add: collect_by_def fold_add_to)

lemma dkeys_fold_add_to: "distinct (dkeys d) \<Longrightarrow> distinct (dkeys (fold (\<lambda>(k, v). add_to k v) xs d))"
  by (induction xs arbitrary: d) (auto simp: add_to_def distinct_dset)

lemma collect_by_distinct: "distinct (dkeys (collect_by xs))"
  unfolding collect_by_def by (rule dkeys_fold_add_to) simp

lemma collect_by_keys: "set (dkeys (collect_by xs)) = set (map fst xs)"
proof -
  have "k \<in> set (dkeys (collect_by xs)) \<longleftrightarrow> map_of (collect_by xs) k \<noteq> None" for k
    by (simp add: map_of_eq_None_iff)
  then show ?thesis unfolding set_eq_iff collect_by_values by simp
qed

section \<open>DMI\<close>

definition safe_chars :: string where
  "safe_chars = ''0123456789abcdefghijklmnopqrstuvwxyzABCDEFGHIJKLMNOPQRSTUVWXYZ !#$%&()*+,-./:;<=>?@[]^_{|}~''"

definition safeCString :: "string \<Rightarrow> string res" where
  "safeCString v = rbnd (utf8_decode v) (\<lambda>t. Inr (map (\<lambda>c. if c \<in> set safe_chars then c else CHR '' '') (strip t)))"

record dmi_entry =
  de_group :: int
  de_type :: string
  de_name :: string
  de_value :: string

record dmi_group =
  dg_type :: string
  dg_names :: "string list"
  dg_values :: "string list"

type_synonym dmi_table = "(string, (string, string) dict list) dict"

definition hw_error :: "string \<Rightarrow> string \<Rightarrow> exc" where
  "hw_error what err = PlainException (''Error getting '' @ what @ '' Info '' @ quoted (repr_bytes (bytes_strip err)))"

text \<open>One entry: the type is that of the first entry of the group.\<close>

definition dmi_entry_step :: "dmi_entry \<Rightarrow> (int, dmi_group) dict \<Rightarrow> (int, dmi_group) dict res" where
  "dmi_entry_step e tmp =
     (if de_type e = [] then Inr tmp
      else
        rbnd (case map_of tmp (de_group e) of
            Some g \<Rightarrow> Inr g
          | None \<Rightarrow> rbnd (safeCString (de_type e)) (\<lambda>t. Inr \<lparr>dg_type = t, dg_names = [], dg_values = []\<rparr>)) (\<lambda>g.
        rbnd (safeCString (de_name e)) (\<lambda>n.
        rbnd (safeCString (de_value e)) (\<lambda>v.
          Inr (dset (de_group e) (g\<lparr>dg_names := dg_names g @ [n], dg_values := dg_values g @ [v]\<rparr>) tmp)))))"

fun dmi_groups :: "dmi_entry list \<Rightarrow> (int, dmi_group) dict \<Rightarrow> (int, dmi_group) dict res" where
  "dmi_groups [] tmp = Inr tmp"
| "dmi_groups (e # es) tmp = rbnd (dmi_entry_step e tmp) (dmi_groups es)"

text \<open>\<open>dict( zip( names, values ) )\<close>.\<close>

definition zip_dict :: "string list \<Rightarrow> string list \<Rightarrow> (string, string) dict" where
  "zip_dict names values = fold (\<lambda>(k, v). dset k v) (zip names values) []"

definition dmiInfo :: "string + dmi_entry list \<Rightarrow> dmi_table res" where
  "dmiInfo c = (case c of
       Inl err \<Rightarrow> Inl (hw_error ''DMI'' err)
     | Inr entries \<Rightarrow>
         rbnd (dmi_groups entries []) (\<lambda>tmp.
           Inr (fold (\<lambda>(g, r). add_to (dg_type r) (zip_dict (dg_names r) (dg_values r))) tmp [])))"

section \<open>PCI\<close>

record vpd_entry =
  ve_id :: string
  ve_value :: string

record pci_entry =
  pe_vendor :: int
  pe_device_id :: int
  pe_address :: "nat \<times> nat \<times> nat \<times> nat" \<comment> \<open>domain, bus, device, function\<close>

record pci_info =
  pi_vendor :: int
  pi_device :: int
  pi_vpd :: "(string \<times> string) list"

definition pci_key :: "nat \<times> nat \<times> nat \<times> nat \<Rightarrow> string" where
  "pci_key = (\<lambda>(d, b, v, f). hex_pad 4 d @ '':'' @ hex_pad 2 b @ '':'' @ hex_pad 2 v @ ''.'' @ hex_pad 1 f)"

definition vpd_items :: "vpd_entry list \<Rightarrow> (string \<times> string) list res" where
  "vpd_items buf = collect (filter (\<lambda>v. ve_id v \<noteq> []) buf)
     (\<lambda>v. rbnd (safeCString (ve_id v)) (\<lambda>i. rbnd (safeCString (ve_value v)) (\<lambda>x. Inr (i, x))))"

text \<open>\<open>read_vpd\<close> gives the text of an error, or the list after the call for the list before it.\<close>

fun pci_devices :: "(pci_entry \<Rightarrow> vpd_entry list \<Rightarrow> string + vpd_entry list) \<Rightarrow> pci_entry list \<Rightarrow> vpd_entry list \<Rightarrow> (string, pci_info) dict
    \<Rightarrow> (string, pci_info) dict res" where
  "pci_devices read_vpd [] buf acc = Inr acc"
| "pci_devices read_vpd (e # es) buf acc =
     (if pe_vendor e = 0 then pci_devices read_vpd es buf acc
      else (case read_vpd e buf of
          Inl err \<Rightarrow> Inl (hw_error ''VPD'' err)
        | Inr buf1 \<Rightarrow>
            rbnd (vpd_items buf1) (\<lambda>vpd.
              pci_devices read_vpd es buf1 (dset (pci_key (pe_address e)) \<lparr>pi_vendor = pe_vendor e, pi_device = pe_device_id e, pi_vpd = vpd\<rparr> acc))))"

definition pciInfo :: "string + pci_entry list \<Rightarrow> (pci_entry \<Rightarrow> vpd_entry list \<Rightarrow> string + vpd_entry list) \<Rightarrow> (string, pci_info) dict res" where
  "pciInfo c read_vpd = (case c of
       Inl err \<Rightarrow> Inl (hw_error ''PCI'' err)
     | Inr entries \<Rightarrow> pci_devices read_vpd entries (replicate 1024 \<lparr>ve_id = [], ve_value = []\<rparr>) [])"


section \<open>The grouping\<close>

definition first_occ :: "'a list \<Rightarrow> 'a list" where
  "first_occ xs = rev (remdups (rev xs))"

lemma first_occ_snoc: "first_occ (xs @ [x]) = (if x \<in> set xs then first_occ xs else first_occ xs @ [x])"
  by (simp add: first_occ_def)

lemma first_occ_set: "set (first_occ xs) = set xs"
  by (simp add: first_occ_def)

definition clean :: "string \<Rightarrow> string" where
  "clean v = (case safeCString v of Inl _ \<Rightarrow> [] | Inr t \<Rightarrow> t)"

definition typed :: "dmi_entry list \<Rightarrow> dmi_entry list" where
  "typed es = filter (\<lambda>e. de_type e \<noteq> []) es"

definition in_group :: "int \<Rightarrow> dmi_entry list \<Rightarrow> dmi_entry list" where
  "in_group g es = filter (\<lambda>e. de_group e = g) (typed es)"

definition group_numbers :: "dmi_entry list \<Rightarrow> int list" where
  "group_numbers es = first_occ (map de_group (typed es))"

definition group_type :: "int \<Rightarrow> dmi_entry list \<Rightarrow> string" where
  "group_type g es = clean (de_type (hd (in_group g es)))"

definition group_record :: "int \<Rightarrow> dmi_entry list \<Rightarrow> (string, string) dict" where
  "group_record g es = zip_dict (map (clean \<circ> de_name) (in_group g es)) (map (clean \<circ> de_value) (in_group g es))"

lemma dmi_groups_snoc: "dmi_groups (es @ [e]) tmp = rbnd (dmi_groups es tmp) (dmi_entry_step e)"
proof (induction es arbitrary: tmp)
  case Nil
  show ?case by (cases "dmi_entry_step e tmp") simp_all
next
  case (Cons x es)
  then show ?case by (cases "dmi_entry_step x tmp") simp_all
qed

lemma in_group_nonempty: "in_group g es \<noteq> [] \<longleftrightarrow> g \<in> set (map de_group (typed es))"
  by (auto simp: in_group_def filter_empty_conv)

lemma dmi_groups_spec:
  "dmi_groups es [] = Inr tmp \<Longrightarrow> dkeys tmp = group_numbers es \<and> (\<forall>g. map_of tmp g = (if in_group g es = [] then None
     else Some \<lparr>dg_type = group_type g es, dg_names = map (clean \<circ> de_name) (in_group g es), dg_values = map (clean \<circ> de_value) (in_group g es)\<rparr>))"
proof (induction es arbitrary: tmp rule: rev_induct)
  case Nil
  then show ?case by (simp add: group_numbers_def typed_def first_occ_def in_group_def)
next
  case (snoc e es)
  from snoc.prems obtain tmp0 where tmp0: "dmi_groups es [] = Inr tmp0" "dmi_entry_step e tmp0 = Inr tmp"
    by (auto simp: dmi_groups_snoc elim: rbnd_InrE)
  note IH = snoc.IH[OF tmp0(1)]
  show ?case
  proof (cases "de_type e = []")
    case True
    then have "typed (es @ [e]) = typed es" by (simp add: typed_def)
    with IH tmp0(2) True show ?thesis
      by (simp add: dmi_entry_step_def group_numbers_def in_group_def group_type_def)
  next
    case False
    let ?g = "de_group e"
    have ty: "typed (es @ [e]) = typed es @ [e]" using False by (simp add: typed_def)
    have ing: "in_group h (es @ [e]) = in_group h es @ (if h = ?g then [e] else [])" for h
      by (simp add: in_group_def ty)
    have keys: "group_numbers (es @ [e]) = (if ?g \<in> set (map de_group (typed es)) then group_numbers es else group_numbers es @ [?g])"
      by (simp add: group_numbers_def ty first_occ_snoc)
    from tmp0(2) False obtain g n v where g: "safeCString (de_name e) = Inr n" "safeCString (de_value e) = Inr v"
      "tmp = dset ?g (g\<lparr>dg_names := dg_names g @ [n], dg_values := dg_values g @ [v]\<rparr>) tmp0"
      "(case map_of tmp0 ?g of Some g \<Rightarrow> Inr g
          | None \<Rightarrow> rbnd (safeCString (de_type e)) (\<lambda>t. Inr \<lparr>dg_type = t, dg_names = [], dg_values = []\<rparr>)) = Inr g"
      by (auto simp: dmi_entry_step_def elim!: rbnd_InrE)
    have nv: "clean (de_name e) = n" "clean (de_value e) = v" using g(1,2) by (simp_all add: clean_def)
    have k: "dkeys tmp = group_numbers (es @ [e])"
      using IH unfolding g(3) keys by (simp add: dkeys_dset group_numbers_def first_occ_set del: set_map)
    have own: "g\<lparr>dg_names := dg_names g @ [n], dg_values := dg_values g @ [v]\<rparr> = \<lparr>dg_type = group_type ?g (es @ [e]),
        dg_names = map (clean \<circ> de_name) (in_group ?g (es @ [e])), dg_values = map (clean \<circ> de_value) (in_group ?g (es @ [e]))\<rparr>"
    proof (cases "in_group ?g es = []")
      case True
      then have "map_of tmp0 ?g = None" using IH by simp
      with g(4) obtain t where "safeCString (de_type e) = Inr t" "g = \<lparr>dg_type = t, dg_names = [], dg_values = []\<rparr>" by (auto elim: rbnd_InrE)
      with True nv show ?thesis by (simp add: ing group_type_def clean_def)
    next
      case False
      then have "map_of tmp0 ?g = Some \<lparr>dg_type = group_type ?g es, dg_names = map (clean \<circ> de_name) (in_group ?g es),
          dg_values = map (clean \<circ> de_value) (in_group ?g es)\<rparr>" using IH by simp
      with g(4) have "g = \<lparr>dg_type = group_type ?g es, dg_names = map (clean \<circ> de_name) (in_group ?g es),
          dg_values = map (clean \<circ> de_value) (in_group ?g es)\<rparr>" by simp
      then show ?thesis using False nv by (simp add: ing group_type_def)
    qed
    have "map_of tmp h = (if in_group h (es @ [e]) = [] then None else Some \<lparr>dg_type = group_type h (es @ [e]),
        dg_names = map (clean \<circ> de_name) (in_group h (es @ [e])), dg_values = map (clean \<circ> de_value) (in_group h (es @ [e]))\<rparr>)" for h
    proof (cases "h = ?g")
      case True
      then show ?thesis unfolding g(3) own by (simp add: ing)
    next
      case False
      then have "in_group h (es @ [e]) = in_group h es" "group_type h (es @ [e]) = group_type h es" by (simp_all add: ing group_type_def)
      with False IH show ?thesis unfolding g(3) by simp
    qed
    with k show ?thesis by blast
  qed
qed

text \<open>C33: what \<open>dmiInfo\<close> reports under a type is one record for every group of that type, in the order in which the groups first occur among
  the entries; the record holds the cleaned names and values of all entries of the group, wherever they stand; and a type is reported
  exactly when a group has it.\<close>

theorem dmi_grouping:
  assumes "dmiInfo (Inr entries) = Inr table"
  shows "distinct (dkeys table) \<and> map_of table t =
    (let gs = filter (\<lambda>g. group_type g entries = t) (group_numbers entries) in
     if gs = [] then None else Some (map (\<lambda>g. group_record g entries) gs))"
proof -
  from assms obtain tmp where tmp: "dmi_groups entries [] = Inr tmp"
    and table: "table = fold (\<lambda>(g, r). add_to (dg_type r) (zip_dict (dg_names r) (dg_values r))) tmp []"
    by (auto simp: dmiInfo_def elim: rbnd_InrE)
  note spec = dmi_groups_spec[OF tmp]
  let ?kv = "\<lambda>g. (group_type g entries, group_record g entries)"
  have d: "distinct (dkeys tmp)" using spec by (simp add: group_numbers_def first_occ_def)
  have rows: "map (\<lambda>(g, r). (dg_type r, zip_dict (dg_names r) (dg_values r))) tmp = map ?kv (dkeys tmp)"
  proof -
    have "(dg_type r, zip_dict (dg_names r) (dg_values r)) = ?kv g" if "(g, r) \<in> set tmp" for g r
    proof -
      from that d have "map_of tmp g = Some r" by simp
      with spec show ?thesis by (auto simp: group_record_def split: if_splits)
    qed
    then show ?thesis by auto
  qed
  have "table = collect_by (map (\<lambda>(g, r). (dg_type r, zip_dict (dg_names r) (dg_values r))) tmp)"
    unfolding table collect_by_def by (simp add: fold_map comp_def case_prod_unfold)
  then have table: "table = collect_by (map ?kv (group_numbers entries))" using spec rows by simp
  have "values_of t (map ?kv gs) = map (\<lambda>g. group_record g entries) (filter (\<lambda>g. group_type g entries = t) gs)" for gs
    by (induction gs) (simp_all add: values_of_def)
  moreover have "t \<in> set (map fst (map ?kv gs)) \<longleftrightarrow> filter (\<lambda>g. group_type g entries = t) gs \<noteq> []" for gs
    by (auto simp: filter_empty_conv)
  ultimately show ?thesis unfolding table by (simp add: collect_by_distinct collect_by_values Let_def del: set_map)
qed

definition two_chips :: "dmi_entry list" where
  "two_chips = [\<lparr>de_group = 1, de_type = ''CPU'', de_name = ''ID'', de_value = ''a''\<rparr>, \<lparr>de_group = 2, de_type = ''CPU'', de_name = ''ID'', de_value = ''b''\<rparr>,
     \<lparr>de_group = 1, de_type = ''CPU'', de_name = ''Cores'', de_value = ''4''\<rparr>, \<lparr>de_group = 0, de_type = [], de_name = [], de_value = []\<rparr>]"

theorem dmi_grouping_witness:
  "map_of (the (map_option id (case dmiInfo (Inr two_chips) of Inr t \<Rightarrow> Some t | _ \<Rightarrow> None))) ''CPU''
     = Some [[(''ID'', ''a''), (''Cores'', ''4'')], [(''ID'', ''b'')]]"
proof -
  obtain table where t: "dmiInfo (Inr two_chips) = Inr table"
  proof -
    have "(case dmiInfo (Inr two_chips) of Inr t \<Rightarrow> True | _ \<Rightarrow> False)" by code_simp
    then show thesis using that by (auto split: sum.splits)
  qed
  have "(let gs = filter (\<lambda>g. group_type g two_chips = ''CPU'') (group_numbers two_chips) in
     if gs = [] then None else Some (map (\<lambda>g. group_record g two_chips) gs)) = Some [[(''ID'', ''a''), (''Cores'', ''4'')], [(''ID'', ''b'')]]"
    by code_simp
  with dmi_grouping[OF t, of "''CPU''"] t show ?thesis by simp
qed

section \<open>Vital product data of another device\<close>

text \<open>\<open>getVPDInfo\<close> of \<open>pci.c\<close> clears one entry of the list and returns when the device has no such data, so the rest of the list is what
  the device before left there.\<close>

definition one_cleared :: "(pci_entry \<Rightarrow> vpd_entry list) \<Rightarrow> pci_entry \<Rightarrow> vpd_entry list \<Rightarrow> string + vpd_entry list" where
  "one_cleared has e buf = Inr (if has e = [] then \<lparr>ve_id = [], ve_value = []\<rparr> # tl buf else has e @ drop (length (has e)) buf)"

definition pci_dev :: "nat \<Rightarrow> pci_entry" where
  "pci_dev n = \<lparr>pe_vendor = 1, pe_device_id = int n, pe_address = (0, 0, n, 0)\<rparr>"

definition first_has_vpd :: "pci_entry \<Rightarrow> vpd_entry list" where
  "first_has_vpd e = (if e = pci_dev 1 then [\<lparr>ve_id = ''ID'', ve_value = ''card''\<rparr>, \<lparr>ve_id = ''SN'', ve_value = ''77''\<rparr>] else [])"

theorem vpd_leaks:
  "rbnd (pci_devices (one_cleared first_has_vpd) [pci_dev 1, pci_dev 2] (replicate 3 \<lparr>ve_id = [], ve_value = []\<rparr>) [])
     (\<lambda>d. Inr (map (\<lambda>(k, i). (k, pi_vpd i)) d))
   = Inr [(''0000:00:01.0'', [(''ID'', ''card''), (''SN'', ''77'')]), (''0000:00:02.0'', [(''SN'', ''77'')])]"
  by code_simp

end
