(* ===== verification/Survey.thy ===== *)
theory Survey
  imports Hardware Contractor_Props
begin

text \<open>
  The bootstrap disk, which makes a machine known to Contractor: \<open>disks/bootstrap/root/lib.py\<close>, \<open>platforms.py\<close> and the program
  \<open>bootstrap.py\<close>. The state is the Contractor client's beside the histories of what was done to the machine: the programs that were run,
  the pauses, the block devices whose first bytes were cleared, the fault lights that were put out. \<open>sv_verified\<close> is a history of
  Contractor's answer to the hardware report; nothing reads it. Progress lines are left out.

  Most requests are repeated without end (\<open>retry_count=-1\<close>), so they take fuel, as does the loop that waits for a match.
\<close>

section \<open>State and environment\<close>

record survey =
  sv_client :: contractor
  sv_cmds :: "string list list"
  sv_slept :: "int list"
  sv_cleared :: "string list"
  sv_lights :: nat
  sv_token :: "pyval option"
  sv_lan :: "pyval option"
  sv_turns :: nat
  sv_verified :: bool

text \<open>A drive: \<open>reporting_info\<close>, the further attributes that are reported, its block device and whether that can be written.\<close>

record survey_drive =
  sd_info :: "(string, pyval) dict res"
  sd_more :: "(string, pyval) dict res"
  sd_block :: "string option"
  sd_write :: "unit res"

record survey_env =
  se_server :: server
  se_rnd :: "nat \<Rightarrow> real"
  se_fuel :: nat
  se_run :: "string list list \<Rightarrow> string list \<Rightarrow> int \<times> string" \<comment> \<open>exit status and bytes of the output\<close>
  se_file :: "string \<Rightarrow> string res"
  se_exists :: "string \<Rightarrow> bool"
  se_eth :: "string list"
  se_dmi :: "string + dmi_entry list"
  se_pci :: "string + pci_entry list"
  se_vpd :: "pci_entry \<Rightarrow> vpd_entry list \<Rightarrow> string + vpd_entry list"
  se_drives :: "survey_drive list"
  se_sha :: "string \<Rightarrow> string"
  se_rand :: "nat \<Rightarrow> int" \<comment> \<open>\<open>random.randint( 0, 41 )\<close> in each turn\<close>
  se_uuid :: "string option"

definition via_client :: "(contractor, 'a) py \<Rightarrow> (survey, 'a) py" where
  "via_client m = (\<lambda>s. case m (sv_client s) of (r, t) \<Rightarrow> (r, s\<lparr>sv_client := t\<rparr>))"

definition rest :: "int \<Rightarrow> (survey, unit) py" where
  "rest t = modify (\<lambda>s. s\<lparr>sv_slept := sv_slept s @ [t]\<rparr>)"

definition run_prog :: "survey_env \<Rightarrow> string list \<Rightarrow> (survey, int \<times> string) py" where
  "run_prog en argv = bnd (gets (\<lambda>s. se_run en (sv_cmds s) argv)) (\<lambda>r. seq (modify (\<lambda>s. s\<lparr>sv_cmds := sv_cmds s @ [argv]\<rparr>)) (ret r))"

definition prog_text :: "survey_env \<Rightarrow> string list \<Rightarrow> (survey, string) py" where
  "prog_text en argv = bnd (run_prog en argv) (\<lambda>(rc, out). bnd (lift (utf8_decode out)) (\<lambda>t. ret (strip t)))"

definition read_sys :: "survey_env \<Rightarrow> string \<Rightarrow> (survey, string) py" where
  "read_sys en path = lift (se_file en path)"

definition survey_exit :: "int \<Rightarrow> (survey, 'a) py" where
  "survey_exit code = throw (SysExit code)"

section \<open>The Cartographer\<close>

definition ask :: "survey_env \<Rightarrow> string \<Rightarrow> pyval \<Rightarrow> (survey, pyval) py" where
  "ask en uri args = via_client (http_request (se_fuel en) (se_server en) (se_rnd en) Call uri (Some args) None 30 (- 1) False)"

definition cartographer :: "string \<Rightarrow> string \<Rightarrow> string" where
  "cartographer ident action = ''/api/v1/Survey/Cartographer:'' @ ident @ '':('' @ action @ '')''"

definition join_survey :: "survey_env \<Rightarrow> string \<Rightarrow> (survey, unit) py" where
  "join_survey en ident =
     bnd (ask en ''/api/v1/Auth/User(login)'' (PDict [(''username'', PStr ''bootstrap''), (''password'', PStr ''bootstrap'')])) (\<lambda>token.
     seq (modify (\<lambda>s. s\<lparr>sv_token := Some token\<rparr>))
     (seq (bnd (lift (str_of token)) (\<lambda>t. via_client (setAuth ''bootstrap'' t)))
     (bnd (ask en ''/api/v1/Survey/Cartographer(register)'' (PDict [(''identifier'', PStr ident)])) (\<lambda>_. ret ()))))"

definition setMessage :: "survey_env \<Rightarrow> string \<Rightarrow> string \<Rightarrow> (survey, unit) py" where
  "setMessage en ident msg = bnd (ask en (cartographer ident ''setMessage'') (PDict [(''message'', PStr msg)])) (\<lambda>_. ret ())"

definition logout :: "survey_env \<Rightarrow> (survey, unit) py" where
  "logout en = on_exc is_Exception
     (bnd (gets sv_token) (\<lambda>t. case t of
        None \<Rightarrow> throw AttributeError
      | Some token \<Rightarrow> bnd (via_client (job_call (se_server en) (se_rnd en) ''/api/v1/Auth/User(logout)'' (PDict [(''token'', token)]))) (\<lambda>_. ret ())))
     (ret ())"

section \<open>What the machine knows\<close>

text \<open>LLDP: up to four attempts; \<open>n\<close> counts those that are left.\<close>

fun lldp_data :: "survey_env \<Rightarrow> string \<Rightarrow> nat \<Rightarrow> (survey, string option) py" where
  "lldp_data en ident n =
     bnd (prog_text en [''/sbin/lldpcli'', ''show'', ''neighbors'', ''-f'', ''keyvalue'']) (\<lambda>t.
     if length t > 10 then ret (Some t)
     else (case n of
         0 \<Rightarrow> seq (setMessage en ident ''lldp timeout waiting for data, skipping...'') (ret None)
       | Suc m \<Rightarrow> seq (rest 10) (lldp_data en ident m)))"

declare lldp_data.simps [simp del]

definition lldp_pair :: "string \<Rightarrow> (string \<times> string) res" where
  "lldp_pair line = (case split_chr CHR ''='' line of [k, v] \<Rightarrow> Inr (k, v) | _ \<Rightarrow> Inl ValueError)"

definition lldp_values :: "string \<Rightarrow> (string, string) dict res" where
  "lldp_values t = rbnd (collect (filter (\<lambda>l. CHR ''='' \<in> set l) (splitlines t)) lldp_pair) (\<lambda>kvs. Inr (fold (\<lambda>(k, v). dset k v) kvs []))"

text \<open>\<open>protocol.interface.name\<close>, where the name may hold dots.\<close>

definition lldp_key :: "string \<Rightarrow> (string \<times> string) res" where
  "lldp_key k = (case split1 (CHR ''.'') k of
       None \<Rightarrow> Inl ValueError
     | Some (protocol, rest1) \<Rightarrow> (case split1 (CHR ''.'') rest1 of None \<Rightarrow> Inl ValueError | Some (interface, name) \<Rightarrow> Inr (interface, name)))"

text \<open>The port: \<open>None\<close> for one that has more than three numbers.\<close>

definition lldp_port :: "string \<Rightarrow> (int \<times> int \<times> int) option res" where
  "lldp_port v = (case split_chr CHR ''/'' (filter (\<lambda>c. is_digit c \<or> c = CHR ''/'') v) of
       [p] \<Rightarrow> rbnd (int_str p) (\<lambda>port. Inr (Some (1, port, 0)))
     | [s, p] \<Rightarrow> rbnd (int_str s) (\<lambda>slot. rbnd (int_str p) (\<lambda>port. Inr (Some (slot, port, 0))))
     | [s, p, q] \<Rightarrow> rbnd (int_str s) (\<lambda>slot. rbnd (int_str p) (\<lambda>port. rbnd (int_str q) (\<lambda>sub. Inr (Some (slot, port, sub)))))
     | _ \<Rightarrow> Inr None)"

type_synonym neighbours = "(string, (string, pyval) dict) dict"

definition note_neighbour :: "string \<Rightarrow> (string, pyval) dict \<Rightarrow> neighbours \<Rightarrow> neighbours" where
  "note_neighbour interface vals r = dset interface (dmerge (case map_of r interface of None \<Rightarrow> [] | Some d \<Rightarrow> d) vals) r"

definition lldp_item :: "survey_env \<Rightarrow> string \<Rightarrow> string \<times> string \<Rightarrow> neighbours \<Rightarrow> (survey, neighbours) py" where
  "lldp_item en ident = (\<lambda>(k, v) r.
     bnd (lift (lldp_key k)) (\<lambda>(interface, name).
     if name = ''chassis.mac'' then ret (note_neighbour interface [(''mac'', PStr v)] r)
     else if name = ''chassis.name'' then ret (note_neighbour interface [(''name'', PStr v)] r)
     else if name \<in> {''port.local'', ''port.ifname''} then
       bnd (lift (lldp_port v)) (\<lambda>p. case p of
         Some (slot, port, sub) \<Rightarrow> ret (note_neighbour interface [(''slot'', PInt slot), (''port'', PInt port), (''subport'', PInt sub)] r)
       | None \<Rightarrow> seq (setMessage en ident (''I don'' @ [CHR 0x27] @ ''t know how to handle this lldp local port '' @ Firmware_Handler.quoted v)) (survey_exit 1))
     else ret (note_neighbour interface [] r)))"

fun lldp_items :: "survey_env \<Rightarrow> string \<Rightarrow> (string \<times> string) list \<Rightarrow> neighbours \<Rightarrow> (survey, neighbours) py" where
  "lldp_items en ident [] r = ret r"
| "lldp_items en ident (kv # kvs) r = bnd (lldp_item en ident kv r) (lldp_items en ident kvs)"

definition getLLDP :: "survey_env \<Rightarrow> string \<Rightarrow> (survey, neighbours) py" where
  "getLLDP en ident = bnd (lldp_data en ident 3) (\<lambda>t. case t of
       None \<Rightarrow> ret []
     | Some txt \<Rightarrow> bnd (lift (lldp_values txt)) (\<lambda>kvs. lldp_items en ident kvs []))"

definition ip_of :: "string \<Rightarrow> string res" where
  "ip_of t = (case splitlines t of
       _ # _ # l # _ \<Rightarrow> (case split_ws l of _ # a # _ \<Rightarrow> Inr (hd (split_chr CHR ''/'' a)) | _ \<Rightarrow> Inl IndexError)
     | _ \<Rightarrow> Inl IndexError)"

definition getIpAddress :: "survey_env \<Rightarrow> string \<Rightarrow> (survey, string) py" where
  "getIpAddress en interface = bnd (prog_text en [''/sbin/ip'', ''addr'', ''show'', ''dev'', interface]) (\<lambda>t. lift (ip_of t))"

definition count_lines :: "string \<Rightarrow> string \<Rightarrow> int" where
  "count_lines pfx t = int (length (remdups (filter (\<lambda>l. startswith l pfx) (file_lines t))))"

definition cpuPhysicalCount :: "survey_env \<Rightarrow> (survey, int) py" where
  "cpuPhysicalCount en = bnd (read_sys en ''/proc/cpuinfo'') (\<lambda>t. ret (count_lines ''physical id'' t))"

definition cpuLogicalCount :: "survey_env \<Rightarrow> (survey, int) py" where
  "cpuLogicalCount en = bnd (read_sys en ''/proc/cpuinfo'') (\<lambda>t. ret (count_lines ''processor'' t))"

definition mem_line :: "string \<Rightarrow> pyval res" where
  "mem_line l = (case split_chr CHR '':'' l of
       _ # v # _ \<Rightarrow> rbnd (int_str (hd (split_chr CHR '' '' (strip v)))) (\<lambda>n. Inr (PFloat (of_int n / 1024)))
     | _ \<Rightarrow> Inl IndexError)"

definition getRAMAmmount :: "survey_env \<Rightarrow> (survey, pyval) py" where
  "getRAMAmmount en = bnd (read_sys en ''/proc/meminfo'') (\<lambda>t. case filter (\<lambda>l. startswith l ''MemTotal'') (file_lines t) of
       [] \<Rightarrow> ret PNone
     | l # _ \<Rightarrow> lift (mem_line l))"

end
