(* ===== verification/Survey_Main.thy ===== *)
theory Survey_Main
  imports Survey
begin

text \<open>
  The platforms of \<open>platforms.py\<close>, of which only the IPMI one does anything, and the program \<open>bootstrap.py\<close>: it identifies the machine,
  waits until Contractor knows it, reports the hardware and clears the boot sectors when it is told to.
  What a drive reports and what the programs print is the environment; the properties are in \<open>Survey_Props\<close>.
\<close>

section \<open>Platforms\<close>

datatype platform = IPMIPlatform | RedFishPlatform | AMTPlatform | UnknownPlatform

definition getPlatform :: "survey_env \<Rightarrow> dmi_table \<Rightarrow> platform" where
  "getPlatform en dmi =
     (if se_exists en ''/dev/ipmi0'' then IPMIPlatform
      else if ''Management Controller Host Interface'' \<in> set (dkeys dmi) then RedFishPlatform
      else if se_exists en ''/dev/mei0'' then AMTPlatform
      else UnknownPlatform)"

fun platform_type :: "platform \<Rightarrow> string" where
  "platform_type IPMIPlatform = ''IPMI''"
| "platform_type RedFishPlatform = ''RedFish''"
| "platform_type AMTPlatform = ''AMT''"
| "platform_type UnknownPlatform = ''Unknown''"

text \<open>A command that fails calls the \<open>_setMessage\<close> of the module, which nothing ever sets: \<open>bootstrap.py\<close> sets the attribute of
  the platform object.\<close>

definition ipmi_command :: "survey_env \<Rightarrow> string \<Rightarrow> bool \<Rightarrow> (survey, unit) py" where
  "ipmi_command en cmd ignore_failure =
     bnd (run_prog en (''/bin/ipmitool'' # split_ws cmd)) (\<lambda>(rc, out).
     if rc \<noteq> 0 \<and> \<not> ignore_failure then throw TypeError else ret ())"

fun startIdentify :: "survey_env \<Rightarrow> platform \<Rightarrow> (survey, unit) py" where
  "startIdentify en IPMIPlatform = ipmi_command en ''chassis identify force'' True"
| "startIdentify en _ = ret ()"

fun stopIdentify :: "platform \<Rightarrow> (survey, unit) py" where
  "stopIdentify _ = ret ()"

definition conf_get :: "(string, pyval) dict \<Rightarrow> string \<Rightarrow> pyval \<Rightarrow> pyval" where
  "conf_get conf k d = (case map_of conf k of None \<Rightarrow> d | Some v \<Rightarrow> v)"

text \<open>Of what \<open>setup\<close> keeps only the channel is read again.\<close>

fun setup_platform :: "platform \<Rightarrow> (string, pyval) dict \<Rightarrow> (survey, unit) py" where
  "setup_platform IPMIPlatform conf = modify (\<lambda>s. s\<lparr>sv_lan := Some (conf_get conf ''ipmi_lan_channel'' (PInt 1))\<rparr>)"
| "setup_platform _ conf = ret ()"

fun setAuth_platform :: "platform \<Rightarrow> (survey, bool) py" where
  "setAuth_platform _ = ret False"

fun setIp_platform :: "platform \<Rightarrow> (survey, bool) py" where
  "setIp_platform _ = ret False"

text \<open>The address of the controller, a text, not a dictionary like that of the other interfaces.\<close>

fun getNetwork :: "survey_env \<Rightarrow> platform \<Rightarrow> (survey, string option) py" where
  "getNetwork en IPMIPlatform =
     bnd (attr sv_lan) (\<lambda>c. bnd (lift (py_str c)) (\<lambda>ch.
     bnd (prog_text en [''/bin/ipmitool'', ''lan'', ''print'', ch]) (\<lambda>t.
       ret (case filter (\<lambda>l. startswith l ''MAC Address'') (splitlines t) of
         [] \<Rightarrow> None
       | ls \<Rightarrow> Some (strip (drop 25 (last ls)))))))"
| "getNetwork en _ = ret None"

fun prep :: "survey_env \<Rightarrow> platform \<Rightarrow> (survey, unit) py" where
  "prep en IPMIPlatform = seq (rest 30) (throw TypeError)"
| "prep en _ = ret ()"

section \<open>The identifier\<close>

definition dmi_texts :: "dmi_table \<Rightarrow> string \<Rightarrow> string list \<Rightarrow> string res" where
  "dmi_texts dmi type names =
     rbnd (dindex dmi type) (\<lambda>items.
     rbnd (collect items (\<lambda>item. rbnd (collect names (dindex item)) (\<lambda>vs. Inr (concat vs)))) (\<lambda>ts. Inr (concat ts)))"

definition identity_text :: "dmi_table \<Rightarrow> string res" where
  "identity_text dmi =
     rbnd (dmi_texts dmi ''Processor Information'' [''ID'']) (\<lambda>a.
     rbnd (dmi_texts dmi ''System Info'' [''Product Name'', ''Version'', ''Serial Number'', ''UUID'']) (\<lambda>b.
     rbnd (dmi_texts dmi ''Base Board Information'' [''Product Name'', ''Serial Number'', ''Asset Tag'']) (\<lambda>c.
     rbnd (dmi_texts dmi ''Chassis Information'' [''Version'', ''Serial Number'', ''Asset Tag'']) (\<lambda>d.
       Inr (a @ b @ c @ d)))))"

section \<open>The hardware as a value\<close>

definition dmi_value :: "dmi_table \<Rightarrow> pyval" where
  "dmi_value dmi = PDict (map (\<lambda>(t, rs). (t, PList (map (\<lambda>r. PDict (map (\<lambda>(k, v). (k, PStr v)) r)) rs))) dmi)"

definition pci_value :: "(string, pci_info) dict \<Rightarrow> pyval" where
  "pci_value pci = PDict (map (\<lambda>(k, i). (k, PDict [(''vendor'', PInt (pi_vendor i)), (''device'', PInt (pi_device i)),
     (''vpd'', PList (map (\<lambda>(n, v). PDict [(''id'', PStr n), (''value'', PStr v)]) (pi_vpd i)))])) pci)"

definition get_hardware :: "survey_env \<Rightarrow> (survey, dmi_table \<times> pyval) py" where
  "get_hardware en =
     bnd (lift (dmiInfo (se_dmi en))) (\<lambda>dmi.
     bnd (lift (pciInfo (se_pci en) (se_vpd en))) (\<lambda>pci.
     bnd (getRAMAmmount en) (\<lambda>ram.
     bnd (cpuLogicalCount en) (\<lambda>cpus.
     bnd (cpuPhysicalCount en) (\<lambda>sockets.
       ret (dmi, PDict [(''dmi'', dmi_value dmi), (''pci'', pci_value pci), (''total_ram'', ram), (''total_cpu_count'', PInt cpus),
         (''total_cpu_sockets'', PInt sockets)]))))))"

section \<open>The program\<close>

text \<open>Waiting for a match: a pause of ten seconds and up to 41 more after each answer without one.\<close>

fun find_foundation :: "nat \<Rightarrow> survey_env \<Rightarrow> string \<Rightarrow> pyval \<Rightarrow> (survey, pyval \<times> pyval) py" where
  "find_foundation 0 en ident info_map = throw OutOfFuel"
| "find_foundation (Suc fuel) en ident info_map =
     bnd (bnd (ask en (cartographer ident ''lookup'') (PDict [(''info_map'', info_map)])) (\<lambda>v. lift (dict_of v))) (\<lambda>lookup.
     bnd (lift (dindex lookup ''matched_by'')) (\<lambda>matched_by.
     if matched_by = PNone then
       seq (setMessage en ident ''no match'')
       (bnd (gets sv_turns) (\<lambda>n.
        seq (rest (10 + se_rand en n))
        (seq (modify (\<lambda>s. s\<lparr>sv_turns := Suc n\<rparr>))
          (find_foundation fuel en ident info_map))))
     else
       bnd (lift (dindex lookup ''locator'')) (\<lambda>locator.
       if truthy locator then ret (locator, matched_by) else find_foundation fuel en ident info_map)))"

definition eth_interfaces :: "survey_env \<Rightarrow> (string, (string, pyval) dict) dict res" where
  "eth_interfaces en = rbnd (collect (se_eth en) (\<lambda>item. rbnd (se_file en (os_join item ''address'')) (\<lambda>t.
       Inr (last (split_chr slash item), [(''mac'', PStr (strip t))])))) (\<lambda>l. Inr (fold (\<lambda>(k, v). dset k v) l []))"

text \<open>An interface of the network table is a dictionary; the controller's address is a text, which takes no key.\<close>

definition put_key :: "string \<Rightarrow> string \<Rightarrow> pyval \<Rightarrow> (string, pyval) dict \<Rightarrow> (string, pyval) dict res" where
  "put_key iface k v net = (case map_of net iface of
       Some (PDict d) \<Rightarrow> Inr (dset iface (PDict (dset k v d)) net)
     | _ \<Rightarrow> Inl TypeError)"

fun add_lldp :: "neighbours \<Rightarrow> (string, pyval) dict \<Rightarrow> (string, pyval) dict res" where
  "add_lldp [] net = Inr net"
| "add_lldp ((iface, d) # ns) net =
     (if iface \<in> set (dkeys net) then rbnd (put_key iface ''lldp'' (PDict d) net) (add_lldp ns) else add_lldp ns net)"

definition network_of :: "(string, (string, pyval) dict) dict \<Rightarrow> string option \<Rightarrow> neighbours \<Rightarrow> string \<Rightarrow> (string, pyval) dict res" where
  "network_of eths bmc lldp primary =
     (let net0 = map (\<lambda>(k, d). (k, PDict d)) eths;
          net1 = (case bmc of None \<Rightarrow> net0 | Some mac \<Rightarrow> dset ''ipmi'' (PStr mac) net0) in
      rbnd (add_lldp lldp net1) (\<lambda>net2.
        put_key primary ''primary'' (PBool True) (if primary \<in> set (dkeys net2) then net2 else dset primary (PDict []) net2)))"

text \<open>The drives: one whose information cannot be read is passed over. The fault light is put out after the report of each.\<close>

fun disk_reports :: "survey_drive list \<Rightarrow> (survey, pyval list) py" where
  "disk_reports [] = ret []"
| "disk_reports (d # ds) = (case sd_info d of
       Inl e \<Rightarrow> if is_Exception e then disk_reports ds else throw e
     | Inr item \<Rightarrow>
         bnd (lift (sd_more d)) (\<lambda>more.
         seq (modify (\<lambda>s. s\<lparr>sv_lights := Suc (sv_lights s)\<rparr>))
         (bnd (disk_reports ds) (\<lambda>rs. ret (PDict (dmerge item more) # rs)))))"

definition clear_mbr :: "survey_drive \<Rightarrow> (survey, unit) py" where
  "clear_mbr d = (case sd_block d of
       None \<Rightarrow> ret ()
     | Some p \<Rightarrow> seq (lift (sd_write d)) (modify (\<lambda>s. s\<lparr>sv_cleared := sv_cleared s @ [p]\<rparr>)))"

definition report_hardware :: "survey_env \<Rightarrow> string \<Rightarrow> pyval \<Rightarrow> pyval \<Rightarrow> (survey, unit) py" where
  "report_hardware en ident locator idmap =
     bnd (lift (py_str locator)) (\<lambda>loc.
     bnd (ask en (''/api/v1/Building/Foundation:'' @ loc @ '':(setIdMap)'') (PDict [(''id_map'', idmap)])) (\<lambda>error.
     if error \<noteq> PNone then
       bnd (lift (py_str error)) (\<lambda>e.
       seq (setMessage en ident (''Hardware Error: '' @ Firmware_Handler.quoted e))
       (seq (logout en) (survey_exit 20)))
     else seq (modify (\<lambda>s. s\<lparr>sv_verified := True\<rparr>)) (setMessage en ident ''Hardware Profile Verified'')))"

text \<open>The comparison with the result of \<open>setIp\<close> is not assigned to anything.\<close>

definition configure_platform :: "survey_env \<Rightarrow> string \<Rightarrow> platform \<Rightarrow> (survey, unit) py" where
  "configure_platform en ident pl =
     seq (setMessage en ident (''Configuring '' @ platform_type pl @ ''...''))
     (bnd (setAuth_platform pl) (\<lambda>changed.
      bnd (setIp_platform pl) (\<lambda>_.
        whenM changed (seq (setMessage en ident ''Preping Platform...'') (prep en pl)))))"

definition clear_mbrs :: "survey_env \<Rightarrow> string \<Rightarrow> (string, pyval) dict \<Rightarrow> (survey, unit) py" where
  "clear_mbrs en ident conf =
     whenM (truthy (conf_get conf ''bootstrap_wipe_mbr'' (PBool False)))
       (seq (setMessage en ident ''Clearing MBRs...'') (for_each (se_drives en) clear_mbr))"

definition describe_machine :: "survey_env \<Rightarrow> platform \<Rightarrow> pyval \<Rightarrow> neighbours \<Rightarrow> string \<Rightarrow> (survey, pyval) py" where
  "describe_machine en pl hw lldp primary =
     bnd (lift (eth_interfaces en)) (\<lambda>eths.
     bnd (getNetwork en pl) (\<lambda>bmc.
     bnd (lift (network_of eths bmc lldp primary)) (\<lambda>net.
     bnd (disk_reports (se_drives en)) (\<lambda>disks.
       ret (PDict [(''hardware'', hw), (''network'', PDict net), (''disks'', PList disks)])))))"

definition clean_up :: "survey_env \<Rightarrow> string \<Rightarrow> platform \<Rightarrow> (survey, unit) py" where
  "clean_up en ident pl = block [
     setMessage en ident ''Cleaning up...'',
     stopIdentify pl,
     bnd (ask en (cartographer ident ''done'') (PDict [])) (\<lambda>_. ret ()),
     logout en,
     survey_exit 0]"

definition after_match :: "survey_env \<Rightarrow> string \<Rightarrow> platform \<Rightarrow> pyval \<Rightarrow> neighbours \<Rightarrow> string \<Rightarrow> pyval \<Rightarrow> (string, pyval) dict \<Rightarrow> (survey, unit) py" where
  "after_match en ident pl hw lldp primary locator conf =
     seq (setup_platform pl conf)
     (seq (setMessage en ident ''Geting Hardware Information...'')
     (bnd (describe_machine en pl hw lldp primary) (\<lambda>idmap. block [
       setMessage en ident ''Reporting Hardware info...'',
       report_hardware en ident locator idmap,
       configure_platform en ident pl,
       clear_mbrs en ident conf,
       clean_up en ident pl])))"

definition neighbours_value :: "neighbours \<Rightarrow> pyval" where
  "neighbours_value n = PDict (map (\<lambda>(k, d). (k, PDict d)) n)"

definition survey_main :: "survey_env \<Rightarrow> (survey, unit) py" where
  "survey_main en =
     bnd (get_hardware en) (\<lambda>(dmi, hw).
     let pl = getPlatform en dmi in
     seq (startIdentify en pl)
     (bnd (read_sys en ''/tmp/dhcp-interface'') (\<lambda>iface.
      let primary = strip iface in
      bnd (lift (identity_text dmi)) (\<lambda>txt.
      let ident = se_sha en txt in
      seq (join_survey en ident)
      (seq (setMessage en ident ''Getting LLDP Information...'')
      (bnd (getLLDP en ident) (\<lambda>lldp.
       bnd (getIpAddress en primary) (\<lambda>ip.
       bnd (find_foundation (se_fuel en) en ident (PDict [(''hardware'', hw), (''lldp'', neighbours_value lldp), (''ip_address'', PStr ip),
           (''config_uuid'', case se_uuid en of None \<Rightarrow> PNone | Some u \<Rightarrow> PStr u)])) (\<lambda>(locator, matched_by).
       bnd (lift (py_str locator)) (\<lambda>loc.
       bnd (lift (py_str matched_by)) (\<lambda>by.
       seq (setMessage en ident (''Matched as '' @ Firmware_Handler.quoted loc @ '' by '' @ Firmware_Handler.quoted by))
       (bnd (bnd (via_client (getConfig (se_server en) (se_rnd en) (Some loc))) (\<lambda>c. lift (dict_of c))) (\<lambda>conf.
         after_match en ident pl hw lldp primary locator conf)))))))))))))"

end
