(* ===== verification/Survey_Props.thy ===== *)
theory Survey_Props
  imports Survey_Main
begin

text \<open>
  What the bootstrap disk does to the machine: it clears nothing before Contractor has verified the hardware
  (\<open>mbr_only_after_verified\<close>), runs no program but the four it needs and never pauses for longer than 51 seconds
  (\<open>survey_confined\<close>), asks for LLDP data at most four times (\<open>lldp_asked\<close>), and reads the numbers of a switch port back
  (\<open>lldp_port_parts\<close>). \<open>ipmi_failure_raises\<close> is where a failing command ends.
\<close>

section \<open>What happened to the machine\<close>

definition machine :: "survey \<Rightarrow> string list list \<times> int list \<times> string list \<times> bool" where
  "machine s = (sv_cmds s, sv_slept s, sv_cleared s, sv_verified s)"

lemma keeps_client [keeps_intros]: "keeps machine (via_client m)"
  by (simp add: keeps_def via_client_def machine_def split: prod.split)

lemma keeps_ask [keeps_intros]: "keeps machine (ask en uri args)"
  unfolding ask_def by (rule keeps_client)

lemma keeps_setMessage [keeps_intros]: "keeps machine (setMessage en ident msg)"
  unfolding setMessage_def by (intro keeps_intros)

lemma keeps_logout [keeps_intros]: "keeps machine (logout en)"
  unfolding logout_def by (intro keeps_intros) (auto intro!: keeps_intros split: option.split)

lemma keeps_join [keeps_intros]: "keeps machine (join_survey en ident)"
  unfolding join_survey_def by (intro keeps_intros) (simp add: machine_def)

lemma keeps_disks [keeps_intros]: "keeps machine (disk_reports ds)"
proof (induction ds)
  case (Cons d ds)
  then show ?case
    by (auto intro!: keeps_intros split: sum.split) (simp add: machine_def)
qed (simp add: keeps_basic)

lemma keeps_hardware [keeps_intros]: "keeps machine (get_hardware en)"
  unfolding get_hardware_def getRAMAmmount_def cpuLogicalCount_def cpuPhysicalCount_def read_sys_def
  by (intro keeps_intros) (auto intro!: keeps_intros split: list.split)

lemma keeps_setup [keeps_intros]: "keeps machine (setup_platform pl conf)"
  by (cases pl) (auto intro!: keeps_intros simp: machine_def)

lemma keeps_cases:
  "(\<And>x. v = Some x \<Longrightarrow> keeps f (g x)) \<Longrightarrow> keeps f h \<Longrightarrow> keeps f (case v of None \<Rightarrow> h | Some x \<Rightarrow> g x)"
  "(\<And>x y. p = (x, y) \<Longrightarrow> keeps f (k x y)) \<Longrightarrow> keeps f (case p of (x, y) \<Rightarrow> k x y)"
  by (simp_all split: option.split prod.split)

lemma keeps_lldp_item [keeps_intros]: "keeps machine (lldp_item en ident kv r)"
  unfolding lldp_item_def survey_exit_def by (cases kv) (simp only: split_conv, intro keeps_intros keeps_cases)

lemma keeps_configure [keeps_intros]: "keeps machine (configure_platform en ident pl)"
proof -
  have "bnd (ret False) (\<lambda>changed. bnd (ret False) (\<lambda>_. whenM changed m)) = ret ()" for m :: "(survey, unit) py"
    by (rule ext) (simp add: py_simps whenM_def)
  then show ?thesis unfolding configure_platform_def setAuth_platform.simps setIp_platform.simps by (simp only:) (intro keeps_intros)
qed

lemma keeps_lldp_items [keeps_intros]: "keeps machine (lldp_items en ident kvs r)"
  by (induction kvs arbitrary: r) (auto intro!: keeps_intros)

text \<open>A property of the machine's history is kept by whatever leaves the history alone.\<close>

definition seen :: "(string list list \<times> int list \<times> string list \<times> bool \<Rightarrow> bool) \<Rightarrow> survey \<Rightarrow> bool" where
  "seen P s = P (machine s)"

lemma seen_keeps: "keeps machine m \<Longrightarrow> preserves (seen P) m"
  by (rule preserves_keeps) (auto simp: seen_def)

lemmas seen_calls [preserves_intros] = keeps_ask[THEN seen_keeps] keeps_setMessage[THEN seen_keeps] keeps_logout[THEN seen_keeps]
  keeps_join[THEN seen_keeps] keeps_disks[THEN seen_keeps] keeps_hardware[THEN seen_keeps] keeps_setup[THEN seen_keeps]
  keeps_lldp_items[THEN seen_keeps] keeps_client[THEN seen_keeps] keeps_configure[THEN seen_keeps]

lemma preserves_pair: "(\<And>x y. p = (x, y) \<Longrightarrow> preserves P (k x y)) \<Longrightarrow> preserves P (case p of (x, y) \<Rightarrow> k x y)"
  by (simp split: prod.split)

lemma triple_then: "preserves P m \<Longrightarrow> (\<And>s. P s \<Longrightarrow> K s) \<Longrightarrow> (\<And>x. triple P (k x) Q (\<lambda>_. K)) \<Longrightarrow> triple P (bnd m k) Q (\<lambda>_. K)"
  by (rule triple_bnd[where R = "\<lambda>_. P"]) (rule triple_conseq[OF triple_preserves[of P m]], simp_all)

section \<open>The commands\<close>

definition lldp_argv :: "string list" where
  "lldp_argv = [''/sbin/lldpcli'', ''show'', ''neighbors'', ''-f'', ''keyvalue'']"

definition allowed :: "string list \<Rightarrow> bool" where
  "allowed argv = (argv = lldp_argv \<or> argv = [''/bin/ipmitool'', ''chassis'', ''identify'', ''force'']
     \<or> length argv = 5 \<and> take 4 argv = [''/sbin/ip'', ''addr'', ''show'', ''dev'']
     \<or> length argv = 4 \<and> take 3 argv = [''/bin/ipmitool'', ''lan'', ''print''])"

definition confined :: "string list list \<times> int list \<times> string list \<times> bool \<Rightarrow> bool" where
  "confined = (\<lambda>(cmds, slept, cleared, ok). list_all allowed cmds \<and> list_all (\<lambda>t. 10 \<le> t \<and> t \<le> 51) slept)"

lemma confined_rest: "10 \<le> t \<Longrightarrow> t \<le> 51 \<Longrightarrow> preserves (seen confined) (rest t)"
  unfolding rest_def by (rule preserves_modify) (simp add: seen_def machine_def confined_def)

lemma confined_run: "allowed argv \<Longrightarrow> preserves (seen confined) (run_prog en argv)"
  unfolding run_prog_def by (intro preserves_intros preserves_modify) (simp add: seen_def machine_def confined_def)

lemma confined_text: "allowed argv \<Longrightarrow> preserves (seen confined) (prog_text en argv)"
  unfolding prog_text_def by (auto intro!: preserves_intros confined_run split: prod.split)

lemma allowed_argvs:
  "allowed [''/sbin/lldpcli'', ''show'', ''neighbors'', ''-f'', ''keyvalue'']" "allowed [''/sbin/ip'', ''addr'', ''show'', ''dev'', x]"
  "allowed [''/bin/ipmitool'', ''lan'', ''print'', x]" "allowed [''/bin/ipmitool'', ''chassis'', ''identify'', ''force'']"
  by (simp_all add: allowed_def lldp_argv_def)

lemma confined_lldp_data: "preserves (seen confined) (lldp_data en ident n)"
proof (induction n)
  case 0
  then show ?case by (subst lldp_data.simps) (auto intro!: preserves_intros confined_text allowed_argvs)
next
  case (Suc n)
  then show ?case by (subst lldp_data.simps) (auto intro!: preserves_intros confined_text allowed_argvs confined_rest)
qed

lemma confined_getLLDP [preserves_intros]: "preserves (seen confined) (getLLDP en ident)"
  unfolding getLLDP_def by (auto intro!: preserves_intros confined_lldp_data split: option.split)

lemma confined_getIp [preserves_intros]: "preserves (seen confined) (getIpAddress en interface)"
  unfolding getIpAddress_def by (intro preserves_intros confined_text allowed_argvs)

lemma confined_network [preserves_intros]: "preserves (seen confined) (getNetwork en pl)"
  by (cases pl) (auto intro!: preserves_intros confined_text allowed_argvs simp: attr_def split: option.split)

lemma confined_identify [preserves_intros]: "preserves (seen confined) (startIdentify en pl)"
proof (cases pl)
  case IPMIPlatform
  have "split_ws ''chassis identify force'' = [''chassis'', ''identify'', ''force'']" by code_simp
  then show ?thesis unfolding IPMIPlatform startIdentify.simps ipmi_command_def
    by (auto intro!: preserves_intros confined_run allowed_argvs split: prod.split)
qed (simp_all add: preserves_intros)

lemma confined_find [preserves_intros]:
  assumes "\<And>n. 0 \<le> se_rand en n \<and> se_rand en n \<le> 41"
  shows "preserves (seen confined) (find_foundation fuel en ident info_map)"
proof (induction fuel)
  case (Suc fuel)
  have p: "10 \<le> 10 + se_rand en n" "10 + se_rand en n \<le> 51" for n using assms[of n] by auto
  show ?case unfolding find_foundation.simps
    by (intro preserves_intros Suc confined_rest p preserves_modify) (simp add: seen_def machine_def)
qed (simp add: preserves_intros)

lemma confined_drive: "preserves (seen confined) (clear_mbr d)"
  unfolding clear_mbr_def
  by (auto intro!: preserves_intros preserves_modify split: option.split) (simp add: seen_def machine_def confined_def)

lemma confined_report [preserves_intros]: "preserves (seen confined) (report_hardware en ident locator idmap)"
  unfolding report_hardware_def survey_exit_def
  by (intro preserves_intros preserves_modify) (simp add: seen_def machine_def confined_def)

lemma confined_after [preserves_intros]: "preserves (seen confined) (after_match en ident pl hw lldp primary locator conf)"
  unfolding after_match_def describe_machine_def clear_mbrs_def clean_up_def survey_exit_def stopIdentify.simps
  by (intro preserves_intros confined_drive)


section \<open>The LLDP query\<close>

lemma run_prog_cmds: "sv_cmds (snd (run_prog en argv s)) = sv_cmds s @ [argv]" "sv_slept (snd (run_prog en argv s)) = sv_slept s"
  by (simp_all add: run_prog_def py_simps)

lemma prog_text_cmds: "sv_cmds (snd (prog_text en argv s)) = sv_cmds s @ [argv]" "sv_slept (snd (prog_text en argv s)) = sv_slept s"
proof -
  obtain r t where m: "run_prog en argv s = (r, t)" by (cases "run_prog en argv s")
  have *: "snd (prog_text en argv s) = t"
    by (cases r) (auto simp: prog_text_def bnd_apply m py_simps lift_def split: prod.split sum.split)
  show "sv_cmds (snd (prog_text en argv s)) = sv_cmds s @ [argv]" "sv_slept (snd (prog_text en argv s)) = sv_slept s"
    unfolding * using run_prog_cmds[of en argv s] m by simp_all
qed

definition asked_in :: "nat \<Rightarrow> survey \<Rightarrow> survey \<Rightarrow> bool" where
  "asked_in n s t = (\<exists>k\<le>n. sv_cmds t = sv_cmds s @ replicate (Suc k) lldp_argv \<and> sv_slept t = sv_slept s @ replicate k 10)"

lemma asked_one: "sv_cmds t = sv_cmds s @ [lldp_argv] \<Longrightarrow> sv_slept t = sv_slept s \<Longrightarrow> asked_in n s t"
  unfolding asked_in_def by (rule exI[of _ 0]) simp

lemma asked_more: "asked_in n u t \<Longrightarrow> sv_cmds u = sv_cmds s @ [lldp_argv] \<Longrightarrow> sv_slept u = sv_slept s @ [10] \<Longrightarrow> asked_in (Suc n) s t"
  unfolding asked_in_def by (elim exE conjE, rule_tac x = "Suc k" in exI) simp

lemma asked_machine: "machine t = machine u \<Longrightarrow> asked_in n s u \<Longrightarrow> asked_in n s t"
  by (simp add: asked_in_def machine_def)

lemma lldp_data_asked: "asked_in n s (snd (lldp_data en ident n s))"
proof (induction n arbitrary: s)
  case 0
  obtain r t where m: "prog_text en lldp_argv s = (r, t)" by (cases "prog_text en lldp_argv s")
  have a: "asked_in 0 s t" using prog_text_cmds[of en lldp_argv s] m by (intro asked_one) simp_all
  have "keeps machine (seq (setMessage en ident msg) (ret None) :: (survey, string option) py)" for msg by (intro keeps_intros)
  then have "machine (snd (seq (setMessage en ident msg) (ret (None :: string option)) t)) = machine t" for msg by (simp add: keeps_def)
  then have "asked_in 0 s (snd (seq (setMessage en ident msg) (ret (None :: string option)) t))" for msg using a by (rule asked_machine)
  then show ?case using a m
    by (subst lldp_data.simps, cases r) (simp_all add: bnd_apply lldp_argv_def[symmetric] ret_def)
next
  case (Suc n)
  obtain r t where m: "prog_text en lldp_argv s = (r, t)" by (cases "prog_text en lldp_argv s")
  have t: "sv_cmds t = sv_cmds s @ [lldp_argv]" "sv_slept t = sv_slept s" using prog_text_cmds[of en lldp_argv s] m by simp_all
  have a: "asked_in (Suc n) s t" using t by (intro asked_one)
  have "asked_in (Suc n) s (snd (lldp_data en ident n (t\<lparr>sv_slept := sv_slept t @ [10]\<rparr>)))"
    by (rule asked_more[OF Suc]) (simp_all add: t)
  then show ?case using a m
    by (subst lldp_data.simps, cases r) (auto simp: bnd_apply py_simps rest_def lldp_argv_def[symmetric] split: prod.split sum.split)
qed

text \<open>The LLDP query ends: the command is run at most four times, with a pause of ten seconds between two runs, whatever it prints,
  whether the answer can be read or not and whether Contractor takes the message.
\<close>

theorem lldp_asked:
  "\<exists>k\<le>3. sv_cmds (snd (getLLDP en ident s)) = sv_cmds s @ replicate (Suc k) lldp_argv
     \<and> sv_slept (snd (getLLDP en ident s)) = sv_slept s @ replicate k 10"
proof -
  obtain r t where m: "lldp_data en ident 3 s = (r, t)" by (cases "lldp_data en ident 3 s")
  have a: "asked_in 3 s t" using lldp_data_asked[of 3 s en ident] m by simp
  have "keeps machine (bnd (lift (lldp_values t1)) (\<lambda>kvs. lldp_items en ident kvs []))" for t1 by (intro keeps_intros)
  then have "machine (snd (bnd (lift (lldp_values t1)) (\<lambda>kvs. lldp_items en ident kvs []) t)) = machine t" for t1 by (simp add: keeps_def)
  then have "machine (snd (getLLDP en ident s)) = machine t"
    by (cases r) (auto simp: getLLDP_def bnd_apply m py_simps split: option.split)
  from asked_machine[OF this a] show ?thesis unfolding asked_in_def .
qed

section \<open>The boot sectors\<close>

definition disks_of :: "survey \<Rightarrow> string list \<times> bool" where
  "disks_of s = (sv_cleared s, sv_verified s)"

lemma disks_machine: "keeps machine m \<Longrightarrow> keeps disks_of m"
  by (simp add: keeps_def machine_def disks_of_def)

lemma disks_rest [keeps_intros]: "keeps disks_of (rest t)"
  unfolding rest_def by (rule keeps_modify) (simp add: disks_of_def)

lemma disks_run [keeps_intros]: "keeps disks_of (run_prog en argv)"
  unfolding run_prog_def by (intro keeps_intros) (simp add: disks_of_def)

lemma disks_text [keeps_intros]: "keeps disks_of (prog_text en argv)"
  unfolding prog_text_def by (intro keeps_intros keeps_cases)

lemmas disks_calls [keeps_intros] = keeps_ask[THEN disks_machine] keeps_setMessage[THEN disks_machine] keeps_logout[THEN disks_machine]
  keeps_join[THEN disks_machine] keeps_disks[THEN disks_machine] keeps_hardware[THEN disks_machine] keeps_setup[THEN disks_machine]
  keeps_lldp_items[THEN disks_machine] keeps_client[THEN disks_machine] keeps_configure[THEN disks_machine]

lemma disks_lldp_data [keeps_intros]: "keeps disks_of (lldp_data en ident n)"
proof (induction n)
  case 0
  show ?case by (subst lldp_data.simps) (simp add: keeps_intros)
next
  case (Suc n)
  then show ?case by (subst lldp_data.simps) (simp add: keeps_intros)
qed

lemma disks_getLLDP [keeps_intros]: "keeps disks_of (getLLDP en ident)"
  unfolding getLLDP_def by (intro keeps_intros keeps_cases)

lemma disks_getIp [keeps_intros]: "keeps disks_of (getIpAddress en interface)"
  unfolding getIpAddress_def by (intro keeps_intros)

lemma disks_identify [keeps_intros]: "keeps disks_of (startIdentify en pl)"
  by (cases pl) (simp_all add: ipmi_command_def case_prod_beta keeps_intros)

lemma disks_network [keeps_intros]: "keeps disks_of (getNetwork en pl)"
  by (cases pl) (simp_all add: attr_def keeps_intros split: option.split)

lemma disks_find [keeps_intros]: "keeps disks_of (find_foundation fuel en ident info_map)"
proof (induction fuel)
  case (Suc fuel)
  show ?case unfolding find_foundation.simps by (intro keeps_intros Suc) (simp add: disks_of_def)
qed (simp add: keeps_intros)

definition block_devices :: "survey_env \<Rightarrow> string list" where
  "block_devices en = List.map_filter sd_block (se_drives en)"

definition untouched :: "survey \<Rightarrow> bool" where
  "untouched s = (sv_cleared s = [])"

definition approved :: "survey_env \<Rightarrow> survey \<Rightarrow> bool" where
  "approved en s = (sv_verified s \<and> set (sv_cleared s) \<subseteq> set (block_devices en))"

definition in_order :: "survey_env \<Rightarrow> survey \<Rightarrow> bool" where
  "in_order en s = (untouched s \<or> approved en s)"

lemma untouched_keeps: "keeps disks_of m \<Longrightarrow> preserves untouched m"
  by (rule preserves_keeps) (auto simp: untouched_def disks_of_def)

lemma approved_keeps: "keeps disks_of m \<Longrightarrow> preserves (approved en) m"
  by (rule preserves_keeps) (auto simp: approved_def disks_of_def)

lemma then_in_order: "keeps disks_of m \<Longrightarrow> (\<And>x. triple untouched (k x) Q (\<lambda>_. in_order en)) \<Longrightarrow> triple untouched (bnd m k) Q (\<lambda>_. in_order en)"
  by (rule triple_then[OF untouched_keeps]) (simp_all add: in_order_def)

lemma seq_in_order: "keeps disks_of m \<Longrightarrow> triple untouched k Q (\<lambda>_. in_order en) \<Longrightarrow> triple untouched (seq m k) Q (\<lambda>_. in_order en)"
  unfolding seq_def by (rule then_in_order)

lemma pair_in_order: "(\<And>x y. p = (x, y) \<Longrightarrow> triple P (k x y) Q E) \<Longrightarrow> triple P (case p of (x, y) \<Rightarrow> k x y) Q E"
  by (simp split: prod.split)

lemma report_approves: "triple untouched (report_hardware en ident locator idmap) (\<lambda>_. approved en) (\<lambda>_. in_order en)"
  unfolding report_hardware_def
proof (intro then_in_order keeps_intros)
  fix error
  have stop: "triple untouched m (\<lambda>_. approved en) (\<lambda>_. in_order en)" if "m = bnd a (\<lambda>e. seq (b e) (seq c (survey_exit 20)))" "keeps disks_of a" "\<And>e. keeps disks_of (b e)" "keeps disks_of c" for a :: "(survey, string) py" and b c and m :: "(survey, unit) py"
    unfolding that(1) survey_exit_def by (intro then_in_order seq_in_order that(2-4) triple_throw) (simp add: in_order_def)
  have go: "triple untouched (seq (modify (\<lambda>s. s\<lparr>sv_verified := True\<rparr>)) (setMessage en ident msg)) (\<lambda>_. approved en) (\<lambda>_. in_order en)" for msg
  proof (rule triple_seq)
    show "triple untouched (modify (\<lambda>s. s\<lparr>sv_verified := True\<rparr>)) (\<lambda>_. approved en) (\<lambda>_. in_order en)"
      by (rule triple_modify) (simp add: untouched_def approved_def)
    show "triple (approved en) (setMessage en ident msg) (\<lambda>_. approved en) (\<lambda>_. in_order en)"
      by (rule triple_conseq[OF triple_preserves[OF approved_keeps]]) (auto intro: keeps_intros simp: in_order_def)
  qed
  show "triple untouched (if error \<noteq> PNone
         then bnd (lift (py_str error)) (\<lambda>e. seq (setMessage en ident (''Hardware Error: '' @ Firmware_Handler.quoted e)) (seq (logout en) (survey_exit 20)))
         else seq (modify (\<lambda>s. s\<lparr>sv_verified := True\<rparr>)) (setMessage en ident ''Hardware Profile Verified''))
        (\<lambda>_. approved en) (\<lambda>_. in_order en)"
    using go by (auto intro!: stop[OF refl] keeps_intros)
qed

lemma clears_approved: "d \<in> set (se_drives en) \<Longrightarrow> preserves (approved en) (clear_mbr d)"
  unfolding clear_mbr_def
  by (auto intro!: preserves_intros preserves_modify split: option.split)
    (force simp: approved_def block_devices_def map_filter_def)

lemma after_match_in_order: "triple untouched (after_match en ident pl hw lldp primary locator conf) (\<lambda>_. in_order en) (\<lambda>_. in_order en)"
proof -
  have tail: "triple (approved en) (block [configure_platform en ident pl, clear_mbrs en ident conf, clean_up en ident pl])
      (\<lambda>_. in_order en) (\<lambda>_. in_order en)"
  proof (rule triple_conseq[OF triple_preserves])
    show "preserves (approved en) (block [configure_platform en ident pl, clear_mbrs en ident conf, clean_up en ident pl])"
      unfolding clear_mbrs_def clean_up_def survey_exit_def stopIdentify.simps
      by (intro preserves_intros clears_approved) (auto intro!: approved_keeps keeps_intros)
  qed (simp_all add: in_order_def)
  have head: "keeps disks_of (describe_machine en pl hw lldp primary)"
    unfolding describe_machine_def by (intro keeps_intros)
  show ?thesis unfolding after_match_def block_simps(2)[of "setMessage en ident ''Reporting Hardware info...''"]
      block_simps(2)[of "report_hardware en ident locator _"]
    by (intro seq_in_order then_in_order head keeps_intros triple_seq[OF report_approves] tail)
qed


section \<open>Switch ports\<close>

lemma digits_no_slash: "list_all is_digit w \<Longrightarrow> CHR ''/'' \<notin> set w"
  by (induction w) (auto simp: is_digit_def)

lemma port_chars: "list_all is_digit w \<Longrightarrow> filter (\<lambda>c. is_digit c \<or> c = CHR ''/'') w = w"
  by (induction w) auto

text \<open>The numbers of a port come back from the text a switch gives for it: the letters in front are dropped, one number is the port,
  two are slot and port, three have the subport as well, and four are refused.
\<close>

theorem lldp_port_parts:
  assumes "\<forall>c \<in> set pre. \<not> is_digit c \<and> c \<noteq> CHR ''/''" and "ns \<noteq> []"
  shows "lldp_port (pre @ join ''/'' (map show_nat ns)) = Inr (case ns of
      [p] \<Rightarrow> Some (1, int p, 0) | [a, p] \<Rightarrow> Some (int a, int p, 0) | [a, p, q] \<Rightarrow> Some (int a, int p, int q) | _ \<Rightarrow> None)"
proof -
  have d: "list_all is_digit (show_nat n)" for n using show_nat_digits by blast
  have "filter (\<lambda>c. is_digit c \<or> c = CHR ''/'') (join ''/'' (map show_nat ns)) = join ''/'' (map show_nat ns)"
  proof (induction ns)
    case (Cons n ns)
    then show ?case by (cases ns) (simp_all add: port_chars[OF d])
  qed simp
  moreover have "filter (\<lambda>c. is_digit c \<or> c = CHR ''/'') pre = []" using assms(1) by (simp add: filter_empty_conv)
  ultimately have "split_chr CHR ''/'' (filter (\<lambda>c. is_digit c \<or> c = CHR ''/'') (pre @ join ''/'' (map show_nat ns))) = map show_nat ns"
    using assms(2) digits_no_slash[OF d] by (simp add: split_chr_join)
  moreover have "int_str (show_nat n) = Inr (int n)" for n using int_str_show_int[of "int n"] by (simp add: show_int_def)
  ultimately show ?thesis unfolding lldp_port_def by (auto split: list.split)
qed

theorem lldp_port_parts_witness: "lldp_port ''Ethernet1/12/3'' = Inr (Some (1, 12, 3))"
proof -
  have s: "show_nat (Suc 0) = ''1''" "show_nat 12 = ''12''" "show_nat 3 = ''3''" by code_simp+
  show ?thesis using lldp_port_parts[of "''Ethernet''" "[1, 12, 3]"] by (simp add: s is_digit_def)
qed

section \<open>A command that fails\<close>

text \<open>The message that \<open>_command\<close> wants to post is sent through a name of the module that stays \<open>None\<close>, so the failure is a
  \<open>TypeError\<close> and not the exit code 1.\<close>

theorem ipmi_failure_raises:
  assumes "fst (se_run en (sv_cmds s) (''/bin/ipmitool'' # split_ws cmd)) \<noteq> 0"
  shows "fst (ipmi_command en cmd False s) = Inl TypeError \<and> fst (ipmi_command en cmd True s) = Inr ()"
  using assms
  by (cases "se_run en (sv_cmds s) (''/bin/ipmitool'' # split_ws cmd)") (simp add: ipmi_command_def run_prog_def py_simps)

end
