(* ===== verification/Survey_Runs.thy ===== *)
theory Survey_Runs
  imports Survey_Props
begin

text \<open>
  A survey of a small machine, from the identification to the end: the witnesses of \<open>survey_confined\<close> and \<open>mbr_only_after_verified\<close>.
  Contractor knows the machine at once, verifies its report and tells it to clear the boot sectors.
\<close>

section \<open>A machine\<close>

definition demo_dmi :: "dmi_entry list" where
  "demo_dmi = concat (map (\<lambda>(g, t, names). map (\<lambda>n. \<lparr>de_group = g, de_type = t, de_name = n, de_value = ''x''\<rparr>) names)
     [(1, ''Processor Information'', [''ID'']), (2, ''System Info'', [''Product Name'', ''Version'', ''Serial Number'', ''UUID'']),
      (3, ''Base Board Information'', [''Product Name'', ''Serial Number'', ''Asset Tag'']),
      (4, ''Chassis Information'', [''Version'', ''Serial Number'', ''Asset Tag''])])"

definition demo_answer :: "string \<Rightarrow> pyval" where
  "demo_answer url =
     (if endswith url ''(login)'' then PStr ''token''
      else if endswith url ''(lookup)'' then PDict [(''matched_by'', PStr ''ip''), (''locator'', PStr ''f1'')]
      else if endswith url ''/config/f/f1'' then PDict [(''bootstrap_wipe_mbr'', PBool True)]
      else PNone)"

definition demo_survey :: survey_env where
  "demo_survey = \<lparr>
     se_server = (\<lambda>log rq. let v = demo_answer (rq_url rq) in AResponse 200 (if v = PNone then [] else ''x'') (Some v) []),
     se_rnd = (\<lambda>_. 0), se_fuel = 2,
     se_run = (\<lambda>h argv. (0, if argv = lldp_argv then ''lldp.eth0.port.ifname=Eth1/2'' else ''1:''
        @ [CHR 10] @ ''2:'' @ [CHR 10] @ '' inet 10.0.0.5/24'')),
     se_file = (\<lambda>p. if p = ''/proc/cpuinfo'' then Inr (''processor : 0'' @ [CHR 10] @ ''physical id : 0'' @ [CHR 10])
       else if p = ''/proc/meminfo'' then Inr [] else if p = ''/tmp/dhcp-interface'' then Inr (''eth0'' @ [CHR 10]) else Inr ''00:01''),
     se_exists = (\<lambda>p. p = ''/dev/ipmi0''), se_eth = [''/sys/class/net/eth0''],
     se_dmi = Inr demo_dmi, se_pci = Inr [], se_vpd = (\<lambda>_ b. Inr b),
     se_drives = [\<lparr>sd_info = Inr [], sd_more = Inr [], sd_block = Some ''/dev/sda'', sd_write = Inr ()\<rparr>,
       \<lparr>sd_info = Inr [], sd_more = Inr [], sd_block = None, sd_write = Inr ()\<rparr>],
     se_sha = (\<lambda>t. ''abc''), se_rand = (\<lambda>_. 7), se_uuid = None\<rparr>"

definition survey_start :: survey where
  "survey_start = \<lparr>sv_client = (plain_client HTTPClient None [])\<lparr>ci_host := ''http://c'', ci_root := ''/api/v1/''\<rparr>, sv_cmds = [], sv_slept = [], sv_cleared = [], sv_lights = 0,
     sv_token = None, sv_lan = None, sv_turns = 0, sv_verified = False\<rparr>"

text \<open>The delays of the retries are logarithms, which no evaluation computes; no request of this survey is repeated.\<close>

lemma delay_factor_abort [code]: "delay_factor n = Code.abort STR ''a delay'' (\<lambda>_. delay_factor n)"
  by simp

definition demo_result :: "exc option \<times> string list list \<times> int list \<times> string list \<times> nat" where
  "demo_result = (let (r, t) = survey_main demo_survey survey_start in
     (case r of Inl e \<Rightarrow> Some e | Inr _ \<Rightarrow> None, sv_cmds t, sv_slept t, sv_cleared t, length (ci_log (sv_client t))))"

lemma demo_end: "demo_result = (Some (SysExit 0), [[''/bin/ipmitool'', ''chassis'', ''identify'', ''force''], lldp_argv,
    [''/sbin/ip'', ''addr'', ''show'', ''dev'', ''eth0''], [''/bin/ipmitool'', ''lan'', ''print'', ''1'']], [], [''/dev/sda''], 15)"
  by code_simp

lemma demo_parts:
  "sv_cleared (snd (survey_main demo_survey survey_start)) = [''/dev/sda'']"
  using demo_end by (auto simp: demo_result_def split: prod.splits)



end
