(* ===== verification/Drive_Ports.thy ===== *)
theory Drive_Ports
  imports Py_Regex "HOL-Library.Product_Lexorder"
begin

text \<open>
  The ports of \<open>libdrive.py\<close>: how the places a drive can be plugged into are found in \<open>/sys\<close>, for IDE, ATA, NVMe, SAS, SCSI and the
  MegaRAID controllers, and the names and numbers they get. The machine is the record \<open>sysfs\<close>; it does not change while it is looked
  at. A dictionary that is keyed by port objects, which are all different, is the list of its pairs.

  What a program prints is bytes; \<open>pytext\<close> keeps bytes and text apart, since a pattern, a separator or a prefix that is text raises
  \<open>TypeError\<close> on bytes.
\<close>

section \<open>The machine\<close>

record sysfs =
  sy_glob :: "string \<Rightarrow> string list"
  sy_exists :: "string \<Rightarrow> bool"
  sy_readable :: "string \<Rightarrow> bool"
  sy_writable :: "string \<Rightarrow> bool"
  sy_exec :: "string \<Rightarrow> bool"
  sy_isdir :: "string \<Rightarrow> bool"
  sy_isfile :: "string \<Rightarrow> bool"
  sy_listdir :: "string \<Rightarrow> string list res"
  sy_real :: "string \<Rightarrow> string"
  sy_run :: "string list \<Rightarrow> (int \<times> string) res"
  sy_cli :: "string option" \<comment> \<open>the MegaRAID program, \<open>_MegaRAIDCLI\<close>\<close>

datatype pytext = Str string | Byt string

definition quote :: "string \<Rightarrow> string" where
  "quote s = [CHR 0x22] @ s @ [CHR 0x22]"

fun rfold :: "('x \<Rightarrow> 's \<Rightarrow> 's res) \<Rightarrow> 'x list \<Rightarrow> 's \<Rightarrow> 's res" where
  "rfold f [] s = Inr s"
| "rfold f (x # xs) s = rbnd (f x s) (rfold f xs)"

definition match_on :: "string \<Rightarrow> pytext \<Rightarrow> caps option res" where
  "match_on pat line = (case line of
       Byt _ \<Rightarrow> Inl TypeError
     | Str s \<Rightarrow> Inr (case re_compile pat of None \<Rightarrow> None | Some r \<Rightarrow> re_match r s))"

definition matches_pat :: "string \<Rightarrow> string \<Rightarrow> bool" where
  "matches_pat pat s = (case re_compile pat of None \<Rightarrow> False | Some r \<Rightarrow> re_match r s \<noteq> None)"

definition grp :: "caps \<Rightarrow> nat \<Rightarrow> string" where
  "grp c i = (case map_of c i of None \<Rightarrow> [] | Some s \<Rightarrow> s)"

definition digits :: "string \<Rightarrow> string" where
  "digits s = filter is_digit s"

definition pad0 :: "nat \<Rightarrow> int \<Rightarrow> string" where
  "pad0 w i = (let t = show_int i in replicate (w - length t) (CHR ''0'') @ t)"

definition last_part :: "string \<Rightarrow> string" where
  "last_part s = last (split_chr slash s)"

section \<open>Ports\<close>

datatype port =
    IDEPort nat
  | ATAPort int nat
  | NVMEPort string int
  | MegaRAIDPort int string int int \<comment> \<open>host, controller, enclosure, port\<close>
  | SASPort int string pyval "string option" \<comment> \<open>host, scsi_id, slot, slot_name\<close>
  | SCSIPort string string

definition slot_text :: "pyval \<Rightarrow> string" where
  "slot_text v = (case v of PInt i \<Rightarrow> show_int i | PStr s \<Rightarrow> s | _ \<Rightarrow> [])"

fun port_location :: "port \<Rightarrow> string" where
  "port_location (IDEPort p) = ''IDE '' @ show_nat p"
| "port_location (ATAPort h p) = ''ATA '' @ show_nat p"
| "port_location (NVMEPort c n) = ''NVME '' @ c @ '':'' @ show_int n"
| "port_location (MegaRAIDPort h c e p) = ''MegaRAID '' @ c @ '':'' @ show_int e @ '':'' @ show_int p"
| "port_location (SASPort h i sl nm) = ''SAS '' @ show_int h @ '':'' @ slot_text sl"
| "port_location (SCSIPort h p) = ''SCSI '' @ h @ '':'' @ p"

fun port_type :: "port \<Rightarrow> string" where
  "port_type (IDEPort _) = ''IDE''"
| "port_type (ATAPort _ _) = ''ATA''"
| "port_type (NVMEPort _ _) = ''NVME''"
| "port_type (MegaRAIDPort _ _ _ _) = ''MegaRAID''"
| "port_type (SASPort _ _ _ _) = ''SAS''"
| "port_type (SCSIPort _ _) = ''SCSI''"

definition sas_port :: "string \<Rightarrow> pyval \<Rightarrow> string option \<Rightarrow> port res" where
  "sas_port scsi_id slot slot_name =
     rbnd (int_str (hd (split_chr (CHR '':'') scsi_id))) (\<lambda>h. Inr (SASPort h scsi_id slot slot_name))"

type_synonym 'b ports = "(port \<times> 'b) list"

section \<open>IDE\<close>

fun ide_ports :: "sysfs \<Rightarrow> string list \<Rightarrow> nat \<Rightarrow> string option ports" where
  "ide_ports en [] i = []"
| "ide_ports en (ide # ides) i =
     (IDEPort i, case sy_glob en (''/sys/class/ide_port/'' @ ide @ ''/device/*/block/hd*'') of [] \<Rightarrow> None | p # _ \<Rightarrow> Some (last_part p))
     # ide_ports en ides (Suc i)"

definition getIDEPorts :: "sysfs \<Rightarrow> string option ports" where
  "getIDEPorts en = ide_ports en (map last_part (sy_glob en ''/sys/class/ide_port/ide*'')) 0"

section \<open>ATA\<close>

text \<open>The key by which the hosts are sorted: \<open>k\<close> parts of the PCI path, filled up with zeros to four, and the number in the name.\<close>

definition bus_entry :: "nat \<Rightarrow> nat \<Rightarrow> string \<Rightarrow> (string \<times> string) res" where
  "bus_entry k i item =
     (let tmp = split_chr slash (filter (\<lambda>c. c \<noteq> CHR '':'' \<and> c \<noteq> CHR ''.'') item) in
      if length tmp \<le> i then Inl IndexError
      else rbnd (int_str (digits (tmp ! i))) (\<lambda>n.
        Inr (join '' '' (take k (drop 3 tmp) @ replicate (4 - k) ''000000000'' @ [pad0 4 n]), tmp ! i)))"

definition bus_entries :: "sysfs \<Rightarrow> (string \<times> nat \<times> nat) list \<Rightarrow> (string \<times> string) list res" where
  "bus_entries en pats = rbnd (collect pats (\<lambda>(pat, k, i). collect (sy_glob en pat) (bus_entry k i))) (\<lambda>ls. Inr (sort (concat ls)))"

definition ata_patterns :: "(string \<times> nat \<times> nat) list" where
  "ata_patterns = [
     (''/sys/devices/pci[0-9]*/[0-9]*/[0-9]*/[0-9]*/ata*/host*'', 4, 8),
     (''/sys/devices/pci[0-9]*/[0-9]*/[0-9]*/[0-9]*/host*'', 4, 7),
     (''/sys/devices/pci[0-9]*/[0-9]*/[0-9]*/ata*/host*'', 3, 7),
     (''/sys/devices/pci[0-9]*/[0-9]*/[0-9]*/host*'', 3, 6),
     (''/sys/devices/pci[0-9]*/[0-9]*/ata*/host*'', 2, 6),
     (''/sys/devices/pci[0-9]*/[0-9]*/host*'', 2, 5)]"

definition exclude_hosts :: "sysfs \<Rightarrow> string list" where
  "exclude_hosts en = map last_part (concat (map (sy_glob en)
     [''/sys/bus/usb/devices/*/host*'', ''/sys/bus/pci/drivers/megaraid_sas/*/host*'', ''/sys/bus/pci/drivers/mpt*/*/host*'']))"

definition double_hosts :: "sysfs \<Rightarrow> string list" where
  "double_hosts en = map last_part (concat (map (sy_glob en)
     [''/sys/bus/pci/drivers/ata_piix/*/ata*/host*'', ''/sys/bus/pci/drivers/ata_piix/*/host*'']))"

fun number_hosts :: "sysfs \<Rightarrow> string list \<Rightarrow> nat \<Rightarrow> (string, nat) dict \<Rightarrow> (string, nat) dict" where
  "number_hosts en [] i name_map = name_map"
| "number_hosts en (name # names) i name_map =
     (if sy_exists en (''/sys/class/scsi_host/'' @ name @ ''/device/sas_host'') \<or> name \<in> set (exclude_hosts en)
      then number_hosts en names i name_map
      else number_hosts en names (i + (if name \<in> set (double_hosts en) then 2 else 1)) (dset name i name_map))"

definition nth_block :: "string list \<Rightarrow> nat \<Rightarrow> string option" where
  "nth_block l i = (if i < length l then Some (last_part (l ! i)) else None)"

definition host_ports :: "sysfs \<Rightarrow> string \<times> nat \<Rightarrow> string option ports res" where
  "host_ports en = (\<lambda>(name, n).
     rbnd (int_str (digits name)) (\<lambda>h.
     let l = sy_glob en (''/sys/class/scsi_host/'' @ name @ ''/device/target*/*/block/sd*'') in
     Inr (if name \<in> set (double_hosts en) then [(ATAPort h n, nth_block l 0), (ATAPort h (Suc n), nth_block l 1)]
          else [(ATAPort h n, nth_block l 0)])))"

definition getATAPorts :: "sysfs \<Rightarrow> string option ports res" where
  "getATAPorts en = rbnd (bus_entries en ata_patterns) (\<lambda>hosts.
     rbnd (collect (number_hosts en (map snd hosts) 0 []) (host_ports en)) (\<lambda>ps. Inr (concat ps)))"

section \<open>NVMe\<close>

definition nvme_patterns :: "(string \<times> nat \<times> nat) list" where
  "nvme_patterns = [
     (''/sys/devices/pci[0-9]*/[0-9]*/[0-9]*/[0-9]*/nvme/nvme*'', 4, 8),
     (''/sys/devices/pci[0-9]*/[0-9]*/[0-9]*/nvme/nvme*'', 3, 7),
     (''/sys/devices/pci[0-9]*/[0-9]*/nvme/nvme*'', 2, 6)]"

definition nvme_port :: "string \<Rightarrow> string \<Rightarrow> (port \<times> (string \<times> string)) res" where
  "nvme_port name path =
     (let block = last_part path in
      rbnd (int_str (last (split_chr (CHR ''n'') block))) (\<lambda>namespace.
        Inr (NVMEPort (digits name) namespace, block, ''/dev/'' @ name @ '':'' @ show_int namespace)))"

definition getNVMEPorts :: "sysfs \<Rightarrow> (string \<times> string) ports res" where
  "getNVMEPorts en = rbnd (bus_entries en nvme_patterns) (\<lambda>l.
     rbnd (collect (map snd l) (\<lambda>name. collect (sy_glob en (''/sys/class/nvme/'' @ name @ ''/'' @ name @ ''n*'')) (nvme_port name)))
       (\<lambda>ps. Inr (concat ps)))"

section \<open>SAS\<close>

definition getSASEnclosureList :: "sysfs \<Rightarrow> string list res" where
  "getSASEnclosureList en =
     (if \<not> sy_exists en ''/sys/class/sas_expander/'' \<or> \<not> sy_exists en ''/sys/class/enclosure/'' then Inr []
      else rbnd (sy_listdir en ''/sys/class/sas_expander/'') (\<lambda>names.
        collect (filter (\<lambda>l. l \<noteq> []) (map (\<lambda>name.
            sy_glob en (''/sys/class/sas_expander/'' @ name @ ''/device/port-*/end_device-*/target*/[0-9:]*/enclosure'')) names))
          (\<lambda>l. lindex (split_chr slash (hd l)) (- 2))))"

text \<open>The names of the slots; the keys are the names themselves, the bay with the slot number, or the place in the sorted list.\<close>

definition slot_names :: "sysfs \<Rightarrow> string \<Rightarrow> string list" where
  "slot_names en enclosure = sort (filter (\<lambda>n. n \<notin> set [''uevent'', ''subsystem'', ''device'', ''components'', ''power''])
     (remdups (map last_part (sy_glob en (''/sys/class/enclosure/'' @ enclosure @ ''/*'')))))"

definition bay_slot :: "string \<Rightarrow> string res" where
  "bay_slot item =
     rbnd (lindex (split_chr (CHR ''['') item) 1) (\<lambda>t.
     case split_chr (CHR '','') (hd (split_chr (CHR '']'') t)) of
       [bay, slot] \<Rightarrow> rbnd (int_str slot) (\<lambda>n. Inr (bay @ pad0 2 n))
     | _ \<Rightarrow> Inl ValueError)"

definition numbered :: "string list \<Rightarrow> (pyval \<times> string) list" where
  "numbered ports = map (\<lambda>i. (PInt (int i), ports ! i)) [0..<length ports]"

definition is_numbered :: "string \<Rightarrow> bool" where
  "is_numbered p = (matches_pat ''[0-9]+'' p \<or> matches_pat ''Slot[ ]*[0-9]+'' p \<or> matches_pat ''SLOT[ ]*[0-9]+'' p
     \<or> matches_pat ''ArrayDevice[ ]*[0-9]+'' p)"

definition pikes_peak :: string where
  "pikes_peak = ''SLOT[ 0-9]*'' @ [CHR 0x5C] @ ''[[A-G],[ ]*[1-9]+'' @ [CHR 0x5C] @ '']''"

definition getEnclosurePortMap :: "sysfs \<Rightarrow> string \<Rightarrow> (pyval \<times> string) list res" where
  "getEnclosurePortMap en enclosure = (case slot_names en enclosure of
       [] \<Rightarrow> Inr []
     | p # ps \<Rightarrow>
         if matches_pat ''[A-E][0-9]+'' p then Inr (map (\<lambda>n. (PStr n, n)) (p # ps))
         else if matches_pat pikes_peak p then
           rbnd (collect (p # ps) (\<lambda>n. rbnd (bay_slot n) (\<lambda>k. Inr (k, n)))) (\<lambda>kvs.
             Inr (map (\<lambda>(k, n). (PStr k, n)) (fold (\<lambda>(k, n). dset k n) kvs [])))
         else if is_numbered p then Inr (numbered (p # ps))
         else Inl (PlainException ''Unknown Port Naming System''))"

definition enclosure_port :: "sysfs \<Rightarrow> string \<Rightarrow> pyval \<times> string \<Rightarrow> (port \<times> string option) res" where
  "enclosure_port en enclosure = (\<lambda>(i, name).
     rbnd (sas_port enclosure i (Some name)) (\<lambda>p.
     let dir = ''/sys/class/enclosure/'' @ enclosure @ ''/'' @ name in
     Inr (p, case sy_glob en (dir @ ''/device/block/sd*'') of
         b # _ \<Rightarrow> Some (last_part b)
       | [] \<Rightarrow> (case sy_glob en (dir @ ''/device/scsi_generic/sg*'') of g # _ \<Rightarrow> Some (last_part g) | [] \<Rightarrow> None))))"

definition getSASEnclosurePorts :: "sysfs \<Rightarrow> string \<Rightarrow> string option ports res" where
  "getSASEnclosurePorts en enclosure = rbnd (getEnclosurePortMap en enclosure) (\<lambda>m. collect m (enclosure_port en enclosure))"

definition direct_port :: "string \<Rightarrow> (port \<times> string option) res" where
  "direct_port b =
     (let parts = split_chr slash b in
      rbnd (lindex parts (- 3)) (\<lambda>scsi_id.
      rbnd (lindex parts 6) (\<lambda>phy.
      rbnd (sas_port scsi_id (PStr (last (split_chr (CHR '':'') phy))) None) (\<lambda>p. Inr (p, Some (last parts))))))"

definition getSASDirectPorts :: "sysfs \<Rightarrow> string option ports res" where
  "getSASDirectPorts en = collect (sy_glob en ''/sys/class/scsi_host/host*/device/phy-*/port/end_device-*/target*/*/block/sd*'') direct_port"

text \<open>The light of a slot: what is written into which file.\<close>

definition setSASFault :: "sysfs \<Rightarrow> string \<Rightarrow> string \<Rightarrow> bool \<Rightarrow> (string \<times> string) list" where
  "setSASFault en enclosure slot state =
     (let path = ''/sys/class/enclosure/'' @ enclosure @ ''/'' @ slot @ ''/fault'' in
      if sy_writable en path then [(path, if state then ''1'' else ''0'')] else [])"

section \<open>SCSI\<close>

definition scsi_port :: "string \<Rightarrow> (port \<times> string option) res" where
  "scsi_port b =
     (let parts = split_chr slash b in
      rbnd (lindex parts 7) (\<lambda>addr. case split_chr (CHR '':'') addr of
        [host, _, port, _] \<Rightarrow> Inr (SCSIPort host port, Some (last parts))
      | _ \<Rightarrow> Inl ValueError))"

definition getSCSIPorts :: "sysfs \<Rightarrow> string option ports res" where
  "getSCSIPorts en = collect (sy_glob en ''/sys/class/scsi_host/host*/device/target*/*/block/sd*'') scsi_port"

section \<open>MegaRAID\<close>

text \<open>The lines a program prints; a failing program raises.\<close>

definition cli_lines :: "sysfs \<Rightarrow> string list \<Rightarrow> (string \<Rightarrow> string) \<Rightarrow> pytext list res" where
  "cli_lines en argv err = rbnd (sy_run en argv) (\<lambda>(rc, out).
     if rc \<noteq> 0 then Inl (PlainException (err (quote (show_int rc)))) else Inr (map Byt (bytes_lines out)))"

definition enc_line :: "pytext \<Rightarrow> string option \<times> string list \<times> string list \<Rightarrow> (string option \<times> string list \<times> string list) res" where
  "enc_line line = (\<lambda>(tmp, cs, es).
     rbnd (match_on ([CHR 0x5C] @ ''s*Number of enclosures on adapter ([0-9]+)'') line) (\<lambda>m.
     let (tmp1, cs1) = (case m of None \<Rightarrow> (tmp, cs) | Some c \<Rightarrow> (Some (grp c 1), cs @ [grp c 1])) in
     rbnd (match_on ([CHR 0x5C] @ ''s*Enclosure ([0-9]+):'') line) (\<lambda>m2.
       Inr (tmp1, cs1, case m2 of None \<Rightarrow> es | Some c \<Rightarrow> es @ [(case tmp1 of None \<Rightarrow> ''None'' | Some t \<Rightarrow> t) @ ''-'' @ grp c 1]))))"

definition getMegaRAIDLists :: "sysfs \<Rightarrow> string \<Rightarrow> (string list \<times> string list) res" where
  "getMegaRAIDLists en cli =
     rbnd (cli_lines en [cli, ''-EncInfo'', ''-aALL''] (\<lambda>rc. ''got return code '' @ rc @ '' when getting list of MegaRAID controllers'')) (\<lambda>lines.
     rbnd (rfold enc_line lines (None, [], [])) (\<lambda>(_, cs, es). Inr (cs, es)))"

text \<open>\<open>key: value\<close>; a line without a colon is passed over.\<close>

definition kv_line :: "pytext \<Rightarrow> (string \<times> string) option res" where
  "kv_line line = (case line of Byt _ \<Rightarrow> Inl TypeError | Str s \<Rightarrow> Inr (map_option (\<lambda>(k, v). (strip k, v)) (split1 (CHR '':'') (strip s))))"

record 'b pd_state =
  pd_slot :: "int option"
  pd_device :: "int option"
  pd_enclosure :: "int option"
  pd_ports :: "'b ports"

definition pd_field :: "string \<Rightarrow> string \<Rightarrow> 'b pd_state \<Rightarrow> 'b pd_state res" where
  "pd_field k v st =
     (if k = ''Enclosure Device ID'' then rbnd (int_str (strip v)) (\<lambda>n. Inr (st\<lparr>pd_enclosure := Some n\<rparr>))
      else if k = ''Slot Number'' then rbnd (int_str (strip v)) (\<lambda>n. Inr (st\<lparr>pd_slot := Some n\<rparr>))
      else if k = ''Device Id'' then rbnd (int_str (strip v)) (\<lambda>n. Inr (st\<lparr>pd_device := Some n\<rparr>))
      else Inr st)"

text \<open>A drive is complete when the three numbers are there; \<open>mk\<close> makes its port and what is kept for it.\<close>

definition pd_line :: "(int \<Rightarrow> int \<Rightarrow> int \<Rightarrow> (port \<times> 'b) res) \<Rightarrow> pytext \<Rightarrow> 'b pd_state \<Rightarrow> 'b pd_state res" where
  "pd_line mk line st =
     rbnd (kv_line line) (\<lambda>kv. case kv of
         None \<Rightarrow> Inr st
       | Some (k, v) \<Rightarrow> rbnd (pd_field k v st) (\<lambda>st1.
           case (pd_enclosure st1, pd_slot st1, pd_device st1) of
             (Some e, Some s, Some d) \<Rightarrow> rbnd (mk e s d) (\<lambda>p.
               Inr \<lparr>pd_slot = None, pd_device = None, pd_enclosure = None, pd_ports = pd_ports st1 @ [p]\<rparr>)
           | _ \<Rightarrow> Inr st1))"

definition pd_ports_of :: "sysfs \<Rightarrow> string \<Rightarrow> string \<Rightarrow> (int \<Rightarrow> int \<Rightarrow> int \<Rightarrow> (port \<times> 'b) res) \<Rightarrow> 'b ports \<Rightarrow> 'b ports res" where
  "pd_ports_of en cli controller mk ports =
     rbnd (cli_lines en [cli, ''-PDList'', ''-a'' @ controller]
       (\<lambda>rc. ''Got return code '' @ rc @ '' when getting list of ports on controller '' @ quote controller)) (\<lambda>lines.
     rbnd (rfold (pd_line mk) lines \<lparr>pd_slot = None, pd_device = None, pd_enclosure = None, pd_ports = ports\<rparr>) (\<lambda>st. Inr (pd_ports st)))"

definition mega_port :: "sysfs \<Rightarrow> int \<Rightarrow> string \<Rightarrow> int \<Rightarrow> int \<Rightarrow> int \<Rightarrow> (port \<times> (string option \<times> string)) res" where
  "mega_port en host controller e s d =
     Inr (MegaRAIDPort host controller e s,
       nth_block (sy_glob en (''/sys/class/scsi_host/host'' @ show_int host @ ''/device/target'' @ show_int host @ '':0:'' @ show_int d @ ''/*/block/sd*'')) 0,
       ''host'' @ show_int host @ '':'' @ show_int d)"

definition no_mega :: "sysfs \<Rightarrow> bool" where
  "no_mega en = ((case sy_cli en of None \<Rightarrow> True | Some c \<Rightarrow> c = []) \<or> \<not> sy_readable en ''/sys/bus/pci/drivers/megaraid_sas'')"

definition the_cli :: "sysfs \<Rightarrow> string \<Rightarrow> string res" where
  "the_cli en err = (case sy_cli en of None \<Rightarrow> Inl TypeError | Some c \<Rightarrow> if sy_exec en c then Inr c else Inl (PlainException err))"

definition mega_host :: "sysfs \<Rightarrow> int res" where
  "mega_host en = (case sy_glob en ''/sys/bus/pci/drivers/megaraid_sas/*/host*'' of
       [] \<Rightarrow> Inl (PlainException (''Don'' @ [CHR 0x27] @ ''t know where to go to get the host''))
     | p # _ \<Rightarrow> int_str (digits (last_part p)))"

definition one_card_only :: exc where
  "one_card_only = PlainException (''I haven'' @ [CHR 0x27] @ ''t figure out how to map multiple cards to hosts yet, now I get too!'')"

definition getMegaRAIDPorts :: "sysfs \<Rightarrow> (string option \<times> string) ports res" where
  "getMegaRAIDPorts en =
     (if no_mega en then Inr []
      else rbnd (the_cli en ''MegaRAID driver loaded but no MegaRAID cli'') (\<lambda>cli.
        rbnd (getMegaRAIDLists en cli) (\<lambda>(cs, _).
        if cs = [] then Inr []
        else if length cs > 1 then Inl one_card_only
        else rbnd (mega_host en) (\<lambda>host. rfold (\<lambda>c. pd_ports_of en cli c (mega_port en host c)) cs []))))"

section \<open>MegaRAID under ESX\<close>

text \<open>The drivers come as one text, in which the driver of the adapter is looked for.\<close>

definition hba_line :: "string \<Rightarrow> pytext \<Rightarrow> string list \<Rightarrow> string list res" where
  "hba_line driver line acc = (case line of
       Byt b \<Rightarrow> if length (filter (\<lambda>w. w \<noteq> []) (split_chr CHR '' '' (map (\<lambda>c. if byte_space c then CHR '' '' else c) b))) < 2
                then Inl IndexError else Inl TypeError
     | Str s \<Rightarrow> (case split_ws s of a # d # _ \<Rightarrow> Inr (if contains d driver then acc @ [a] else acc) | _ \<Rightarrow> Inl IndexError))"

definition getESXHBAList :: "sysfs \<Rightarrow> string \<Rightarrow> string list res" where
  "getESXHBAList en driver =
     rbnd (cli_lines en [''/sbin/esxcli'', ''storage'', ''core'', ''adapter'', ''list''] (\<lambda>rc. ''got return code '' @ rc @ '' when getting list of adapters''))
       (\<lambda>lines. rfold (hba_line driver) lines [])"

record vol_state =
  vo_name :: "string option"
  vo_device :: "string option"
  vo_adapter :: "string option"
  vo_map :: "(string, string) dict"

definition vol_field :: "string \<Rightarrow> string \<Rightarrow> vol_state \<Rightarrow> vol_state" where
  "vol_field k v st =
     (if k = ''Runtime Name'' then st\<lparr>vo_name := Some (strip v)\<rparr>
      else if k = ''Device'' then st\<lparr>vo_device := Some (strip v)\<rparr>
      else if k = ''Adapter'' then st\<lparr>vo_adapter := Some (strip v)\<rparr>
      else st)"

definition vol_line :: "string list \<Rightarrow> pytext \<Rightarrow> vol_state \<Rightarrow> vol_state res" where
  "vol_line hba_list line st =
     rbnd (kv_line line) (\<lambda>kv. case kv of
         None \<Rightarrow> Inr st
       | Some (k, v) \<Rightarrow> (let st1 = vol_field k v st in
           case (vo_name st1, vo_device st1, vo_adapter st1) of
             (Some n, Some d, Some a) \<Rightarrow>
               Inr \<lparr>vo_name = None, vo_device = None, vo_adapter = None,
                 vo_map = (if a \<in> set hba_list then dset (case split1 (CHR '':'') n of None \<Rightarrow> n | Some (_, r) \<Rightarrow> r) d (vo_map st1) else vo_map st1)\<rparr>
           | _ \<Rightarrow> Inr st1))"

definition getESXVolumeMap :: "sysfs \<Rightarrow> string list \<Rightarrow> (string, string) dict res" where
  "getESXVolumeMap en hba_list =
     rbnd (cli_lines en [''/sbin/esxcli'', ''storage'', ''core'', ''path'', ''list''] (\<lambda>rc. ''got return code '' @ rc @ '' when getting list of volums''))
       (\<lambda>lines. rbnd (rfold (vol_line hba_list) lines \<lparr>vo_name = None, vo_device = None, vo_adapter = None, vo_map = []\<rparr>) (\<lambda>st. Inr (vo_map st)))"

definition esx_port :: "(string, string) dict \<Rightarrow> string \<Rightarrow> int \<Rightarrow> int \<Rightarrow> int \<Rightarrow> (port \<times> (string option \<times> string)) res" where
  "esx_port volume_map controller e s d =
     rbnd (dindex volume_map (''C2:T'' @ controller @ '':L0'')) (\<lambda>b. Inr (MegaRAIDPort 6 controller e s, Some b, ''host6:'' @ show_int d))"

definition getMegaRAIDPorts_ESX :: "sysfs \<Rightarrow> (string option \<times> string) ports res" where
  "getMegaRAIDPorts_ESX en =
     rbnd (getESXHBAList en ''megaraid_sas'') (\<lambda>hba_list.
     if hba_list = [] then Inr []
     else rbnd (the_cli en ''MegaRAID driver loaded but no MegaRAID cli'') (\<lambda>cli.
       rbnd (getMegaRAIDLists en cli) (\<lambda>(cs, _).
       if cs = [] then Inr []
       else if length cs > 1 \<or> length hba_list > 1 then Inl one_card_only
       else rbnd (getESXVolumeMap en hba_list) (\<lambda>vm. rfold (\<lambda>c. pd_ports_of en cli c (esx_port vm c)) cs []))))"

end
