(* ===== verification/Drive_Manager.thy ===== *)
theory Drive_Manager
  imports Drive_Ports
begin

text \<open>
  The drive manager of \<open>libdrive.py\<close>: \<open>rescan\<close> asks one kind of port after the other, from the most specific to the last resort, and
  makes a drive for every block device that none of the earlier ones had. A drive refers to its port by the number of the port in the
  list, which stands for the identity of the port object; the drive of a port is the one that refers to it.
\<close>

section \<open>Drives\<close>

record drive =
  dr_port :: nat
  dr_name :: string
  dr_block :: "string option"
  dr_lib :: string
  dr_devpath :: "string option"
  dr_pcipath :: "string option"
  dr_sg :: "string option"

definition without_prefix :: "string \<Rightarrow> string \<Rightarrow> string" where
  "without_prefix p s = (if startswith s p then drop (length p) s else s)"

definition first_real :: "sysfs \<Rightarrow> string \<Rightarrow> string \<Rightarrow> string option" where
  "first_real en pat p = (case sy_glob en pat of [] \<Rightarrow> None | x # _ \<Rightarrow> Some (without_prefix p (sy_real en x)))"

definition new_drive :: "sysfs \<Rightarrow> nat \<Rightarrow> port \<Rightarrow> string \<Rightarrow> string option \<Rightarrow> string \<Rightarrow> drive" where
  "new_drive en i p name blk lib = (case blk of
       None \<Rightarrow> \<lparr>dr_port = i, dr_name = name, dr_block = None, dr_lib = lib, dr_devpath = None, dr_pcipath = None, dr_sg = None\<rparr>
     | Some b \<Rightarrow>
         let device = ''/sys/block/'' @ b @ ''/device'' in
         \<lparr>dr_port = i, dr_name = name, dr_block = Some b, dr_lib = lib,
          dr_devpath = first_real en (if port_type p = ''NVME'' then device else device @ ''/scsi_disk/*'') ''/sys'',
          dr_pcipath = first_real en device ''/sys/devices'',
          dr_sg = (case sy_glob en (device @ ''/scsi_generic/sg*'') of [] \<Rightarrow> None | x # _ \<Rightarrow> Some (''/dev/'' @ last_part x))\<rparr>)"

definition drive_block_path :: "drive \<Rightarrow> string option" where
  "drive_block_path d = map_option (\<lambda>b. ''/dev/'' @ b) (dr_block d)"

section \<open>The scan\<close>

record manager =
  dm_ports :: "port list"
  dm_drives :: "drive list"
  dm_unknown :: "string list"
  dm_blocks :: "string list"

definition nothing_yet :: manager where
  "nothing_yet = \<lparr>dm_ports = [], dm_drives = [], dm_unknown = [], dm_blocks = []\<rparr>"

text \<open>A port with its block device; \<open>lib\<close> is the name the C library knows the drive by.\<close>

definition add_block :: "sysfs \<Rightarrow> port \<Rightarrow> string \<Rightarrow> string \<Rightarrow> manager \<Rightarrow> manager" where
  "add_block en p b lib dm =
     (if b = [] \<or> b \<in> set (dm_blocks dm) then dm\<lparr>dm_ports := dm_ports dm @ [p]\<rparr>
      else dm\<lparr>dm_ports := dm_ports dm @ [p], dm_blocks := dm_blocks dm @ [b],
              dm_drives := dm_drives dm @ [new_drive en (length (dm_ports dm)) p b (Some b) lib]\<rparr>)"

definition add_plain :: "sysfs \<Rightarrow> port \<times> string option \<Rightarrow> manager \<Rightarrow> manager" where
  "add_plain en = (\<lambda>(p, blk) dm. case blk of
       None \<Rightarrow> dm\<lparr>dm_ports := dm_ports dm @ [p]\<rparr>
     | Some b \<Rightarrow> add_block en p b (''/dev/'' @ b) dm)"

definition add_nvme :: "sysfs \<Rightarrow> port \<times> (string \<times> string) \<Rightarrow> manager \<Rightarrow> manager" where
  "add_nvme en = (\<lambda>(p, blk, lib). add_block en p blk lib)"

definition add_mega :: "sysfs \<Rightarrow> port \<times> (string option \<times> string) \<Rightarrow> manager \<Rightarrow> manager" where
  "add_mega en = (\<lambda>(p, blk, lib) dm.
     if lib = [] then dm\<lparr>dm_ports := dm_ports dm @ [p]\<rparr>
     else dm\<lparr>dm_ports := dm_ports dm @ [p],
             dm_blocks := (case blk of None \<Rightarrow> dm_blocks dm | Some b \<Rightarrow> if b \<in> set (dm_blocks dm) then dm_blocks dm else dm_blocks dm @ [b]),
             dm_drives := dm_drives dm @ [new_drive en (length (dm_ports dm)) p lib blk lib]\<rparr>)"

definition add_esx :: "sysfs \<Rightarrow> port \<times> (string option \<times> string) \<Rightarrow> manager \<Rightarrow> manager" where
  "add_esx en = (\<lambda>(p, blk, lib) dm. case blk of
       None \<Rightarrow> dm\<lparr>dm_ports := dm_ports dm @ [p]\<rparr>
     | Some b \<Rightarrow>
         if b = [] then dm\<lparr>dm_ports := dm_ports dm @ [p]\<rparr>
         else dm\<lparr>dm_ports := dm_ports dm @ [p], dm_drives := dm_drives dm @ [new_drive en (length (dm_ports dm)) p lib (Some b) lib]\<rparr>)"

section \<open>What the manager tells\<close>

definition port_list :: "manager \<Rightarrow> port list" where
  "port_list dm = sort_key port_location (dm_ports dm)"

definition drive_list :: "manager \<Rightarrow> drive list" where
  "drive_list dm = sort_key dr_name (dm_drives dm)"

text \<open>The sort asks the names of block devices, which are texts, for an attribute \<open>name\<close>.\<close>

definition unknown_list :: "manager \<Rightarrow> string list res" where
  "unknown_list dm = (if dm_unknown dm = [] then Inr [] else Inl AttributeError)"

definition drive_of :: "manager \<Rightarrow> nat \<Rightarrow> drive option" where
  "drive_of dm i = find (\<lambda>d. dr_port d = i) (dm_drives dm)"

definition port_map :: "manager \<Rightarrow> (string, drive option) dict" where
  "port_map dm = fold (\<lambda>(i, p). dset (port_location p) (drive_of dm i)) (sort_key (\<lambda>(i, p). port_location p) (List.enumerate 0 (dm_ports dm))) []"

definition port_of :: "manager \<Rightarrow> drive \<Rightarrow> port" where
  "port_of dm d = dm_ports dm ! dr_port d"

definition drive_map :: "manager \<Rightarrow> (string, port) dict" where
  "drive_map dm = fold (\<lambda>d. dset (dr_lib d) (port_of dm d)) (drive_list dm) []"

definition block_map :: "manager \<Rightarrow> (string, port) dict" where
  "block_map dm = fold (\<lambda>d. case dr_block d of None \<Rightarrow> id | Some b \<Rightarrow> dset (os_join ''/dev'' b) (port_of dm d)) (drive_list dm) []"

definition devpath_map :: "manager \<Rightarrow> (string option, drive) dict" where
  "devpath_map dm = fold (\<lambda>d. dset (dr_devpath d) d) (drive_list dm) []"

text \<open>Block devices that are no drive: no loop, RAID, optical, generic or mapper device, and no partition.\<close>

definition drive_name :: "string \<Rightarrow> bool" where
  "drive_name n = (\<not> (matches_pat ''(loop)|(md)|(sr)|(sg)|(dm)'' n
     \<or> (case re_compile ''[0-9]$'' of None \<Rightarrow> False | Some r \<Rightarrow> re_search r n \<noteq> None)))"

text \<open>The difference of two sets has no order of its own; here it is the one of the block devices.\<close>

definition find_unknown :: "sysfs \<Rightarrow> manager \<Rightarrow> manager" where
  "find_unknown en dm =
     (let known = map last_part (dkeys (drive_map dm)) in
      dm\<lparr>dm_unknown := filter (\<lambda>n. n \<notin> set known) (remdups (filter drive_name (map last_part (sy_glob en ''/sys/class/block/*''))))\<rparr>)"

section \<open>\<open>rescan\<close>\<close>

definition scan_enclosures :: "sysfs \<Rightarrow> manager \<Rightarrow> manager res" where
  "scan_enclosures en dm = rbnd (getSASEnclosureList en) (\<lambda>es.
     rfold (\<lambda>e dm. rbnd (getSASEnclosurePorts en e) (\<lambda>ps. Inr (fold (add_plain en) ps dm))) es dm)"

definition rescan_linux :: "sysfs \<Rightarrow> manager res" where
  "rescan_linux en =
     rbnd (getATAPorts en) (\<lambda>ata.
     rbnd (getNVMEPorts en) (\<lambda>nvme.
     rbnd (getMegaRAIDPorts en) (\<lambda>mega.
     rbnd (scan_enclosures en (fold (add_mega en) mega (fold (add_nvme en) nvme (fold (add_plain en) (getIDEPorts en @ ata) nothing_yet)))) (\<lambda>dm.
     rbnd (getSASDirectPorts en) (\<lambda>direct.
     rbnd (getSCSIPorts en) (\<lambda>scsi.
       Inr (find_unknown en (fold (add_plain en) (direct @ scsi) dm))))))))"

definition rescan_esx :: "sysfs \<Rightarrow> manager res" where
  "rescan_esx en =
     (if \<not> sy_isfile en ''/sbin/esxcli'' \<or> \<not> sy_exec en ''/sbin/esxcli''
      then Inl (PlainException ''Unsupported version of ESX or /sbin/esxcli not found.'')
      else rbnd (getMegaRAIDPorts_ESX en) (\<lambda>ps. Inr (fold (add_esx en) ps nothing_yet)))"

definition rescan :: "sysfs \<Rightarrow> manager res" where
  "rescan en = (if sy_isdir en ''/vmfs'' then rescan_esx en else rescan_linux en)"

end
