(* ===== verification/Drive_Info.thy ===== *)
theory Drive_Info
  imports Drive_Manager
begin

text \<open>
  What a drive of \<open>libdrive.py\<close> tells about itself: the information that is read once and kept, its SMART attributes and status, and the
  states the MegaRAID program reports. The C library is the record \<open>clib\<close>: an error text or the filled structure. The kept information
  is a state, since a text that is no UTF-8 leaves it half filled.
\<close>

section \<open>The C library\<close>

record raw_info =
  ri_protocol :: int
  ri_firmware :: string
  ri_vendor :: string
  ri_version :: string
  ri_serial :: string
  ri_model :: string
  ri_flags :: "string \<Rightarrow> char" \<comment> \<open>by the name of the field\<close>
  ri_numbers :: "string \<Rightarrow> int"
  ri_wwn :: "nat list"

record raw_attrs =
  ra_protocol :: int
  ra_count :: nat
  ra_ata :: "(int \<times> int \<times> int \<times> int \<times> int) list" \<comment> \<open>id, current, max, threshold, raw\<close>
  ra_scsi :: "(int \<times> int \<times> int) list" \<comment> \<open>page, parameter, value\<close>

record clib =
  cl_info :: "string \<Rightarrow> string + raw_info"
  cl_attrs :: "string \<Rightarrow> string + raw_attrs"
  cl_status :: "string \<Rightarrow> string + (int \<times> int)"
  cl_selftest :: "string \<Rightarrow> string + int"
  cl_log :: "string \<Rightarrow> string + int"

definition lib_error :: "string \<Rightarrow> string \<Rightarrow> exc" where
  "lib_error what err = PlainException (''Error getting '' @ what @ '' '' @ quote (repr_bytes (bytes_strip err)))"

definition lib_call :: "string \<Rightarrow> string + 'a \<Rightarrow> 'a res" where
  "lib_call what r = (case r of Inl err \<Rightarrow> Inl (lib_error what err) | Inr x \<Rightarrow> Inr x)"

section \<open>The information\<close>

type_synonym info = "(string, pyval) dict"

definition PROTOCOL_TYPE_ATA :: int where "PROTOCOL_TYPE_ATA = 1"
definition PROTOCOL_TYPE_SCSI :: int where "PROTOCOL_TYPE_SCSI = 2"
definition PROTOCOL_TYPE_NVME :: int where "PROTOCOL_TYPE_NVME = 3"

definition text_of :: "string \<Rightarrow> pyval res" where
  "text_of b = rbnd (utf8_decode b) (\<lambda>t. Inr (PStr (strip t)))"

definition protocol_info :: "raw_info \<Rightarrow> info res" where
  "protocol_info r =
     (if ri_protocol r = PROTOCOL_TYPE_ATA then
        rbnd (text_of (ri_firmware r)) (\<lambda>f. Inr [(''protocol'', PStr ''ATA''), (''firmware'', f)])
      else if ri_protocol r = PROTOCOL_TYPE_SCSI then
        rbnd (text_of (ri_vendor r)) (\<lambda>v. rbnd (text_of (ri_version r)) (\<lambda>n.
          Inr [(''protocol'', PStr ''SCSI''), (''vendor'', v), (''version'', n)]))
      else if ri_protocol r = PROTOCOL_TYPE_NVME then
        rbnd (text_of (ri_firmware r)) (\<lambda>f. Inr [(''protocol'', PStr ''NVME''), (''firmware'', f)])
      else Inl (PlainException (''Unkown Drive protocol '' @ quote (show_int (ri_protocol r)))))"

definition set_info :: "string \<Rightarrow> pyval \<Rightarrow> (info, unit) py" where
  "set_info k v = modify (dset k v)"

text \<open>A field of type \<open>c_char\<close> is read as one byte, and compared with a text.\<close>

definition flag_names :: "string list" where
  "flag_names = [''SMARTSupport'', ''SMARTEnabled'', ''supportsSelfTest'', ''supportsLBA'', ''supportsWriteSame'', ''supportsTrim'', ''isSSD'']"

definition flag_value :: "char \<Rightarrow> pyval" where
  "flag_value c = PBool (Byt [c] = Str [CHR 0x01])"

definition number_names :: "string list" where
  "number_names = [''RPM'', ''LogicalSectorSize'', ''PhysicalSectorSize'', ''LBACount'']"

definition guid_text :: "nat list \<Rightarrow> string" where
  "guid_text wwn = concat (map (hex_pad 2) (take 16 wwn))"

text \<open>A short name is in the second half.\<close>

definition name_fields :: "string \<Rightarrow> string \<times> string" where
  "name_fields guid =
     (if take 16 guid = ''0000000000000000'' then (drop 16 guid, [])
      else ([], join ''-'' [take 8 guid, take 4 (drop 8 guid), take 4 (drop 12 guid), take 4 (drop 16 guid), drop 20 guid]))"

definition capacity_of :: "raw_info \<Rightarrow> rat" where
  "capacity_of r = of_int (ri_numbers r ''LogicalSectorSize'' * ri_numbers r ''LBACount'') / (1024 * 1024 * 1024)"

definition load_info :: "clib \<Rightarrow> string \<Rightarrow> (info, unit) py" where
  "load_info c lib =
     bnd (lift (lib_call ''drive info'' (cl_info c lib))) (\<lambda>r.
     bnd (lift (protocol_info r)) (\<lambda>i. block [
       modify (\<lambda>_. i),
       bnd (lift (text_of (ri_serial r))) (set_info ''serial''),
       bnd (lift (text_of (ri_model r))) (set_info ''model''),
       for_each flag_names (\<lambda>n. set_info n (flag_value (ri_flags r n))),
       for_each number_names (\<lambda>n. set_info n (PInt (ri_numbers r n))),
       set_info ''WWN'' (PStr (fst (name_fields (guid_text (ri_wwn r))))),
       set_info ''GUID'' (PStr (snd (name_fields (guid_text (ri_wwn r))))),
       set_info ''capacity'' (PFloat (capacity_of r))]))"

section \<open>Attributes of a drive\<close>

definition load_once :: "clib \<Rightarrow> string \<Rightarrow> (info, unit) py" where
  "load_once c lib = bnd (gets (\<lambda>i. i = [])) (\<lambda>empty. whenM empty (load_info c lib))"

definition info_item :: "clib \<Rightarrow> string \<Rightarrow> string \<Rightarrow> (info, pyval) py" where
  "info_item c lib k = seq (load_once c lib) (bnd (gets (\<lambda>i. dindex i k)) lift)"

definition info_maybe :: "clib \<Rightarrow> string \<Rightarrow> string \<Rightarrow> (info, pyval) py" where
  "info_maybe c lib k = seq (load_once c lib) (gets (\<lambda>i. case map_of i k of None \<Rightarrow> PNone | Some v \<Rightarrow> v))"

definition getattr_names :: "string list" where
  "getattr_names = flag_names @ number_names @ [''WWN'', ''GUID'']"

definition drive_getattr :: "clib \<Rightarrow> string \<Rightarrow> string \<Rightarrow> (info, pyval) py" where
  "drive_getattr c lib name = (if name \<in> set getattr_names then info_item c lib name else throw AttributeError)"

definition isVirtualDisk :: "clib \<Rightarrow> string \<Rightarrow> (info, bool) py" where
  "isVirtualDisk c lib = bnd (info_item c lib ''model'') (\<lambda>m. case m of
       PStr t \<Rightarrow> ret (lower t \<in> {''virtual disk'', ''qemu harddisk'', ''vbox harddisk''})
     | _ \<Rightarrow> throw AttributeError)"

definition reporting_info :: "clib \<Rightarrow> drive \<Rightarrow> port \<Rightarrow> (info, (string, pyval) dict) py" where
  "reporting_info c d p =
     (let lib = dr_lib d;
          common = (\<lambda>proto serial model. [(''protocol'', proto), (''serial'', serial), (''model'', model), (''name'', PStr (dr_name d)),
            (''location'', PStr (port_location p))]) in
      bnd (info_item c lib ''protocol'') (\<lambda>proto.
      if proto = PStr ''ATA'' then
        bnd (info_item c lib ''serial'') (\<lambda>s. bnd (info_item c lib ''model'') (\<lambda>m. bnd (info_maybe c lib ''firmware'') (\<lambda>f.
          ret (common (PStr ''ATA'') s m @ [(''firmware'', f)]))))
      else if proto = PStr ''SCSI'' then
        bnd (info_item c lib ''serial'') (\<lambda>s. bnd (info_item c lib ''model'') (\<lambda>m.
        bnd (info_maybe c lib ''vendor'') (\<lambda>v. bnd (info_maybe c lib ''version'') (\<lambda>n.
          ret (common (PStr ''SCSI'') s m @ [(''vendor'', v), (''version'', n)])))))
      else ret [(''protocol'', PStr ''Unknown''), (''serial'', PStr ''Unknown''), (''model'', PStr ''Unknown''), (''name'', PStr []),
        (''location'', PStr []), (''vendor'', PStr []), (''version'', PStr []), (''firmware'', PStr [])]))"

section \<open>SMART\<close>

definition ata_attr :: "raw_attrs \<Rightarrow> nat \<Rightarrow> (pyval \<times> pyval) res" where
  "ata_attr a i = rbnd (lindex (ra_ata a) (int i)) (\<lambda>(n, cur, mx, thr, raw). Inr (PInt n, PList [PInt cur, PInt mx, PInt thr, PInt raw]))"

definition scsi_attr :: "raw_attrs \<Rightarrow> nat \<Rightarrow> (pyval \<times> pyval) res" where
  "scsi_attr a i = rbnd (lindex (ra_scsi a) (int i)) (\<lambda>(page, parm, v). Inr (PStr (show_int page @ ''-'' @ show_int parm), PInt v))"

definition attr_table :: "raw_attrs \<Rightarrow> (pyval, pyval) dict res" where
  "attr_table a =
     (let table = (\<lambda>f. rbnd (collect [0..<ra_count a] f) (\<lambda>kvs. Inr (fold (\<lambda>(k, v). dset k v) kvs []))) in
      if ra_protocol a = PROTOCOL_TYPE_ATA then table (ata_attr a)
      else if ra_protocol a = PROTOCOL_TYPE_SCSI then table (scsi_attr a)
      else if ra_protocol a = PROTOCOL_TYPE_NVME then Inr []
      else Inl (PlainException (''Unknown protocol type: '' @ quote (show_int (ra_protocol a)))))"

definition smartAttrs :: "clib \<Rightarrow> string \<Rightarrow> (pyval, pyval) dict res" where
  "smartAttrs c lib = rbnd (lib_call ''drive SMART attributes'' (cl_attrs c lib)) attr_table"

definition smartStatus :: "clib \<Rightarrow> string \<Rightarrow> (bool \<times> bool) res" where
  "smartStatus c lib = rbnd (lib_call ''drive SMART status'' (cl_status c lib)) (\<lambda>(fault, threshold). Inr (fault > 0, threshold > 0))"

definition lastSelfTestPassed :: "clib \<Rightarrow> string \<Rightarrow> bool res" where
  "lastSelfTestPassed c lib = rbnd (lib_call ''drive selftest info'' (cl_selftest c lib)) (\<lambda>passed. Inr (passed = 1))"

definition logEntryCount :: "clib \<Rightarrow> string \<Rightarrow> int res" where
  "logEntryCount c lib = lib_call ''drive Log Entry Count'' (cl_log c lib)"

section \<open>MegaRAID\<close>

definition good_states :: "string list" where
  "good_states = [''Unconfigured(good)'', ''Unconfigured(good), Spun down'', ''Unconfigured(good), Spun Up'', ''Online, Spun down'',
     ''Online, Spun Up'', ''JBOD'']"

fun member_state :: "pytext list \<Rightarrow> string option res" where
  "member_state [] = Inr None"
| "member_state (Byt b # ls) = Inl TypeError"
| "member_state (Str s # ls) =
     (if startswith s ''Firmware state:'' then
        let state = strip (last (split_chr (CHR '':'') s)) in Inr (if state \<notin> set good_states then Some state else None)
      else member_state ls)"

definition disk_error :: "string \<Rightarrow> string \<Rightarrow> string \<Rightarrow> string \<Rightarrow> string" where
  "disk_error rc enclosure slot controller =
     ''Got return code '' @ rc @ '' when getting MEGARaid disk info for ['' @ enclosure @ '':'' @ slot @ ''], c: '' @ controller"

fun getMegaRAIDMemberState :: "sysfs \<Rightarrow> port \<Rightarrow> string option res" where
  "getMegaRAIDMemberState en (MegaRAIDPort h c e s) =
     rbnd (the_cli en ''MegaRAID drive requested but no MeagaRAID cli'') (\<lambda>cli.
     rbnd (cli_lines en [cli, ''-pdInfo'', ''-PhysDrv['' @ show_int e @ '':'' @ show_int s @ '']'', ''-a'' @ c]
       (\<lambda>rc. disk_error rc (show_int e) (show_int s) c)) member_state)"
| "getMegaRAIDMemberState en _ = Inl AttributeError"

text \<open>The arguments are numbers, which are then asked for attributes of a port.\<close>

definition setMegaRAIDFault :: "sysfs \<Rightarrow> string \<Rightarrow> int \<Rightarrow> int \<Rightarrow> bool \<Rightarrow> unit res" where
  "setMegaRAIDFault en controller enclosure slot state =
     rbnd (the_cli en ''MegaRAID drive requested but no MeagaRAID cli'') (\<lambda>cli. Inl AttributeError)"

text \<open>The light of a port: what is written.\<close>

fun setFault :: "sysfs \<Rightarrow> port \<Rightarrow> bool \<Rightarrow> (string \<times> string) list res" where
  "setFault en (MegaRAIDPort h c e s) v = rbnd (setMegaRAIDFault en c e s v) (\<lambda>_. Inr [])"
| "setFault en (SASPort h i sl nm) v = Inr (case nm of None \<Rightarrow> [] | Some n \<Rightarrow> if n = [] then [] else setSASFault en i n v)"
| "setFault en _ v = Inr []"

record drive_status =
  ds_fault :: bool
  ds_threshold :: bool
  ds_selftest :: bool
  ds_attribs :: "(pyval, pyval) dict"
  ds_log :: int
  ds_controller :: "string option"

definition driveReportingStatus :: "sysfs \<Rightarrow> clib \<Rightarrow> drive \<Rightarrow> port \<Rightarrow> drive_status res" where
  "driveReportingStatus en c d p =
     rbnd (smartStatus c (dr_lib d)) (\<lambda>(fault, threshold).
     rbnd (lastSelfTestPassed c (dr_lib d)) (\<lambda>passed.
     rbnd (smartAttrs c (dr_lib d)) (\<lambda>attribs.
     rbnd (logEntryCount c (dr_lib d)) (\<lambda>n.
     rbnd (if port_type p = ''MegaRAID'' then getMegaRAIDMemberState en p else Inr None) (\<lambda>st.
       Inr \<lparr>ds_fault = fault, ds_threshold = threshold, ds_selftest = passed, ds_attribs = attribs, ds_log = n,
         ds_controller = (case st of Some [] \<Rightarrow> None | _ \<Rightarrow> st)\<rparr>)))))"

text \<open>The battery and the volumes. The \<open>return\<close> is in the loop, so only the first controller is asked; without one it is \<open>None\<close>,
  but then the function has returned before.\<close>

definition bbu_patterns :: "(string \<times> string) list" where
  "bbu_patterns = [(''Battery State[ ]*:(.*)'', ''Battery State''), (''[ ]*Charging Status[ ]*: (.*)'', ''Charging Status''),
     (''[ ]*Battery Replacement required[ ]*: (.*)'', ''Replacement Required''),
     (''[ ]*Pack is about to fail & should be replaced[ ]*: (.*)'', ''About To Fail''),
     (''[ ]*Next Learn time[ ]*: (.*)'', ''Next Learn''), (''Temperature: (.*)'', ''Battery Temp'')]"

definition bbu_line :: "pytext \<Rightarrow> (string, string) dict \<Rightarrow> (string, string) dict res" where
  "bbu_line line d = rfold (\<lambda>(pat, key) d. rbnd (match_on pat line) (\<lambda>m.
     Inr (case m of None \<Rightarrow> d | Some c \<Rightarrow> dset key (strip (grp c 1)) d))) bbu_patterns d"

definition mega_controllers :: "sysfs \<Rightarrow> (string \<times> string list) res" where
  "mega_controllers en = rbnd (the_cli en ''MegaRAID driver loaded but no MegaRAID cli'') (\<lambda>cli.
     rbnd (getMegaRAIDLists en cli) (\<lambda>(cs, _). Inr (cli, cs)))"

definition first_controller :: "sysfs \<Rightarrow> (string \<Rightarrow> string \<Rightarrow> 'a res) \<Rightarrow> (string, 'a) dict res" where
  "first_controller en ask =
     (if no_mega en then Inr []
      else rbnd (mega_controllers en) (\<lambda>(cli, cs). case cs of
          [] \<Rightarrow> Inr []
        | c # _ \<Rightarrow> rbnd (ask cli c) (\<lambda>v. Inr [(c, v)])))"

definition getMegaBBUStatus :: "sysfs \<Rightarrow> (string, (string, string) dict) dict res" where
  "getMegaBBUStatus en = first_controller en (\<lambda>cli c.
     rbnd (cli_lines en [cli, ''-AdpBbuCmd'', ''-a'' @ c]
       (\<lambda>rc. ''Got return code '' @ rc @ '' when getting MEGARaid BBU info on controller '' @ quote c)) (\<lambda>ls. rfold bbu_line ls []))"

text \<open>The volume is \<open>-1\<close>, a number, until a line names one.\<close>

definition unit_line :: "pytext \<Rightarrow> pyval \<times> (pyval, string) dict \<Rightarrow> (pyval \<times> (pyval, string) dict) res" where
  "unit_line line = (\<lambda>(ld, d).
     rbnd (match_on ''Virtual Drive: ([0-9]*)'' line) (\<lambda>m.
     let ld1 = (case m of None \<Rightarrow> ld | Some c \<Rightarrow> PStr (strip (grp c 1))) in
     rbnd (match_on ''State[ ]*: (.*)'' line) (\<lambda>m2. Inr (ld1, case m2 of None \<Rightarrow> d | Some c \<Rightarrow> dset ld1 (strip (grp c 1)) d))))"

definition getMegaUnitStatus :: "sysfs \<Rightarrow> (string, (pyval, string) dict) dict res" where
  "getMegaUnitStatus en = first_controller en (\<lambda>cli c.
     rbnd (cli_lines en [cli, ''-LDInfo'', ''-LALL'', ''-a'' @ c]
       (\<lambda>rc. ''Got return code '' @ rc @ '' when getting MEGARaid unitstatus info on controller '' @ quote c)) (\<lambda>ls.
     rbnd (rfold unit_line ls (PInt (- 1), [])) (\<lambda>(_, d). Inr d)))"

end
