(* ===== verification/Drive_Props.thy ===== *)
theory Drive_Props
  imports Drive_Info
begin

text \<open>
  What the search for drives promises: the ports of the ATA hosts have names of their own (\<open>ata_ports_named\<close>), the scan makes one drive
  for every block device and gives it to the first port that has it (\<open>scan_is_first_offer\<close>, \<open>one_drive_per_block\<close>), and the world wide
  name that is told determines the sixteen bytes that were read (\<open>wwn_determined\<close>). \<open>megaraid_never_found\<close> and \<open>flags_never_set\<close> are
  where bytes are taken for text.
\<close>

section \<open>Bytes taken for text\<close>

lemma rfold_bytes: "(\<And>b s. f (Byt b) s = Inl e) \<Longrightarrow> rfold f (map Byt ls) s = (if ls = [] then Inr s else Inl e)"
  by (cases ls) simp_all

lemma match_on_bytes: "match_on pat (Byt b) = Inl TypeError"
  by (simp add: match_on_def)

lemma enc_line_bytes: "enc_line (Byt b) s = Inl TypeError"
  by (cases s) (simp add: enc_line_def match_on_bytes)

lemma getMegaRAIDLists_bytes: "getMegaRAIDLists en cli = Inr (cs, es) \<Longrightarrow> cs = []"
  unfolding getMegaRAIDLists_def cli_lines_def
  by (auto simp: rbnd_def rfold_bytes[of enc_line, OF enc_line_bytes] split: sum.splits if_splits prod.splits)

text \<open>A controller is never found: a program that prints anything ends in a \<open>TypeError\<close>.\<close>

theorem megaraid_never_found: "getMegaRAIDPorts en = Inr ps \<Longrightarrow> ps = []"
  by (auto simp: getMegaRAIDPorts_def rbnd_def dest: getMegaRAIDLists_bytes split: if_splits sum.splits)

lemma hba_never_found: "getESXHBAList en driver = Inr l \<Longrightarrow> l = []"
proof -
  have "rfold (hba_line driver) (map Byt ls) [] = Inr l \<Longrightarrow> l = []" for ls
    by (cases ls) (auto simp: hba_line_def rbnd_def split: if_splits)
  then show "getESXHBAList en driver = Inr l \<Longrightarrow> l = []"
    by (auto simp: getESXHBAList_def cli_lines_def rbnd_def split: sum.splits if_splits prod.splits)
qed

lemma esx_never_found: "getMegaRAIDPorts_ESX en = Inr ps \<Longrightarrow> ps = []"
  by (auto simp: getMegaRAIDPorts_ESX_def rbnd_def dest: hba_never_found split: sum.splits)

section \<open>ATA\<close>

definition port_width :: "sysfs \<Rightarrow> string \<Rightarrow> nat" where
  "port_width en name = (if name \<in> set (double_hosts en) then 2 else 1)"

definition apart :: "sysfs \<Rightarrow> nat \<Rightarrow> (string, nat) dict \<Rightarrow> bool" where
  "apart en i m = (distinct (dkeys m) \<and> (\<forall>(n, k) \<in> set m. k + port_width en n \<le> i)
     \<and> (\<forall>(n, k) \<in> set m. \<forall>(n', k') \<in> set m. n \<noteq> n' \<longrightarrow> k + port_width en n \<le> k' \<or> k' + port_width en n' \<le> k))"

lemma set_dset: "distinct (dkeys d) \<Longrightarrow> set (dset k v d) = {(k, v)} \<union> {(k', v') \<in> set d. k' \<noteq> k}"
proof (induction d)
  case (Cons x d)
  then show ?case by (cases x) (auto simp: image_iff)
qed simp

lemma apart_step: "apart en i m \<Longrightarrow> apart en (i + port_width en n) (dset n i m)"
  unfolding apart_def by (auto simp: set_dset distinct_dset)

lemma number_hosts_apart: "apart en i m \<Longrightarrow> \<exists>j. apart en j (number_hosts en names i m)"
proof (induction names arbitrary: i m)
  case (Cons n names)
  have "i + (if n \<in> set (double_hosts en) then 2 else 1) = i + port_width en n" by (simp add: port_width_def)
  with Cons.IH[OF apart_step[OF Cons.prems, of n]] Cons.IH[OF Cons.prems] show ?case by simp
qed auto

definition port_numbers :: "sysfs \<Rightarrow> string \<times> nat \<Rightarrow> nat list" where
  "port_numbers en = (\<lambda>(n, k). [k..<k + port_width en n])"

lemma apart_distinct: "apart en i m \<Longrightarrow> distinct (concat (map (port_numbers en) m))"
proof (induction m)
  case (Cons x m)
  obtain n k where x: "x = (n, k)" by (cases x)
  have "apart en i m" using Cons.prems by (auto simp: apart_def)
  moreover have "set (port_numbers en x) \<inter> set (concat (map (port_numbers en) m)) = {}"
  proof -
    have "set (port_numbers en x) \<inter> set (port_numbers en y) = {}" if y: "y \<in> set m" for y
    proof -
      obtain n' k' where y': "y = (n', k')" by (cases y)
      have "n \<noteq> n'" using Cons.prems y x y' by (auto simp: apart_def image_iff)
      then have "k + port_width en n \<le> k' \<or> k' + port_width en n' \<le> k" using Cons.prems y x y' by (auto simp: apart_def)
      then show ?thesis by (auto simp: port_numbers_def x y')
    qed
    then show ?thesis by auto
  qed
  ultimately show ?case using Cons.IH by (simp add: port_numbers_def x)
qed simp

lemma host_ports_numbers: "host_ports en x = Inr ps \<Longrightarrow> map (port_location \<circ> fst) ps = map (\<lambda>i. ''ATA '' @ show_nat i) (port_numbers en x)"
  by (auto simp: host_ports_def port_numbers_def port_width_def Let_def rbnd_def upt_rec split: prod.splits sum.splits if_splits)

lemma concat_locations:
  "list_all2 (\<lambda>x ps. host_ports en x = Inr ps) m pss \<Longrightarrow>
     map (port_location \<circ> fst) (concat pss) = map (\<lambda>i. ''ATA '' @ show_nat i) (concat (map (port_numbers en) m))"
  by (induction m pss rule: list_all2_induct) (simp_all add: o_def host_ports_numbers[unfolded o_def])

lemma show_nat_injective: "inj show_nat"
  by (rule injI) (metis option.inject read_digits_show_nat)


section \<open>The scan\<close>

text \<open>Every port with its block device and the name of the C library, in the order in which the kinds of port are asked.\<close>

type_synonym offer = "port \<times> string option \<times> string"

definition plain_offer :: "port \<times> string option \<Rightarrow> offer" where
  "plain_offer = (\<lambda>(p, blk). (p, blk, case blk of None \<Rightarrow> [] | Some b \<Rightarrow> ''/dev/'' @ b))"

definition nvme_offer :: "port \<times> (string \<times> string) \<Rightarrow> offer" where
  "nvme_offer = (\<lambda>(p, blk, lib). (p, Some blk, lib))"

definition enclosure_offers :: "sysfs \<Rightarrow> string option ports res" where
  "enclosure_offers en = rbnd (getSASEnclosureList en) (\<lambda>es. rbnd (collect es (getSASEnclosurePorts en)) (\<lambda>pss. Inr (concat pss)))"

definition offers :: "sysfs \<Rightarrow> offer list res" where
  "offers en =
     rbnd (getATAPorts en) (\<lambda>ata. rbnd (getNVMEPorts en) (\<lambda>nvme. rbnd (enclosure_offers en) (\<lambda>enc.
     rbnd (getSASDirectPorts en) (\<lambda>direct. rbnd (getSCSIPorts en) (\<lambda>scsi.
       Inr (map plain_offer (getIDEPorts en @ ata) @ map nvme_offer nvme @ map plain_offer (enc @ direct @ scsi)))))))"

definition offered :: "offer \<Rightarrow> string option" where
  "offered o1 = fst (snd o1)"

definition first_offers :: "offer list \<Rightarrow> (nat \<times> offer) list" where
  "first_offers os = filter (\<lambda>(i, o1). offered o1 \<noteq> None \<and> offered o1 \<noteq> Some [] \<and> (\<forall>j < i. offered (os ! j) \<noteq> offered o1)) (List.enumerate 0 os)"

definition drive_from :: "sysfs \<Rightarrow> nat \<times> offer \<Rightarrow> drive" where
  "drive_from en = (\<lambda>(i, p, blk, lib). new_drive en i p (case blk of None \<Rightarrow> [] | Some b \<Rightarrow> b) blk lib)"

definition take_offer :: "sysfs \<Rightarrow> offer \<Rightarrow> manager \<Rightarrow> manager" where
  "take_offer en = (\<lambda>(p, blk, lib) dm. case blk of None \<Rightarrow> dm\<lparr>dm_ports := dm_ports dm @ [p]\<rparr> | Some b \<Rightarrow> add_block en p b lib dm)"

lemma add_plain_offer: "add_plain en x = take_offer en (plain_offer x)"
  by (cases x) (auto simp: add_plain_def take_offer_def plain_offer_def fun_eq_iff split: option.split)

lemma add_nvme_offer: "add_nvme en x = take_offer en (nvme_offer x)"
  by (cases x) (auto simp: add_nvme_def take_offer_def nvme_offer_def fun_eq_iff)

lemma fold_offers:
  "fold (add_plain en) xs dm = fold (take_offer en) (map plain_offer xs) dm"
  "fold (add_nvme en) ys dm = fold (take_offer en) (map nvme_offer ys) dm"
  by (induction xs arbitrary: dm) (simp_all add: add_plain_offer, induction ys arbitrary: dm, simp_all add: add_nvme_offer)

lemma first_offers_snoc:
  "first_offers (os @ [x]) = first_offers os
     @ (if offered x \<noteq> None \<and> offered x \<noteq> Some [] \<and> offered x \<notin> offered ` set os then [(length os, x)] else [])"
proof -
  have old: "filter (\<lambda>(i, o1). offered o1 \<noteq> None \<and> offered o1 \<noteq> Some [] \<and> (\<forall>j < i. offered ((os @ [x]) ! j) \<noteq> offered o1)) (List.enumerate 0 os)
      = first_offers os"
    unfolding first_offers_def
    by (rule filter_cong[OF refl]) (auto simp: in_set_enumerate_eq nth_append)
  have new: "(\<forall>j < length os. offered ((os @ [x]) ! j) \<noteq> offered x) \<longleftrightarrow> offered x \<notin> offered ` set os"
    by (auto simp: nth_append image_iff) (metis in_set_conv_nth, metis nth_mem)
  show ?thesis
    unfolding first_offers_def[of "os @ [x]"] using old new by (simp add: enumerate_append_eq)
qed

definition scanned :: "sysfs \<Rightarrow> offer list \<Rightarrow> manager \<Rightarrow> bool" where
  "scanned en os dm = (dm_ports dm = map fst os \<and> dm_drives dm = map (drive_from en) (first_offers os)
     \<and> set (dm_blocks dm) = {b. b \<noteq> [] \<and> Some b \<in> offered ` set os})"

lemma scanned_step: "scanned en os dm \<Longrightarrow> scanned en (os @ [x]) (take_offer en x dm)"
proof -
  assume s: "scanned en os dm"
  obtain p blk lib where x: "x = (p, blk, lib)" by (cases x)
  show ?thesis
  proof (cases blk)
    case None
    then show ?thesis using s by (auto simp: scanned_def take_offer_def x first_offers_snoc offered_def)
  next
    case (Some b)
    have o: "offered x = Some b" by (simp add: x offered_def Some)
    have m: "b \<noteq> [] \<Longrightarrow> b \<in> set (dm_blocks dm) \<longleftrightarrow> Some b \<in> offered ` set os" using s by (auto simp: scanned_def)
    have l: "length (dm_ports dm) = length os" using s by (simp add: scanned_def)
    have f: "fst x = p" "drive_from en (length os, x) = new_drive en (length os) p b (Some b) lib" by (simp_all add: x drive_from_def Some)
    show ?thesis
    proof (cases "b = [] \<or> b \<in> set (dm_blocks dm)")
      case True
      then have "first_offers (os @ [x]) = first_offers os" using m by (auto simp: first_offers_snoc o)
      moreover have "{b'. b' \<noteq> [] \<and> Some b' \<in> offered ` set (os @ [x])} = {b'. b' \<noteq> [] \<and> Some b' \<in> offered ` set os}"
        using True m by (auto simp: o)
      ultimately show ?thesis using s True by (simp add: scanned_def take_offer_def add_block_def x Some)
    next
      case False
      then have nb: "Some b \<notin> offered ` set os" "b \<noteq> []" using m by auto
      from False have "first_offers (os @ [x]) = first_offers os @ [(length os, x)]" using m by (simp add: first_offers_snoc o)
      moreover have "{b'. b' \<noteq> [] \<and> Some b' \<in> offered ` set (os @ [x])} = insert b {b'. b' \<noteq> [] \<and> Some b' \<in> offered ` set os}"
        using False by (auto simp: o)
      ultimately show ?thesis using s False f l by (simp add: scanned_def take_offer_def add_block_def x Some nb)
    qed
  qed
qed

lemma scanned_fold: "scanned en os dm \<Longrightarrow> scanned en (os @ xs) (fold (take_offer en) xs dm)"
proof (induction xs arbitrary: os dm)
  case (Cons x xs)
  from Cons.IH[OF scanned_step[OF Cons.prems]] show ?case by simp
qed simp

lemma scan_enclosures_offers:
  "scan_enclosures en dm = rbnd (enclosure_offers en) (\<lambda>ps. Inr (fold (add_plain en) ps dm))"
proof -
  have "rfold (\<lambda>e dm. rbnd (getSASEnclosurePorts en e) (\<lambda>ps. Inr (fold (add_plain en) ps dm))) es dm
      = rbnd (collect es (getSASEnclosurePorts en)) (\<lambda>pss. Inr (fold (add_plain en) (concat pss) dm))" for es
    by (induction es arbitrary: dm) (auto simp: rbnd_def split: sum.split)
  then show ?thesis by (simp add: scan_enclosures_def enclosure_offers_def rbnd_def split: sum.split)
qed

lemma find_unknown_drives: "dm_drives (find_unknown en dm) = dm_drives dm" "dm_ports (find_unknown en dm) = dm_ports dm"
  by (simp_all add: find_unknown_def)

lemma linux_scan:
  assumes "rescan_linux en = Inr dm"
  shows "\<exists>os. offers en = Inr os \<and> dm_ports dm = map fst os \<and> dm_drives dm = map (drive_from en) (first_offers os)"
proof -
  obtain ata nvme mega enc direct scsi where
    p: "getATAPorts en = Inr ata" "getNVMEPorts en = Inr nvme" "getMegaRAIDPorts en = Inr mega" "enclosure_offers en = Inr enc"
      "getSASDirectPorts en = Inr direct" "getSCSIPorts en = Inr scsi"
    and dm: "dm = find_unknown en (fold (add_plain en) (direct @ scsi) (fold (add_plain en) enc (fold (add_mega en) mega
      (fold (add_nvme en) nvme (fold (add_plain en) (getIDEPorts en @ ata) nothing_yet)))))"
    using assms unfolding rescan_linux_def scan_enclosures_offers by (auto simp: rbnd_def split: sum.splits)
  have "mega = []" using p(3) by (rule megaraid_never_found)
  let ?os = "map plain_offer (getIDEPorts en @ ata) @ map nvme_offer nvme @ map plain_offer (enc @ direct @ scsi)"
  have "scanned en [] nothing_yet" by (simp add: scanned_def nothing_yet_def first_offers_def)
  from scanned_fold[OF this, of ?os]
  have "scanned en ?os (fold (take_offer en) ?os nothing_yet)" by simp
  moreover have "dm = find_unknown en (fold (take_offer en) ?os nothing_yet)"
    unfolding dm \<open>mega = []\<close> fold_offers by (simp add: fold_append)
  moreover have "offers en = Inr ?os" by (simp add: offers_def p)
  ultimately show ?thesis by (auto simp: scanned_def find_unknown_drives)
qed

text \<open>C7: On a Linux host the scan is the choice of first offers: the ports are those of all kinds in the order in which they are asked,
  the drives are exactly the block devices that are offered, in that order, and a block device that several ports offer belongs to the
  first of them.
\<close>

theorem scan_is_first_offer:
  assumes "rescan_linux en = Inr dm"
  shows "\<exists>os. offers en = Inr os \<and> dm_ports dm = map fst os \<and> dm_drives dm = map (drive_from en) (first_offers os)"
  using assms by (rule linux_scan)

lemma first_offersD: "(i, x) \<in> set (first_offers os) \<Longrightarrow> i < length os \<and> x \<in> set os \<and> offered x \<noteq> None"
  by (auto simp: first_offers_def in_set_enumerate_eq)

lemma first_offers_blocks: "distinct (map (\<lambda>(i, x). offered x) (first_offers os))"
proof (induction os rule: rev_induct)
  case (snoc x os)
  have "(\<lambda>(i, x). offered x) ` set (first_offers os) \<subseteq> offered ` set os" by (auto dest: first_offersD)
  then have "offered x \<notin> offered ` set os \<Longrightarrow> offered x \<notin> (\<lambda>(i, x). offered x) ` set (first_offers os)" by blast
  then show ?case using snoc by (simp add: first_offers_snoc)
qed (simp add: first_offers_def)

lemma first_offers_places: "distinct (map fst (first_offers os))"
proof -
  have "distinct (map fst (List.enumerate 0 os))" by simp
  then show ?thesis unfolding first_offers_def by (rule distinct_map_filter)
qed

lemma drive_from_fields: "dr_port (drive_from en x) = fst x" "dr_block (drive_from en x) = offered (snd x)"
  by (auto simp: drive_from_def new_drive_def offered_def Let_def split: prod.split option.split)


section \<open>The world wide name\<close>

definition hex_val :: "char \<Rightarrow> nat" where
  "hex_val c = length (takeWhile (\<lambda>x. x \<noteq> c) ''0123456789abcdef'')"

fun unhex :: "string \<Rightarrow> nat list" where
  "unhex (a # b # s) = (16 * hex_val a + hex_val b) # unhex s"
| "unhex _ = []"

lemma hex_val_chr: "n < 16 \<Longrightarrow> hex_val (hex_chr n) = n \<and> hex_chr n \<noteq> CHR ''-''"
proof -
  have "list_all (\<lambda>n. hex_val (hex_chr n) = n \<and> hex_chr n \<noteq> CHR ''-'') [0..<16]" by code_simp
  then show "n < 16 \<Longrightarrow> ?thesis" by (simp add: list_all_iff)
qed

lemma hex_pad_byte: "n < 256 \<Longrightarrow> hex_pad 2 n = [hex_chr (n div 16), hex_chr (n mod 16)]"
  by (subst hex_pad_def, subst show_hex.simps, cases "n < 16") (simp_all add: show_hex.simps[of "n div 16"] hex_chr_def Let_def)

lemma guid_hex:
  "\<forall>n \<in> set w. n < 256 \<Longrightarrow> unhex (concat (map (hex_pad 2) w)) = w \<and> CHR ''-'' \<notin> set (concat (map (hex_pad 2) w))"
proof (induction w)
  case (Cons n w)
  have "n div 16 < 16" "n mod 16 < 16" using Cons.prems by auto
  with hex_val_chr[of "n div 16"] hex_val_chr[of "n mod 16"] Cons show ?case by (auto simp: hex_pad_byte)
qed simp

lemma pieces: "take 8 g @ take 4 (drop 8 g) @ take 4 (drop 12 g) @ take 4 (drop 16 g) @ drop 20 g = g"
proof -
  have "take 8 g @ take 4 (drop 8 g) = take 12 g" "take 12 g @ take 4 (drop 12 g) = take 16 g" "take 16 g @ take 4 (drop 16 g) = take 20 g"
    using take_add[of 8 4 g] take_add[of 12 4 g] take_add[of 16 4 g] by simp_all
  then show ?thesis by (metis append_assoc append_take_drop_id)
qed

lemma no_dash: "CHR ''-'' \<notin> set w \<Longrightarrow> filter (\<lambda>c. c \<noteq> CHR ''-'') w = w"
  by (induction w) auto

text \<open>C31: The names a drive tells give back the sixteen bytes that were read: the short name with its zeros in front, or the long one
  without its dashes, is their hexadecimal form. Two drives with the same names have the same bytes.
\<close>

theorem wwn_determined:
  assumes "length w = 16" and "\<forall>n \<in> set w. n < 256" and "name_fields (guid_text w) = (wwn, guid)"
  shows "unhex (if guid = [] then replicate 16 (CHR ''0'') @ wwn else filter (\<lambda>c. c \<noteq> CHR ''-'') guid) = w"
proof -
  let ?g = "concat (map (hex_pad 2) w)"
  have g: "guid_text w = ?g" by (simp add: guid_text_def assms(1))
  have h: "unhex ?g = w" "CHR ''-'' \<notin> set ?g" using guid_hex[OF assms(2)] by blast+
  have z: "''0000000000000000'' = replicate 16 (CHR ''0'')" by (simp add: numeral_eq_Suc)
  show ?thesis
  proof (cases "take 16 ?g = ''0000000000000000''")
    case True
    then have "guid = []" "wwn = drop 16 ?g" using assms(3) by (simp_all add: g name_fields_def)
    moreover have "replicate 16 (CHR ''0'') @ drop 16 ?g = ?g" using True append_take_drop_id[of 16 ?g] unfolding z by simp
    ultimately show ?thesis using h(1) by simp
  next
    case False
    then have u: "guid = join ''-'' [take 8 ?g, take 4 (drop 8 ?g), take 4 (drop 12 ?g), take 4 (drop 16 ?g), drop 20 ?g]"
      using assms(3) by (simp add: g name_fields_def)
    have "CHR ''-'' \<notin> set (take i (drop k ?g))" "CHR ''-'' \<notin> set (drop k ?g)" "CHR ''-'' \<notin> set (take i ?g)" for i k
      using h(2) in_set_takeD in_set_dropD by metis+
    then have "filter (\<lambda>c. c \<noteq> CHR ''-'') guid = ?g" using pieces[of ?g] by (simp add: u no_dash)
    moreover have "guid \<noteq> []" by (simp add: u)
    ultimately show ?thesis using h(1) by simp
  qed
qed

theorem wwn_determined_witness:
  "unhex (replicate 16 (CHR ''0'') @ ''5000c500a1b2c3d4'') = replicate 8 0 @ [0x50, 0, 0xC5, 0, 0xA1, 0xB2, 0xC3, 0xD4]"
proof -
  have n: "name_fields (guid_text (replicate 8 0 @ [0x50, 0, 0xC5, 0, 0xA1, 0xB2, 0xC3, 0xD4])) = (''5000c500a1b2c3d4'', [])" by code_simp
  show ?thesis using wwn_determined[OF _ _ n] by simp
qed

section \<open>Flags\<close>

text \<open>Every flag of a drive is read as false, whatever the library reports: a byte is compared with a text.\<close>

theorem flags_never_set: "flag_value c = PBool False"
  by (simp add: flag_value_def)

end
