(* ===== verification/Enclosure_Info.thy ===== *)
theory Enclosure_Info
  imports Drive_Info "HOL-Library.Word"
begin

text \<open>
  The enclosures of \<open>libenclosure.py\<close>: the information that is read once and kept, the table of descriptors of the sub enclosures and the
  manager. The C library is a parameter; the fields of its structures have the widths of \<open>libenclosure_h.cache\<close>, and \<open>ctypes\<close> cuts a
  number that is stored down to the width of the field.
\<close>

section \<open>An enclosure\<close>

datatype cfield = CText string | CInt int

record raw_enclosure =
  re_texts :: "string \<Rightarrow> string"
  re_wwn :: "64 word"

definition enclosure_field :: "raw_enclosure \<Rightarrow> string \<Rightarrow> cfield" where
  "enclosure_field r name = (if name = ''WWN'' then CInt (uint (re_wwn r)) else CText (re_texts r name))"

text \<open>\<open>str( value, 'utf-8' )\<close> takes bytes only.\<close>

definition field_text :: "cfield \<Rightarrow> pyval res" where
  "field_text f = (case f of CText b \<Rightarrow> text_of b | CInt _ \<Rightarrow> Inl TypeError)"

record enclosure =
  en_name :: string
  en_pcipath :: "string option"
  en_sg :: "string option"
  en_devpath :: string

definition new_enclosure :: "sysfs \<Rightarrow> string \<Rightarrow> enclosure" where
  "new_enclosure en name =
     (let dir = ''/sys/class/enclosure/'' @ name in
      \<lparr>en_name = name,
       en_pcipath = first_real en (dir @ ''/device'') ''/sys/devices'',
       en_sg = (case sy_glob en (dir @ ''/device/scsi_generic/sg*'') of [] \<Rightarrow> None | x # _ \<Rightarrow> Some (''/dev/'' @ last_part x)),
       en_devpath = without_prefix ''/sys'' (sy_real en dir)\<rparr>)"

definition load_enclosure :: "(string option \<Rightarrow> string + raw_enclosure) \<Rightarrow> enclosure \<Rightarrow> (info, unit) py" where
  "load_enclosure get e =
     bnd (lift (lib_call ''enclosure info'' (get (en_sg e)))) (\<lambda>r.
     seq (bnd (lift (field_text (CText (re_texts r ''vendor_id'')))) (\<lambda>v. modify (\<lambda>_. [(''vendor'', v)])))
       (for_each [''version'', ''serial'', ''model'', ''WWN''] (\<lambda>item. bnd (lift (field_text (enclosure_field r item))) (set_info item))))"

definition enclosure_item :: "(string option \<Rightarrow> string + raw_enclosure) \<Rightarrow> enclosure \<Rightarrow> string \<Rightarrow> (info, pyval) py" where
  "enclosure_item get e k =
     seq (bnd (gets (\<lambda>i. i = [])) (\<lambda>empty. whenM empty (load_enclosure get e))) (bnd (gets (\<lambda>i. dindex i k)) lift)"

text \<open>\<open>location\<close> is no attribute of an enclosure.\<close>

definition enclosure_reporting :: "(string option \<Rightarrow> string + raw_enclosure) \<Rightarrow> enclosure \<Rightarrow> (info, (string, pyval) dict) py" where
  "enclosure_reporting get e =
     bnd (enclosure_item get e ''serial'') (\<lambda>s. bnd (enclosure_item get e ''model'') (\<lambda>m. throw AttributeError))"

section \<open>Descriptors\<close>

record descriptor =
  de_sub :: "8 word"
  de_element :: "8 word"
  de_etype :: "8 word"
  de_subelement :: "8 word"
  de_help :: string
  de_offset :: "16 word"
  de_val :: "8 word list" \<comment> \<open>four bytes\<close>

record descriptors =
  dt_generation :: "32 word"
  dt_page_size :: "32 word"
  dt_count :: "8 word"
  dt_list :: "descriptor list" \<comment> \<open>250 elements\<close>

definition no_descriptor :: descriptor where
  "no_descriptor = \<lparr>de_sub = 0, de_element = 0, de_etype = 0, de_subelement = 0, de_help = [], de_offset = 0, de_val = [0, 0, 0, 0]\<rparr>"

text \<open>The help text is shown as text, the numbers as numbers.\<close>

record shown_descriptor =
  sh_numbers :: "int \<times> int \<times> int \<times> int"
  sh_help :: pyval
  sh_offset :: int
  sh_val :: "8 word list"

definition show_descriptor :: "descriptor \<Rightarrow> shown_descriptor res" where
  "show_descriptor d = rbnd (text_of (de_help d)) (\<lambda>t.
     Inr \<lparr>sh_numbers = (uint (de_sub d), uint (de_element d), uint (de_etype d), uint (de_subelement d)), sh_help = t,
       sh_offset = uint (de_offset d), sh_val = de_val d\<rparr>)"

definition getSubEncDescriptors :: "(string option \<Rightarrow> string + descriptors) \<Rightarrow> enclosure
    \<Rightarrow> (descriptors option, int \<times> int \<times> int \<times> shown_descriptor list) py" where
  "getSubEncDescriptors get e =
     bnd (bnd (gets id) (\<lambda>c. case c of
           Some t \<Rightarrow> ret t
         | None \<Rightarrow> bnd (lift (lib_call ''enclosure info'' (get (en_sg e)))) (\<lambda>t. seq (modify (\<lambda>_. Some t)) (ret t))))
       (\<lambda>t. bnd (lift (collect [0..<unat (dt_count t)] (\<lambda>i. rbnd (lindex (dt_list t) (int i)) show_descriptor)))
        (\<lambda>l. ret (uint (dt_generation t), uint (dt_count t), uint (dt_page_size t), l)))"

text \<open>The list to be written: an offset with a value, \<open>None\<close> for one that is no \<open>bytearray\<close>. The test of the index comes after the
  entry has been filled in.\<close>

fun fill_descriptors :: "(int \<times> 8 word list option) list \<Rightarrow> nat \<Rightarrow> descriptor list \<Rightarrow> (nat \<times> descriptor list) res" where
  "fill_descriptors [] index ds = Inr (index, ds)"
| "fill_descriptors ((value_offset, v) # rest) index ds = (case v of
       None \<Rightarrow> Inl (PlainException ''Value is not a bytearray of 4 bytes'')
     | Some bytes \<Rightarrow>
         if length bytes \<noteq> 4 then Inl (PlainException ''Value is not a bytearray of 4 bytes'')
         else
           let ds1 = ds[index := (ds ! index)\<lparr>de_offset := word_of_int value_offset, de_val := bytes\<rparr>] in
           if Suc index \<ge> 250 then Inl ValueError else fill_descriptors rest (Suc index) ds1)"

definition built :: "int \<Rightarrow> int \<Rightarrow> (int \<times> 8 word list option) list \<Rightarrow> descriptors res" where
  "built generation page_size l = rbnd (fill_descriptors l 0 (replicate 250 no_descriptor)) (\<lambda>(index, ds).
     Inr \<lparr>dt_generation = word_of_int generation, dt_page_size = word_of_int page_size, dt_count = word_of_nat index, dt_list = ds\<rparr>)"

definition setSubEncDescriptors :: "(string option \<Rightarrow> descriptors \<Rightarrow> string option) \<Rightarrow> enclosure \<Rightarrow> int \<Rightarrow> int
    \<Rightarrow> (int \<times> 8 word list option) list \<Rightarrow> unit res" where
  "setSubEncDescriptors put e generation page_size l = rbnd (built generation page_size l) (\<lambda>t. case put (en_sg e) t of
       None \<Rightarrow> Inr ()
     | Some err \<Rightarrow> Inl (PlainException (''Error setting enclosure info '' @ quote (repr_bytes (bytes_strip err)))))"

section \<open>The manager\<close>

definition rescan_enclosures :: "sysfs \<Rightarrow> enclosure list res" where
  "rescan_enclosures en = rbnd (getSASEnclosureList en) (\<lambda>l. Inr (map (new_enclosure en) l))"

text \<open>Enclosures have no order, which the sort needs as soon as there are two.\<close>

definition enclosure_list :: "enclosure list \<Rightarrow> enclosure list res" where
  "enclosure_list l = (if length l < 2 then Inr l else Inl TypeError)"

definition scsi_map :: "enclosure list \<Rightarrow> (string option, enclosure) dict res" where
  "scsi_map l = rbnd (enclosure_list l) (\<lambda>es. Inr (fold (\<lambda>e. dset (en_sg e) e) es []))"

definition enclosure_devpath_map :: "enclosure list \<Rightarrow> (string, enclosure) dict res" where
  "enclosure_devpath_map l = rbnd (enclosure_list l) (\<lambda>es. Inr (fold (\<lambda>e. dset (en_devpath e) e) es []))"

section \<open>What is written\<close>

lemma fill_spec:
  "fill_descriptors l index ds = Inr (n, es) \<Longrightarrow> length ds = 250 \<Longrightarrow> index < 250 \<Longrightarrow>
     n = index + length l \<and> n < 250 \<and> length es = 250 \<and> (\<forall>j. j < index \<or> n \<le> j \<longrightarrow> es ! j = ds ! j)
     \<and> (\<forall>j < length l. length (the (snd (l ! j))) = 4 \<and> snd (l ! j) \<noteq> None
         \<and> es ! (index + j) = (ds ! (index + j))\<lparr>de_offset := word_of_int (fst (l ! j)), de_val := the (snd (l ! j))\<rparr>)"
proof (induction l index ds arbitrary: n es rule: fill_descriptors.induct)
  case (2 off v rest index ds)
  obtain bytes where v: "v = Some bytes" and b: "length bytes = 4" and i: "Suc index < 250"
    and f: "fill_descriptors rest (Suc index) (ds[index := (ds ! index)\<lparr>de_offset := word_of_int off, de_val := bytes\<rparr>]) = Inr (n, es)"
    using "2.prems"(1) by (auto simp: Let_def split: option.splits if_splits)
  let ?e = "(ds ! index)\<lparr>de_offset := word_of_int off, de_val := bytes\<rparr>"
  have IH: "n = Suc index + length rest \<and> n < 250 \<and> length es = 250 \<and> (\<forall>j. j < Suc index \<or> n \<le> j \<longrightarrow> es ! j = ds[index := ?e] ! j)
     \<and> (\<forall>j < length rest. length (the (snd (rest ! j))) = 4 \<and> snd (rest ! j) \<noteq> None
         \<and> es ! (Suc index + j) = (ds[index := ?e] ! (Suc index + j))\<lparr>de_offset := word_of_int (fst (rest ! j)), de_val := the (snd (rest ! j))\<rparr>)"
    by (rule "2.IH"[OF v _ refl _ f]) (use b i "2.prems" in auto)
  have e0: "es ! index = ?e" using IH "2.prems" by (metis lessI nth_list_update_eq)
  have l: "((off, v) # rest) ! j = (if j = 0 then (off, v) else rest ! (j - 1))" for j by (cases j) auto
  show ?case
  proof (intro conjI allI impI)
    show "n = index + length ((off, v) # rest)" "n < 250" "length es = 250" using IH by auto
  next
    fix j assume "j < index \<or> n \<le> j"
    then have "j \<noteq> index" "j < Suc index \<or> n \<le> j" using IH by auto
    then have "es ! j = ds[index := ?e] ! j" using IH by blast
    then show "es ! j = ds ! j" using \<open>j \<noteq> index\<close> by simp
  next
    fix j assume j: "j < length ((off, v) # rest)"
    show "length (the (snd (((off, v) # rest) ! j))) = 4" "snd (((off, v) # rest) ! j) \<noteq> None"
      using IH j v b by (cases j; simp)+
    show "es ! (index + j) = (ds ! (index + j))\<lparr>de_offset := word_of_int (fst (((off, v) # rest) ! j)), de_val := the (snd (((off, v) # rest) ! j))\<rparr>"
      using IH j v e0 by (cases j) simp_all
  qed
qed simp

text \<open>C32: The descriptors that are handed to the enclosure are the ones of the list, in order: up to 249 of them, each value four bytes, the
  offsets not cut when they fit 16 bits, and the count is their number.
\<close>

theorem descriptors_written:
  assumes "built generation page_size l = Inr t" and "\<forall>(off, v) \<in> set l. 0 \<le> off \<and> off < 2 ^ 16"
  shows "unat (dt_count t) = length l \<and> length l < 250
     \<and> map (\<lambda>d. (uint (de_offset d), Some (de_val d))) (take (length l) (dt_list t)) = l
     \<and> list_all (\<lambda>(off, v). length (the v) = 4) l"
proof -
  obtain n ds where f: "fill_descriptors l 0 (replicate 250 no_descriptor) = Inr (n, ds)"
    and t: "t = \<lparr>dt_generation = word_of_int generation, dt_page_size = word_of_int page_size, dt_count = word_of_nat n, dt_list = ds\<rparr>"
    using assms(1) unfolding built_def by (auto simp: rbnd_def split: sum.splits)
  note s = fill_spec[OF f, simplified]
  have n: "n = length l" "n < 250" and len: "length ds = 250" using s by auto
  have o: "uint (word_of_int (fst (l ! j)) :: 16 word) = fst (l ! j)" if "j < length l" for j
    using assms(2) nth_mem[OF that] by (auto simp: uint_word_of_int case_prod_beta)
  have "map (\<lambda>d. (uint (de_offset d), Some (de_val d))) (take (length l) ds) = l"
    by (rule nth_equalityI) (use s len n o in \<open>auto simp: prod_eq_iff\<close>)
  moreover have "list_all (\<lambda>(off, v). length (the v) = 4) l" using s by (auto simp: list_all_length case_prod_beta)
  moreover have "unat (word_of_nat n :: 8 word) = n" using n by (simp add: unat_of_nat)
  ultimately show ?thesis using n t by simp
qed

theorem descriptors_written_witness:
  "\<exists>t. built 1 512 [(4, Some [1, 2, 3, 4]), (8, Some [0, 0, 0, 128])] = Inr t
     \<and> map (\<lambda>d. (uint (de_offset d), Some (de_val d))) (take 2 (dt_list t)) = [(4, Some [1, 2, 3, 4]), (8, Some [0, 0, 0, 128])]"
proof -
  obtain t where t: "built 1 512 [(4, Some [1, 2, 3, 4]), (8, Some [0, 0, 0, 128])] = Inr t"
    by (simp add: built_def Let_def)
  have "\<forall>(off, v) \<in> set [(4, Some [1, 2, 3, 4 :: 8 word]), (8, Some [0, 0, 0, 128])]. 0 \<le> off \<and> off < (2 :: int) ^ 16" by simp
  from descriptors_written[OF t this] t show ?thesis by (auto simp: numeral_2_eq_2)
qed

text \<open>The list may hold one descriptor less than the structure has room for.\<close>

theorem full_list_refused: "length l = 250 \<Longrightarrow> list_all (\<lambda>(off, v). v \<noteq> None \<and> length (the v) = 4) l \<Longrightarrow> fill_descriptors l 0 ds = Inl ValueError"
proof -
  have "list_all (\<lambda>(off, v). v \<noteq> None \<and> length (the v) = 4) l \<Longrightarrow> index + length l = 250 \<Longrightarrow> index < 250 \<Longrightarrow> fill_descriptors l index ds = Inl ValueError" for l index ds
    by (induction l index ds rule: fill_descriptors.induct) (auto simp: Let_def split: option.splits)
  then show "length l = 250 \<Longrightarrow> list_all (\<lambda>(off, v). v \<noteq> None \<and> length (the v) = 4) l \<Longrightarrow> fill_descriptors l 0 ds = Inl ValueError" by force
qed

section \<open>Reading an enclosure twice\<close>

text \<open>The first question to an enclosure raises, since its WWN is a number; the second one is answered from what was kept.\<close>

theorem first_question_raises:
  assumes "get (en_sg e) = Inr r" and "\<forall>n. utf8_decode (re_texts r n) = Inr (re_texts r n)"
  shows "fst (enclosure_item get e ''serial'' []) = Inl TypeError
    \<and> fst (enclosure_item get e ''serial'' (snd (enclosure_item get e ''serial'' []))) = Inr (PStr (strip (re_texts r ''serial'')))"
proof -
  have f: "field_text (enclosure_field r n) = Inr (PStr (strip (re_texts r n)))" if "n \<noteq> ''WWN''" for n
    using that assms(2) by (simp add: field_text_def enclosure_field_def text_of_def)
  have w: "field_text (enclosure_field r ''WWN'') = Inl TypeError" by (simp add: field_text_def enclosure_field_def)
  have v: "field_text (CText (re_texts r ''vendor_id'')) = Inr (PStr (strip (re_texts r ''vendor_id'')))"
    using assms(2) by (simp add: field_text_def text_of_def)
  have "load_enclosure get e [] = (Inl TypeError, [(''vendor'', PStr (strip (re_texts r ''vendor_id''))), (''version'', PStr (strip (re_texts r ''version''))),
      (''serial'', PStr (strip (re_texts r ''serial''))), (''model'', PStr (strip (re_texts r ''model'')))])"
    by (simp add: load_enclosure_def lib_call_def assms(1) py_simps v f w set_info_def)
  then show ?thesis by (simp add: enclosure_item_def py_simps whenM_def dindex_def)
qed

end
