(* ===== verification/Drive_Runs.thy ===== *)
theory Drive_Runs
  imports Drive_Props Enclosure_Info
begin

text \<open>
  The scan of a small machine: an old controller with two drives on one host, an NVMe drive, and an enclosure in which the first slot
  shows a drive again that the ATA scan has found. The witnesses of \<open>Drive_Props\<close>, and the naming schemes of the slots.
\<close>

section \<open>A machine\<close>

definition demo_globs :: "(string, string list) dict" where
  "demo_globs = [
     (''/sys/bus/pci/drivers/ata_piix/*/ata*/host*'', [''/sys/bus/pci/drivers/ata_piix/0000:00:1f.2/ata1/host0'']),
     (''/sys/devices/pci[0-9]*/[0-9]*/ata*/host*'', [''/sys/devices/pci0000:00/0000:00:1f.5/ata3/host2'', ''/sys/devices/pci0000:00/0000:00:1f.2/ata1/host0'']),
     (''/sys/class/scsi_host/host0/device/target*/*/block/sd*'', [''/x/target0:0:0/0:0:0:0/block/sda'', ''/x/target0:0:1/0:0:1:0/block/sdb'']),
     (''/sys/devices/pci[0-9]*/[0-9]*/nvme/nvme*'', [''/sys/devices/pci0000:00/0000:00:1d.0/nvme/nvme0'']),
     (''/sys/class/nvme/nvme0/nvme0n*'', [''/sys/class/nvme/nvme0/nvme0n1'']),
     (''/sys/class/sas_expander/expander-6:0/device/port-*/end_device-*/target*/[0-9:]*/enclosure'', [''/x/target6:0:9/6:0:9:0/enclosure'']),
     (''/sys/class/enclosure/6:0:9:0/*'', [''/x/Slot 02'', ''/x/Slot 01'', ''/x/uevent'']),
     (''/sys/class/enclosure/6:0:9:0/Slot 01/device/block/sd*'', [''/x/block/sdb'']),
     (''/sys/class/enclosure/6:0:9:0/Slot 02/device/block/sd*'', [''/x/block/sdc'']),
     (''/sys/class/block/*'', [''/x/sda'', ''/x/sdb'', ''/x/sdc'', ''/x/sdd'', ''/x/sda1'', ''/x/md0'', ''/x/nvme0n1''])]"

definition demo_sys :: sysfs where
  "demo_sys = \<lparr>
     sy_glob = (\<lambda>p. case map_of demo_globs p of None \<Rightarrow> [] | Some l \<Rightarrow> l),
     sy_exists = (\<lambda>p. p = ''/sys/class/sas_expander/'' \<or> p = ''/sys/class/enclosure/''),
     sy_readable = (\<lambda>_. False), sy_writable = (\<lambda>_. True), sy_exec = (\<lambda>_. False), sy_isdir = (\<lambda>_. False), sy_isfile = (\<lambda>_. False),
     sy_listdir = (\<lambda>_. Inr [''expander-6:0'']), sy_real = (\<lambda>p. p), sy_run = (\<lambda>_. Inl (OSError 2)), sy_cli = None\<rparr>"

text \<open>The parts of the scan, each evaluated on what the part before it gave.\<close>

lemma demo_hosts: "bus_entries demo_sys ata_patterns =
    Inr [(''pci000000 0000001f2 000000000 000000000 0000'', ''host0''), (''pci000000 0000001f5 000000000 000000000 0002'', ''host2'')]"
  by code_simp

lemma demo_numbers: "number_hosts demo_sys [''host0'', ''host2''] 0 [] = [(''host0'', 0), (''host2'', 2)]"
  by code_simp

lemma demo_host_ports: "collect [(''host0'', 0), (''host2'', 2)] (host_ports demo_sys) =
    Inr [[(ATAPort 0 0, Some ''sda''), (ATAPort 0 1, Some ''sdb'')], [(ATAPort 2 2, None)]]"
  by code_simp

lemma demo_ata: "getATAPorts demo_sys = Inr [(ATAPort 0 0, Some ''sda''), (ATAPort 0 1, Some ''sdb''), (ATAPort 2 2, None)]"
  by (simp add: getATAPorts_def demo_hosts demo_numbers demo_host_ports del: number_hosts.simps collect.simps)

lemma demo_nvme: "getNVMEPorts demo_sys = Inr [(NVMEPort ''0'' 1, ''nvme0n1'', ''/dev/nvme0:1'')]"
  by code_simp

lemma demo_slots: "getSASEnclosurePorts demo_sys ''6:0:9:0'' =
    Inr [(SASPort 6 ''6:0:9:0'' (PInt 0) (Some ''Slot 01''), Some ''sdb''), (SASPort 6 ''6:0:9:0'' (PInt 1) (Some ''Slot 02''), Some ''sdc'')]"
  by code_simp

lemma demo_enclosures: "getSASEnclosureList demo_sys = Inr [''6:0:9:0'']"
  by code_simp

lemma demo_others: "getSASDirectPorts demo_sys = Inr []" "getSCSIPorts demo_sys = Inr []" "getIDEPorts demo_sys = []" "getMegaRAIDPorts demo_sys = Inr []"
  by code_simp+

definition demo_offers :: "offer list" where
  "demo_offers = [(ATAPort 0 0, Some ''sda'', ''/dev/sda''), (ATAPort 0 1, Some ''sdb'', ''/dev/sdb''), (ATAPort 2 2, None, []),
     (NVMEPort ''0'' 1, Some ''nvme0n1'', ''/dev/nvme0:1''), (SASPort 6 ''6:0:9:0'' (PInt 0) (Some ''Slot 01''), Some ''sdb'', ''/dev/sdb''),
     (SASPort 6 ''6:0:9:0'' (PInt 1) (Some ''Slot 02''), Some ''sdc'', ''/dev/sdc'')]"

lemma demo_offered: "offers demo_sys = Inr demo_offers"
  by (simp add: offers_def enclosure_offers_def demo_ata demo_nvme demo_slots demo_enclosures demo_others demo_offers_def plain_offer_def nvme_offer_def)

lemma demo_first: "map (\<lambda>(i, x). (i, offered x)) (first_offers demo_offers) = [(0, Some ''sda''), (1, Some ''sdb''), (3, Some ''nvme0n1''), (5, Some ''sdc'')]"
  by code_simp

lemma demo_scan: "\<exists>dm. rescan_linux demo_sys = Inr dm"
  by (simp add: rescan_linux_def scan_enclosures_offers enclosure_offers_def demo_ata demo_nvme demo_slots demo_enclosures demo_others)

section \<open>Witnesses\<close>

theorem scan_is_first_offer_witness:
  "\<exists>dm. rescan_linux demo_sys = Inr dm \<and> map (\<lambda>d. (dr_port d, dr_block d)) (dm_drives dm) =
     [(0, Some ''sda''), (1, Some ''sdb''), (3, Some ''nvme0n1''), (5, Some ''sdc'')]"
proof -
  obtain dm where r: "rescan_linux demo_sys = Inr dm" using demo_scan by blast
  from scan_is_first_offer[OF r] have "dm_drives dm = map (drive_from demo_sys) (first_offers demo_offers)" by (auto simp: demo_offered)
  then have "map (\<lambda>d. (dr_port d, dr_block d)) (dm_drives dm) = map (\<lambda>(i, x). (i, offered x)) (first_offers demo_offers)"
    by (simp add: drive_from_fields case_prod_beta)
  with r show ?thesis by (auto simp: demo_first)
qed



section \<open>Slots\<close>

lemma slot_schemes:
  "matches_pat pikes_peak ''SLOT  1 [A, 1]''" "bay_slot ''SLOT  1 [A, 1]'' = Inr ''A01''" "matches_pat ''[A-E][0-9]+'' ''A00''"
  "list_all is_numbered [''Slot 01'', ''SLOT 001'', ''001'', ''1'', ''ArrayDevice01'']"
  by code_simp+

end
