(* ===== verification/Bios_Tools.thy ===== *)
theory Bios_Tools
  imports Py_Regex
begin

text \<open>
  The two vendor tools that \<open>bios-cfg\<close> drives: \<open>pylib/SYSCfg.py\<close> for \<open>syscfg\<close> of Intel, \<open>pylib/SUM.py\<close> for \<open>sum\<close> of Supermicro, and
  their base class \<open>pylib/BIOSCfg.py\<close>.

  The programs run under Python 2. Its dictionaries list their keys in the order of the hash table, which is the parameter \<open>be_order\<close>; what
  the code relies on is that it lists every key once. What a tool answers and what it leaves in the file it saves is a function of the calls
  made before, each with the contents that \<open>/tmp/sum_set\<close> had. Texts are ASCII, so that byte strings and the unicode strings of the
  configuration compare by their characters; console output and the logs are left out.
\<close>

section \<open>State and environment\<close>

datatype bios_tool = SYSCfg | SUM_1_3 | SUM_1_5

datatype bios_event =
    BMessage string
  | BStored int \<comment> \<open>the boot count written to the job\<close>
  | BCall "string list" string \<comment> \<open>a call of a tool, and what \<open>/tmp/sum_set\<close> holds then\<close>

type_synonym bios_options = "(string, string) dict"
type_synonym bios_item = "string \<times> bios_options option"
type_synonym bios_groups = "(string, (string, bios_item) dict) dict"

record bios =
  bi_cache :: bios_groups
  bi_boot :: "(string, bios_item) dict"
  bi_password :: pyval
  bi_set :: string
  bi_log :: "bios_event list"

record bios_env =
  be_baseboard :: "string option" \<comment> \<open>\<open>None\<close> when the look up in the DMI tables raises\<close>
  be_config :: "pyval res"
  be_read :: "pyval option" \<comment> \<open>the stored boot count; \<open>None\<close> when there is no job\<close>
  be_writes :: bool \<comment> \<open>whether the job is still there to write it\<close>
  be_answer :: "bios_event list \<Rightarrow> (int \<times> string) option" \<comment> \<open>\<open>None\<close> when the tool is not there\<close>
  be_saved :: "bios_event list \<Rightarrow> string option"
  be_order :: "string list \<Rightarrow> string list"

definition py2_keys :: "bios_env \<Rightarrow> (string, 'v) dict \<Rightarrow> string list" where
  "py2_keys en d = be_order en (dkeys d)"

text \<open>\<open>d.keys()[ d.values().index( v ) ]\<close> and \<open>xs.index( x )\<close>.\<close>

definition key_of :: "bios_env \<Rightarrow> (string, string) dict \<Rightarrow> string \<Rightarrow> string res" where
  "key_of en d v = (case find (\<lambda>k. map_of d k = Some v) (py2_keys en d) of None \<Rightarrow> Inl ValueError | Some k \<Rightarrow> Inr k)"

fun position :: "'a list \<Rightarrow> 'a \<Rightarrow> nat res" where
  "position [] x = Inl ValueError"
| "position (y # ys) x = (if y = x then Inr 0 else rbnd (position ys x) (\<lambda>i. Inr (Suc i)))"

text \<open>\<open>str.strip\<close> and \<open>\s\<close> of a byte string.\<close>

definition byte_space_ranges :: "(char \<times> char) list" where
  "byte_space_ranges = [(CHR 0x09, CHR 0x0D), (CHR '' '', CHR '' '')]"

definition there :: "'a option \<Rightarrow> 'a res" where
  "there x = (case x of None \<Rightarrow> Inl (OSError 2) | Some y \<Rightarrow> Inr y)"

text \<open>A call of the tool, logged with the file it may read. Its exit code and output.\<close>

fun bios_cli :: "bios_tool \<Rightarrow> string" where
  "bios_cli SYSCfg = ''/sbin/syscfg''"
| "bios_cli SUM_1_3 = ''/sbin/sum1_3''"
| "bios_cli SUM_1_5 = ''/sbin/sum1_5''"

definition call_tool :: "bios_env \<Rightarrow> bios_tool \<Rightarrow> string list \<Rightarrow> (bios, int \<times> string) py" where
  "call_tool en t cmd =
     seq (modify (\<lambda>s. s\<lparr>bi_log := bi_log s @ [BCall (bios_cli t # cmd) (bi_set s)]\<rparr>))
       (bnd (gets bi_log) (\<lambda>l. lift (there (be_answer en l))))"

definition bios_message :: "string \<Rightarrow> (bios, unit) py" where
  "bios_message m = modify (\<lambda>s. s\<lparr>bi_log := bi_log s @ [BMessage m]\<rparr>)"

section \<open>The base class\<close>

definition setPassword :: "pyval \<Rightarrow> (bios, unit) py" where
  "setPassword p = modify (\<lambda>s. s\<lparr>bi_password := p\<rparr>)"

text \<open>The second word of a command: empty, or the password when one is set.\<close>

definition password_arg :: "pyval \<Rightarrow> string res" where
  "password_arg p = (if truthy p then str_of p else Inr [])"

section \<open>SYSCfg\<close>

definition sys_detect :: "string \<Rightarrow> bios_tool option" where
  "sys_detect baseboard = (if contains baseboard ''S2600JF'' then Some SYSCfg else None)"

text \<open>The exit code of \<open>syscfg\<close> is not looked at.\<close>

definition sys_execute :: "bios_env \<Rightarrow> string list \<Rightarrow> (bios, string) py" where
  "sys_execute en cmd = bnd (call_tool en SYSCfg cmd) (\<lambda>(rc, out). ret out)"

definition sys_last :: "string \<Rightarrow> string res" where
  "sys_last out = lindex (bytes_lines out) (- 1)"

definition sys_done :: string where
  "sys_done = ''Successfully Completed''"

definition sys_ok :: "bios_env \<Rightarrow> string list \<Rightarrow> (bios, bool) py" where
  "sys_ok en cmd = bnd (sys_execute en cmd) (\<lambda>out. bnd (lift (sys_last out)) (\<lambda>l. ret (l = sys_done)))"

definition sys_group_re :: re where
  "sys_group_re = cats [lit ''['', Grp 1 (Star (Cls True [(CHR '':'', CHR '':''), (CHR '']'', CHR '']'')])), lit ''::'',
     Grp 2 (Star (Cls True [(CHR '']'', CHR '']'')])), lit '']'']"

definition sys_item_re :: re where
  "sys_item_re = cats [Grp 1 (Plus (Cls True [(CHR ''='', CHR ''='')])), lit ''='', Grp 2 (Plus (Cls False word_ranges)),
     Star (Cls False byte_space_ranges), lit '';'', Grp 3 (Star AnyChr)]"

definition sys_option_re :: re where
  "sys_option_re = cats [Grp 1 (Plus AnyChr), lit ''='', Grp 2 (Plus AnyChr)]"

definition sys_options :: "string \<Rightarrow> bios_options" where
  "sys_options text = fold (\<lambda>part d. case re_match sys_option_re (bytes_strip part) of
       None \<Rightarrow> d
     | Some c \<Rightarrow> dset (group_of 2 c) (group_of 1 c) d) (tl (split_chr CHR '':'' text)) []"

text \<open>The scan of the saved file keeps the category and the group of the last header. An item of the category \<open>BIOS\<close> is stored under
  the key that belongs to its value; without options that looks for the keys of \<open>None\<close>.\<close>

record sys_scan =
  sc_category :: "string option"
  sc_group :: string
  sc_groups :: bios_groups

definition store_item :: "string \<Rightarrow> string \<Rightarrow> bios_item \<Rightarrow> bios_groups \<Rightarrow> bios_groups res" where
  "store_item g name item gs = rbnd (dindex gs g) (\<lambda>d. Inr (dset g (dset name item d) gs))"

definition sys_line :: "bios_env \<Rightarrow> string \<Rightarrow> sys_scan \<Rightarrow> sys_scan res" where
  "sys_line en line sc =
     (case re_match sys_group_re line of
        Some c \<Rightarrow> Inr \<lparr>sc_category = Some (group_of 1 c), sc_group = group_of 2 c,
          sc_groups = (if group_of 1 c = ''BIOS'' then dset (group_of 2 c) [] (sc_groups sc) else sc_groups sc)\<rparr>
      | None \<Rightarrow> (case re_match sys_item_re line of
           None \<Rightarrow> Inr sc
         | Some c \<Rightarrow>
             if sc_category sc \<noteq> Some ''BIOS'' then Inr sc
             else let options = sys_options (group_of 3 c) in
               if options = [] then Inl AttributeError
               else rbnd (key_of en options (bytes_strip (group_of 2 c))) (\<lambda>k.
                 rbnd (store_item (sc_group sc) (bytes_strip (group_of 1 c)) (k, Some options) (sc_groups sc)) (\<lambda>gs.
                 Inr (sc\<lparr>sc_groups := gs\<rparr>)))))"

text \<open>The lines one after the other, up to one that raises: the result so far and how it ended.\<close>

fun scan_lines :: "(string \<Rightarrow> 'a \<Rightarrow> 'a res) \<Rightarrow> string list \<Rightarrow> 'a \<Rightarrow> 'a \<times> unit res" where
  "scan_lines f [] a = (a, Inr ())"
| "scan_lines f (l # ls) a = (case f l a of Inl e \<Rightarrow> (a, Inl e) | Inr b \<Rightarrow> scan_lines f ls b)"

definition byte_lines_of :: "string \<Rightarrow> string list" where
  "byte_lines_of s = lines_acc (\<lambda>c. c = CHR 0x0A) [] s"

definition sys_load :: "bios_env \<Rightarrow> (bios, unit) py" where
  "sys_load en =
     seq (modify (\<lambda>s. s\<lparr>bi_cache := []\<rparr>))
     (bnd (sys_execute en [''/s'', ''/tmp/syscfg_save.ini'', ''/b'']) (\<lambda>_.
      bnd (gets bi_log) (\<lambda>l.
      bnd (lift (there (be_saved en l))) (\<lambda>text.
      let (sc, r) = scan_lines (sys_line en) (byte_lines_of text) \<lparr>sc_category = None, sc_group = [], sc_groups = []\<rparr> in
      seq (modify (\<lambda>s. s\<lparr>bi_cache := sc_groups sc\<rparr>)) (lift r)))))"

definition sys_changePassword :: "bios_env \<Rightarrow> pyval \<Rightarrow> (bios, bool) py" where
  "sys_changePassword en newpassword =
     bnd (gets bi_password) (\<lambda>p.
     bnd (lift (str_of p)) (\<lambda>old.
     bnd (lift (str_of newpassword)) (\<lambda>new.
     bnd (sys_ok en [''/bap'', old, new]) (\<lambda>ok.
     if ok then seq (setPassword newpassword) (ret True) else ret False))))"

definition sys_checkPassword :: "bios_env \<Rightarrow> (bios, bool) py" where
  "sys_checkPassword en = bnd (gets bi_password) (\<lambda>p. bnd (lift (str_of p)) (\<lambda>old. sys_ok en [''/bap'', old, old]))"

definition sys_setValue :: "bios_env \<Rightarrow> string \<Rightarrow> string \<Rightarrow> string \<Rightarrow> (bios, bool) py" where
  "sys_setValue en grp item val =
     bnd (gets bi_password) (\<lambda>p. bnd (lift (password_arg p)) (\<lambda>pw. sys_ok en [''/bcs'', pw, grp, item, val]))"

section \<open>The boot order of SYSCfg\<close>

definition sys_class_map :: "(string, string) dict" where
  "sys_class_map = [(''NW'', ''Network''), (''HDD'', ''Harddrive''), (''EFI'', ''EFI''), (''DVD'', ''DVD'')]"

definition sys_code :: "string \<Rightarrow> string res" where
  "sys_code cls = dindex (map (\<lambda>(a, b). (b, a)) sys_class_map) cls"

text \<open>A line \<open>:: ... (NW)\<close> starts a class; a line with one dot is an entry of it.\<close>

definition sys_header :: "string \<Rightarrow> string res" where
  "sys_header line = rbnd (lindex (split_chr CHR ''('' line) 1) (\<lambda>t.
     let name = bytes_strip (hd (split_chr CHR '')'' t)) in
     case map_of sys_class_map name of
       None \<Rightarrow> Inl (PlainException (''Unknown Booting class '' @ [CHR 0x22] @ name @ [CHR 0x22]))
     | Some c \<Rightarrow> Inr c)"

fun sys_boot_lines :: "string list \<Rightarrow> string option \<Rightarrow> string list list res" where
  "sys_boot_lines [] cur = Inr []"
| "sys_boot_lines (line # lines) cur =
     rbnd (if startswith line ''::'' then map_sum id Some (sys_header line) else Inr cur) (\<lambda>cur'.
     case cur' of
       None \<Rightarrow> sys_boot_lines lines cur'
     | Some c \<Rightarrow> rbnd (sys_boot_lines lines cur') (\<lambda>rest.
         case split_chr CHR ''.'' line of [_, b] \<Rightarrow> Inr ([c, bytes_strip b] # rest) | _ \<Rightarrow> Inr rest))"

definition sys_getBoot :: "bios_env \<Rightarrow> (bios, string list list) py" where
  "sys_getBoot en = bnd (sys_execute en [''/bbo'']) (\<lambda>out. lift (sys_boot_lines (bytes_lines out) None))"

text \<open>\<open>[ class_map[ item[0] ] for item in boot ]\<close>, the classes without immediate repetition, and the names of every class.\<close>

definition class_codes :: "string list list \<Rightarrow> string list res" where
  "class_codes boot = collect boot (\<lambda>item. rbnd (lindex item 0) (\<lambda>c. case sys_code c of
      Inl _ \<Rightarrow> Inl (PlainException (''Unknown boot class '' @ [CHR 0x22] @ c @ [CHR 0x22])) | Inr k \<Rightarrow> Inr k))"

definition class_order :: "string list \<Rightarrow> string list res" where
  "class_order codes = (if codes = [] then Inl IndexError else Inr (remdups_adj codes))"

definition names_by_class :: "string list list \<Rightarrow> (string, string list) dict res" where
  "names_by_class boot = fold (\<lambda>item r. rbnd r (\<lambda>d. rbnd (lindex item 0) (\<lambda>c. rbnd (sys_code c) (\<lambda>k. rbnd (lindex item 1) (\<lambda>n.
     Inr (dset k ((case map_of d k of None \<Rightarrow> [] | Some ns \<Rightarrow> ns) @ [n]) d)))))) boot (Inr [])"

definition one_based :: "string list \<Rightarrow> string list \<Rightarrow> string list res" where
  "one_based current target = collect target (\<lambda>x. rbnd (position current x) (\<lambda>i. Inr (show_nat (Suc i))))"

definition bbo_reset :: string where
  "bbo_reset = ''Reordering boot devices using '' @ [CHR 0x27] @ ''/bbo'' @ [CHR 0x27] @ '' switch should be followed by an immediate system reset approximately with in one minute.''"

definition set_classes :: "bios_env \<Rightarrow> string list \<Rightarrow> (bios, bool) py" where
  "set_classes en order =
     bnd (gets bi_password) (\<lambda>p. bnd (lift (password_arg p)) (\<lambda>pw.
     bnd (sys_execute en ([''/bbo'', pw] @ order)) (\<lambda>out.
     bnd (lift (sys_last out)) (\<lambda>l. ret (l = bbo_reset \<or> l = sys_done)))))"

definition set_class_order :: "bios_env \<Rightarrow> string \<Rightarrow> string list \<Rightarrow> (bios, bool) py" where
  "set_class_order en c indexes =
     bnd (gets bi_password) (\<lambda>p. bnd (lift (password_arg p)) (\<lambda>pw. sys_ok en ([''/bbo'', pw, c] @ indexes)))"

text \<open>The loop over the wanted classes.\<close>

fun order_classes :: "bios_env \<Rightarrow> (string, string list) dict \<Rightarrow> (string, string list) dict \<Rightarrow> string list \<Rightarrow> bool \<Rightarrow> (bios, bool) py" where
  "order_classes en current target [] dirty = ret True"
| "order_classes en current target (c # cs) dirty =
     (case map_of current c of
        None \<Rightarrow> if dirty then order_classes en current target cs dirty else ret False
      | Some have_names \<Rightarrow>
          bnd (lift (dindex target c)) (\<lambda>want_names.
          if have_names = want_names then order_classes en current target cs dirty
          else bnd (lift (one_based have_names want_names)) (\<lambda>indexes.
            bnd (set_class_order en c indexes) (\<lambda>ok.
            if ok then order_classes en current target cs True else ret False))))"

definition sys_setBoot :: "bios_env \<Rightarrow> string list list \<Rightarrow> (bios, bool) py" where
  "sys_setBoot en boot =
     bnd (sys_getBoot en) (\<lambda>current.
     bnd (lift (rbnd (class_codes boot) class_order)) (\<lambda>target_order.
     bnd (lift (rbnd (class_codes current) class_order)) (\<lambda>current_order.
     bnd (if current_order \<noteq> target_order then set_classes en target_order else ret True) (\<lambda>ok.
     if \<not> ok then ret False
     else bnd (lift (names_by_class current)) (\<lambda>current_classes.
       bnd (lift (names_by_class (filter (\<lambda>item. 1 < length item) boot))) (\<lambda>target_classes.
       order_classes en current_classes target_classes (py2_keys en target_classes) (current_order \<noteq> target_order)))))))"

section \<open>SUM\<close>

definition sum_detect :: "string \<Rightarrow> bios_tool option" where
  "sum_detect baseboard =
     (if startswith baseboard ''X9'' then Some SUM_1_3 else if startswith baseboard ''X10'' then Some SUM_1_5 else None)"

text \<open>The constructor empties \<open>/tmp/sum_set\<close>; both versions only ever append to it.\<close>

definition sum_init :: "(bios, unit) py" where
  "sum_init = modify (\<lambda>s. s\<lparr>bi_set := []\<rparr>)"

definition sum_write :: "string \<Rightarrow> (bios, unit) py" where
  "sum_write text = modify (\<lambda>s. s\<lparr>bi_set := bi_set s @ text\<rparr>)"

definition sum_execute :: "bios_env \<Rightarrow> bios_tool \<Rightarrow> string list \<Rightarrow> (bios, string) py" where
  "sum_execute en t cmd =
     bnd (call_tool en t cmd) (\<lambda>(rc, out). if rc \<noteq> 0 then throw (PlainException ''Failed call to SUM'') else ret out)"

definition sum_group_re :: re where
  "sum_group_re = cats [lit ''['', Grp 1 (Star (Cls True [(CHR '']'', CHR '']'')])), lit '']'']"

definition sum_item_re :: re where
  "sum_item_re = cats [Grp 1 (Plus (Cls True [(CHR ''='', CHR ''='')])), lit ''='', Grp 2 (Plus (Cls False word_ranges)),
     Star (Cls False byte_space_ranges), lit ''//'', Grp 3 (Star AnyChr)]"

definition sum_option_re :: re where
  "sum_option_re = cats [Opt (lit ''*''), Grp 1 (Plus (Cls False [(CHR ''0'', CHR ''9''), (CHR ''A'', CHR ''F''), (CHR ''a'', CHR ''f'')])),
     lit '' ('', Grp 2 (Plus AnyChr), lit '')'']"

definition sum_options :: "string \<Rightarrow> bios_options" where
  "sum_options text = fold (\<lambda>part d. case re_search sum_option_re part of
       None \<Rightarrow> d
     | Some c \<Rightarrow> dset (group_of 1 c) (group_of 2 c) d) (split_chr CHR '','' text) []"

definition sum_line :: "string \<Rightarrow> string option \<times> bios_groups \<Rightarrow> (string option \<times> bios_groups) res" where
  "sum_line line sc = (case sc of (g, gs) \<Rightarrow>
     (case re_match sum_group_re line of
        Some c \<Rightarrow> Inr (Some (group_of 1 c), dset (group_of 1 c) [] gs)
      | None \<Rightarrow> (case re_match sum_item_re line of
           None \<Rightarrow> Inr sc
         | Some c \<Rightarrow>
             let options = sum_options (group_of 3 c);
                 item = (bytes_strip (group_of 2 c), if options = [] then None else Some options) in
             (case g of
                None \<Rightarrow> Inl KeyError
              | Some name \<Rightarrow> rbnd (store_item name (bytes_strip (group_of 1 c)) item gs) (\<lambda>gs'. Inr (g, gs'))))))"

definition sum_load :: "bios_env \<Rightarrow> bios_tool \<Rightarrow> (bios, unit) py" where
  "sum_load en t =
     seq (modify (\<lambda>s. s\<lparr>bi_cache := []\<rparr>))
     (bnd (sum_execute en t [''-c'', ''GetCurrentBiosCfgTextFile'', ''--file'', ''/tmp/sum_get'', ''--overwrite'']) (\<lambda>_.
      bnd (gets bi_log) (\<lambda>l.
      bnd (lift (there (be_saved en l))) (\<lambda>text.
      let (sc, r) = scan_lines sum_line (byte_lines_of text) (None, []) in
      seq (modify (\<lambda>s. s\<lparr>bi_cache := snd sc\<rparr>))
      (seq (lift r)
      (bnd (lift (dindex (snd sc) ''Boot'')) (\<lambda>boot.
        modify (\<lambda>s. s\<lparr>bi_boot := boot, bi_cache := AList.delete ''Boot'' (snd sc)\<rparr>))))))))"

definition sum_change :: "bios_env \<Rightarrow> bios_tool \<Rightarrow> (bios, bool) py" where
  "sum_change en t =
     on_any (bnd (sum_execute en t [''-c'', ''ChangeBiosCfg'', ''--file'', ''/tmp/sum_set'']) (\<lambda>_. ret True)) (ret False)"

definition set_line :: "string \<Rightarrow> string \<Rightarrow> string" where
  "set_line item val = item @ ''='' @ val @ nl"

definition sum_setValue :: "bios_env \<Rightarrow> bios_tool \<Rightarrow> string \<Rightarrow> string \<Rightarrow> string \<Rightarrow> (bios, bool) py" where
  "sum_setValue en t grp item val =
     seq (sum_write (''['' @ grp @ '']'' @ nl)) (seq (sum_write (set_line item val)) (sum_change en t))"

section \<open>The boot order of SUM\<close>

definition sum_class_map :: "(string, string) dict" where
  "sum_class_map = [(''Network'', ''Network''), (''Hard Disk'', ''Harddrive''), (''UEFI'', ''EFI''), (''CD/DVD'', ''DVD'')]"

definition sum_class_name :: "(string, string) dict" where
  "sum_class_name = [(''Network special boot instance'', ''Network''), (''HDD special boot instance'', ''Harddrive''),
     (''CD/DVD special boot instance'', ''DVD'')]"

text \<open>\<open>^%s[a-z]\<close> and \<open>^Legacy .* #%s\<close> for a number: the second also finds the numbers that begin with it.\<close>

fun boot_item_re :: "bios_tool \<Rightarrow> nat \<Rightarrow> re" where
  "boot_item_re SUM_1_3 n = cats [Bol, lit (show_nat n), Cls False [(CHR ''a'', CHR ''z'')]]"
| "boot_item_re _ n = cats [Bol, lit ''Legacy '', Star AnyChr, lit '' #'', lit (show_nat n)]"

text \<open>\<open>values[ value ]\<close> of an item, where \<open>values\<close> may be \<open>None\<close>.\<close>

definition item_text :: "bios_item \<Rightarrow> string res" where
  "item_text item = (case snd item of None \<Rightarrow> Inl TypeError | Some options \<Rightarrow> dindex options (fst item))"

definition need_boot :: "bios_env \<Rightarrow> bios_tool \<Rightarrow> (bios, unit) py" where
  "need_boot en t = bnd (gets bi_boot) (\<lambda>b. whenM (b = []) (sum_load en t))"

definition entry_map :: "bios_env \<Rightarrow> (string, bios_item) dict \<Rightarrow> (string, string list) dict res" where
  "entry_map en boot = fold (\<lambda>name r. rbnd r (\<lambda>m. rbnd (dindex sum_class_name name) (\<lambda>cls.
      case map_of boot name of
        None \<Rightarrow> Inr (dset cls [] m)
      | Some item \<Rightarrow> rbnd (item_text item) (\<lambda>x. Inr (dset cls [x] m))))) (py2_keys en sum_class_name) (Inr [])"

text \<open>One item that a boot position matches: the entries of its class, none for a class without entries.\<close>

definition boot_entries :: "(string, string list) dict \<Rightarrow> bios_item \<Rightarrow> string list list res" where
  "boot_entries m item =
     (case rbnd (item_text item) (\<lambda>x. rbnd (dindex sum_class_map x) (\<lambda>cls. rbnd (dindex m cls) (\<lambda>es. Inr (map (\<lambda>e. [cls, e]) es)))) of
        Inl e \<Rightarrow> if e = KeyError then Inr [] else Inl e
      | Inr es \<Rightarrow> Inr es)"

definition boot_items :: "bios_env \<Rightarrow> bios_tool \<Rightarrow> (string, bios_item) dict \<Rightarrow> (nat \<times> string) list" where
  "boot_items en t boot = concat (map (\<lambda>n. map (Pair n) (filter (\<lambda>item. re_search (boot_item_re t n) item \<noteq> None) (py2_keys en boot))) [1..<10])"

definition sum_getBoot :: "bios_env \<Rightarrow> bios_tool \<Rightarrow> (bios, string list list) py" where
  "sum_getBoot en t =
     seq (need_boot en t)
     (bnd (gets bi_boot) (\<lambda>boot.
      bnd (lift (entry_map en boot)) (\<lambda>m.
      bnd (lift (collect (boot_items en t boot) (\<lambda>(n, name). rbnd (dindex boot name) (boot_entries m)))) (\<lambda>ess. ret (concat ess)))))"

text \<open>The line for one boot position: the wanted class, \<open>Disabled\<close> behind the end of the wanted order.\<close>

definition wanted_class :: "bios_env \<Rightarrow> string list list \<Rightarrow> nat \<Rightarrow> string res" where
  "wanted_class en want n =
     (case rbnd (lindex want (int n - 1)) (\<lambda>item. lindex item 0) of
        Inl e \<Rightarrow> Inr ''Disabled''
      | Inr cls \<Rightarrow> key_of en sum_class_map cls)"

definition option_key :: "bios_env \<Rightarrow> bios_item \<Rightarrow> string \<Rightarrow> string res" where
  "option_key en item x = (case snd item of None \<Rightarrow> Inl AttributeError | Some options \<Rightarrow> key_of en options x)"

definition write_position :: "bios_env \<Rightarrow> (string, bios_item) dict \<Rightarrow> string list list \<Rightarrow> nat \<times> string \<Rightarrow> (bios, unit) py" where
  "write_position en boot want = (\<lambda>(n, name).
     bnd (lift (dindex boot name)) (\<lambda>item.
     bnd (lift (wanted_class en want n)) (\<lambda>cls.
     bnd (lift (option_key en item cls)) (\<lambda>k. sum_write (set_line name k)))))"

definition write_instance :: "bios_env \<Rightarrow> (string, bios_item) dict \<Rightarrow> string list \<Rightarrow> (bios, unit) py" where
  "write_instance en boot w =
     whenM (1 < length w)
       (bnd (lift (key_of en sum_class_name (hd w))) (\<lambda>name.
        case map_of boot name of
          None \<Rightarrow> ret ()
        | Some item \<Rightarrow> bnd (lift (option_key en item (w ! 1))) (\<lambda>k. sum_write (set_line name k))))"

definition sum_setBoot :: "bios_env \<Rightarrow> bios_tool \<Rightarrow> string list list \<Rightarrow> (bios, bool) py" where
  "sum_setBoot en t want =
     seq (need_boot en t)
     (bnd (gets bi_boot) (\<lambda>boot.
      bnd (if t = SUM_1_5 then bnd (lift (dindex boot ''Boot Mode Select'')) (\<lambda>item. ret (fst item \<noteq> ''00'')) else ret False) (\<lambda>force.
      if force then seq (sum_setValue en t ''Boot'' ''Boot Mode Select'' ''00'') (ret True)
      else
        seq (sum_write (''[Boot]'' @ nl))
        (seq (for_each (boot_items en t boot) (write_position en boot want))
        (seq (for_each want (write_instance en boot)) (sum_change en t))))))"

section \<open>Either tool\<close>

definition loadCache :: "bios_env \<Rightarrow> bios_tool \<Rightarrow> (bios, unit) py" where
  "loadCache en t = (if t = SYSCfg then sys_load en else sum_load en t)"

text \<open>\<open>getValue\<close>, the same in both: the current value and the options, \<open>None\<close> for an item that is not there.\<close>

definition cached_item :: "bios_groups \<Rightarrow> string \<Rightarrow> string \<Rightarrow> bios_item option" where
  "cached_item gs grp name = (case map_of gs grp of None \<Rightarrow> None | Some d \<Rightarrow> map_of d name)"

definition getValue :: "bios_env \<Rightarrow> bios_tool \<Rightarrow> string \<Rightarrow> string \<Rightarrow> (bios, bios_item option) py" where
  "getValue en t grp name =
     bnd (gets bi_cache) (\<lambda>gs. seq (whenM (gs = []) (loadCache en t)) (gets (\<lambda>s. cached_item (bi_cache s) grp name)))"

definition setValue :: "bios_env \<Rightarrow> bios_tool \<Rightarrow> string \<Rightarrow> string \<Rightarrow> string \<Rightarrow> (bios, bool) py" where
  "setValue en t grp item val = (if t = SYSCfg then sys_setValue en grp item val else sum_setValue en t grp item val)"

definition checkPassword :: "bios_env \<Rightarrow> bios_tool \<Rightarrow> (bios, bool) py" where
  "checkPassword en t = (if t = SYSCfg then sys_checkPassword en else ret True)"

definition changePassword :: "bios_env \<Rightarrow> bios_tool \<Rightarrow> pyval \<Rightarrow> (bios, bool) py" where
  "changePassword en t p = (if t = SYSCfg then sys_changePassword en p else ret True)"

definition getBoot :: "bios_env \<Rightarrow> bios_tool \<Rightarrow> (bios, string list list) py" where
  "getBoot en t = (if t = SYSCfg then sys_getBoot en else sum_getBoot en t)"

definition setBoot :: "bios_env \<Rightarrow> bios_tool \<Rightarrow> string list list \<Rightarrow> (bios, bool) py" where
  "setBoot en t boot = (if t = SYSCfg then sys_setBoot en boot else sum_setBoot en t boot)"

end
