(* ===== verification/Bios_Config.thy ===== *)
theory Bios_Config
  imports Bios_Tools
begin

text \<open>
  The program \<open>bios-cfg/root/bioscfg\<close>: it counts its boots, checks the password, brings the BIOS items and then the boot order to what the
  configuration wants, and exits with 20 for a reboot, 0 when nothing was left to do and 1 for an error. An exception that nothing catches
  ends it with 1 as well.
\<close>

definition bios_exit :: "int \<Rightarrow> (bios, 'a) py" where
  "bios_exit code = throw (SysExit code)"

definition exit_code :: "'a res \<Rightarrow> int" where
  "exit_code r = (case r of Inr _ \<Rightarrow> 0 | Inl (SysExit n) \<Rightarrow> n | Inl _ \<Rightarrow> 1)"

definition detect_tool :: "string \<Rightarrow> bios_tool option" where
  "detect_tool baseboard = (case sys_detect baseboard of Some t \<Rightarrow> Some t | None \<Rightarrow> sum_detect baseboard)"

section \<open>The boot count\<close>

definition boot_count :: "bios_env \<Rightarrow> (bios, unit) py" where
  "boot_count en =
     (case be_read en of
        None \<Rightarrow> ret ()
      | Some v \<Rightarrow>
          bnd (on_exc (\<lambda>e. e = TypeError \<or> e = ValueError) (lift (int_of v)) (ret 0)) (\<lambda>n.
          if n > 5 then bios_exit 1
          else whenM (be_writes en) (modify (\<lambda>s. s\<lparr>bi_log := bi_log s @ [BStored (n + 1)]\<rparr>))))"

section \<open>The password\<close>

definition check_password :: "bios_env \<Rightarrow> bios_tool \<Rightarrow> pyval \<Rightarrow> (bios, unit) py" where
  "check_password en t p =
     seq (setPassword p)
     (seq (bios_message ''Checking Password...'')
     (bnd (checkPassword en t) (\<lambda>ok.
      if ok then ret ()
      else
        seq (setPassword (PStr []))
        (bnd (changePassword en t p) (\<lambda>_.
         bnd (checkPassword en t) (\<lambda>ok. if ok then ret () else bios_exit 1))))))"

section \<open>The items\<close>

definition item_of :: "pyval \<Rightarrow> (string \<times> string \<times> string) res" where
  "item_of v = rbnd (list_of v) (\<lambda>xs. case xs of
       [g, n, d] \<Rightarrow> rbnd (str_of g) (\<lambda>g. rbnd (str_of n) (\<lambda>n. rbnd (str_of d) (\<lambda>d. Inr (g, n, d))))
     | _ \<Rightarrow> Inl ValueError)"

text \<open>What cannot be read or set yet is left for the next boot when something was changed already, and is an error otherwise.\<close>

definition give_up :: "bool \<Rightarrow> (bios, bool) py" where
  "give_up dirty = (if dirty then ret True else bios_exit 1)"

definition set_item :: "bios_env \<Rightarrow> bios_tool \<Rightarrow> string \<Rightarrow> string \<Rightarrow> string \<Rightarrow> bool \<Rightarrow> (bios, bool) py" where
  "set_item en t grp name val dirty = bnd (setValue en t grp name val) (\<lambda>ok. if ok then ret True else give_up dirty)"

definition check_item :: "bios_env \<Rightarrow> bios_tool \<Rightarrow> string \<Rightarrow> string \<Rightarrow> string \<Rightarrow> bool \<Rightarrow> (bios, bool) py" where
  "check_item en t grp name desired dirty =
     bnd (getValue en t grp name) (\<lambda>item.
     case item of
       None \<Rightarrow> give_up dirty
     | Some (cur, None) \<Rightarrow> if cur \<noteq> desired then set_item en t grp name desired dirty else ret dirty
     | Some (cur, Some options) \<Rightarrow>
         (case key_of en options desired of
            Inl _ \<Rightarrow> give_up dirty
          | Inr k \<Rightarrow>
              if cur \<noteq> k then bnd (lift (dindex options cur)) (\<lambda>_. set_item en t grp name k dirty) else ret dirty))"

fun check_items :: "bios_env \<Rightarrow> bios_tool \<Rightarrow> pyval list \<Rightarrow> bool \<Rightarrow> (bios, bool) py" where
  "check_items en t [] dirty = ret dirty"
| "check_items en t (v # vs) dirty =
     bnd (lift (item_of v)) (\<lambda>(g, n, d). bnd (check_item en t g n d dirty) (check_items en t vs))"

section \<open>The boot order\<close>

definition boot_of :: "pyval \<Rightarrow> string list list res" where
  "boot_of v = rbnd (list_of v) (\<lambda>xs. collect xs (\<lambda>x. rbnd (list_of x) (\<lambda>ys. collect ys str_of)))"

text \<open>For a wanted class without a name, the loop \<open>for item2 in boot\<close> over the list that its body changes: the position in the list goes
  on by one after an entry was deleted as well.\<close>

definition drop_at :: "nat \<Rightarrow> 'a list \<Rightarrow> 'a list" where
  "drop_at i xs = take i xs @ drop (Suc i) xs"

lemma length_drop_at [simp]: "i < length xs \<Longrightarrow> length (drop_at i xs) = length xs - 1"
  by (simp add: drop_at_def)

function collapse :: "string \<Rightarrow> nat \<Rightarrow> bool \<Rightarrow> string list list \<Rightarrow> string list list res" where
  "collapse cls i found boot =
     (if i < length boot then
        rbnd (lindex (boot ! i) 0) (\<lambda>c.
          if c \<noteq> cls then collapse cls (Suc i) found boot
          else rbnd (position boot (boot ! i)) (\<lambda>j.
            if found then collapse cls (Suc i) True (drop_at j boot)
            else rbnd (lindex (boot ! j) 0) (\<lambda>d. collapse cls (Suc i) True (boot[j := [d]]))))
      else Inr boot)"
  by pat_completeness auto
termination
proof (relation "measure (\<lambda>(c, i, f, b). length b - i)", goal_cases)
  case (3 cls i found boot c j)
  have "length (drop_at j boot) \<le> length boot" by (simp add: drop_at_def)
  with 3 show ?case by simp
qed auto

declare collapse.simps [simp del]

fun collapse_all :: "string list list \<Rightarrow> string list list \<Rightarrow> string list list res" where
  "collapse_all [] boot = Inr boot"
| "collapse_all (w # ws) boot = rbnd (if length w = 1 then collapse (hd w) 0 False boot else Inr boot) (collapse_all ws)"

definition check_boot :: "bios_env \<Rightarrow> bios_tool \<Rightarrow> pyval \<Rightarrow> (bios, unit) py" where
  "check_boot en t v =
     seq (bios_message ''Checking Boot Order...'')
     (bnd (getBoot en t) (\<lambda>have_boot.
      bnd (lift (boot_of v)) (\<lambda>want.
      bnd (lift (collapse_all want have_boot)) (\<lambda>boot.
      if boot \<noteq> want then
        bnd (setBoot en t want) (\<lambda>ok.
        if \<not> ok then bios_exit 1
        else seq (bios_message ''Boot Order Was Changed, Rebooting...'') (bios_exit 20))
      else bios_exit 0))))"

section \<open>The program\<close>

definition configure :: "bios_env \<Rightarrow> bios_tool \<Rightarrow> (string, pyval) dict \<Rightarrow> (bios, unit) py" where
  "configure en t config =
     seq (boot_count en)
     (seq (case map_of config ''password'' of None \<Rightarrow> ret () | Some p \<Rightarrow> check_password en t p)
     (seq (bios_message ''Checking BIOS Items...'')
     (bnd (lift (rbnd (dindex config ''items'') list_of)) (\<lambda>items.
      bnd (check_items en t items False) (\<lambda>dirty.
      if dirty then seq (bios_message ''BIOS Item(s) Were Changed, Rebooting...'') (bios_exit 20)
      else (case map_of config ''boot'' of
          None \<Rightarrow> bios_exit 0
        | Some v \<Rightarrow> if \<not> truthy v then bios_exit 0 else check_boot en t v))))))"

definition nothing_known :: "(string, pyval) dict \<Rightarrow> (bios, unit) py" where
  "nothing_known config =
     bnd (lift (dindex config ''items'')) (\<lambda>items.
     if truthy items then bios_exit 1
     else bnd (lift (dindex config ''boot'')) (\<lambda>boot. if truthy boot then bios_exit 1 else bios_exit 0))"

definition bioscfg :: "bios_env \<Rightarrow> (bios, unit) py" where
  "bioscfg en =
     seq (bios_message ''Detecting Motherboard Type...'')
     (bnd (lift (case be_baseboard en of None \<Rightarrow> Inl KeyError | Some b \<Rightarrow> Inr b)) (\<lambda>baseboard.
      bnd (on_exc (\<lambda>_. True) (lift (be_config en)) (bios_exit 1)) (\<lambda>c.
      (case detect_tool baseboard of
         None \<Rightarrow> bnd (lift (dict_of c)) nothing_known
       | Some t \<Rightarrow> seq (whenM (t \<noteq> SYSCfg) sum_init) (bnd (lift (dict_of c)) (configure en t))))))"

end
