(* ===== verification/Bios_Props.thy ===== *)
theory Bios_Props
  imports Bios_Config
begin

text \<open>
  What the BIOS program guarantees. \<open>changes\<close> are the calls that set an item or a boot order, \<open>counts\<close> the boot counts written to the job.
  The lemmas on \<open>keeps\<close> and \<open>raises\<close> go through the operations of the tools once; the properties of the program follow with triples.
\<close>

section \<open>What the operations leave alone\<close>

fun changing :: "string list \<Rightarrow> bool" where
  "changing (cli # verb # args) =
     (verb = ''/bcs'' \<or> verb = ''/bbo'' \<and> args \<noteq> [] \<or> verb = ''-c'' \<and> take 1 args = [''ChangeBiosCfg''])"
| "changing _ = False"

fun changes :: "bios_event \<Rightarrow> bool" where
  "changes (BCall cmd f) = changing cmd"
| "changes _ = False"

fun counted :: "bios_event \<Rightarrow> bool" where
  "counted (BStored n) = True"
| "counted _ = False"

definition sets :: "bios \<Rightarrow> bios_event list" where
  "sets s = filter changes (bi_log s)"

definition counts :: "bios \<Rightarrow> bios_event list" where
  "counts s = filter counted (bi_log s)"

lemmas tool_defs = call_tool_def sys_execute_def sys_ok_def sum_execute_def

lemma keeps_option [keeps_intros]: "(x = None \<Longrightarrow> keeps f m) \<Longrightarrow> (\<And>y. x = Some y \<Longrightarrow> keeps f (k y)) \<Longrightarrow> keeps f (case x of None \<Rightarrow> m | Some y \<Rightarrow> k y)"
  by (cases x) simp_all

lemma raises_option [raises_intros]: "(x = None \<Longrightarrow> raises E m) \<Longrightarrow> (\<And>y. x = Some y \<Longrightarrow> raises E (k y)) \<Longrightarrow> raises E (case x of None \<Rightarrow> m | Some y \<Rightarrow> k y)"
  by (cases x) simp_all

lemma counts_call: "keeps counts (call_tool en t cmd)" "keeps counts (bios_message m)" "keeps counts (setPassword p)" "keeps counts (sum_write x)"
  "keeps counts sum_init"
  unfolding call_tool_def bios_message_def setPassword_def sum_write_def sum_init_def by (intro keeps_intros; simp add: counts_def)+

lemma sets_call: "\<not> changing (bios_cli t # cmd) \<Longrightarrow> keeps sets (call_tool en t cmd)" "keeps sets (bios_message m)" "keeps sets (setPassword p)"
  "keeps sets (sum_write x)" "keeps sets sum_init"
  unfolding call_tool_def bios_message_def setPassword_def sum_write_def sum_init_def by (intro keeps_intros; simp add: sets_def)+

lemma keeps_pair [keeps_intros]: "(\<And>a b. x = (a, b) \<Longrightarrow> keeps f (k a b)) \<Longrightarrow> keeps f (case x of (a, b) \<Rightarrow> k a b)"
  by (cases x) simp

lemma keeps_sum [keeps_intros]: "(\<And>e. x = Inl e \<Longrightarrow> keeps f (m e)) \<Longrightarrow> (\<And>y. x = Inr y \<Longrightarrow> keeps f (k y)) \<Longrightarrow> keeps f (case x of Inl e \<Rightarrow> m e | Inr y \<Rightarrow> k y)"
  by (cases x) simp_all

lemma keeps_execute:
  assumes "keeps f (call_tool en SYSCfg cmd)" shows "keeps f (sys_execute en cmd)" "keeps f (sys_ok en cmd)"
  using assms unfolding sys_ok_def sys_execute_def by (intro keeps_intros; simp)+

lemma keeps_sum_execute:
  assumes "keeps f (call_tool en t cmd)" shows "keeps f (sum_execute en t cmd)"
  using assms unfolding sum_execute_def by (intro keeps_intros; simp)

text \<open>Loading of the cache.\<close>

lemma keeps_load:
  assumes "\<And>t cmd. \<not> changing (bios_cli t # cmd) \<Longrightarrow> keeps f (call_tool en t cmd)"
    and "\<And>s x. f (s\<lparr>bi_cache := x\<rparr>) = f s" and "\<And>s y. f (s\<lparr>bi_boot := y\<rparr>) = f s"
  shows "keeps f (loadCache en t)" "keeps f (getValue en t g n)" "keeps f (need_boot en t)" "keeps f (sum_getBoot en t)"
proof -
  have 1: "keeps f (sys_load en)"
    unfolding sys_load_def Let_def by (intro keeps_intros keeps_execute assms(1); simp add: assms)
  have 2: "keeps f (sum_load en t)" for t
    unfolding sum_load_def Let_def by (intro keeps_intros keeps_sum_execute assms(1); simp add: assms)
  show 3: "keeps f (loadCache en t)" unfolding loadCache_def by (intro keeps_intros 1 2)
  show "keeps f (getValue en t g n)" unfolding getValue_def by (intro keeps_intros 3)
  show 4: "keeps f (need_boot en t)" unfolding need_boot_def by (intro keeps_intros 2)
  show "keeps f (sum_getBoot en t)" unfolding sum_getBoot_def by (intro keeps_intros 4)
qed

lemma keeps_getBoot:
  assumes "\<And>t cmd. \<not> changing (bios_cli t # cmd) \<Longrightarrow> keeps f (call_tool en t cmd)"
    and "\<And>s x. f (s\<lparr>bi_cache := x\<rparr>) = f s" and "\<And>s y. f (s\<lparr>bi_boot := y\<rparr>) = f s"
  shows "keeps f (sys_getBoot en)" "keeps f (getBoot en t)"
proof -
  show 1: "keeps f (sys_getBoot en)" unfolding sys_getBoot_def by (intro keeps_intros keeps_execute assms(1); simp)
  show "keeps f (getBoot en t)" unfolding getBoot_def by (intro keeps_intros 1 keeps_load(4)[OF assms])
qed

lemma keeps_passwords:
  assumes "\<And>t cmd. \<not> changing (bios_cli t # cmd) \<Longrightarrow> keeps f (call_tool en t cmd)" and "\<And>p. keeps f (setPassword p)"
  shows "keeps f (checkPassword en t)" "keeps f (changePassword en t p)"
  unfolding checkPassword_def changePassword_def sys_checkPassword_def sys_changePassword_def
  by (intro keeps_intros keeps_execute assms; simp)+

lemma keeps_check_password:
  assumes "\<And>t cmd. \<not> changing (bios_cli t # cmd) \<Longrightarrow> keeps f (call_tool en t cmd)" and "\<And>p. keeps f (setPassword p)" "\<And>m. keeps f (bios_message m)"
  shows "keeps f (check_password en t p)"
  unfolding check_password_def bios_exit_def by (intro keeps_intros keeps_passwords assms)

lemmas counts_parts = counts_call keeps_load[where f = counts, OF counts_call(1)] keeps_getBoot[where f = counts, OF counts_call(1)]
  keeps_check_password[where f = counts, OF counts_call(1) counts_call(3) counts_call(2)]

lemmas sets_parts = sets_call keeps_load[where f = sets, OF sets_call(1)] keeps_getBoot[where f = sets, OF sets_call(1)]
  keeps_check_password[where f = sets, OF sets_call(1) sets_call(3) sets_call(2)]

lemma counts_setting: "keeps counts (setValue en t g n v)" "keeps counts (setBoot en t want)"
proof -
  have 1: "keeps counts (sum_setValue en u g n v)" for u g n v
    unfolding sum_setValue_def sum_change_def by (intro keeps_intros keeps_sum_execute counts_call)
  have 2: "keeps counts (order_classes en current target cs dirty)" for current target cs dirty
    by (induction cs arbitrary: dirty) (auto intro!: keeps_intros keeps_execute counts_call simp: set_class_order_def)
  show "keeps counts (setValue en t g n v)"
    unfolding setValue_def sys_setValue_def by (intro keeps_intros keeps_execute counts_call 1)
  have need: "keeps counts (need_boot en u)" for u by (rule counts_parts) (simp_all add: counts_def)
  have 3: "keeps counts (sys_getBoot en)" by (rule counts_parts) (simp_all add: counts_def)
  have 4: "keeps counts (sys_setBoot en want)"
    unfolding sys_setBoot_def set_classes_def by (intro keeps_intros keeps_execute counts_call 2 3)
  have 5: "keeps counts (sum_setBoot en u want)" for u
    unfolding sum_setBoot_def sum_change_def write_position_def write_instance_def
    by (intro keeps_intros keeps_sum_execute counts_call 1 need)
  show "keeps counts (setBoot en t want)" unfolding setBoot_def by (intro keeps_intros 4 5)
qed

section \<open>Exceptions that are no exit\<close>

text \<open>No pure function and no operation of a tool ends in \<open>sys.exit\<close>: only the program itself does.\<close>

definition plain_res :: "'a res \<Rightarrow> bool" where
  "plain_res r = (\<forall>e. r = Inl e \<longrightarrow> no_exit e)"

named_theorems plain_intros

lemma raises_plain [raises_intros]: "plain_res r \<Longrightarrow> raises no_exit (lift r)"
  by (rule raises_lift) (simp add: plain_res_def)

lemma plain_basic [plain_intros]: "plain_res (Inr x)" "no_exit e \<Longrightarrow> plain_res (Inl e)"
  by (simp_all add: plain_res_def)

lemma plain_rbnd [plain_intros]: "plain_res r \<Longrightarrow> (\<And>x. plain_res (f x)) \<Longrightarrow> plain_res (rbnd r f)"
  unfolding plain_res_def by (cases r) auto

lemma plain_cases [plain_intros]:
  "(b \<Longrightarrow> plain_res r) \<Longrightarrow> (\<not> b \<Longrightarrow> plain_res q) \<Longrightarrow> plain_res (if b then r else q)"
  "(o1 = None \<Longrightarrow> plain_res r) \<Longrightarrow> (\<And>x. o1 = Some x \<Longrightarrow> plain_res (f x)) \<Longrightarrow> plain_res (case o1 of None \<Rightarrow> r | Some x \<Rightarrow> f x)"
  "(xs = [] \<Longrightarrow> plain_res r) \<Longrightarrow> (\<And>y ys. xs = y # ys \<Longrightarrow> plain_res (g y ys)) \<Longrightarrow> plain_res (case xs of [] \<Rightarrow> r | y # ys \<Rightarrow> g y ys)"
  "(\<And>a b. p = (a, b) \<Longrightarrow> plain_res (h a b)) \<Longrightarrow> plain_res (case p of (a, b) \<Rightarrow> h a b)"
  "(\<And>e. s = Inl e \<Longrightarrow> plain_res (k e)) \<Longrightarrow> (\<And>y. s = Inr y \<Longrightarrow> plain_res (l y)) \<Longrightarrow> plain_res (case s of Inl e \<Rightarrow> k e | Inr y \<Rightarrow> l y)"
  by (auto split: option.split list.split sum.split prod.split)

lemma plain_map_sum [plain_intros]: "plain_res r \<Longrightarrow> plain_res (map_sum id f r)"
  unfolding plain_res_def by (cases r) auto

lemma plain_collect [plain_intros]: "(\<And>x. plain_res (f x)) \<Longrightarrow> plain_res (collect xs f)"
  by (induction xs) (auto intro!: plain_intros simp: plain_res_def split: sum.split)

lemma plain_library [plain_intros]:
  "plain_res (dindex d k)" "plain_res (lindex xs i)" "plain_res (str_of v)" "plain_res (list_of v)" "plain_res (dict_of v)" "plain_res (int_of v)"
  "plain_res (there x)" "plain_res (key_of en d' v')" "plain_res (password_arg v)" "plain_res (position ys y)"
proof -
  show "plain_res (position ys y)" by (induction ys) (auto intro!: plain_intros)
  show str: "plain_res (str_of v)" by (cases v) (auto simp: str_of_def intro: plain_intros)
  show "plain_res (list_of v)" by (cases v) (auto simp: list_of_def intro: plain_intros)
  show "plain_res (dict_of v)" by (cases v) (auto simp: dict_of_def intro: plain_intros)
  show "plain_res (int_of v)" by (cases v) (auto simp: int_of_def int_str_def split: option.split intro: plain_intros)
  show "plain_res (password_arg v)" unfolding password_arg_def by (intro plain_intros str)
qed (auto simp: dindex_def lindex_def there_def key_of_def split: option.split intro!: plain_intros)

lemma plain_fold: "(\<And>x r. plain_res r \<Longrightarrow> plain_res (f x r)) \<Longrightarrow> plain_res r \<Longrightarrow> plain_res (fold f xs r)"
  by (induction xs arbitrary: r) auto

lemma plain_scan: "(\<And>l a. plain_res (f l a)) \<Longrightarrow> plain_res (snd (scan_lines f ls a))"
  by (induction ls arbitrary: a) (auto intro: plain_intros simp: plain_res_def split: sum.split)

lemma plain_lines: "plain_res (sys_line en l sc)" "plain_res (sum_line l sc')"
  unfolding sys_line_def sum_line_def store_item_def Let_def by (intro plain_intros; simp)+

lemma plain_sys_boot: "plain_res (sys_boot_lines ls cur)"
proof (induction ls arbitrary: cur)
  case (Cons l ls)
  have "plain_res (sys_header l)" unfolding sys_header_def Let_def by (intro plain_intros; simp)
  with Cons show ?case unfolding sys_boot_lines.simps by (intro plain_intros; simp)
qed (simp add: plain_intros)

lemma plain_sys_order:
  "plain_res (class_codes boot)" "plain_res (class_order codes)" "plain_res (names_by_class boot)" "plain_res (one_based cur tgt)"
  unfolding class_codes_def class_order_def names_by_class_def one_based_def sys_code_def
  by (intro plain_intros plain_fold; simp)+

lemma plain_sum_order: "plain_res (entry_map en boot)" "plain_res (boot_entries m item)" "plain_res (wanted_class en want n)"
  "plain_res (option_key en item x)"
proof -
  have it: "plain_res (item_text i)" for i unfolding item_text_def by (intro plain_intros; simp)
  show "plain_res (entry_map en boot)" unfolding entry_map_def by (intro plain_intros plain_fold it)
  have "plain_res (rbnd (item_text item) (\<lambda>x. rbnd (dindex sum_class_map x) (\<lambda>cls. rbnd (dindex m cls) (\<lambda>es. Inr (map (\<lambda>e. [cls, e]) es)))))"
    by (intro plain_intros it)
  then show "plain_res (boot_entries m item)" unfolding boot_entries_def by (auto simp: plain_res_def split: sum.split)
  show "plain_res (wanted_class en want n)" unfolding wanted_class_def by (intro plain_intros)
  show "plain_res (option_key en item x)" unfolding option_key_def by (intro plain_intros; simp)
qed

lemma raises_more [raises_intros]:
  "(b \<Longrightarrow> raises E m) \<Longrightarrow> raises E (whenM b m)"
  "(\<And>x. raises E (body x)) \<Longrightarrow> raises E (for_each xs body)"
  "(\<And>a c. p = (a, c) \<Longrightarrow> raises E (h a c)) \<Longrightarrow> raises E (case p of (a, c) \<Rightarrow> h a c)"
proof -
  show "(b \<Longrightarrow> raises E m) \<Longrightarrow> raises E (whenM b m)" by (auto simp: whenM_def intro: raises_intros)
  show "(\<And>x. raises E (body x)) \<Longrightarrow> raises E (for_each xs body)" by (induction xs) (auto intro: raises_intros)
  show "(\<And>a c. p = (a, c) \<Longrightarrow> raises E (h a c)) \<Longrightarrow> raises E (case p of (a, c) \<Rightarrow> h a c)" by (cases p) simp
qed

lemma raises_mono: "raises R m \<Longrightarrow> (\<And>e. R e \<Longrightarrow> E e) \<Longrightarrow> raises E m"
  unfolding raises_def by blast

lemma raises_execute: "raises no_exit (sys_execute en cmd)" "raises no_exit (sys_ok en cmd)" "raises no_exit (sum_execute en t cmd)"
  unfolding tool_defs sys_last_def by (intro raises_intros plain_intros; simp)+

lemma raises_load: "raises no_exit (sys_load en)" "raises no_exit (sum_load en t)" "raises no_exit (need_boot en t)" "raises no_exit (getValue en t g n)"
proof -
  have scan: "scan_lines (sys_line en) ls a = (b, r) \<Longrightarrow> plain_res r" for ls a b r
    using plain_scan[of "sys_line en" ls a] plain_lines(1) by simp
  have scan': "scan_lines sum_line ls a = (b, r) \<Longrightarrow> plain_res r" for ls a b r
    using plain_scan[of sum_line ls a] plain_lines(2) by simp
  show 1: "raises no_exit (sys_load en)"
    unfolding sys_load_def Let_def by (intro raises_intros plain_intros raises_execute) (erule scan)
  show 2: "raises no_exit (sum_load en t)" for t
    unfolding sum_load_def Let_def by (intro raises_intros plain_intros raises_execute) (erule scan')
  show "raises no_exit (need_boot en t)" unfolding need_boot_def by (intro raises_intros 2)
  show "raises no_exit (getValue en t g n)" unfolding getValue_def loadCache_def by (intro raises_intros 1 2)
qed

lemma raises_passwords: "raises no_exit (checkPassword en t)" "raises no_exit (changePassword en t p)"
  unfolding checkPassword_def changePassword_def sys_checkPassword_def sys_changePassword_def setPassword_def
  by (intro raises_intros plain_intros raises_execute)+

lemma raises_setValue: "raises no_exit (sum_setValue en t g n v)" "raises no_exit (setValue en t g n v)" "raises no_exit (sum_change en t)"
proof -
  have "raises (\<lambda>e. is_Exception e \<or> no_exit e) (sum_execute en u cmd)" for u cmd
    by (rule raises_mono[OF raises_execute(3)]) simp
  then show 1: "raises no_exit (sum_change en t)" for t unfolding sum_change_def by (intro raises_intros)
  show 2: "raises no_exit (sum_setValue en t g n v)" for t unfolding sum_setValue_def sum_write_def by (intro raises_intros 1)
  show "raises no_exit (setValue en t g n v)" unfolding setValue_def sys_setValue_def by (intro raises_intros plain_intros raises_execute 2)
qed

lemma raises_boot: "raises no_exit (getBoot en t)" "raises no_exit (setBoot en t want)"
proof -
  have 1: "raises no_exit (sys_getBoot en)" unfolding sys_getBoot_def by (intro raises_intros raises_execute plain_sys_boot)
  have 2: "raises no_exit (sum_getBoot en u)" for u
    unfolding sum_getBoot_def by (intro raises_intros plain_intros raises_load plain_sum_order)
  show "raises no_exit (getBoot en t)" unfolding getBoot_def by (intro raises_intros 1 2)
  have 3: "raises no_exit (order_classes en current target cs dirty)" for current target cs dirty
    by (induction cs arbitrary: dirty) (auto intro!: raises_intros plain_intros raises_execute plain_sys_order simp: set_class_order_def)
  have 4: "raises no_exit (sys_setBoot en want)"
    unfolding sys_setBoot_def set_classes_def sys_last_def by (intro raises_intros plain_intros raises_execute plain_sys_order 1 3)
  have 5: "raises no_exit (sum_setBoot en u want)" for u
    unfolding sum_setBoot_def write_position_def write_instance_def sum_write_def
    by (intro raises_intros plain_intros raises_load raises_setValue plain_sum_order)
  show "raises no_exit (setBoot en t want)" unfolding setBoot_def by (intro raises_intros 4 5)
qed

section \<open>A run that is complete\<close>

text \<open>As long as nothing is dirty no setting was changed; a change leads to a reboot or an error.\<close>

lemma dirty_stays: "check_item en t g n d True s = (Inr b, u) \<Longrightarrow> b"
  by (auto simp: check_item_def set_item_def give_up_def ret_apply split: option.splits sum.splits if_splits elim!: bnd_InrE)

abbreviation clean :: "bios_event list \<Rightarrow> bool \<Rightarrow> bios \<Rightarrow> bool" where
  "clean S dirty s \<equiv> (dirty \<or> sets s = S)"

lemma quiet_step: "keeps sets m \<Longrightarrow> triple (clean S d) m (\<lambda>_. clean S d) (\<lambda>e s. e = SysExit 0 \<longrightarrow> clean S d s)"
  unfolding triple_def keeps_def by (auto split: prod.splits sum.splits) (metis snd_conv)+

lemma quiet: "keeps sets m \<Longrightarrow> triple (\<lambda>s. sets s = S) m (\<lambda>_ s. sets s = S) (\<lambda>e s. e = SysExit 0 \<longrightarrow> sets s = S)"
  using quiet_step[of m False S] by simp

lemma triple_raises:
  assumes "raises R m" "\<And>s x u. m s = (Inr x, u) \<Longrightarrow> P s \<Longrightarrow> Q x u" "\<And>e s. R e \<Longrightarrow> E e s"
  shows "triple P m Q E"
  unfolding triple_def
proof (intro allI impI)
  fix s assume P: "P s"
  obtain r u where m: "m s = (r, u)" by (cases "m s")
  show "case m s of (Inl e, t) \<Rightarrow> E e t | (Inr x, t) \<Rightarrow> Q x t"
    using assms(2)[OF _ P] assms(3) raisesD[OF assms(1)] m by (cases r) auto
qed

lemma noisy_step: "raises no_exit m \<Longrightarrow> triple P m (\<lambda>_ _. True) (\<lambda>e s. e = SysExit 0 \<longrightarrow> Q s)"
  by (erule triple_raises) auto

lemma getValue_sets: "keeps sets (getValue en t g n)"
  by (rule sets_parts) (simp_all add: sets_def)

lemma raises_set_item: "raises (\<lambda>e. e \<noteq> SysExit 0) (set_item en t g n v d)" "raises (\<lambda>e. e \<noteq> SysExit 0) (give_up d)"
proof -
  show 1: "raises (\<lambda>e. e \<noteq> SysExit 0) (give_up d)" unfolding give_up_def bios_exit_def by (intro raises_intros; simp)
  have "raises (\<lambda>e. e \<noteq> SysExit 0) (setValue en t g n v)" by (rule raises_mono[OF raises_setValue(2)]) (auto simp: no_exit_def)
  then show "raises (\<lambda>e. e \<noteq> SysExit 0) (set_item en t g n v d)" unfolding set_item_def by (intro raises_intros 1)
qed

lemma set_item_dirty: "set_item en t g n v d s = (Inr b, u) \<Longrightarrow> b" "give_up d s = (Inr b, u) \<Longrightarrow> b"
  by (auto simp: set_item_def give_up_def bios_exit_def ret_apply throw_apply split: if_splits elim!: bnd_InrE)

lemma set_item_clean:
  "triple P (set_item en t g n v d) (clean S) (\<lambda>e s. e = SysExit 0 \<longrightarrow> sets s = S)"
  "triple P (give_up d) (clean S) (\<lambda>e s. e = SysExit 0 \<longrightarrow> sets s = S)"
  by (rule triple_raises[OF raises_set_item(1)], auto dest: set_item_dirty(1)) (rule triple_raises[OF raises_set_item(2)], auto dest: set_item_dirty(2))

lemma check_item_clean: "triple (clean S d) (check_item en t g n v d) (clean S) (\<lambda>e s. e = SysExit 0 \<longrightarrow> sets s = S)"
proof -
  have get: "triple (clean S d) (getValue en t g n) (\<lambda>_. clean S d) (\<lambda>e s. e = SysExit 0 \<longrightarrow> sets s = S)"
    by (rule triple_keeps[OF getValue_sets raises_load(4)]) (auto simp: no_exit_def)
  have lib: "raises no_exit (lift (dindex o1 c) :: (bios, string) py)" for o1 :: bios_options and c by (intro raises_intros plain_intros)
  have rest: "triple (clean S d) (bnd (lift (dindex o1 c)) (\<lambda>_. set_item en t g n k d)) (clean S) (\<lambda>e s. e = SysExit 0 \<longrightarrow> sets s = S)" for o1 :: bios_options and c k
    by (rule triple_bnd[OF noisy_step[OF lib]]) (rule set_item_clean(1))
  have same: "triple (clean S d) (ret d) (clean S) (\<lambda>e s. e = SysExit 0 \<longrightarrow> sets s = S)"
    by (rule triple_ret) simp
  show ?thesis
    unfolding check_item_def
    by (rule triple_bnd[OF get]) (auto intro: set_item_clean rest same split: option.split sum.split)
qed

lemma check_items_clean: "triple (clean S d) (check_items en t vs d) (clean S) (\<lambda>e s. e = SysExit 0 \<longrightarrow> sets s = S)"
proof (induction vs arbitrary: d)
  case (Cons v vs)
  have "triple (clean S d) (bnd (check_item en t g n x d) (check_items en t vs)) (clean S) (\<lambda>e s. e = SysExit 0 \<longrightarrow> sets s = S)" for g n x
    by (rule triple_bnd[OF check_item_clean Cons.IH])
  moreover have "plain_res (item_of v)" unfolding item_of_def by (intro plain_intros; simp)
  ultimately show ?case
    unfolding check_items.simps by (intro triple_lift) (auto simp: plain_res_def split: prod.split)
qed (simp add: triple_ret)

lemma getBoot_sets: "keeps sets (getBoot en t)"
  by (rule sets_parts) (simp_all add: sets_def)

lemma password_sets: "keeps sets (check_password en t p)"
  by (rule sets_parts)

lemma boot_count_sets: "keeps sets (boot_count en)"
  unfolding boot_count_def bios_exit_def by (intro keeps_intros) (simp_all add: sets_def)

lemma check_boot_clean: "triple (\<lambda>s. sets s = S) (check_boot en t v) (\<lambda>_ s. sets s = S) (\<lambda>e s. e = SysExit 0 \<longrightarrow> sets s = S)"
proof -
  have "raises (\<lambda>e. e \<noteq> SysExit 0) (setBoot en t want)" for want
    by (rule raises_mono[OF raises_boot(2)]) (auto simp: no_exit_def)
  then have r: "raises (\<lambda>e. e \<noteq> SysExit 0) (bnd (setBoot en t want) (\<lambda>ok. if \<not> ok then bios_exit 1
      else seq (bios_message m) (bios_exit 20)))" for want m
    unfolding bios_message_def bios_exit_def by (intro raises_intros; simp)
  have never: "bnd (setBoot en t want) (\<lambda>ok. if \<not> ok then bios_exit 1 else seq (bios_message m) (bios_exit 20)) s \<noteq> (Inr x, u)" for want m s x u
    by (auto simp: bios_exit_def throw_apply elim!: bnd_InrE seq_InrE split: if_splits)
  show ?thesis
    unfolding check_boot_def
  proof (rule triple_seq[OF quiet[OF sets_call(2)]], rule triple_bnd[OF quiet[OF getBoot_sets]])
    fix b
    show "triple (\<lambda>s. sets s = S) (bnd (lift (boot_of v)) (\<lambda>want. bnd (lift (collapse_all want b)) (\<lambda>boot.
        if boot \<noteq> want then bnd (setBoot en t want) (\<lambda>ok. if \<not> ok then bios_exit 1
          else seq (bios_message ''Boot Order Was Changed, Rebooting...'') (bios_exit 20)) else bios_exit 0)))
      (\<lambda>_ s. sets s = S) (\<lambda>e s. e = SysExit 0 \<longrightarrow> sets s = S)"
      by (intro triple_lift) (auto intro: triple_raises[OF r] triple_throw simp: never bios_exit_def)
  qed
qed

text \<open>C14: a run of the BIOS program that reports that it is complete has changed no item and no boot order: it exits with 0 only on settings that the machine booted with.\<close>

theorem complete_means_unchanged:
  assumes "fst (bioscfg en s) = Inl (SysExit 0)"
  shows "sets (snd (bioscfg en s)) = sets s"
proof -
  let ?P = "\<lambda>S s. sets s = S" and ?E = "\<lambda>S e s. e = SysExit 0 \<longrightarrow> sets s = S"
  have items: "triple (?P S) (check_items en t vs False) (clean S) (?E S)" for S t vs
    using check_items_clean[of False S en t vs] by simp
  have reboot: "triple (clean S True) (seq (bios_message m) (bios_exit 20)) (\<lambda>_. ?P S) (?E S)" for S m
    by (simp add: triple_def bios_message_def bios_exit_def py_simps)
  have leave: "triple (?P S) (bios_exit n) (\<lambda>_. ?P S) (?E S)" for S n
    unfolding bios_exit_def by (rule triple_throw) simp
  have pw: "keeps sets (case map_of c ''password'' of None \<Rightarrow> ret () | Some p \<Rightarrow> check_password en t p)" for c t
    by (intro keeps_intros password_sets)
  have rest: "triple (clean S d) (if d then seq (bios_message ''BIOS Item(s) Were Changed, Rebooting...'') (bios_exit 20)
      else (case map_of c ''boot'' of None \<Rightarrow> bios_exit 0 | Some v \<Rightarrow> if \<not> truthy v then bios_exit 0 else check_boot en t v))
      (\<lambda>_. ?P S) (?E S)" for S d c t
    using reboot leave check_boot_clean by (cases d) (auto split: option.split)
  have conf: "triple (?P S) (configure en t c) (\<lambda>_. ?P S) (?E S)" for S t c
    unfolding configure_def
    by (rule triple_seq[OF quiet[OF boot_count_sets]], rule triple_seq[OF quiet[OF pw]], rule triple_seq[OF quiet[OF sets_call(2)]],
        rule triple_lift, simp, rule triple_bnd[OF items rest])
  have none: "keeps sets (nothing_known c)" for c
    unfolding nothing_known_def bios_exit_def by (intro keeps_intros)
  have loaded: "keeps sets (on_exc p (lift x) (bios_exit 1))" for p and x :: "pyval res"
    unfolding bios_exit_def by (intro keeps_intros)
  have conf': "triple (?P S) (bnd (lift r) (configure en t)) (\<lambda>_. ?P S) (?E S)" for S r t
    by (rule triple_lift) (simp_all add: conf)
  have none': "keeps sets (bnd (lift r) nothing_known)" for r by (intro keeps_intros none)
  have init: "keeps sets (whenM b sum_init)" for b by (intro keeps_intros sets_call(5))
  have all: "triple (?P S) (bioscfg en) (\<lambda>_. ?P S) (?E S)" for S
    unfolding bioscfg_def
    by (rule triple_seq[OF quiet[OF sets_call(2)]], rule triple_lift, simp, rule triple_bnd[OF quiet[OF loaded]])
      (auto intro: quiet[OF none'] triple_seq[OF quiet[OF init] conf'] split: option.split)
  obtain u where "bioscfg en s = (Inl (SysExit 0), u)" using assms by (cases "bioscfg en s") auto
  with triple_InlD[OF all this, of "sets s"] show ?thesis by simp
qed

section \<open>Items in place\<close>

definition in_place :: "bios_groups \<Rightarrow> string \<times> string \<times> string \<Rightarrow> bool" where
  "in_place gs = (\<lambda>(g, n, d). case cached_item gs g n of
       None \<Rightarrow> False
     | Some (cur, None) \<Rightarrow> cur = d
     | Some (cur, Some options) \<Rightarrow> map_of options cur = Some d)"

lemma key_of_some: "key_of en d v = Inr k \<Longrightarrow> map_of d k = Some v"
  by (auto simp: key_of_def find_Some_iff split: option.splits)

lemma getValue_state: "getValue en t g n s = (Inr item, u) \<Longrightarrow> item = cached_item (bi_cache u) g n \<and> (bi_cache s \<noteq> [] \<longrightarrow> u = s)"
  by (auto simp: getValue_def py_simps split: prod.splits sum.splits if_splits)

lemma check_item_in_place:
  assumes "check_item en t g n d False s = (Inr False, u)"
  shows "in_place (bi_cache u) (g, n, d) \<and> bi_cache u \<noteq> [] \<and> (bi_cache s \<noteq> [] \<longrightarrow> u = s)"
proof -
  from assms obtain item w where get: "getValue en t g n s = (Inr item, w)"
    and k: "(case item of None \<Rightarrow> give_up False | Some (cur, None) \<Rightarrow> if cur \<noteq> d then set_item en t g n d False else ret False
     | Some (cur, Some options) \<Rightarrow> (case key_of en options d of Inl _ \<Rightarrow> give_up False
          | Inr k \<Rightarrow> if cur \<noteq> k then bnd (lift (dindex options cur)) (\<lambda>_. set_item en t g n k False) else ret False)) w = (Inr False, u)"
    unfolding check_item_def by (rule bnd_InrE)
  from k have "w = u" and "case item of None \<Rightarrow> False | Some (cur, None) \<Rightarrow> cur = d | Some (cur, Some options) \<Rightarrow> map_of options cur = Some d"
    by (auto simp: ret_apply dest: set_item_dirty key_of_some elim!: bnd_InrE split: option.splits sum.splits if_splits)
  with getValue_state[OF get] show ?thesis
    by (auto simp: in_place_def cached_item_def)
qed

lemma check_items_dirty: "check_items en t vs True s = (Inr b, u) \<Longrightarrow> b"
proof (induction vs arbitrary: s)
  case (Cons v vs)
  from Cons.prems obtain g n d c w where c: "check_item en t g n d True s = (Inr c, w)" and rest: "check_items en t vs c w = (Inr b, u)"
    by (auto simp: lift_apply elim!: bnd_InrE)
  from dirty_stays[OF c] rest have "check_items en t vs True w = (Inr b, u)" by simp
  then show ?case by (rule Cons.IH)
qed (simp add: ret_apply)

lemma check_items_step:
  assumes "check_items en t (v # vs) False s = (Inr False, u)"
  obtains x w where "item_of v = Inr x" "in_place (bi_cache w) x" "bi_cache w \<noteq> []" "bi_cache s \<noteq> [] \<Longrightarrow> w = s"
    "check_items en t vs False w = (Inr False, u)"
proof -
  from assms obtain g n d c w where x: "item_of v = Inr (g, n, d)" and c: "check_item en t g n d False s = (Inr c, w)"
    and rest: "check_items en t vs c w = (Inr False, u)"
    by (auto simp: lift_apply elim!: bnd_InrE)
  from rest have "\<not> c" using check_items_dirty by (cases c) auto
  with c have "in_place (bi_cache w) (g, n, d) \<and> bi_cache w \<noteq> [] \<and> (bi_cache s \<noteq> [] \<longrightarrow> w = s)"
    using check_item_in_place by simp
  with that[OF x, of w] rest \<open>\<not> c\<close> show ?thesis by simp
qed

lemma check_items_in_place:
  "check_items en t vs False s = (Inr False, u) \<Longrightarrow> (bi_cache s \<noteq> [] \<longrightarrow> u = s) \<and> (\<forall>v \<in> set vs. \<exists>x. item_of v = Inr x \<and> in_place (bi_cache u) x)"
proof (induction vs arbitrary: s)
  case (Cons v vs)
  from check_items_step[OF Cons.prems] obtain x w where w: "item_of v = Inr x" "in_place (bi_cache w) x" "bi_cache w \<noteq> []"
    "bi_cache s \<noteq> [] \<Longrightarrow> w = s" "check_items en t vs False w = (Inr False, u)" by blast
  with Cons.IH[OF w(5)] show ?case by (cases x) auto
qed (simp add: ret_apply)

text \<open>When the check of the BIOS items finds nothing to change, nothing was changed and every wanted item has the wanted value in what the tool read from the BIOS.\<close>

theorem items_in_place:
  assumes "check_items en t vs False s = (Inr False, u)"
  shows "sets u = sets s \<and> (\<forall>v \<in> set vs. \<exists>x. item_of v = Inr x \<and> in_place (bi_cache u) x)"
proof -
  have "sets u = sets s"
    using triple_InrD[OF check_items_clean[of False "sets s" en t vs] assms] by simp
  with check_items_in_place[OF assms] show ?thesis by simp
qed

section \<open>The boot order within a class\<close>

lemma position_nth: "position xs x = Inr i \<Longrightarrow> i < length xs \<and> xs ! i = x"
proof (induction xs arbitrary: i)
  case (Cons y ys)
  then show ?case by (cases "position ys x") (auto split: if_splits)
qed simp

lemma one_based_nth: "one_based have_names want_names = Inr indexes \<Longrightarrow>
   \<exists>js. indexes = map (\<lambda>j. show_nat (Suc j)) js \<and> (\<forall>j \<in> set js. j < length have_names) \<and> map ((!) have_names) js = want_names"
proof (induction want_names arbitrary: indexes)
  case (Cons w ws)
  from Cons.prems obtain i rest where i: "position have_names w = Inr i" and r: "one_based have_names ws = Inr rest"
    and e: "indexes = show_nat (Suc i) # rest"
    by (auto simp: one_based_def rbnd_def split: sum.splits)
  from Cons.IH[OF r] obtain js where "rest = map (\<lambda>j. show_nat (Suc j)) js" "\<forall>j \<in> set js. j < length have_names"
    "map ((!) have_names) js = ws" by blast
  with i e position_nth[OF i] show ?case by (intro exI[of _ "i # js"]) simp
qed (simp add: one_based_def)

text \<open>\<open>reordered log pw c ms ns\<close>: \<open>syscfg\<close> was told to put the entries \<open>ms\<close> of class \<open>c\<close> in the order \<open>ns\<close>.\<close>

definition reordered :: "bios_event list \<Rightarrow> string \<Rightarrow> string \<Rightarrow> string list \<Rightarrow> string list \<Rightarrow> bool" where
  "reordered l pw c ms ns = (\<exists>js f. BCall ([''/sbin/syscfg'', ''/bbo'', pw, c] @ map (\<lambda>j. show_nat (Suc j)) js) f \<in> set l
     \<and> (\<forall>j \<in> set js. j < length ms) \<and> map ((!) ms) js = ns)"

lemma sys_ok_state: "sys_ok en cmd s = (r, u) \<Longrightarrow> u = s\<lparr>bi_log := bi_log s @ [BCall (''/sbin/syscfg'' # cmd) (bi_set s)]\<rparr>"
  by (auto simp: sys_ok_def sys_execute_def call_tool_def py_simps split: sum.splits prod.splits)

lemma reordered_mono: "reordered l pw c ms ns \<Longrightarrow> reordered (l @ k) pw c ms ns"
  unfolding reordered_def by auto

lemma order_classes_calls:
  "order_classes en current target cs dirty s = (Inr True, u) \<Longrightarrow> password_arg (bi_password s) = Inr pw \<Longrightarrow>
   \<exists>k. bi_log u = bi_log s @ k \<and> (\<forall>c \<in> set cs. \<forall>ms ns. map_of current c = Some ms \<longrightarrow> map_of target c = Some ns \<longrightarrow> ms \<noteq> ns \<longrightarrow> reordered k pw c ms ns)"
proof (induction cs arbitrary: s dirty)
  case (Cons c cs)
  show ?case
  proof (cases "map_of current c = None \<or> map_of current c = map_of target c")
    case True
    with Cons.prems have "order_classes en current target cs dirty s = (Inr True, u)"
      by (auto simp: ret_apply lift_apply dindex_def elim!: bnd_InrE split: option.splits if_splits)
    from Cons.IH[OF this Cons.prems(2)] True show ?thesis by auto
  next
    case False
    then obtain ms where ms: "map_of current c = Some ms" by (cases "map_of current c") auto
    with False Cons.prems(1) obtain ns where ns: "map_of target c = Some ns" "ms \<noteq> ns"
      by (cases "map_of target c") (auto simp: bnd_apply lift_apply)
    from Cons.prems(1) ms ns obtain indexes w where ix: "one_based ms ns = Inr indexes"
      and w: "set_class_order en c indexes s = (Inr True, w)" and rest: "order_classes en current target cs True w = (Inr True, u)"
      by (auto simp: lift_apply ret_apply elim!: bnd_InrE split: if_splits)
    from w Cons.prems(2) have weq: "w = s\<lparr>bi_log := bi_log s @ [BCall ([''/sbin/syscfg'', ''/bbo'', pw, c] @ indexes) (bi_set s)]\<rparr>"
      unfolding set_class_order_def by (auto simp: gets_apply lift_apply elim!: bnd_InrE dest: sys_ok_state)
    with Cons.IH[OF rest] Cons.prems(2) obtain k where k: "bi_log u = bi_log w @ k"
      "\<forall>c \<in> set cs. \<forall>ms ns. map_of current c = Some ms \<longrightarrow> map_of target c = Some ns \<longrightarrow> ms \<noteq> ns \<longrightarrow> reordered k pw c ms ns" by auto
    from one_based_nth[OF ix] have "reordered [BCall ([''/sbin/syscfg'', ''/bbo'', pw, c] @ indexes) (bi_set s)] pw c ms ns"
      unfolding reordered_def by auto
    moreover have "reordered k pw d a b \<Longrightarrow> reordered (x # k) pw d a b" for x d a b
      unfolding reordered_def by auto
    ultimately show ?thesis
      using k ms ns weq reordered_mono[of "[BCall ([''/sbin/syscfg'', ''/bbo'', pw, c] @ indexes) (bi_set s)]" pw c ms ns k]
      by (intro exI[of _ "BCall ([''/sbin/syscfg'', ''/bbo'', pw, c] @ indexes) (bi_set s) # k"]) auto
  qed
qed (simp add: ret_apply)

lemma keeps_bi_password: "keeps bi_password (sys_getBoot en)" "keeps bi_password (set_classes en order)"
  unfolding sys_getBoot_def set_classes_def sys_execute_def call_tool_def by (intro keeps_intros; simp)+

lemma log_grows: "set_classes en order s = (r, u) \<Longrightarrow> \<exists>k. bi_log u = bi_log s @ k"
  by (auto simp: set_classes_def sys_execute_def call_tool_def py_simps split: sum.splits prod.splits)

text \<open>C16: when SYSCfg.setBoot succeeds, it has told syscfg, for every class that has entries and whose wanted names differ from the ones it has, positions that put its entries into exactly the wanted order.\<close>

theorem classes_reordered:
  assumes "sys_setBoot en boot s = (Inr True, u)" and "sys_getBoot en s = (Inr current, w)"
    and "names_by_class current = Inr have_classes" and "names_by_class (filter (\<lambda>item. 1 < length item) boot) = Inr want_classes"
    and "set (be_order en (dkeys want_classes)) = set (dkeys want_classes)" and "password_arg (bi_password s) = Inr pw"
    and "map_of have_classes c = Some ms" and "map_of want_classes c = Some ns" and "ms \<noteq> ns"
  shows "reordered (bi_log u) pw c ms ns"
proof -
  from assms(1-4) obtain dirty target_order x where
    c: "set_classes en target_order w = (Inr True, x) \<or> x = w"
    and o: "order_classes en have_classes want_classes (py2_keys en want_classes) dirty x = (Inr True, u)"
    unfolding sys_setBoot_def by (auto simp: lift_apply ret_apply elim!: bnd_InrE split: if_splits) blast+
  have "bi_password w = bi_password s" using keepsD[OF keeps_bi_password(1) assms(2)] .
  moreover have "bi_password x = bi_password w"
    using c keepsD[OF keeps_bi_password(2)] by auto
  ultimately have "password_arg (bi_password x) = Inr pw" using assms(6) by simp
  from order_classes_calls[OF o this] obtain k where k: "bi_log u = bi_log x @ k"
    and all: "\<forall>c \<in> set (py2_keys en want_classes). \<forall>ms ns. map_of have_classes c = Some ms \<longrightarrow> map_of want_classes c = Some ns \<longrightarrow> ms \<noteq> ns \<longrightarrow> reordered k pw c ms ns"
    by blast
  have "c \<in> set (py2_keys en want_classes)"
    using assms(5,8) map_of_SomeD by (force simp: py2_keys_def)
  with all assms(7-9) have "reordered k pw c ms ns" by blast
  then show ?thesis unfolding k reordered_def by auto
qed

section \<open>The number of reboots\<close>

definition stored_count :: "pyval \<Rightarrow> int" where
  "stored_count v = (case int_of v of Inr n \<Rightarrow> n | Inl _ \<Rightarrow> 0)"

definition last_count :: "bios \<Rightarrow> int option" where
  "last_count s = (if counts s = [] then None else case last (counts s) of BStored n \<Rightarrow> Some n | _ \<Rightarrow> None)"

lemma counts_getting: "keeps counts (getValue en t g n)" "keeps counts (getBoot en t)"
  by (rule counts_parts; simp add: counts_def)+

lemma counts_items: "keeps counts (check_item en t g n d dirty)" "keeps counts (check_items en t vs dirty)"
proof -
  show 1: "keeps counts (check_item en t g n d dirty)" for g n d dirty
    unfolding check_item_def set_item_def give_up_def bios_exit_def
    by (intro keeps_intros counts_getting counts_setting)
  show "keeps counts (check_items en t vs dirty)"
    by (induction vs arbitrary: dirty) (auto intro!: keeps_intros 1)
qed

lemma counts_rest: "keeps counts (check_boot en t v)" "keeps counts (check_password en t p)"
proof -
  show "keeps counts (check_boot en t v)"
    unfolding check_boot_def bios_exit_def by (intro keeps_intros counts_getting counts_setting counts_call)
qed (rule counts_parts)

definition after_count :: "bios_env \<Rightarrow> bios_tool \<Rightarrow> (string, pyval) dict \<Rightarrow> (bios, unit) py" where
  "after_count en t config =
     seq (case map_of config ''password'' of None \<Rightarrow> ret () | Some p \<Rightarrow> check_password en t p)
     (seq (bios_message ''Checking BIOS Items...'')
     (bnd (lift (rbnd (dindex config ''items'') list_of)) (\<lambda>items.
      bnd (check_items en t items False) (\<lambda>dirty.
      if dirty then seq (bios_message ''BIOS Item(s) Were Changed, Rebooting...'') (bios_exit 20)
      else (case map_of config ''boot'' of
          None \<Rightarrow> bios_exit 0
        | Some v \<Rightarrow> if \<not> truthy v then bios_exit 0 else check_boot en t v)))))"

lemma counts_after: "keeps counts (after_count en t config)"
  unfolding after_count_def bios_exit_def
  by (intro keeps_intros counts_items counts_rest counts_call)

lemma boot_count_stored:
  assumes "be_read en = Some v" "be_writes en"
  shows "boot_count en s = (if stored_count v > 5 then (Inl (SysExit 1), s)
     else (Inr (), s\<lparr>bi_log := bi_log s @ [BStored (stored_count v + 1)]\<rparr>))"
proof -
  have "int_of v = Inl e \<Longrightarrow> e = TypeError \<or> e = ValueError" for e
    by (cases v) (auto simp: int_of_def int_str_def split: option.splits)
  then show ?thesis
    by (cases "int_of v") (auto simp: boot_count_def assms stored_count_def bios_exit_def py_simps)
qed

lemma lift_no_reboot: "plain_res r \<Longrightarrow> raises (\<lambda>e. e \<noteq> SysExit 20) (lift r)"
  by (auto simp: raises_def lift_def plain_res_def no_exit_def)

lemma reboot_counted:
  assumes "be_read en = Some v" "be_writes en" and run: "fst (bioscfg en s) = Inl (SysExit 20)"
  shows "stored_count v \<le> 5 \<and> last_count (snd (bioscfg en s)) = Some (stored_count v + 1)"
proof -
  let ?n = "stored_count v"
  let ?done = "\<lambda>s. ?n \<le> 5 \<and> last_count s = Some (?n + 1)"
  let ?E = "\<lambda>e s. e = SysExit 20 \<longrightarrow> ?done s"
  have lc: "keeps counts m \<Longrightarrow> keeps last_count m" for m :: "(bios, 'a) py"
    by (simp add: keeps_def last_count_def)
  have count: "triple (\<lambda>_. True) (boot_count en) (\<lambda>_. ?done) ?E"
    by (simp add: triple_def boot_count_stored[OF assms(1,2)] last_count_def counts_def)
  have after: "triple ?done (after_count en t c) (\<lambda>_. ?done) ?E" for t c
    using lc[OF counts_after[of en t c]] unfolding triple_def keeps_def
    by (auto split: prod.splits sum.splits) (metis snd_conv)+
  have conf: "configure en t c = seq (boot_count en) (after_count en t c)" for t c
    by (simp add: configure_def after_count_def)
  have run_conf: "triple (\<lambda>_. True) (bnd (lift (dict_of c)) (configure en t)) (\<lambda>_. ?done) ?E" for c t
    using plain_library(5)[of c] unfolding conf
    by (intro triple_lift triple_seq[OF count after]) (auto simp: plain_res_def)
  have none: "raises (\<lambda>e. e \<noteq> SysExit 20) (bnd (lift (dict_of c)) nothing_known)" for c
    unfolding nothing_known_def bios_exit_def
    by (intro raises_bnd raises_if raises_throw lift_no_reboot plain_library; simp)
  have none': "triple (\<lambda>_. True) (bnd (lift (dict_of c)) nothing_known) (\<lambda>_. ?done) ?E" for c
    by (rule triple_raises[OF none]) (auto simp: nothing_known_def bios_exit_def throw_apply lift_apply elim!: bnd_InrE split: if_splits)
  have loaded: "triple (\<lambda>_. True) (on_exc (\<lambda>_. True) (lift x) (bios_exit 1)) (\<lambda>_ _. True) ?E" for x :: "pyval res"
    by (auto simp: triple_def bios_exit_def py_simps split: sum.split)
  have quiet_start: "triple (\<lambda>_. True) (bios_message m) (\<lambda>_ _. True) ?E" "triple (\<lambda>_. True) (whenM b sum_init) (\<lambda>_ _. True) ?E" for m b
    by (auto simp: triple_def bios_message_def sum_init_def py_simps)
  have "triple (\<lambda>_. True) (bioscfg en) (\<lambda>_. ?done) ?E"
    unfolding bioscfg_def
    by (rule triple_seq[OF quiet_start(1)], rule triple_lift)
      (auto intro!: triple_bnd[OF loaded] none' triple_seq[OF quiet_start(2) run_conf] split: option.splits)
  moreover obtain u where "bioscfg en s = (Inl (SysExit 20), u)" using run by (cases "bioscfg en s") auto
  ultimately show ?thesis by (auto dest: triple_InlD)
qed

text \<open>C15: as long as the job keeps the boot count, the BIOS program asks for a reboot at most six times in a row, whatever the tools answer: a BIOS that never takes a setting does not keep a machine rebooting.\<close>

theorem reboots_bounded:
  assumes "\<forall>i < n. fst (bioscfg (en i) (s i)) = Inl (SysExit 20) \<and> be_writes (en i)"
    and "be_read (en 0) = Some v" and "0 \<le> stored_count v"
    and "\<forall>i. Suc i < n \<longrightarrow> (\<exists>v. be_read (en (Suc i)) = Some v \<and> last_count (snd (bioscfg (en i) (s i))) = Some (stored_count v))"
  shows "n \<le> 6"
proof -
  have step: "i < n \<Longrightarrow> \<exists>v. be_read (en i) = Some v \<and> int i \<le> stored_count v \<and> stored_count v \<le> 5" for i
  proof (induction i)
    case 0
    with assms(1-3) reboot_counted show ?case by auto
  next
    case (Suc i)
    then obtain v w where v: "be_read (en i) = Some v" "int i \<le> stored_count v" and w: "be_read (en (Suc i)) = Some w"
      "last_count (snd (bioscfg (en i) (s i))) = Some (stored_count w)"
      using assms(4) by auto
    have "last_count (snd (bioscfg (en i) (s i))) = Some (stored_count v + 1)"
      using reboot_counted[OF v(1)] assms(1) Suc.prems by auto
    with w v(2) have "int (Suc i) \<le> stored_count w" by simp
    moreover have "stored_count w \<le> 5" using reboot_counted[OF w(1)] assms(1) Suc.prems by blast
    ultimately show ?case using w(1) by blast
  qed
  show ?thesis
  proof (rule ccontr)
    assume "\<not> n \<le> 6"
    with step[of 6] show False by auto
  qed
qed

end
