(* ===== verification/Bios_Runs.thy ===== *)
theory Bios_Runs
  imports Bios_Props
begin

text \<open>
  Concrete runs of the BIOS program: the cases that show that the properties apply, a machine with \<open>sum\<close> whose settings are as wanted, and
  runs that show where the code goes wrong.
\<close>

definition bios_start :: bios where
  "bios_start = \<lparr>bi_cache = [], bi_boot = [], bi_password = PNone, bi_set = [], bi_log = []\<rparr>"

definition lines_text :: "string list \<Rightarrow> string" where
  "lines_text ls = concat (map (\<lambda>l. l @ nl) ls)"

section \<open>A Supermicro board\<close>

definition sum_text :: string where
  "sum_text = lines_text [''[Main]'', ''Quiet Boot=01             // *01 (Enabled), 00 (Disabled)'', ''[Boot]'',
     ''1st Boot=0000      // 0000 (Network), *0001 (Hard Disk)'']"

definition x9_board :: bios_env where
  "x9_board = \<lparr>be_baseboard = Some ''X9DRT'',
     be_config = Inr (PDict [(''items'', PList [PList [PStr ''Main'', PStr ''Quiet Boot'', PStr ''Enabled'']]), (''boot'', PList [])]),
     be_read = Some PNone, be_writes = True, be_answer = (\<lambda>l. Some (0, [])), be_saved = (\<lambda>l. Some sum_text), be_order = (\<lambda>ks. ks)\<rparr>"

lemma sum_scan: "scan_lines sum_line (byte_lines_of sum_text) (None, []) =
  ((Some ''Boot'', [(''Main'', [(''Quiet Boot'', (''01'', Some [(''01'', ''Enabled''), (''00'', ''Disabled'')]))]),
     (''Boot'', [(''1st Boot'', (''0000'', Some [(''0000'', ''Network''), (''0001'', ''Hard Disk'')]))])]), Inr ())"
  by code_simp

definition x9_items :: "pyval list" where
  "x9_items = [PList [PStr ''Main'', PStr ''Quiet Boot'', PStr ''Enabled'']]"

lemma x9_done: "fst (bioscfg x9_board bios_start) = Inl (SysExit 0)" "fst (check_items x9_board SUM_1_3 x9_items False bios_start) = Inr False"
  by code_simp+

theorem complete_means_unchanged_witness:
  "fst (bioscfg x9_board bios_start) = Inl (SysExit 0) \<and> sets (snd (bioscfg x9_board bios_start)) = []"
  using complete_means_unchanged[OF x9_done(1)] x9_done(1) by (simp add: sets_def bios_start_def)

theorem items_in_place_witness:
  "\<exists>u. check_items x9_board SUM_1_3 x9_items False bios_start = (Inr False, u) \<and> in_place (bi_cache u) (''Main'', ''Quiet Boot'', ''Enabled'')"
proof -
  obtain u where u: "check_items x9_board SUM_1_3 x9_items False bios_start = (Inr False, u)"
    using x9_done(2) by (cases "check_items x9_board SUM_1_3 x9_items False bios_start") auto
  with items_in_place[OF u] show ?thesis
    by (auto simp: x9_items_def item_of_def list_of_def str_of_def)
qed

section \<open>An Intel board\<close>

text \<open>\<open>syscfg\<close> shows the disks \<open>names\<close> and says that everything was done.\<close>

definition quoted :: "string \<Rightarrow> string" where
  "quoted d = [CHR 0x22] @ d @ [CHR 0x22]"

definition disks_shown :: "string list \<Rightarrow> string" where
  "disks_shown names = lines_text ((''::Hard drives (HDD)'' # map (\<lambda>d. ''  1. '' @ d) names) @ [sys_done])"

definition intel_board :: "string list \<Rightarrow> string list list \<Rightarrow> int \<Rightarrow> bios_env" where
  "intel_board names want n = \<lparr>be_baseboard = Some ''S2600JF'',
     be_config = Inr (PDict [(''items'', PList []), (''boot'', PList (map (\<lambda>w. PList (map PStr w)) want))]),
     be_read = Some (PInt n), be_writes = True, be_answer = (\<lambda>l. Some (0, disks_shown names)), be_saved = (\<lambda>l. None), be_order = (\<lambda>ks. ks)\<rparr>"

definition two_swapped :: bios_env where
  "two_swapped = intel_board [''a'', ''b''] [[''Harddrive'', ''b''], [''Harddrive'', ''a'']] 0"

lemma swapped_facts:
  "fst (sys_getBoot two_swapped bios_start) = Inr [[''Harddrive'', ''a''], [''Harddrive'', ''b'']]"
  "fst (sys_setBoot two_swapped [[''Harddrive'', ''b''], [''Harddrive'', ''a'']] bios_start) = Inr True"
  "fst (bioscfg two_swapped bios_start) = Inl (SysExit 20)"
  by code_simp+

theorem classes_reordered_witness:
  "reordered (bi_log (snd (sys_setBoot two_swapped [[''Harddrive'', ''b''], [''Harddrive'', ''a'']] bios_start))) [] ''HDD'' [''a'', ''b''] [''b'', ''a'']"
proof -
  let ?w = "[[''Harddrive'', ''b''], [''Harddrive'', ''a'']]"
  have s: "sys_setBoot two_swapped ?w bios_start = (Inr True, snd (sys_setBoot two_swapped ?w bios_start))"
    and g: "sys_getBoot two_swapped bios_start = (Inr [[''Harddrive'', ''a''], [''Harddrive'', ''b'']], snd (sys_getBoot two_swapped bios_start))"
    using swapped_facts by (simp_all add: prod_eq_iff)
  show ?thesis
    by (rule classes_reordered[OF s g, where have_classes = "[(''HDD'', [''a'', ''b''])]" and want_classes = "[(''HDD'', [''b'', ''a''])]"])
      (simp_all add: names_by_class_def sys_code_def sys_class_map_def lindex_def two_swapped_def intel_board_def password_arg_def bios_start_def)
qed

text \<open>Three disks and a wanted order that only names their class: after the first is cut to its class and the second is taken out, the loop
  steps over the third. The orders differ, nothing is there to be set, and the machine reboots until the boot count stops it.\<close>

definition three_disks :: "int \<Rightarrow> bios_env" where
  "three_disks n = intel_board [''a'', ''b'', ''c''] [[''Harddrive'']] n"

lemma third_stays: "collapse_all [[''Harddrive'']] [[''Harddrive'', ''a''], [''Harddrive'', ''b''], [''Harddrive'', ''c'']]
    = Inr [[''Harddrive''], [''Harddrive'', ''c'']]"
  by code_simp

lemma three_disks_runs:
  "map (\<lambda>n. (exit_code (fst (bioscfg (three_disks n) bios_start)), last_count (snd (bioscfg (three_disks n) bios_start)))) [0, 1, 2, 3, 4, 5]
     = [(20, Some 1), (20, Some 2), (20, Some 3), (20, Some 4), (20, Some 5), (20, Some 6)]"
  "exit_code (fst (bioscfg (three_disks 6) bios_start)) = 1"
  "sets (snd (bioscfg (three_disks 0) bios_start)) = []"
  by code_simp+

lemma exit_code_20: "exit_code r = 20 \<Longrightarrow> r = Inl (SysExit 20)"
  by (auto simp: exit_code_def split: sum.splits exc.splits)

lemma three_disks_step:
  assumes "i < 6"
  shows "fst (bioscfg (three_disks (int i)) bios_start) = Inl (SysExit 20)" "last_count (snd (bioscfg (three_disks (int i)) bios_start)) = Some (int i + 1)"
proof -
  from assms have "i \<in> set [0, 1, 2, 3, 4, 5]" by auto
  then have "exit_code (fst (bioscfg (three_disks (int i)) bios_start)) = 20 \<and> last_count (snd (bioscfg (three_disks (int i)) bios_start)) = Some (int i + 1)"
    using three_disks_runs(1) by (auto simp only: set_simps list.map list.inject prod.inject of_nat_numeral of_nat_0 of_nat_1)
  then show "fst (bioscfg (three_disks (int i)) bios_start) = Inl (SysExit 20)" "last_count (snd (bioscfg (three_disks (int i)) bios_start)) = Some (int i + 1)"
    using exit_code_20 by blast+
qed

theorem reboots_bounded_witness:
  "list_all (\<lambda>i. fst (bioscfg (three_disks (int i)) bios_start) = Inl (SysExit 20)) [0..<6] \<and> length [0..<6] \<le> 6"
proof -
  have "be_read (three_disks (int i)) = Some (PInt (int i))" "be_writes (three_disks (int i))" "stored_count (PInt (int i)) = int i" for i
    by (simp_all add: three_disks_def intel_board_def stored_count_def int_of_def)
  then show ?thesis
    using reboots_bounded[where n = "length [0..<6]" and en = "\<lambda>i. three_disks (int i)" and s = "\<lambda>_. bios_start" and v = "PInt 0"] three_disks_step
    by (fastforce simp: list_all_iff stored_count_def int_of_def three_disks_def intel_board_def)
qed

text \<open>A BIOS that refuses the new password and has none: the old password stays set, the second check passes with it, and the program goes on
  as if the wanted password were in force.\<close>

definition refusing :: bios_env where
  "refusing = \<lparr>be_baseboard = Some ''S2600JF'',
     be_config = Inr (PDict [(''password'', PStr ''secret''), (''items'', PList []), (''boot'', PList [])]),
     be_read = Some (PInt 0), be_writes = True,
     be_answer = (\<lambda>l. Some (0, if last l = BCall [''/sbin/syscfg'', ''/bap'', [], []] [] then sys_done else ''Error'')),
     be_saved = (\<lambda>l. None), be_order = (\<lambda>ks. ks)\<rparr>"

lemma refused_password_passes: "fst (bioscfg refusing bios_start) = Inl (SysExit 0)" "bi_password (snd (bioscfg refusing bios_start)) = PStr []"
  by code_simp+

text \<open>The pattern of the first boot position of version 1.5 finds the tenth as well, and an item of \<open>syscfg\<close> without options stops the loading.\<close>

lemma tenth_is_first: "re_search (boot_item_re SUM_1_5 1) ''Legacy Boot Order #10'' \<noteq> None"
  by code_simp

lemma no_options_raises: "sys_line refusing ''Serial=abc ;no options'' \<lparr>sc_category = Some ''BIOS'', sc_group = ''Main'', sc_groups = [(''Main'', [])]\<rparr>
    = Inl AttributeError"
  by code_simp

end
